(* ===== verification/Prelude.thy ===== *)
theory Prelude
  imports Complex_Main "HOL-Library.Char_ord" "HOL-Library.List_Lexorder" "HOL-Library.Product_Lexorder"
begin

text \<open>
  Shared vocabulary of the development: results of fallible operations, the parts of the Python
  language and of its standard library the program uses (strings, integers read from text, JSON and
  TOML values), and the generic lemmas the component theories share.

  Strings are \<open>string\<close>, one \<open>char\<close> per code point, so a Python string whose code points are all below
  256 is represented exactly. Clock readings and other Python floats are exact rationals: rounding and
  the non-finite floats are not modelled. A parsed JSON or TOML float carries its value and the text
  Python prints for it.
\<close>

section \<open>Collections of facts\<close>

named_theorems res_simps \<open>elimination of successful and failed results\<close>
named_theorems inv_intros \<open>operations that preserve a component's invariant\<close>

section \<open>Results of fallible operations\<close>

text \<open>\<open>Inl\<close> is a raised exception, \<open>Inr\<close> a returned value.\<close>

definition bindE :: "'e + 'a \<Rightarrow> ('a \<Rightarrow> 'e + 'b) \<Rightarrow> 'e + 'b" where
  "bindE r f = (case r of Inl e \<Rightarrow> Inl e | Inr x \<Rightarrow> f x)"

definition requireE :: "bool \<Rightarrow> 'e \<Rightarrow> 'e + unit" where
  "requireE b e = (if b then Inr () else Inl e)"

lemma bindE_simps [simp]:
  "bindE (Inl e) f = Inl e"
  "bindE (Inr x) f = f x"
  by (simp_all add: bindE_def)

lemma bindE_Inr_iff [res_simps]: "bindE r f = Inr y \<longleftrightarrow> (\<exists>x. r = Inr x \<and> f x = Inr y)"
  by (cases r) simp_all

lemma bindE_Inl_iff [res_simps]:
  "bindE r f = Inl e \<longleftrightarrow> r = Inl e \<or> (\<exists>x. r = Inr x \<and> f x = Inl e)"
  by (cases r) simp_all

lemma bindE_assoc: "bindE (bindE r f) g = bindE r (\<lambda>x. bindE (f x) g)"
  by (cases r) simp_all

lemma requireE_Inr_iff [res_simps]: "requireE b e = Inr u \<longleftrightarrow> b"
  by (simp add: requireE_def)

lemma requireE_Inl_iff [res_simps]: "requireE b e = Inl e' \<longleftrightarrow> \<not> b \<and> e' = e"
  by (auto simp: requireE_def)

lemma requireE_simps [simp]:
  "requireE True e = Inr ()"
  "requireE False e = Inl e"
  by (simp_all add: requireE_def)

text \<open>A loop whose body may raise: the first exception ends it.\<close>

fun foldE :: "('a \<Rightarrow> 's \<Rightarrow> 'e + 's) \<Rightarrow> 'a list \<Rightarrow> 's \<Rightarrow> 'e + 's" where
  "foldE f [] s = Inr s"
| "foldE f (x # xs) s = bindE (f x s) (foldE f xs)"

lemma foldE_invariant:
  assumes "foldE f xs s = Inr s'" and "P s"
    and "\<And>x s s'. x \<in> set xs \<Longrightarrow> P s \<Longrightarrow> f x s = Inr s' \<Longrightarrow> P s'"
  shows "P s'"
  using assms by (induction xs arbitrary: s) (auto simp: res_simps)

lemma foldE_append: "foldE f (xs @ ys) s = bindE (foldE f xs s) (foldE f ys)"
  by (induction xs arbitrary: s) (auto simp: bindE_def split: sum.splits)

section \<open>Python strings\<close>

definition py_isspace :: "char \<Rightarrow> bool" where
  "py_isspace c = (let n = (of_char c :: nat) in
     (9 \<le> n \<and> n \<le> 13) \<or> (28 \<le> n \<and> n \<le> 32) \<or> n = 133 \<or> n = 160)"

definition py_lstrip :: "string \<Rightarrow> string" where
  "py_lstrip s = dropWhile py_isspace s"

definition py_strip :: "string \<Rightarrow> string" where
  "py_strip s = rev (dropWhile py_isspace (rev (py_lstrip s)))"

definition py_lower_char :: "char \<Rightarrow> char" where
  "py_lower_char c = (let n = (of_char c :: nat) in
     if (65 \<le> n \<and> n \<le> 90) \<or> (192 \<le> n \<and> n \<le> 222 \<and> n \<noteq> 215) then char_of (n + 32) else c)"

definition py_lower :: "string \<Rightarrow> string" where
  "py_lower s = map py_lower_char s"

text \<open>\<open>s.partition(c)\<close> for a one-character separator: what stands before it, whether it occurs, what
  stands after it.\<close>

fun py_partition :: "char \<Rightarrow> string \<Rightarrow> string \<times> bool \<times> string" where
  "py_partition c [] = ([], False, [])"
| "py_partition c (x # xs) =
     (if x = c then ([], True, xs)
      else let (a, b, d) = py_partition c xs in (x # a, b, d))"

fun py_split_char :: "char \<Rightarrow> string \<Rightarrow> string list" where
  "py_split_char c [] = [[]]"
| "py_split_char c (x # xs) =
     (if x = c then [] # py_split_char c xs
      else case py_split_char c xs of [] \<Rightarrow> [[x]] | w # ws \<Rightarrow> (x # w) # ws)"

definition py_startswith :: "string \<Rightarrow> string \<Rightarrow> bool" where
  "py_startswith s p = (take (length p) s = p)"

fun py_join :: "string \<Rightarrow> string list \<Rightarrow> string" where
  "py_join sep [] = []"
| "py_join sep [x] = x"
| "py_join sep (x # y # zs) = x @ sep @ py_join sep (y # zs)"

text \<open>\<open>str.split()\<close>, and \<open>str.splitlines()\<close> with a carriage return before a line feed counted as one break.\<close>

fun py_words :: "string \<Rightarrow> string \<Rightarrow> string list" where
  "py_words acc [] = (if acc = [] then [] else [rev acc])"
| "py_words acc (c # cs) =
     (if py_isspace c then (if acc = [] then [] else [rev acc]) @ py_words [] cs else py_words (c # acc) cs)"

definition py_split :: "string \<Rightarrow> string list" where
  "py_split s = py_words [] s"

definition line_break :: "char \<Rightarrow> bool" where
  "line_break c = (let n = (of_char c :: nat) in (10 \<le> n \<and> n \<le> 13) \<or> (28 \<le> n \<and> n \<le> 30) \<or> n = 133)"

fun join_crlf :: "string \<Rightarrow> string" where
  "join_crlf (a # b # s) =
     (if a = CHR 0x0D \<and> b = CHR 0x0A then b # join_crlf s else a # join_crlf (b # s))"
| "join_crlf s = s"

fun py_lines :: "string \<Rightarrow> string \<Rightarrow> string list" where
  "py_lines acc [] = (if acc = [] then [] else [rev acc])"
| "py_lines acc (c # cs) = (if line_break c then rev acc # py_lines [] cs else py_lines (c # acc) cs)"

definition py_splitlines :: "string \<Rightarrow> string list" where
  "py_splitlines s = py_lines [] (join_crlf s)"

lemma py_split_char_nonempty [simp]: "py_split_char c s \<noteq> []"
  by (induction s) (auto split: list.splits)

lemma py_partition_absent: "c \<notin> set s \<Longrightarrow> py_partition c s = (s, False, [])"
  by (induction s) auto

lemma py_partition_append: "c \<notin> set a \<Longrightarrow> py_partition c (a @ c # b) = (a, True, b)"
  by (induction a) auto

lemma py_partition_eq:
  "py_partition c s = (a, b, d) \<Longrightarrow> c \<notin> set a \<and> (if b then s = a @ c # d else s = a \<and> d = [])"
  by (induction s arbitrary: a) (auto split: prod.splits if_splits)

lemma py_split_char_absent: "c \<notin> set s \<Longrightarrow> py_split_char c s = [s]"
  by (induction s) auto

lemma py_split_char_append:
  "c \<notin> set a \<Longrightarrow> py_split_char c (a @ c # s) = a # py_split_char c s"
  by (induction a) auto

lemma py_split_join:
  "xs \<noteq> [] \<Longrightarrow> \<forall>x\<in>set xs. c \<notin> set x \<Longrightarrow> py_split_char c (py_join [c] xs) = xs"
  by (induction "[c]" xs rule: py_join.induct) (auto simp: py_split_char_absent py_split_char_append)

lemma py_split_join_concat:
  "xs \<noteq> [] \<Longrightarrow> py_split_char c (py_join [c] xs) = concat (map (py_split_char c) xs)"
proof (induction "[c]" xs rule: py_join.induct)
  case (3 x y zs)
  have "py_split_char c (a @ c # s) = py_split_char c a @ py_split_char c s" for a s
    by (induction a) (auto split: list.splits)
  then show ?case using 3 by simp
qed auto

section \<open>Numbers read from text\<close>

definition digit_value :: "char \<Rightarrow> nat option" where
  "digit_value c = (let n = (of_char c :: nat) in if 48 \<le> n \<and> n \<le> 57 then Some (n - 48) else None)"

text \<open>Digits with single underscores between them, as \<open>int\<close> accepts.\<close>

fun digits_value :: "nat \<Rightarrow> string \<Rightarrow> nat option" where
  "digits_value acc [] = Some acc"
| "digits_value acc (c # cs) =
     (case digit_value c of
        Some d \<Rightarrow> digits_value (10 * acc + d) cs
      | None \<Rightarrow>
          (if c = CHR ''_'' then
             (case cs of [] \<Rightarrow> None
              | c' # _ \<Rightarrow> if digit_value c' = None then None else digits_value acc cs)
           else None))"

definition unsigned_value :: "string \<Rightarrow> nat option" where
  "unsigned_value s = (case s of [] \<Rightarrow> None
     | c # cs \<Rightarrow> (if digit_value c = None then None else digits_value 0 s))"

definition int_of_string :: "string \<Rightarrow> int option" where
  "int_of_string s = (case py_strip s of
       [] \<Rightarrow> None
     | c # cs \<Rightarrow>
         (if c = CHR ''-'' then map_option (\<lambda>n. - int n) (unsigned_value cs)
          else if c = CHR ''+'' then map_option int (unsigned_value cs)
          else map_option int (unsigned_value (c # cs))))"

definition trunc_rat :: "rat \<Rightarrow> int" where
  "trunc_rat r = (if 0 \<le> r then \<lfloor>r\<rfloor> else \<lceil>r\<rceil>)"

section \<open>JSON and TOML values\<close>

datatype json =
    JNull
  | JBool bool
  | JInt int
  | JFloat rat string
  | JStr string
  | JList "json list"
  | JObj "(string \<times> json) list"

text \<open>The exceptions Python's own conversions raise.\<close>

datatype py_error = ValueError | TypeError | KeyError

definition py_int :: "json \<Rightarrow> py_error + int" where
  "py_int v = (case v of
       JInt n \<Rightarrow> Inr n
     | JBool b \<Rightarrow> Inr (if b then 1 else 0)
     | JFloat r _ \<Rightarrow> Inr (trunc_rat r)
     | JStr s \<Rightarrow> (case int_of_string s of None \<Rightarrow> Inl ValueError | Some n \<Rightarrow> Inr n)
     | _ \<Rightarrow> Inl TypeError)"

definition json_get :: "(string \<times> json) list \<Rightarrow> string \<Rightarrow> json option" where
  "json_get d k = map_of d k"

fun py_truthy :: "json \<Rightarrow> bool" where
  "py_truthy JNull = False"
| "py_truthy (JBool b) = b"
| "py_truthy (JInt n) = (n \<noteq> 0)"
| "py_truthy (JFloat r _) = (r \<noteq> 0)"
| "py_truthy (JStr s) = (s \<noteq> [])"
| "py_truthy (JList xs) = (xs \<noteq> [])"
| "py_truthy (JObj d) = (d \<noteq> [])"

fun show_nat :: "nat \<Rightarrow> string" where
  "show_nat n = (if n < 10 then [char_of (48 + n)] else show_nat (n div 10) @ [char_of (48 + n mod 10)])"

declare show_nat.simps [simp del]

definition show_int :: "int \<Rightarrow> string" where
  "show_int n = (if n < 0 then CHR ''-'' # show_nat (nat (- n)) else show_nat (nat n))"

definition hex_digit :: "nat \<Rightarrow> char" where
  "hex_digit n = (if n < 10 then char_of (48 + n) else char_of (87 + n))"

definition py_repr_char :: "char \<Rightarrow> char \<Rightarrow> string" where
  "py_repr_char q c = (let n = (of_char c :: nat) in
     if c = q \<or> n = 92 then [CHR 0x5C, c]
     else if n = 10 then [CHR 0x5C, CHR ''n'']
     else if n = 13 then [CHR 0x5C, CHR ''r'']
     else if n = 9 then [CHR 0x5C, CHR ''t'']
     else if n < 32 \<or> (127 \<le> n \<and> n \<le> 160) \<or> n = 173
       then [CHR 0x5C, CHR ''x'', hex_digit (n div 16), hex_digit (n mod 16)]
     else [c])"

definition py_repr_string :: "string \<Rightarrow> string" where
  "py_repr_string s =
     (let q = (if CHR 0x27 \<in> set s \<and> CHR 0x22 \<notin> set s then CHR 0x22 else CHR 0x27)
      in q # concat (map (py_repr_char q) s) @ [q])"

fun py_repr :: "json \<Rightarrow> string" where
  "py_repr JNull = ''None''"
| "py_repr (JBool b) = (if b then ''True'' else ''False'')"
| "py_repr (JInt n) = show_int n"
| "py_repr (JFloat _ s) = s"
| "py_repr (JStr s) = py_repr_string s"
| "py_repr (JList xs) = ''['' @ py_join '', '' (map py_repr xs) @ '']''"
| "py_repr (JObj d) =
     ''{'' @ py_join '', '' (map (\<lambda>(k, v). py_repr_string k @ '': '' @ py_repr v) d) @ ''}''"

text \<open>\<open>str(v)\<close>: a string is itself, everything else prints as its \<open>repr\<close>.\<close>

definition py_str :: "json \<Rightarrow> string" where
  "py_str v = (case v of JStr s \<Rightarrow> s | _ \<Rightarrow> py_repr v)"

section \<open>Reading back what was printed\<close>

lemma digit_value_char: "d < 10 \<Longrightarrow> digit_value (char_of (48 + d :: nat)) = Some d"
  by (simp add: digit_value_def Let_def)

lemma show_nat_step: "10 \<le> n \<Longrightarrow> show_nat n = show_nat (n div 10) @ [char_of (48 + n mod 10)]"
  by (subst show_nat.simps) simp

lemma show_nat_digit: "n < 10 \<Longrightarrow> show_nat n = [char_of (48 + n)]"
  by (subst show_nat.simps) simp

lemma show_nat_nonempty [simp]: "show_nat n \<noteq> []"
  by (cases "n < 10") (simp_all add: show_nat_step show_nat_digit)

lemma show_nat_chars: "c \<in> set (show_nat n) \<Longrightarrow> \<exists>d < 10. c = char_of (48 + d :: nat)"
proof (induction n rule: less_induct)
  case (less n)
  show ?case
  proof (cases "n < 10")
    case True
    then show ?thesis using less.prems by (auto simp: show_nat_digit)
  next
    case False
    then have "c \<in> set (show_nat (n div 10)) \<or> c = char_of (48 + n mod 10)"
      using less.prems by (auto simp: show_nat_step)
    then show ?thesis
    proof
      assume "c \<in> set (show_nat (n div 10))"
      then show ?thesis using less.IH[of "n div 10"] False by simp
    qed (auto intro: exI[of _ "n mod 10"])
  qed
qed

lemma digits_value_show: "digits_value acc (show_nat n @ t) = digits_value (acc * 10 ^ length (show_nat n) + n) t"
proof (induction n arbitrary: acc t rule: less_induct)
  case (less n)
  show ?case
  proof (cases "n < 10")
    case True
    then show ?thesis by (simp add: show_nat_digit digit_value_char mult.commute)
  next
    case False
    have "digits_value acc (show_nat n @ t) =
        digits_value (acc * 10 ^ length (show_nat (n div 10)) + n div 10) (char_of (48 + n mod 10) # t)"
      using False less.IH[of "n div 10" acc] by (simp add: show_nat_step)
    also have "\<dots> = digits_value (10 * (acc * 10 ^ length (show_nat (n div 10)) + n div 10) + n mod 10) t"
      by (simp add: digit_value_char)
    also have "10 * (acc * 10 ^ length (show_nat (n div 10)) + n div 10) + n mod 10 = acc * 10 ^ length (show_nat n) + n"
      using False by (simp add: show_nat_step algebra_simps)
    finally show ?thesis .
  qed
qed

lemma digit_plain: "digit_value c \<noteq> None \<Longrightarrow> \<not> py_isspace c \<and> c \<noteq> CHR ''-'' \<and> c \<noteq> CHR ''+''"
  by (auto simp: digit_value_def py_isspace_def Let_def split: if_splits)

lemma show_nat_plain: "c \<in> set (show_nat n) \<Longrightarrow> digit_value c \<noteq> None \<and> \<not> py_isspace c \<and> c \<noteq> CHR ''-'' \<and> c \<noteq> CHR ''+''"
proof -
  assume "c \<in> set (show_nat n)"
  then obtain d where "d < 10" "c = char_of (48 + d :: nat)" by (auto dest!: show_nat_chars)
  then have "digit_value c \<noteq> None" by (simp add: digit_value_char)
  with digit_plain[OF this] show ?thesis by simp
qed

lemma unsigned_value_show: "unsigned_value (show_nat n) = Some n"
proof -
  obtain c cs where s: "show_nat n = c # cs" by (meson list.exhaust show_nat_nonempty)
  have "digit_value c \<noteq> None" using show_nat_plain[of c n] s by simp
  then show ?thesis using digits_value_show[of 0 n "[]"] by (simp add: unsigned_value_def s)
qed

lemma dropWhile_space: "\<forall>c\<in>set s. \<not> py_isspace c \<Longrightarrow> dropWhile py_isspace s = s"
  by (cases s) auto

lemma py_strip_plain: "\<forall>c\<in>set s. \<not> py_isspace c \<Longrightarrow> py_strip s = s"
  by (simp add: py_strip_def py_lstrip_def dropWhile_space)

lemma py_strip_newline: "s \<noteq> [] \<Longrightarrow> \<forall>c\<in>set s. \<not> py_isspace c \<Longrightarrow> py_strip (s @ [CHR 0x0A]) = s"
  by (cases s) (simp_all add: py_strip_def py_lstrip_def dropWhile_space dropWhile_append py_isspace_def)

lemma show_int_plain: "c \<in> set (show_int n) \<Longrightarrow> \<not> py_isspace c"
  using show_nat_plain by (auto simp: show_int_def py_isspace_def split: if_splits)

lemma show_int_nonempty [simp]: "show_int n \<noteq> []"
  by (simp add: show_int_def)

lemma int_of_string_stripped: "py_strip t = show_int n \<Longrightarrow> int_of_string t = Some n"
proof -
  assume t: "py_strip t = show_int n"
  show ?thesis
  proof (cases "n < 0")
    case True
    then show ?thesis using t by (simp add: int_of_string_def show_int_def unsigned_value_show)
  next
    case False
    obtain c cs where s: "show_nat (nat n) = c # cs" by (meson list.exhaust show_nat_nonempty)
    then show ?thesis using False t show_nat_plain[of c "nat n"] unsigned_value_show[of "nat n"]
      by (simp add: int_of_string_def show_int_def)
  qed
qed

lemma int_of_string_show: "int_of_string (show_int n) = Some n"
  by (rule int_of_string_stripped) (simp add: py_strip_plain show_int_plain)

lemma int_of_string_line: "int_of_string (show_int n @ [CHR 0x0A]) = Some n"
  by (rule int_of_string_stripped) (simp add: py_strip_newline show_int_plain)

lemma join_crlf_id: "CHR 0x0D \<notin> set s \<Longrightarrow> join_crlf s = s"
  by (induction s rule: join_crlf.induct) auto

lemma py_lines_line: "\<forall>c\<in>set l. \<not> line_break c \<Longrightarrow> line_break d \<Longrightarrow> py_lines acc (l @ d # rest) = (rev acc @ l) # py_lines [] rest"
  by (induction l arbitrary: acc) auto

lemma py_lines_no_break: "l \<in> set (py_lines acc s) \<Longrightarrow> \<forall>c\<in>set acc. \<not> line_break c \<Longrightarrow> c \<in> set l \<Longrightarrow> \<not> line_break c"
  by (induction acc s rule: py_lines.induct) (auto split: if_splits)

lemma py_splitlines_lines:
  assumes "\<forall>l\<in>set ls. \<forall>c\<in>set l. \<not> line_break c"
  shows "py_splitlines (concat (map (\<lambda>l. l @ [CHR 0x0A]) ls)) = ls"
proof -
  have nl: "line_break (CHR 0x0A)" "line_break (CHR 0x0D)" by (simp_all add: line_break_def)
  have "py_lines [] (concat (map (\<lambda>l. l @ [CHR 0x0A]) ls)) = ls"
    using assms by (induction ls) (simp_all add: py_lines_line nl)
  moreover have "CHR 0x0D \<notin> set (concat (map (\<lambda>l. l @ [CHR 0x0A]) ls))"
    using assms nl(2) by auto
  ultimately show ?thesis by (simp add: py_splitlines_def join_crlf_id)
qed

lemma py_splitlines_no_break: "l \<in> set (py_splitlines s) \<Longrightarrow> c \<in> set l \<Longrightarrow> \<not> line_break c"
  using py_lines_no_break[of l "[]"] by (simp add: py_splitlines_def)

lemma set_py_strip: "c \<in> set (py_strip s) \<Longrightarrow> c \<in> set s"
  by (auto simp: py_strip_def py_lstrip_def dest!: set_dropWhileD)

lemma py_words_plain: "\<forall>c\<in>set w. \<not> py_isspace c \<Longrightarrow> py_words acc (w @ rest) = py_words (rev w @ acc) rest"
  by (induction w arbitrary: acc) auto

lemma py_split_pair:
  assumes "\<forall>c\<in>set a. \<not> py_isspace c" "\<forall>c\<in>set b. \<not> py_isspace c" "a \<noteq> []" "b \<noteq> []"
  shows "py_split (a @ CHR '' '' # b) = [a, b]"
proof -
  have sp: "py_isspace (CHR '' '')" by (simp add: py_isspace_def)
  show ?thesis
    using assms py_words_plain[of a "[]"] py_words_plain[of b "[]" "[]"] by (simp add: py_split_def sp)
qed

section \<open>Fields\<close>

text \<open>A field of a parsed document after an \<open>isinstance\<close> check: missing, of another type, or of the
  expected type.\<close>

datatype 'a field = Absent | Wrong | Good 'a

section \<open>Lists\<close>

text \<open>\<open>dict.fromkeys\<close>: duplicates removed, first occurrences kept in order.\<close>

definition dedup_first :: "'a list \<Rightarrow> 'a list" where
  "dedup_first xs = rev (remdups (rev xs))"

lemma set_dedup_first [simp]: "set (dedup_first xs) = set xs"
  by (simp add: dedup_first_def)

lemma distinct_dedup_first [simp]: "distinct (dedup_first xs)"
  by (simp add: dedup_first_def)

text \<open>\<open>xs[-n:]\<close> for a positive \<open>n\<close>.\<close>

definition last_n :: "nat \<Rightarrow> 'a list \<Rightarrow> 'a list" where
  "last_n n xs = drop (length xs - n) xs"

lemma length_last_n [simp]: "length (last_n n xs) = min n (length xs)"
  by (simp add: last_n_def)

lemma last_n_snoc: "0 < n \<Longrightarrow> last (last_n n (xs @ [x])) = x \<and> last_n n (xs @ [x]) \<noteq> []"
  by (auto simp: last_n_def)

lemma last_n_all: "length xs \<le> n \<Longrightarrow> last_n n xs = xs"
  by (simp add: last_n_def)

lemma set_last_n: "set (last_n n xs) \<subseteq> set xs"
  by (auto simp: last_n_def dest: in_set_dropD)

section \<open>Operations that keep an invariant\<close>

text \<open>
  Several components are a state with operations that each keep a well-formedness predicate, and are
  driven by an arbitrary sequence of calls. The contract is stated once, for operations that may raise
  (the state is then left as it was, since the program saves a state only at the end of an operation).
\<close>

locale guarded_machine =
  fixes step :: "'op \<Rightarrow> 's \<Rightarrow> 'e + 's"
    and inv :: "'s \<Rightarrow> bool"
  assumes step_inv: "inv s \<Longrightarrow> step op s = Inr s' \<Longrightarrow> inv s'"
begin

definition apply_op :: "'op \<Rightarrow> 's \<Rightarrow> 's" where
  "apply_op op s = (case step op s of Inl _ \<Rightarrow> s | Inr s' \<Rightarrow> s')"

definition run_ops :: "'op list \<Rightarrow> 's \<Rightarrow> 's" where
  "run_ops ops s = fold apply_op ops s"

lemma run_ops_simps [simp]:
  "run_ops [] s = s"
  "run_ops (op # ops) s = run_ops ops (apply_op op s)"
  by (simp_all add: run_ops_def)

lemma run_ops_append: "run_ops (xs @ ys) s = run_ops ys (run_ops xs s)"
  by (simp add: run_ops_def)

lemma apply_op_inv: "inv s \<Longrightarrow> inv (apply_op op s)"
  by (auto simp: apply_op_def split: sum.splits intro: step_inv)

lemma run_ops_inv: "inv s \<Longrightarrow> inv (run_ops ops s)"
  by (induction ops arbitrary: s) (auto intro: apply_op_inv)

text \<open>A property of the state that every allowed operation keeps survives any allowed sequence.\<close>

lemma run_ops_stable:
  assumes "\<And>op s s'. op \<in> set ops \<Longrightarrow> P s \<Longrightarrow> step op s = Inr s' \<Longrightarrow> P s'" and "P s"
  shows "P (run_ops ops s)"
  using assms by (induction ops arbitrary: s) (auto simp: apply_op_def split: sum.splits)

end

section \<open>State kept in a file\<close>

text \<open>
  The transport selector and the generation history keep their state in one JSON file and change it only
  by reading it, computing, and replacing it atomically. What they rely on is that a state that was saved
  is the state that is read back; sequences of updates then compose without looking at the file.
\<close>

locale persistent_state =
  fixes load :: "'f \<Rightarrow> 'e + 's" and save :: "'s \<Rightarrow> 'f" and wf :: "'s \<Rightarrow> bool"
  assumes load_save: "wf s \<Longrightarrow> load (save s) = Inr s"
    and load_wf: "load f = Inr s \<Longrightarrow> wf s"
begin

definition update :: "('s \<Rightarrow> 's) \<Rightarrow> 'f \<Rightarrow> 'e + 'f" where
  "update g f = bindE (load f) (\<lambda>s. Inr (save (g s)))"

lemma update_Inr:
  assumes "\<And>s. wf s \<Longrightarrow> wf (g s)" and "update g f = Inr f'"
  shows "\<exists>s. load f = Inr s \<and> load f' = Inr (g s)"
  using assms by (auto simp: update_def res_simps dest: load_wf intro!: load_save)

lemma update_readable: "(\<exists>f'. update g f = Inr f') \<longleftrightarrow> (\<exists>s. load f = Inr s)"
  by (auto simp: update_def res_simps)

lemma update_update:
  assumes "\<And>s. wf s \<Longrightarrow> wf (g s)"
  shows "bindE (update g f) (update h) = update (h \<circ> g) f"
  using assms by (cases "load f") (auto simp: update_def load_save dest: load_wf)

end

end
