(* ===== verification/Admission.thy ===== *)
theory Admission
  imports Prelude
begin

text \<open>
  The adaptive write admission of \<open>admission.py\<close>: the additive-increase budget \<open>WriteBudget\<close>, the
  reading of HAProxy's statistics \<open>write_stats\<close>, and one \<open>AdmissionController.tick\<close> with every
  command it sends to HAProxy's runtime socket. The socket, HAProxy and the clocks are the inputs of a
  tick: a reply is a text, an \<open>OSError\<close> or a \<open>ValueError\<close> (bytes that do not decode), and the
  statistics reply is given as the rows \<open>csv.DictReader\<close> yields for it.
\<close>

section \<open>WriteBudget\<close>

record write_budget =
  budget_ceiling :: int
  healthy_window :: int
  limit :: int
  healthy_since :: "rat option"
  backoffs :: int

definition new_budget :: "int \<Rightarrow> int \<Rightarrow> write_budget" where
  "new_budget c w =
     \<lparr>budget_ceiling = c, healthy_window = w, limit = 1, healthy_since = None, backoffs = 0\<rparr>"

definition update_budget :: "rat \<Rightarrow> bool \<Rightarrow> write_budget \<Rightarrow> write_budget" where
  "update_budget now healthy b =
     (if \<not> healthy then
        b\<lparr>backoffs := (if limit b > 1 then backoffs b + 1 else backoffs b),
          limit := 1, healthy_since := None\<rparr>
      else case healthy_since b of
          None \<Rightarrow> b\<lparr>healthy_since := Some now\<rparr>
        | Some s \<Rightarrow>
            (if now - s \<ge> of_int (healthy_window b) then
               b\<lparr>limit := min (budget_ceiling b) (limit b + 1), healthy_since := Some now\<rparr>
             else b))"

section \<open>HAProxy statistics\<close>

text \<open>A row of the statistics: \<open>None\<close> is the filler \<open>DictReader\<close> uses for a row shorter than the header.\<close>

type_synonym stat_row = "(string \<times> string option) list"

definition row_get :: "stat_row \<Rightarrow> string \<Rightarrow> string option" where
  "row_get r k = (case map_of r k of None \<Rightarrow> None | Some v \<Rightarrow> v)"

definition row_int :: "stat_row \<Rightarrow> string \<Rightarrow> py_error + int" where
  "row_int r k = (case map_of r k of
       None \<Rightarrow> Inl KeyError
     | Some None \<Rightarrow> Inl TypeError
     | Some (Some s) \<Rightarrow> (case int_of_string s of None \<Rightarrow> Inl ValueError | Some n \<Rightarrow> Inr n))"

definition stat_row_step ::
  "stat_row \<Rightarrow> int option \<times> (int \<times> int) option \<Rightarrow> py_error + (int option \<times> (int \<times> int) option)" where
  "stat_row_step r acc =
     bindE (if row_get r ''pxname'' = Some ''seaweed_s3_write'' \<and> row_get r ''svname'' = Some ''BACKEND''
            then bindE (row_int r ''qcur'') (\<lambda>q. Inr (Some q, snd acc))
            else Inr acc)
       (\<lambda>acc.
         if row_get r ''pxname'' = Some ''seaweed_s3_write'' \<and> row_get r ''svname'' = Some ''worker_s3_write''
         then bindE (row_int r ''qcur'') (\<lambda>q. bindE (row_int r ''scur'') (\<lambda>n. Inr (fst acc, Some (q, n))))
         else Inr acc)"

definition write_stats :: "stat_row list \<Rightarrow> py_error + (int \<times> int)" where
  "write_stats rows =
     bindE (foldE stat_row_step rows (None, None))
       (\<lambda>(backend_queue, server). case server of
            Some (q, n) \<Rightarrow> Inr (max q (case backend_queue of None \<Rightarrow> 0 | Some b \<Rightarrow> b), n)
          | None \<Rightarrow> Inl ValueError)"

section \<open>One tick of the controller\<close>

record health_view =
  hv_ready :: bool
  hv_last_probe_at :: rat
  hv_last_probe_duration_seconds :: rat
  hv_probe_started_monotonic :: rat

record admission_settings =
  slow_probe_seconds :: int
  probe_interval_seconds :: int
  probe_timeout_seconds :: int

record controller =
  budget :: write_budget
  errors :: int

datatype runtime_command = ShowStat | SetMaxconn int

datatype 'a reply = Reply 'a | ReplyOSError | ReplyValueError

record tick_input =
  snapshot :: health_view
  monotonic_now :: rat
  wall_now :: rat
  stat_reply :: "stat_row list reply"
  set_reply :: "string reply"
  fallback_reply :: "string reply"

record admission_status =
  st_write_limit :: int
  st_queue :: int
  st_active :: int
  st_backoffs_total :: int
  st_control_errors_total :: int
  st_applied :: bool

text \<open>What a tick leaves behind: the controller, the commands it sent in order, what it published, and
  an exception that escaped it (the controller thread then ends).\<close>

record tick_outcome =
  out_controller :: controller
  out_sent :: "runtime_command list"
  out_published :: "admission_status option"
  out_escaped :: "py_error option"

definition tick_healthy :: "admission_settings \<Rightarrow> tick_input \<Rightarrow> bool" where
  "tick_healthy cfg i =
     (let s = snapshot i; slow = of_int (slow_probe_seconds cfg);
          stale_after = of_int (probe_interval_seconds cfg + probe_timeout_seconds cfg + 2)
      in hv_ready s
         \<and> hv_last_probe_at s > 0
         \<and> wall_now i - hv_last_probe_at s < stale_after
         \<and> hv_last_probe_duration_seconds s < slow
         \<and> (hv_probe_started_monotonic s = 0 \<or> monotonic_now i - hv_probe_started_monotonic s < slow))"

definition publish_status :: "controller \<Rightarrow> int \<Rightarrow> int \<Rightarrow> bool \<Rightarrow> admission_status" where
  "publish_status c queue active ok =
     \<lparr>st_write_limit = limit (budget c), st_queue = queue, st_active = active,
      st_backoffs_total = backoffs (budget c), st_control_errors_total = errors c, st_applied = ok\<rparr>"

text \<open>The handler of \<open>OSError\<close>, \<open>ValueError\<close> and \<open>KeyError\<close>: count the error, drop the budget to one and
  try to tell HAProxy so. An \<open>OSError\<close> of that last attempt is swallowed; another exception escapes.\<close>

definition tick_failed ::
  "tick_input \<Rightarrow> controller \<Rightarrow> runtime_command list \<Rightarrow> int \<Rightarrow> int \<Rightarrow> tick_outcome" where
  "tick_failed i c sent queue active =
     (let c' = c\<lparr>errors := errors c + 1, budget := update_budget (monotonic_now i) False (budget c)\<rparr>;
          sent' = sent @ [SetMaxconn 1]
      in case fallback_reply i of
           ReplyValueError \<Rightarrow>
             \<lparr>out_controller = c', out_sent = sent', out_published = None, out_escaped = Some ValueError\<rparr>
         | _ \<Rightarrow>
             \<lparr>out_controller = c', out_sent = sent',
              out_published = Some (publish_status c' queue active False), out_escaped = None\<rparr>)"

definition tick_apply ::
  "admission_settings \<Rightarrow> tick_input \<Rightarrow> controller \<Rightarrow> int \<Rightarrow> int \<Rightarrow> tick_outcome" where
  "tick_apply cfg i c queue active =
     (let c' = c\<lparr>budget := update_budget (monotonic_now i) (tick_healthy cfg i \<and> queue = 0) (budget c)\<rparr>;
          sent = [ShowStat, SetMaxconn (limit (budget c'))]
      in case set_reply i of
           Reply r \<Rightarrow>
             (if py_strip r = [] then
                \<lparr>out_controller = c', out_sent = sent,
                 out_published = Some (publish_status c' queue active True), out_escaped = None\<rparr>
              else tick_failed i c' sent queue active)
         | _ \<Rightarrow> tick_failed i c' sent queue active)"

definition tick :: "admission_settings \<Rightarrow> tick_input \<Rightarrow> controller \<Rightarrow> tick_outcome" where
  "tick cfg i c =
     (case stat_reply i of
        Reply rows \<Rightarrow>
          (case write_stats rows of
             Inr (queue, active) \<Rightarrow> tick_apply cfg i c queue active
           | Inl TypeError \<Rightarrow>
               \<lparr>out_controller = c, out_sent = [ShowStat], out_published = None, out_escaped = Some TypeError\<rparr>
           | Inl _ \<Rightarrow> tick_failed i c [ShowStat] 0 0)
      | _ \<Rightarrow> tick_failed i c [ShowStat] 0 0)"

section \<open>The budget stays within its bounds\<close>

definition budget_inv :: "write_budget \<Rightarrow> bool" where
  "budget_inv b \<longleftrightarrow> 1 \<le> limit b \<and> limit b \<le> budget_ceiling b \<and> 0 \<le> backoffs b"

lemma update_budget_frame [simp]:
  "budget_ceiling (update_budget t h b) = budget_ceiling b"
  "healthy_window (update_budget t h b) = healthy_window b"
  by (auto simp: update_budget_def split: option.splits)

lemma update_budget_unhealthy [simp]:
  "limit (update_budget t False b) = 1" "healthy_since (update_budget t False b) = None"
  by (simp_all add: update_budget_def)

lemma budget_inv_new [inv_intros]: "1 \<le> c \<Longrightarrow> budget_inv (new_budget c w)"
  by (simp add: budget_inv_def new_budget_def)

lemma budget_inv_update [inv_intros]: "budget_inv b \<Longrightarrow> budget_inv (update_budget t h b)"
  by (auto simp: budget_inv_def update_budget_def split: option.splits)

text \<open>Updates arrive as readings of the clock and the health verdict.\<close>

definition budget_step :: "rat \<times> bool \<Rightarrow> write_budget \<Rightarrow> unit + write_budget" where
  "budget_step r b = Inr (update_budget (fst r) (snd r) b)"

interpretation wb: guarded_machine budget_step budget_inv
  by unfold_locales (auto simp: budget_step_def intro: budget_inv_update)

definition run_budget :: "(rat \<times> bool) list \<Rightarrow> write_budget \<Rightarrow> write_budget" where
  "run_budget rs b = fold (\<lambda>(t, h). update_budget t h) rs b"

lemma run_budget_ops: "run_budget rs b = wb.run_ops rs b"
  by (induction rs arbitrary: b)
    (auto simp: run_budget_def wb.apply_op_def budget_step_def)

text \<open>The rate of growth: with \<open>start\<close> at or before every reading, each unit above one has cost a full
  healthy window.\<close>

definition paced :: "rat \<Rightarrow> rat \<Rightarrow> write_budget \<Rightarrow> bool" where
  "paced start now b \<longleftrightarrow>
     (case healthy_since b of
        None \<Rightarrow> limit b = 1
      | Some s \<Rightarrow> s \<le> now \<and> of_int (limit b - 1) * of_int (healthy_window b) \<le> s - start)"

lemma paced_update:
  assumes "paced start prev b" "start \<le> t" "prev \<le> t" "0 \<le> healthy_window b" "start \<le> prev"
  shows "paced start t (update_budget t h b)"
proof -
  have step: "of_int (min m (n + 1) - 1) * w \<le> t - start"
    if "of_int (n - 1) * w \<le> s - start" "w \<le> t - s" "0 \<le> w" for m n :: int and w s :: rat
  proof -
    have "of_int (min m (n + 1) - 1) * w \<le> of_int n * w"
      using that(3) by (intro mult_right_mono) auto
    also have "of_int n * w = of_int (n - 1) * w + w"
      by (simp add: algebra_simps)
    finally show ?thesis using that by linarith
  qed
  show ?thesis
    using assms step[of "limit b" "of_int (healthy_window b)" _ "budget_ceiling b"]
    by (auto simp: paced_def update_budget_def split: option.splits)
qed

lemma paced_run:
  assumes "paced start prev b" "start \<le> prev" "sorted (prev # map fst rs)" "0 \<le> healthy_window b"
  shows "paced start (last (prev # map fst rs)) (run_budget rs b)"
  using assms
proof (induction rs arbitrary: b prev)
  case Nil
  then show ?case by (simp add: run_budget_def)
next
  case (Cons r rs)
  obtain t h where r: "r = (t, h)" by force
  have "paced start t (update_budget t h b)"
    using Cons.prems by (intro paced_update) (auto simp: r)
  then have "paced start (last (t # map fst rs)) (run_budget rs (update_budget t h b))"
    using Cons.prems by (intro Cons.IH) (auto simp: r)
  then show ?case by (simp add: r run_budget_def)
qed

section \<open>Properties\<close>



lemma tick_failed_props:
  "\<exists>pre. out_sent (tick_failed i c sent q a) = pre @ [SetMaxconn 1]"
  "limit (budget (out_controller (tick_failed i c sent q a))) = 1"
  "out_published (tick_failed i c sent q a) = Some st \<Longrightarrow> \<not> st_applied st \<and> st_write_limit st = 1"
  by (auto simp: tick_failed_def Let_def publish_status_def split: reply.splits)

lemma tick_failed_sent:
  "set (out_sent (tick_failed i c sent q a)) = insert (SetMaxconn 1) (set sent)"
  by (auto simp: tick_failed_def Let_def split: reply.splits)

lemmas tick_cases = tick_def tick_apply_def Let_def

text \<open>
  What a tick tells HAProxy: from a budget within its bounds, every write limit a tick sends lies
  between one and the ceiling; a published status carries the controller's own limit, and the last
  command sent set exactly that limit, which after a control error is one.
\<close>

theorem tick_commands_bounded:
  assumes "budget_inv (budget c)"
  shows "budget_inv (budget (out_controller (tick cfg i c)))
    \<and> (\<forall>n. SetMaxconn n \<in> set (out_sent (tick cfg i c)) \<longrightarrow> 1 \<le> n \<and> n \<le> budget_ceiling (budget c))
    \<and> (\<forall>st. out_published (tick cfg i c) = Some st \<longrightarrow>
          st_write_limit st = limit (budget (out_controller (tick cfg i c)))
          \<and> last (out_sent (tick cfg i c)) = SetMaxconn (st_write_limit st)
          \<and> (\<not> st_applied st \<longrightarrow> st_write_limit st = 1))"
proof -
  have upd: "budget_inv (update_budget t h (budget c))" for t h
    using assms by (rule budget_inv_update)
  have upd2: "budget_inv (update_budget t False (update_budget t h (budget c)))" for t h
    using upd by (rule budget_inv_update)
  have lim: "1 \<le> limit (update_budget t h (budget c))"
    "limit (update_budget t h (budget c)) \<le> budget_ceiling (budget c)"
    "1 \<le> budget_ceiling (budget c)" for t h
    using upd[of t h] assms by (auto simp: budget_inv_def)
  show ?thesis
    using upd upd2 lim assms
    by (auto simp: tick_cases tick_failed_def publish_status_def
        split: reply.splits sum.splits py_error.splits prod.splits if_splits)
qed

theorem tick_commands_bounded_witness:
  "budget_inv (new_budget 2 300)
   \<and> (let o1 = tick \<lparr>slow_probe_seconds = 2, probe_interval_seconds = 5, probe_timeout_seconds = 15\<rparr>
        \<lparr>snapshot = \<lparr>hv_ready = True, hv_last_probe_at = 99, hv_last_probe_duration_seconds = 1,
                      hv_probe_started_monotonic = 0\<rparr>,
         monotonic_now = 10, wall_now = 100, stat_reply = ReplyOSError, set_reply = Reply [],
         fallback_reply = Reply []\<rparr> \<lparr>budget = new_budget 2 300, errors = 0\<rparr>
      in budget_inv (budget (out_controller o1)))"
  using tick_commands_bounded [of "\<lparr>budget = new_budget 2 300, errors = 0\<rparr>"]
  by (simp add: budget_inv_new)

text \<open>
  Readiness withdrawal collapses admission: whenever the health snapshot is not ready, or the write
  queue is not empty, a tick that raises nothing leaves the write limit at one.
\<close>

theorem tick_not_ready_closes:
  assumes "out_escaped (tick cfg i c) = None"
    and "\<not> hv_ready (snapshot i) \<or> (\<exists>rows q a. stat_reply i = Reply rows \<and> write_stats rows = Inr (q, a) \<and> q \<noteq> 0)"
  shows "limit (budget (out_controller (tick cfg i c))) = 1"
  using assms
  by (auto simp: tick_cases tick_failed_def tick_healthy_def
      split: reply.splits sum.splits py_error.splits prod.splits if_splits)

theorem tick_not_ready_closes_witness:
  "limit (budget (out_controller
     (tick \<lparr>slow_probe_seconds = 2, probe_interval_seconds = 5, probe_timeout_seconds = 15\<rparr>
        \<lparr>snapshot = \<lparr>hv_ready = False, hv_last_probe_at = 99, hv_last_probe_duration_seconds = 1,
                      hv_probe_started_monotonic = 0\<rparr>,
         monotonic_now = 10, wall_now = 100, stat_reply = ReplyOSError, set_reply = Reply [],
         fallback_reply = Reply []\<rparr>
        \<lparr>budget = (new_budget 4 300)\<lparr>limit := 3\<rparr>, errors = 0\<rparr>))) = 1"
  by (rule tick_not_ready_closes) (simp_all add: tick_cases tick_failed_def)

text \<open>
  The hole in the failure handling: when HAProxy's reply breaks off inside a row of the write backend,
  before the queue column, the conversion raises a \<open>TypeError\<close> that the handler does not catch. The tick
  escapes, no write limit is sent and the budget keeps its expanded limit.
\<close>

theorem tick_truncated_row_escapes:
  assumes "foldE stat_row_step rows (None, None) = Inr acc"
    and "row_get r ''pxname'' = Some ''seaweed_s3_write''"
    and "row_get r ''svname'' = Some ''BACKEND'' \<or> row_get r ''svname'' = Some ''worker_s3_write''"
    and "map_of r ''qcur'' = Some None"
    and "stat_reply i = Reply (rows @ r # rest)"
  shows "out_escaped (tick cfg i c) = Some TypeError
    \<and> (\<forall>n. SetMaxconn n \<notin> set (out_sent (tick cfg i c)))
    \<and> limit (budget (out_controller (tick cfg i c))) = limit (budget c)"
proof -
  have "write_stats (rows @ r # rest) = Inl TypeError"
    using assms(1-4) by (auto simp: write_stats_def foldE_append stat_row_step_def row_int_def)
  then show ?thesis
    using assms(5) by (simp add: tick_def)
qed

theorem tick_truncated_row_escapes_witness:
  "limit (budget (out_controller
     (tick \<lparr>slow_probe_seconds = 2, probe_interval_seconds = 5, probe_timeout_seconds = 15\<rparr>
        \<lparr>snapshot = \<lparr>hv_ready = False, hv_last_probe_at = 99, hv_last_probe_duration_seconds = 1,
                      hv_probe_started_monotonic = 0\<rparr>,
         monotonic_now = 10, wall_now = 100,
         stat_reply = Reply [[(''pxname'', Some ''seaweed_s3_write''), (''svname'', Some ''BACKEND''), (''qcur'', None)]],
         set_reply = Reply [], fallback_reply = Reply []\<rparr>
        \<lparr>budget = (new_budget 4 300)\<lparr>limit := 3\<rparr>, errors = 0\<rparr>))) = 3"
  using tick_truncated_row_escapes [of "[]" "(None, None)"
      "[(''pxname'', Some ''seaweed_s3_write''), (''svname'', Some ''BACKEND''), (''qcur'', None)]"
      "\<lparr>snapshot = \<lparr>hv_ready = False, hv_last_probe_at = 99, hv_last_probe_duration_seconds = 1,
                      hv_probe_started_monotonic = 0\<rparr>,
         monotonic_now = 10, wall_now = 100,
         stat_reply = Reply [[(''pxname'', Some ''seaweed_s3_write''), (''svname'', Some ''BACKEND''), (''qcur'', None)]],
         set_reply = Reply [], fallback_reply = Reply []\<rparr>" "[]"
      "\<lparr>slow_probe_seconds = 2, probe_interval_seconds = 5, probe_timeout_seconds = 15\<rparr>"
      "\<lparr>budget = (new_budget 4 300)\<lparr>limit := 3\<rparr>, errors = 0\<rparr>"]
  by (simp add: row_get_def)

end
