(* ===== verification/Py_Path.thy ===== *)
theory Py_Path
  imports Prelude
begin

text \<open>
  The part of \<open>pathlib\<close> the program uses: a pure POSIX path is a root (none, \<open>/\<close>, or the two slashes
  POSIX keeps apart) and its segments. Paths are compared and joined textually, as \<open>PurePosixPath\<close> does;
  whatever consults the file system is a parameter of the definitions that use it.
\<close>

datatype ppath = PPath (path_root: string) (path_segs: "string list")

definition path_of_string :: "string \<Rightarrow> ppath" where
  "path_of_string s =
     (let slashes = takeWhile (\<lambda>c. c = CHR ''/'') s
      in PPath (if length slashes = 0 then [] else if length slashes = 2 then ''//'' else ''/'')
           (filter (\<lambda>w. w \<noteq> [] \<and> w \<noteq> ''.'') (py_split_char (CHR ''/'') s)))"

definition string_of_path :: "ppath \<Rightarrow> string" where
  "string_of_path p =
     (if path_root p = [] \<and> path_segs p = [] then ''.''
      else path_root p @ py_join ''/'' (path_segs p))"

definition path_is_absolute :: "ppath \<Rightarrow> bool" where
  "path_is_absolute p = (path_root p \<noteq> [])"

text \<open>\<open>Path.parts\<close>: the root, when there is one, is the first part.\<close>

definition path_parts :: "ppath \<Rightarrow> string list" where
  "path_parts p = (if path_root p = [] then path_segs p else path_root p # path_segs p)"

text \<open>\<open>Path.name\<close>: the last segment, empty for a bare root.\<close>

definition path_name :: "ppath \<Rightarrow> string" where
  "path_name p = (if path_segs p = [] then [] else last (path_segs p))"

definition path_join :: "ppath \<Rightarrow> ppath \<Rightarrow> ppath" where
  "path_join p q = (if path_is_absolute q then q else PPath (path_root p) (path_segs p @ path_segs q))"

definition path_div :: "ppath \<Rightarrow> string \<Rightarrow> ppath" where
  "path_div p s = path_join p (path_of_string s)"

definition path_is_relative_to :: "ppath \<Rightarrow> ppath \<Rightarrow> bool" where
  "path_is_relative_to p q =
     (path_root p = path_root q \<and> take (length (path_segs q)) (path_segs p) = path_segs q)"

lemma path_join_relative_to:
  "\<not> path_is_absolute q \<Longrightarrow> path_is_relative_to (path_join p q) p"
  by (simp add: path_join_def path_is_relative_to_def)

lemma path_is_relative_to_refl [simp]: "path_is_relative_to p p"
  by (simp add: path_is_relative_to_def)

lemma path_is_relative_to_trans:
  assumes "path_is_relative_to p q" "path_is_relative_to q r"
  shows "path_is_relative_to p r"
proof -
  let ?n = "length (path_segs r)" and ?m = "length (path_segs q)"
  have r: "path_segs r = take ?n (path_segs q)" and q: "path_segs q = take ?m (path_segs p)"
    using assms by (simp_all add: path_is_relative_to_def)
  have "?n \<le> ?m"
    by (subst r) simp
  have "take ?n (path_segs p) = take ?n (take ?m (path_segs p))"
    using \<open>?n \<le> ?m\<close> by simp
  also have "\<dots> = path_segs r"
    using q r by simp
  finally show ?thesis
    using assms by (simp add: path_is_relative_to_def)
qed

text \<open>A path that came from text has neither empty segments nor dots nor slashes inside a segment, and
  printing such a path and reading it back gives it again.\<close>

definition path_wf :: "ppath \<Rightarrow> bool" where
  "path_wf p \<longleftrightarrow> path_root p \<in> {[], ''/'', ''//''}
     \<and> (\<forall>w\<in>set (path_segs p). w \<noteq> [] \<and> w \<noteq> ''.'' \<and> CHR ''/'' \<notin> set w)"

lemma set_py_split_char: "w \<in> set (py_split_char c s) \<Longrightarrow> c \<notin> set w"
  by (induction s arbitrary: w) (auto split: list.splits if_splits)

lemma path_wf_of_string [simp]: "path_wf (path_of_string s)"
  by (auto simp: path_wf_def path_of_string_def Let_def set_py_split_char)

lemma path_wf_join [simp]: "path_wf p \<Longrightarrow> path_wf q \<Longrightarrow> path_wf (path_join p q)"
  by (auto simp: path_wf_def path_join_def)

lemma takeWhile_slash_join:
  assumes "\<forall>w\<in>set ws. w \<noteq> [] \<and> CHR ''/'' \<notin> set w"
  shows "takeWhile (\<lambda>c. c = CHR ''/'') (py_join ''/'' ws) = []"
proof (cases ws)
  case (Cons w rest)
  then obtain c w' where "w = c # w'" "c \<noteq> CHR ''/''"
    using assms by (cases w) auto
  with Cons show ?thesis by (cases rest) simp_all
qed simp

lemma path_roundtrip:
  assumes "path_wf p"
  shows "path_of_string (string_of_path p) = p"
proof -
  obtain r ws where p: "p = PPath r ws" by (cases p)
  have ws: "\<forall>w\<in>set ws. w \<noteq> [] \<and> w \<noteq> ''.'' \<and> CHR ''/'' \<notin> set w"
    and r: "r \<in> {[], ''/'', ''//''}"
    using assms by (auto simp: path_wf_def p)
  have tw: "takeWhile (\<lambda>c. c = CHR ''/'') (py_join ''/'' ws) = []"
    using ws by (intro takeWhile_slash_join) auto
  have split: "filter (\<lambda>w. w \<noteq> [] \<and> w \<noteq> ''.'') (py_split_char (CHR ''/'') (py_join ''/'' ws)) = ws"
  proof (cases "ws = []")
    case False
    then have "py_split_char (CHR ''/'') (py_join ''/'' ws) = ws"
      using ws by (intro py_split_join) auto
    then show ?thesis using ws by (simp add: filter_id_conv)
  qed simp
  show ?thesis
    using r tw split by (auto simp: p string_of_path_def path_of_string_def Let_def)
qed

end
