(* ===== verification/Config_Types.thy ===== *)
theory Config_Types
  imports Py_Path
begin

text \<open>
  The configuration data of \<open>config_types.py\<close>: one record per dataclass, with the derived properties of
  \<open>TargetConfig\<close> and \<open>Config\<close>. Field names carry the source's names, prefixed where two dataclasses use
  the same one.
\<close>

record target_config =
  tgt_name :: string
  tgt_type :: string
  mountpoint :: ppath
  subdirectory :: string
  sentinel_id :: string
  sentinel_file :: string
  allow_initialize :: bool
  min_free_bytes :: int
  source :: string
  credentials_file :: string
  mount_options :: "string list"
  io_failure_policy :: string
  minimum_smb_dialect :: string
  handle_reconnect_policy :: string
  multichannel_policy :: string
  max_channels :: int
  require_transport_observability :: bool
  device :: string
  expected_uuid :: string
  expected_filesystem :: string
  transport_name :: string
  ssh_auth_mode :: string
  ssh_identity_file :: string
  ssh_credentials_file :: string
  ssh_known_hosts_file :: string
  ssh_runtime_identity_file :: string
  ssh_runtime_pid_file :: string
  ssh_port :: int

text \<open>The defaults of the dataclass, for the fields that have one.\<close>

definition default_target :: "string \<Rightarrow> string \<Rightarrow> ppath \<Rightarrow> string \<Rightarrow> string \<Rightarrow> target_config" where
  "default_target name ty mp sub sid =
     \<lparr>tgt_name = name, tgt_type = ty, mountpoint = mp, subdirectory = sub, sentinel_id = sid,
      sentinel_file = ''.s3-storage-node.json'', allow_initialize = False, min_free_bytes = 1073741824,
      source = [], credentials_file = [], mount_options = [], io_failure_policy = [],
      minimum_smb_dialect = [], handle_reconnect_policy = ''disabled'', multichannel_policy = ''disabled'',
      max_channels = 2, require_transport_observability = False, device = [], expected_uuid = [],
      expected_filesystem = [], transport_name = [], ssh_auth_mode = ''key'', ssh_identity_file = [],
      ssh_credentials_file = [], ssh_known_hosts_file = [], ssh_runtime_identity_file = [],
      ssh_runtime_pid_file = [], ssh_port = 22\<rparr>"

definition storage_root :: "target_config \<Rightarrow> ppath" where
  "storage_root t = (if subdirectory t \<noteq> [] then path_div (mountpoint t) (subdirectory t) else mountpoint t)"

definition effective_io_failure_policy :: "target_config \<Rightarrow> string" where
  "effective_io_failure_policy t = (if io_failure_policy t \<noteq> [] then io_failure_policy t else ''soft'')"

record appliance_config =
  app_name :: string
  state_dir :: ppath
  runtime_dir :: ppath
  uid :: int
  gid :: int
  health_host :: string
  health_port :: int
  app_probe_interval_seconds :: int
  full_probe_interval_seconds :: int
  app_probe_timeout_seconds :: int
  startup_timeout_seconds :: int
  shutdown_grace_seconds :: int
  recovery_initial_seconds :: int
  recovery_max_seconds :: int
  recovery_stability_seconds :: int
  recovery_probe_interval_seconds :: int
  recovery_successes_required :: int
  s3_canary_enabled :: bool
  worker_fencing_mode :: string
  worker_host_address :: string
  worker_address :: string
  worker_gateway :: string

record metadata_config =
  backend :: string
  md_target :: string
  md_directory :: string
  postgres_host :: string
  postgres_port :: int
  postgres_user :: string
  postgres_password_file :: string
  postgres_database :: string
  postgres_schema :: string
  postgres_sslmode :: string
  custom_filer_toml :: string

record index_config =
  ix_target :: string
  ix_directory :: string

record seaweed_config =
  binary :: string
  master_port :: int
  volume_port :: int
  filer_port :: int
  s3_internal_port :: int
  volume_directory :: string
  volume_max :: int
  volume_size_limit_mb :: int
  default_replication :: string
  filer_max_mb :: int
  data_center :: string
  rack :: string
  disk_type :: string
  volume_extra_args :: "string list"
  master_extra_args :: "string list"
  filer_extra_args :: "string list"
  s3_extra_args :: "string list"
  encrypt_volume_data :: bool
  volume_health_enabled :: bool
  expected_readonly_volume_ids :: "int list"
  all_readonly_wait_seconds :: int
  auto_index_repair_enabled :: bool
  index_repair_concurrency :: int
  index_repair_max_volumes :: int
  index_repair_timeout_seconds :: int
  auto_tail_recovery_enabled :: bool
  auto_tail_recovery_max_bytes :: int
  concurrent_upload_limit_mb :: int
  inflight_upload_timeout_seconds :: int

record s3_admission_config =
  adm_enabled :: bool
  adaptive_enabled :: bool
  adm_slow_probe_seconds :: int
  healthy_window_seconds :: int
  max_active_read_requests :: int
  max_active_write_requests :: int
  max_queued_read_requests :: int
  max_queued_write_requests :: int
  queue_timeout_seconds :: int

record s3_config =
  s3_host :: string
  s3_port :: int
  domain_name :: string
  allowed_origins :: string
  external_url :: string
  auth_mode :: string
  access_key_file :: string
  secret_key_file :: string
  auth_config_file :: string
  canary_access_key_file :: string
  canary_secret_key_file :: string
  iam_config_file :: string
  audit_log_config_file :: string
  tls_mode :: string
  tls_pem_file :: string
  admission :: s3_admission_config

record config =
  appliance :: appliance_config
  targets :: "(string \<times> target_config) list"
  metadata :: metadata_config
  index :: index_config
  seaweed :: seaweed_config
  s3 :: s3_config

text \<open>\<open>self.targets[name]\<close> raises a \<open>KeyError\<close> on a missing name.\<close>

definition target_named :: "config \<Rightarrow> string \<Rightarrow> py_error + target_config" where
  "target_named c n = (case map_of (targets c) n of None \<Rightarrow> Inl KeyError | Some t \<Rightarrow> Inr t)"

definition data_target :: "config \<Rightarrow> py_error + target_config" where
  "data_target c = target_named c ''data''"

definition active_target_names :: "config \<Rightarrow> string list" where
  "active_target_names c =
     dedup_first ([''data'', ix_target (index c)]
       @ (if backend (metadata c) = ''embedded'' then [md_target (metadata c)] else []))"

fun collect_targets :: "config \<Rightarrow> string list \<Rightarrow> py_error + target_config list" where
  "collect_targets c [] = Inr []"
| "collect_targets c (n # ns) =
     bindE (target_named c n) (\<lambda>t. bindE (collect_targets c ns) (\<lambda>ts. Inr (t # ts)))"

definition active_targets :: "config \<Rightarrow> py_error + target_config list" where
  "active_targets c = collect_targets c (active_target_names c)"

definition volume_path :: "config \<Rightarrow> py_error + ppath" where
  "volume_path c =
     bindE (data_target c) (\<lambda>t. Inr (path_div (storage_root t) (volume_directory (seaweed c))))"

definition metadata_path :: "config \<Rightarrow> py_error + ppath" where
  "metadata_path c =
     bindE (target_named c (md_target (metadata c)))
       (\<lambda>t. Inr (path_div (storage_root t) (md_directory (metadata c))))"

definition index_path :: "config \<Rightarrow> py_error + ppath" where
  "index_path c =
     bindE (target_named c (ix_target (index c)))
       (\<lambda>t. Inr (path_div (storage_root t) (ix_directory (index c))))"

definition index_repair_path :: "config \<Rightarrow> py_error + ppath" where
  "index_repair_path c = bindE (index_path c) (\<lambda>p. Inr (path_div p ''.s3-storage-node-repair''))"

lemma collect_targets_ok:
  "\<forall>n\<in>set ns. map_of (targets c) n \<noteq> None \<Longrightarrow>
   collect_targets c ns = Inr (map (\<lambda>n. the (map_of (targets c) n)) ns)"
  by (induction ns) (auto simp: target_named_def)

end
