(* ===== verification/Config_Target.thy ===== *)
theory Config_Target
  imports Config_Types
begin

text \<open>
  The parser of one storage target, from \<open>config_helpers.py\<close> and \<open>config_target.py\<close>, over a decoded TOML table:
  the typed getters, the CIFS failure policy and transport policy with their legacy mount options, and
  \<open>_parse_target\<close>. Errors carry the source's messages.
\<close>

section \<open>Typed getters\<close>

datatype parse_error = ConfigError string | ShlexError

type_synonym table = "(string \<times> json) list"

definition cfg_table :: "table \<Rightarrow> string \<Rightarrow> parse_error + table" where
  "cfg_table data key = (case json_get data key of
       None \<Rightarrow> Inr []
     | Some (JObj d) \<Rightarrow> Inr d
     | Some _ \<Rightarrow> Inl (ConfigError (''['' @ key @ ''] must be a table'')))"

definition cfg_string :: "json option \<Rightarrow> string \<Rightarrow> string \<Rightarrow> parse_error + string" where
  "cfg_string v n dflt = (case v of
       None \<Rightarrow> Inr dflt
     | Some (JStr s) \<Rightarrow> Inr s
     | Some _ \<Rightarrow> Inl (ConfigError (n @ '' must be a string'')))"

definition cfg_int :: "json option \<Rightarrow> string \<Rightarrow> int \<Rightarrow> parse_error + int" where
  "cfg_int v n dflt = (case v of
       None \<Rightarrow> Inr dflt
     | Some (JInt i) \<Rightarrow> Inr i
     | Some _ \<Rightarrow> Inl (ConfigError (n @ '' must be an integer'')))"

definition cfg_bool :: "json option \<Rightarrow> string \<Rightarrow> bool \<Rightarrow> parse_error + bool" where
  "cfg_bool v n dflt = (case v of
       None \<Rightarrow> Inr dflt
     | Some (JBool b) \<Rightarrow> Inr b
     | Some _ \<Rightarrow> Inl (ConfigError (n @ '' must be true or false'')))"

text \<open>\<open>shlex.split\<close>: the reader's states, with the token collected so far and whether it was quoted.\<close>

datatype shlex_state = ShSpace | ShWord | ShQuote char | ShEscape shlex_back
and shlex_back = BackWord | BackQuote char

definition shlex_space :: "char \<Rightarrow> bool" where
  "shlex_space c \<longleftrightarrow> c = CHR '' '' \<or> c = CHR 0x09 \<or> c = CHR 0x0D \<or> c = CHR 0x0A"

definition shlex_quote :: "char \<Rightarrow> bool" where
  "shlex_quote c \<longleftrightarrow> c = CHR 0x27 \<or> c = CHR 0x22"

fun shlex_read :: "shlex_state \<Rightarrow> string \<Rightarrow> bool \<Rightarrow> string \<Rightarrow> parse_error + string list" where
  "shlex_read (ShQuote q) tok quoted [] = Inl ShlexError"
| "shlex_read (ShEscape b) tok quoted [] = Inl ShlexError"
| "shlex_read ShSpace tok quoted [] = Inr (if tok \<noteq> [] \<or> quoted then [tok] else [])"
| "shlex_read ShWord tok quoted [] = Inr (if tok \<noteq> [] \<or> quoted then [tok] else [])"
| "shlex_read (ShQuote q) tok quoted (c # cs) =
     (if c = q then shlex_read ShWord tok True cs
      else if c = CHR 0x5C \<and> q = CHR 0x22 then shlex_read (ShEscape (BackQuote q)) tok True cs
      else shlex_read (ShQuote q) (tok @ [c]) True cs)"
| "shlex_read (ShEscape BackWord) tok quoted (c # cs) = shlex_read ShWord (tok @ [c]) quoted cs"
| "shlex_read (ShEscape (BackQuote q)) tok quoted (c # cs) =
     shlex_read (ShQuote q) (if c \<noteq> CHR 0x5C \<and> c \<noteq> q then tok @ [CHR 0x5C, c] else tok @ [c]) quoted cs"
| "shlex_read ShWord tok quoted (c # cs) =
     (if shlex_space c then
        (if tok \<noteq> [] \<or> quoted then bindE (shlex_read ShSpace [] False cs) (\<lambda>ws. Inr (tok # ws))
         else shlex_read ShSpace [] False cs)
      else if shlex_quote c then shlex_read (ShQuote c) tok quoted cs
      else if c = CHR 0x5C then shlex_read (ShEscape BackWord) tok quoted cs
      else shlex_read ShWord (tok @ [c]) quoted cs)"
| "shlex_read ShSpace tok quoted (c # cs) =
     (if shlex_space c then
        (if tok \<noteq> [] \<or> quoted then bindE (shlex_read ShSpace [] False cs) (\<lambda>ws. Inr (tok # ws))
         else shlex_read ShSpace [] False cs)
      else if shlex_quote c then shlex_read (ShQuote c) tok quoted cs
      else if c = CHR 0x5C then shlex_read (ShEscape BackWord) tok quoted cs
      else shlex_read ShWord (tok @ [c]) quoted cs)"

definition shlex_split :: "string \<Rightarrow> parse_error + string list" where
  "shlex_split s = shlex_read ShSpace [] False s"

fun json_strings :: "json list \<Rightarrow> string list option" where
  "json_strings [] = Some []"
| "json_strings (JStr s # vs) = map_option ((#) s) (json_strings vs)"
| "json_strings (v # vs) = None"

fun json_ints :: "json list \<Rightarrow> int list option" where
  "json_ints [] = Some []"
| "json_ints (JInt i # vs) = map_option ((#) i) (json_ints vs)"
| "json_ints (v # vs) = None"

definition cfg_string_list :: "json option \<Rightarrow> string \<Rightarrow> parse_error + string list" where
  "cfg_string_list v n = (case v of
       None \<Rightarrow> Inr []
     | Some (JStr s) \<Rightarrow> shlex_split s
     | Some (JList vs) \<Rightarrow>
         (case json_strings vs of
            Some ss \<Rightarrow> Inr ss
          | None \<Rightarrow> Inl (ConfigError (n @ '' must be an array of strings'')))
     | Some _ \<Rightarrow> Inl (ConfigError (n @ '' must be an array of strings'')))"

definition cfg_int_list :: "json option \<Rightarrow> string \<Rightarrow> parse_error + int list" where
  "cfg_int_list v n = (case v of
       None \<Rightarrow> Inr []
     | Some (JList vs) \<Rightarrow>
         (case json_ints vs of
            Some is \<Rightarrow> Inr is
          | None \<Rightarrow> Inl (ConfigError (n @ '' must be an array of integers'')))
     | Some _ \<Rightarrow> Inl (ConfigError (n @ '' must be an array of integers'')))"

definition cfg_relative_path :: "json option \<Rightarrow> string \<Rightarrow> string \<Rightarrow> parse_error + string" where
  "cfg_relative_path v n dflt =
     bindE (cfg_string v n dflt) (\<lambda>r.
       if r = [] \<or> path_is_absolute (path_of_string r) \<or> ''..'' \<in> set (path_parts (path_of_string r))
       then Inl (ConfigError (n @ '' must be a non-empty relative path without '' @ [CHR 0x27] @ ''..'' @ [CHR 0x27]))
       else Inr r)"

definition cfg_positive :: "int \<Rightarrow> string \<Rightarrow> bool \<Rightarrow> parse_error + int" where
  "cfg_positive v n allow_zero =
     (if v < 0 \<or> (v = 0 \<and> \<not> allow_zero)
      then Inl (ConfigError (n @ '' must be '' @ (if allow_zero then ''zero or greater'' else ''greater than zero'')))
      else Inr v)"

section \<open>CIFS policies\<close>

definition CIFS_IO_FAILURE_POLICIES :: "string list" where
  "CIFS_IO_FAILURE_POLICIES = [''soft'', ''hard'']"

definition CIFS_HANDLE_POLICIES :: "string list" where
  "CIFS_HANDLE_POLICIES = [''disabled'', ''auto'', ''resilient'', ''persistent'']"

definition CIFS_MULTICHANNEL_POLICIES :: "string list" where
  "CIFS_MULTICHANNEL_POLICIES = [''disabled'', ''auto'', ''required'']"

definition SMB_DIALECTS :: "string list" where
  "SMB_DIALECTS = [''1.0'', ''2.0'', ''2.1'', ''3.0'', ''3.02'', ''3.1.1'']"

definition HANDLE_OPTIONS :: "string list" where
  "HANDLE_OPTIONS = [''persistenthandles'', ''resilienthandles'', ''nopersistenthandles'', ''noresilienthandles'']"

definition MULTICHANNEL_OPTIONS :: "string list" where
  "MULTICHANNEL_OPTIONS = [''multichannel'', ''nomultichannel'', ''max_channels'']"

definition mount_option_name :: "string \<Rightarrow> string" where
  "mount_option_name opt = py_lower (py_strip (fst (py_partition (CHR ''='') opt)))"

definition mount_option_value :: "string \<Rightarrow> string" where
  "mount_option_value opt = py_strip (snd (snd (py_partition (CHR ''='') opt)))"

definition cfg_normalize_dialect :: "string \<Rightarrow> string" where
  "cfg_normalize_dialect s = (let v = py_lower (py_strip s) in
     if v = ''3.0.2'' then ''3.02'' else if v = ''smb3'' then ''3.0'' else if v = ''smb3.1.1'' then ''3.1.1'' else v)"

definition storage_key :: "string \<Rightarrow> string \<Rightarrow> string" where
  "storage_key name key = ''storage.'' @ name @ ''.'' @ key"

definition or_else :: "string \<Rightarrow> string \<Rightarrow> string" where
  "or_else a b = (if a \<noteq> [] then a else b)"

definition parse_cifs_io_failure_policy ::
  "string \<Rightarrow> table \<Rightarrow> string list \<Rightarrow> parse_error + (string \<times> string list)" where
  "parse_cifs_io_failure_policy name raw opts =
     bindE (cfg_string (json_get raw ''io_failure_policy'') (storage_key name ''io_failure_policy'') []) (\<lambda>c0.
     let configured = py_lower (py_strip c0);
         names = map mount_option_name opts;
         soft = ''soft'' \<in> set names; hard = ''hard'' \<in> set names
     in if configured \<noteq> [] \<and> configured \<notin> set CIFS_IO_FAILURE_POLICIES
        then Inl (ConfigError (storage_key name ''io_failure_policy must be soft or hard''))
        else if soft \<and> hard
        then Inl (ConfigError (storage_key name ''mount_options may not contain both soft and hard''))
        else let legacy = (if soft then ''soft'' else if hard then ''hard'' else [])
             in if configured \<noteq> [] \<and> legacy \<noteq> [] \<and> configured \<noteq> legacy
                then Inl (ConfigError (storage_key name ''io_failure_policy='' @ configured
                       @ '' conflicts with mount_options containing '' @ legacy))
                else Inr (or_else configured (or_else legacy ''soft''),
                          filter (\<lambda>opt. mount_option_name opt \<notin> set CIFS_IO_FAILURE_POLICIES) opts))"

definition legacy_handle_policy :: "string \<Rightarrow> string list \<Rightarrow> parse_error + string" where
  "legacy_handle_policy name opts =
     (let names = set (map mount_option_name opts);
          persistent = ''persistenthandles'' \<in> names; resilient = ''resilienthandles'' \<in> names;
          negative = (''nopersistenthandles'' \<in> names \<or> ''noresilienthandles'' \<in> names)
      in if persistent \<and> resilient
         then Inl (ConfigError (storage_key name ''mount_options may not contain both persistenthandles and resilienthandles''))
         else if (persistent \<or> resilient) \<and> negative
         then Inl (ConfigError (storage_key name ''mount_options contains contradictory handle reconnect options''))
         else Inr (if persistent then ''persistent'' else if resilient then ''resilient''
                   else if negative then ''disabled'' else []))"

definition legacy_multichannel_policy :: "string \<Rightarrow> string list \<Rightarrow> parse_error + (string \<times> int option)" where
  "legacy_multichannel_policy name opts =
     (let names = map mount_option_name opts;
          positive = (''multichannel'' \<in> set names \<or> ''max_channels'' \<in> set names);
          negative = (''nomultichannel'' \<in> set names);
          values = map mount_option_value (filter (\<lambda>opt. mount_option_name opt = ''max_channels'') opts)
      in if positive \<and> negative
         then Inl (ConfigError (storage_key name ''mount_options contains contradictory multichannel options''))
         else if length values > 1
         then Inl (ConfigError (storage_key name ''mount_options may contain max_channels only once''))
         else bindE (case values of
                       [] \<Rightarrow> Inr None
                     | v # _ \<Rightarrow>
                         (case int_of_string v of
                            Some i \<Rightarrow> Inr (Some i)
                          | None \<Rightarrow> Inl (ConfigError (storage_key name ''mount_options max_channels must be an integer''))))
                (\<lambda>legacy_max.
                  Inr (if positive then ''required'' else if negative then ''disabled'' else [], legacy_max)))"

record cifs_policy =
  cp_dialect :: string
  cp_handle :: string
  cp_multichannel :: string
  cp_max_channels :: int
  cp_observability :: bool
  cp_options :: "string list"

definition max_channels_default :: "int option \<Rightarrow> int" where
  "max_channels_default legacy = (case legacy of Some i \<Rightarrow> (if i = 0 then 2 else i) | None \<Rightarrow> 2)"

definition parse_handle_policy :: "string \<Rightarrow> table \<Rightarrow> string list \<Rightarrow> parse_error + string" where
  "parse_handle_policy name raw opts =
     bindE (cfg_string (json_get raw ''handle_reconnect_policy'') (storage_key name ''handle_reconnect_policy'') []) (\<lambda>h0.
     let configured = py_lower (py_strip h0)
     in if configured \<noteq> [] \<and> configured \<notin> set CIFS_HANDLE_POLICIES
        then Inl (ConfigError (storage_key name
               ''handle_reconnect_policy must be disabled, auto, resilient, or persistent''))
        else bindE (legacy_handle_policy name opts) (\<lambda>legacy.
          if configured \<noteq> [] \<and> legacy \<noteq> [] \<and> configured \<noteq> legacy
          then Inl (ConfigError (storage_key name ''handle_reconnect_policy='' @ configured
                 @ '' conflicts with legacy mount_options''))
          else Inr (or_else configured (or_else legacy ''disabled''))))"

definition parse_multichannel_policy ::
  "string \<Rightarrow> table \<Rightarrow> string list \<Rightarrow> parse_error + (string \<times> int)" where
  "parse_multichannel_policy name raw opts =
     bindE (cfg_string (json_get raw ''multichannel_policy'') (storage_key name ''multichannel_policy'') []) (\<lambda>m0.
     let configured = py_lower (py_strip m0)
     in if configured \<noteq> [] \<and> configured \<notin> set CIFS_MULTICHANNEL_POLICIES
        then Inl (ConfigError (storage_key name ''multichannel_policy must be disabled, auto, or required''))
        else bindE (legacy_multichannel_policy name opts) (\<lambda>(legacy, legacy_max).
          if configured \<noteq> [] \<and> legacy \<noteq> [] \<and> configured \<noteq> legacy
          then Inl (ConfigError (storage_key name ''multichannel_policy='' @ configured
                 @ '' conflicts with legacy mount_options''))
          else let policy = or_else configured (or_else legacy ''disabled'')
               in bindE (cfg_int (json_get raw ''max_channels'') (storage_key name ''max_channels'')
                          (max_channels_default legacy_max)) (\<lambda>channels.
                  if \<not> (2 \<le> channels \<and> channels \<le> 16)
                  then Inl (ConfigError (storage_key name ''max_channels must be between 2 and 16''))
                  else if policy = ''disabled'' \<and> (json_get raw ''max_channels'' \<noteq> None \<or> legacy_max \<noteq> None)
                  then Inl (ConfigError (storage_key name ''max_channels requires multichannel_policy=auto or required''))
                  else Inr (policy, channels))))"

definition parse_cifs_transport_policy :: "string \<Rightarrow> table \<Rightarrow> string list \<Rightarrow> parse_error + cifs_policy" where
  "parse_cifs_transport_policy name raw opts =
     bindE (cfg_string (json_get raw ''minimum_smb_dialect'') (storage_key name ''minimum_smb_dialect'') []) (\<lambda>d0.
     let dialect = cfg_normalize_dialect d0
     in if dialect \<noteq> [] \<and> dialect \<notin> set SMB_DIALECTS
        then Inl (ConfigError (storage_key name ''minimum_smb_dialect must be one of '' @ py_join '', '' SMB_DIALECTS))
        else bindE (parse_handle_policy name raw opts) (\<lambda>handle.
             bindE (parse_multichannel_policy name raw opts) (\<lambda>(multichannel, channels).
             bindE (cfg_bool (json_get raw ''require_transport_observability'')
                      (storage_key name ''require_transport_observability'') False) (\<lambda>obs.
             Inr \<lparr>cp_dialect = dialect, cp_handle = handle, cp_multichannel = multichannel,
                  cp_max_channels = channels, cp_observability = obs,
                  cp_options = filter (\<lambda>opt. mount_option_name opt \<notin> set HANDLE_OPTIONS
                                        \<and> mount_option_name opt \<notin> set MULTICHANNEL_OPTIONS) opts\<rparr>))))"

section \<open>Targets\<close>

definition CIFS_ONLY :: "string list" where
  "CIFS_ONLY = [''handle_reconnect_policy'', ''io_failure_policy'', ''max_channels'', ''minimum_smb_dialect'',
     ''multichannel_policy'', ''require_transport_observability'']"

definition managed_root :: "ppath \<Rightarrow> ppath" where
  "managed_root rdir = path_div rdir ''mounts''"

definition quote_parent :: string where
  "quote_parent = [CHR 0x27] @ ''..'' @ [CHR 0x27]"

text \<open>Where the target lives: its mountpoint, subdirectory and sentinel file.\<close>

definition parse_location ::
  "string \<Rightarrow> table \<Rightarrow> ppath \<Rightarrow> parse_error + (ppath \<times> string \<times> string)" where
  "parse_location name raw rdir =
     bindE (cfg_string (json_get raw ''mountpoint'') (storage_key name ''mountpoint'')
              (string_of_path (path_div (managed_root rdir) name))) (\<lambda>m.
     let mp = path_of_string m
     in if \<not> path_is_absolute mp then Inl (ConfigError (storage_key name ''mountpoint must be absolute''))
        else bindE (cfg_string (json_get raw ''subdirectory'') (storage_key name ''subdirectory'') []) (\<lambda>sub.
             if sub \<noteq> [] \<and> (path_is_absolute (path_of_string sub) \<or> ''..'' \<in> set (path_parts (path_of_string sub)))
             then Inl (ConfigError (storage_key name ''subdirectory must be relative and may not contain '' @ quote_parent))
             else bindE (cfg_string (json_get raw ''sentinel_file'') (storage_key name ''sentinel_file'')
                          ''.s3-storage-node.json'') (\<lambda>sf.
               if sf = [] \<or> path_is_absolute (path_of_string sf) \<or> length (path_parts (path_of_string sf)) \<noteq> 1
               then Inl (ConfigError (storage_key name ''sentinel_file must be a single relative filename''))
               else Inr (mp, sub, sf))))"

text \<open>The policies of a CIFS target; any other type has the defaults and may not set them.\<close>

definition parse_policies ::
  "string \<Rightarrow> string \<Rightarrow> table \<Rightarrow> string list \<Rightarrow> parse_error + (string \<times> cifs_policy)" where
  "parse_policies ty name raw opts =
     (if ty = ''cifs''
      then bindE (parse_cifs_io_failure_policy name raw opts) (\<lambda>(io, opts1).
             bindE (parse_cifs_transport_policy name raw opts1) (\<lambda>p. Inr (io, p)))
      else case filter (\<lambda>k. json_get raw k \<noteq> None) CIFS_ONLY of
        k # _ \<Rightarrow> Inl (ConfigError (storage_key name k @ '' is only valid for CIFS targets''))
      | [] \<Rightarrow> Inr ([], \<lparr>cp_dialect = [], cp_handle = ''disabled'', cp_multichannel = ''disabled'',
                    cp_max_channels = 2, cp_observability = False, cp_options = opts\<rparr>))"

definition check_target :: "table \<Rightarrow> ppath \<Rightarrow> target_config \<Rightarrow> parse_error + target_config" where
  "check_target raw rdir t =
     (let key = storage_key (tgt_name t); fail = (\<lambda>m. Inl (ConfigError (key m)))
      in if sentinel_id t = [] then fail ''sentinel_id is required''
         else bindE (cfg_positive (min_free_bytes t) (key ''min_free_bytes'') True) (\<lambda>_.
           if tgt_type t = ''cifs'' then
             (if \<not> py_startswith (source t) ''//'' then fail ''source must look like //server/share''
              else if credentials_file t = [] then fail ''credentials_file is required for CIFS''
              else if \<not> path_is_relative_to (mountpoint t) (managed_root rdir)
              then fail (''mountpoint for CIFS must be beneath '' @ string_of_path (managed_root rdir))
              else Inr t)
           else if tgt_type t = ''block'' then
             (if device t = [] then fail ''device is required for block storage''
              else if expected_uuid t = [] then fail ''expected_uuid is required for block storage''
              else if expected_filesystem t = [] then fail ''expected_filesystem is required for block storage''
              else if \<not> path_is_relative_to (mountpoint t) (managed_root rdir)
              then fail (''mountpoint for block storage must be beneath '' @ string_of_path (managed_root rdir))
              else Inr t)
           else if \<not> (case json_get raw ''mountpoint'' of None \<Rightarrow> False | Some v \<Rightarrow> py_truthy v)
           then fail ''mountpoint is required for path storage''
           else Inr t))"

definition parse_target :: "string \<Rightarrow> table \<Rightarrow> ppath \<Rightarrow> parse_error + target_config" where
  "parse_target name raw rdir =
     (let key = storage_key name; str = (\<lambda>k. cfg_string (json_get raw k) (key k) [])
      in bindE (cfg_string (json_get raw ''type'') (key ''type'') ''path'') (\<lambda>ty0.
         let ty = py_lower ty0
         in if ty \<noteq> ''cifs'' \<and> ty \<noteq> ''block'' \<and> ty \<noteq> ''path''
            then Inl (ConfigError (key ''type must be cifs, block, or path''))
            else bindE (parse_location name raw rdir) (\<lambda>(mp, sub, sf).
         bindE (cfg_string_list (json_get raw ''mount_options'') (key ''mount_options'')) (\<lambda>opts.
         bindE (parse_policies ty name raw opts) (\<lambda>(io, p).
         bindE (str ''sentinel_id'') (\<lambda>sid.
         bindE (cfg_bool (json_get raw ''allow_initialize'') (key ''allow_initialize'') False) (\<lambda>init.
         bindE (cfg_int (json_get raw ''min_free_bytes'') (key ''min_free_bytes'') 1073741824) (\<lambda>free.
         bindE (str ''source'') (\<lambda>src.
         bindE (str ''credentials_file'') (\<lambda>creds.
         bindE (str ''device'') (\<lambda>dev.
         bindE (str ''expected_uuid'') (\<lambda>uu.
         bindE (str ''expected_filesystem'') (\<lambda>fs.
         check_target raw rdir
           ((default_target name ty mp sub sid)
             \<lparr>sentinel_file := sf, allow_initialize := init, min_free_bytes := free, source := src,
              credentials_file := creds, mount_options := cp_options p, io_failure_policy := io,
              minimum_smb_dialect := cp_dialect p, handle_reconnect_policy := cp_handle p,
              multichannel_policy := cp_multichannel p, max_channels := cp_max_channels p,
              require_transport_observability := cp_observability p, device := dev, expected_uuid := uu,
              expected_filesystem := fs\<rparr>))))))))))))))"

section \<open>Soundness\<close>

definition policy_wf :: "target_config \<Rightarrow> bool" where
  "policy_wf t \<longleftrightarrow> io_failure_policy t \<in> set CIFS_IO_FAILURE_POLICIES
     \<and> (minimum_smb_dialect t = [] \<or> minimum_smb_dialect t \<in> set SMB_DIALECTS)
     \<and> handle_reconnect_policy t \<in> set CIFS_HANDLE_POLICIES
     \<and> multichannel_policy t \<in> set CIFS_MULTICHANNEL_POLICIES
     \<and> 2 \<le> max_channels t \<and> max_channels t \<le> 16
     \<and> (\<forall>opt\<in>set (mount_options t). mount_option_name opt
          \<notin> set CIFS_IO_FAILURE_POLICIES \<union> set HANDLE_OPTIONS \<union> set MULTICHANNEL_OPTIONS)"

lemmas policy_lists = CIFS_IO_FAILURE_POLICIES_def CIFS_HANDLE_POLICIES_def CIFS_MULTICHANNEL_POLICIES_def
  HANDLE_OPTIONS_def MULTICHANNEL_OPTIONS_def

lemma or_else_cases: "or_else a b = (if a = [] then b else a)"
  by (simp add: or_else_def)

lemma parse_io_sound:
  "parse_cifs_io_failure_policy name raw opts = Inr (io, opts') \<Longrightarrow>
     io \<in> set CIFS_IO_FAILURE_POLICIES
     \<and> opts' = filter (\<lambda>opt. mount_option_name opt \<notin> set CIFS_IO_FAILURE_POLICIES) opts"
  by (auto simp: parse_cifs_io_failure_policy_def res_simps Let_def or_else_cases policy_lists split: if_splits)

lemma legacy_handle_sound:
  "legacy_handle_policy name opts = Inr l \<Longrightarrow> l \<in> {[], ''persistent'', ''resilient'', ''disabled''}"
  by (auto simp: legacy_handle_policy_def Let_def split: if_splits)

lemma parse_handle_sound: "parse_handle_policy name raw opts = Inr h \<Longrightarrow> h \<in> set CIFS_HANDLE_POLICIES"
  by (auto simp: parse_handle_policy_def res_simps Let_def or_else_cases policy_lists split: if_splits
      dest!: legacy_handle_sound)

lemma legacy_multichannel_sound:
  "legacy_multichannel_policy name opts = Inr (l, m) \<Longrightarrow> l \<in> {[], ''required'', ''disabled''}"
  by (auto simp: legacy_multichannel_policy_def res_simps Let_def split: if_splits)

lemma parse_multichannel_sound:
  "parse_multichannel_policy name raw opts = Inr (p, n) \<Longrightarrow>
     p \<in> set CIFS_MULTICHANNEL_POLICIES \<and> 2 \<le> n \<and> n \<le> 16"
  by (auto simp: parse_multichannel_policy_def res_simps Let_def or_else_cases policy_lists split: if_splits
      dest!: legacy_multichannel_sound)

lemma parse_transport_policy_sound:
  assumes "parse_cifs_transport_policy name raw opts = Inr p"
  shows "(cp_dialect p = [] \<or> cp_dialect p \<in> set SMB_DIALECTS) \<and> cp_handle p \<in> set CIFS_HANDLE_POLICIES
    \<and> cp_multichannel p \<in> set CIFS_MULTICHANNEL_POLICIES \<and> 2 \<le> cp_max_channels p \<and> cp_max_channels p \<le> 16
    \<and> cp_options p = filter (\<lambda>opt. mount_option_name opt \<notin> set HANDLE_OPTIONS
        \<and> mount_option_name opt \<notin> set MULTICHANNEL_OPTIONS) opts"
  using assms
  by (auto simp: parse_cifs_transport_policy_def res_simps Let_def split: if_splits
      dest!: parse_handle_sound parse_multichannel_sound)

definition location_wf :: "target_config \<Rightarrow> bool" where
  "location_wf t \<longleftrightarrow> path_is_absolute (mountpoint t) \<and> ''..'' \<notin> set (path_segs (path_of_string (subdirectory t)))
     \<and> (subdirectory t \<noteq> [] \<longrightarrow> \<not> path_is_absolute (path_of_string (subdirectory t)))
     \<and> length (path_segs (path_of_string (sentinel_file t))) = 1
     \<and> \<not> path_is_absolute (path_of_string (sentinel_file t))"

lemma path_parts_relative: "\<not> path_is_absolute p \<Longrightarrow> path_parts p = path_segs p"
  by (simp add: path_parts_def path_is_absolute_def)

lemma path_of_empty [simp]: "path_of_string [] = PPath [] []"
  by (simp add: path_of_string_def)

lemma parse_location_sound:
  "parse_location name raw rdir = Inr (mp, sub, sf) \<Longrightarrow>
     path_is_absolute mp \<and> ''..'' \<notin> set (path_segs (path_of_string sub))
     \<and> (sub \<noteq> [] \<longrightarrow> \<not> path_is_absolute (path_of_string sub))
     \<and> length (path_segs (path_of_string sf)) = 1 \<and> \<not> path_is_absolute (path_of_string sf)"
  by (auto simp: parse_location_def res_simps Let_def path_parts_relative split: if_splits)

lemma parse_policies_sound:
  assumes "parse_policies ty name raw opts = Inr (io, p)" "ty = ''cifs''"
    "t = t0\<lparr>mount_options := cp_options p, io_failure_policy := io, minimum_smb_dialect := cp_dialect p,
       handle_reconnect_policy := cp_handle p, multichannel_policy := cp_multichannel p,
       max_channels := cp_max_channels p\<rparr>"
  shows "policy_wf t"
proof -
  from assms(1,2) obtain opts1 where
    io: "parse_cifs_io_failure_policy name raw opts = Inr (io, opts1)"
    and tr: "parse_cifs_transport_policy name raw opts1 = Inr p"
    by (auto simp: parse_policies_def res_simps)
  from parse_io_sound[OF io] parse_transport_policy_sound[OF tr] show ?thesis
    by (auto simp: policy_wf_def assms(3))
qed

lemma check_target_Inr:
  "check_target raw rdir t = Inr t' \<Longrightarrow> t' = t \<and> sentinel_id t \<noteq> [] \<and> 0 \<le> min_free_bytes t
     \<and> (tgt_type t = ''cifs'' \<longrightarrow> py_startswith (source t) ''//'' \<and> credentials_file t \<noteq> [])
     \<and> (tgt_type t \<in> {''cifs'', ''block''} \<longrightarrow> path_is_relative_to (mountpoint t) (managed_root rdir))
     \<and> (tgt_type t = ''block'' \<longrightarrow> device t \<noteq> [] \<and> expected_uuid t \<noteq> [] \<and> expected_filesystem t \<noteq> [])"
  by (auto simp: check_target_def cfg_positive_def Let_def res_simps split: if_splits)

lemma parse_target_steps:
  assumes "parse_target name raw rdir = Inr t"
  obtains ty mp sub sf opts io p t0 where "ty \<in> {''cifs'', ''block'', ''path''}"
    "parse_location name raw rdir = Inr (mp, sub, sf)" "parse_policies ty name raw opts = Inr (io, p)"
    "check_target raw rdir t = Inr t" "tgt_name t = name" "tgt_type t = ty" "mountpoint t = mp"
    "subdirectory t = sub" "sentinel_file t = sf"
    "t = t0\<lparr>mount_options := cp_options p, io_failure_policy := io, minimum_smb_dialect := cp_dialect p,
       handle_reconnect_policy := cp_handle p, multichannel_policy := cp_multichannel p,
       max_channels := cp_max_channels p\<rparr>"
proof -
  from assms obtain ty mp sub sf opts io p sid init free src creds dev uu fs where
    st: "ty \<in> {''cifs'', ''block'', ''path''}" "parse_location name raw rdir = Inr (mp, sub, sf)"
      "parse_policies ty name raw opts = Inr (io, p)"
    and c: "check_target raw rdir
      ((default_target name ty mp sub sid)
             \<lparr>sentinel_file := sf, allow_initialize := init, min_free_bytes := free, source := src,
              credentials_file := creds, mount_options := cp_options p, io_failure_policy := io,
              minimum_smb_dialect := cp_dialect p, handle_reconnect_policy := cp_handle p,
              multichannel_policy := cp_multichannel p, max_channels := cp_max_channels p,
              require_transport_observability := cp_observability p, device := dev, expected_uuid := uu,
              expected_filesystem := fs\<rparr>) = Inr t"
    unfolding parse_target_def Let_def bindE_Inr_iff by (auto simp: res_simps split: if_splits) blast+
  have t: "t = (default_target name ty mp sub sid)
             \<lparr>sentinel_file := sf, allow_initialize := init, min_free_bytes := free, source := src,
              credentials_file := creds, mount_options := cp_options p, io_failure_policy := io,
              minimum_smb_dialect := cp_dialect p, handle_reconnect_policy := cp_handle p,
              multichannel_policy := cp_multichannel p, max_channels := cp_max_channels p,
              require_transport_observability := cp_observability p, device := dev, expected_uuid := uu,
              expected_filesystem := fs\<rparr>"
    using check_target_Inr[OF c] by simp
  show thesis
    using st c by (intro that[of ty mp sub sf opts io p t]) (simp_all add: t default_target_def)
qed

lemma parse_target_policy_wf: "parse_target name raw rdir = Inr t \<Longrightarrow> tgt_type t = ''cifs'' \<Longrightarrow> policy_wf t"
  by (erule parse_target_steps, rule parse_policies_sound) simp_all

section \<open>Properties\<close>

text \<open>
  What an accepted target guarantees: a name, a dataset id, an absolute mountpoint and a storage root
  inside it that does not climb out of it, a sentinel that is a single name; for CIFS a UNC source, credentials
  and policies from the supported sets, with no guardian-owned option left among the raw mount options; for a
  block device its path, UUID and file system type; and, for both, a mountpoint below the managed root.
\<close>

theorem parse_target_sound:
  assumes "parse_target name raw rdir = Inr t"
  shows "tgt_name t = name \<and> tgt_type t \<in> {''cifs'', ''block'', ''path''} \<and> sentinel_id t \<noteq> []
    \<and> 0 \<le> min_free_bytes t \<and> location_wf t
    \<and> path_is_relative_to (storage_root t) (mountpoint t)
    \<and> (tgt_type t = ''cifs'' \<longrightarrow> policy_wf t \<and> py_startswith (source t) ''//'' \<and> credentials_file t \<noteq> [])
    \<and> (tgt_type t = ''block'' \<longrightarrow> device t \<noteq> [] \<and> expected_uuid t \<noteq> [] \<and> expected_filesystem t \<noteq> [])
    \<and> (tgt_type t \<noteq> ''path'' \<longrightarrow> path_is_relative_to (mountpoint t) (managed_root rdir))"
  using assms
proof (rule parse_target_steps)
  fix ty mp sub sf opts io p t0
  assume st: "ty \<in> {''cifs'', ''block'', ''path''}" "parse_location name raw rdir = Inr (mp, sub, sf)"
      "parse_policies ty name raw opts = Inr (io, p)" "check_target raw rdir t = Inr t" "tgt_name t = name"
      "tgt_type t = ty" "mountpoint t = mp" "subdirectory t = sub" "sentinel_file t = sf"
    and t: "t = t0\<lparr>mount_options := cp_options p, io_failure_policy := io, minimum_smb_dialect := cp_dialect p,
       handle_reconnect_policy := cp_handle p, multichannel_policy := cp_multichannel p,
       max_channels := cp_max_channels p\<rparr>"
  have loc: "location_wf t" using parse_location_sound[OF st(2)] st(7-9) by (simp add: location_wf_def)
  then have "path_is_relative_to (storage_root t) (mountpoint t)"
    by (auto simp: storage_root_def path_div_def location_wf_def intro: path_join_relative_to)
  moreover have "ty = ''cifs'' \<Longrightarrow> policy_wf t" using parse_target_policy_wf[OF assms] st(6) by simp
  ultimately show ?thesis
    using check_target_Inr[OF st(4)] loc st(1,5,6) by auto
qed

definition example_table :: table where
  "example_table =
     [(''type'', JStr ''CIFS''), (''source'', JStr ''//nas/share''), (''credentials_file'', JStr ''/c''),
      (''sentinel_id'', JStr ''ds-1''), (''subdirectory'', JStr ''node/a''),
      (''mount_options'', JStr ''vers=3.0 hard max_channels=4''), (''handle_reconnect_policy'', JStr ''auto'')]"

lemma example_table_parses: "\<exists>t. parse_target ''data'' example_table (path_of_string ''/run/node'') = Inr t
    \<and> tgt_type t = ''cifs'' \<and> io_failure_policy t = ''hard'' \<and> multichannel_policy t = ''required''
    \<and> max_channels t = 4 \<and> mount_options t = [''vers=3.0'']"
proof -
  have "case parse_target ''data'' example_table (path_of_string ''/run/node'') of
      Inr t \<Rightarrow> tgt_type t = ''cifs'' \<and> io_failure_policy t = ''hard'' \<and> multichannel_policy t = ''required''
        \<and> max_channels t = 4 \<and> mount_options t = [''vers=3.0'']
    | Inl _ \<Rightarrow> False"
    by code_simp
  then show ?thesis by (auto split: sum.splits)
qed

theorem parse_target_sound_witness:
  "\<exists>t. parse_target ''data'' example_table (path_of_string ''/run/node'') = Inr t \<and> policy_wf t \<and> location_wf t"
proof -
  obtain t where t: "parse_target ''data'' example_table (path_of_string ''/run/node'') = Inr t" "tgt_type t = ''cifs''"
    using example_table_parses by (elim exE conjE)
  from parse_target_sound[OF t(1)] t show ?thesis by blast
qed

text \<open>
  The managed root does not contain what it should: the test that a CIFS mountpoint lies beneath it compares
  path components as written, so a mountpoint that climbs out with parent references is accepted.
\<close>

theorem mountpoint_escapes_managed_root:
  "case parse_target ''data''
      [(''type'', JStr ''cifs''), (''source'', JStr ''//nas/share''), (''credentials_file'', JStr ''/c''),
       (''sentinel_id'', JStr ''ds-1''), (''mountpoint'', JStr ''/run/node/mounts/../../../etc'')]
      (path_of_string ''/run/node'') of
     Inr t \<Rightarrow> mountpoint t = PPath ''/'' [''run'', ''node'', ''mounts'', ''..'', ''..'', ''..'', ''etc'']
   | Inl _ \<Rightarrow> False"
  by code_simp

end
