(* ===== verification/Cifs_Transport.thy ===== *)
theory Cifs_Transport
  imports Config_Target
begin

text \<open>
  The CIFS transport of \<open>cifs_transport.py\<close>: the mount options and the ordered mount profiles of a target, and the
  certification of a mounted transport against the target's policy. The mount's options, and what was read from
  the kernel's debug data and statistics (after the regular expressions were applied), are inputs.
\<close>

datatype cifs_error =
    InvalidIoPolicy string
  | RawIoOptions
  | RawOwnedOptions
  | InvalidHandlePolicy string
  | InvalidMultichannelPolicy string
  | CannotCertify
  | ShareDisconnected
  | CannotCertifyDialect
  | DialectBelowMinimum string string
  | HandlesNotActive string
  | MultichannelNotActive
  | TooFewChannels
  | TelemetryUnavailable
  | DialectKeyError string

section \<open>Mount options\<close>

definition RESERVED_OPTIONS :: "string list" where
  "RESERVED_OPTIONS = [''persistenthandles'', ''resilienthandles'', ''nopersistenthandles'',
     ''noresilienthandles'', ''multichannel'', ''nomultichannel'', ''max_channels'']"

definition cifs_mount_options :: "target_config \<Rightarrow> cifs_error + string list" where
  "cifs_mount_options t =
     (let policy = effective_io_failure_policy t; names = map mount_option_name (mount_options t)
      in if policy \<noteq> ''soft'' \<and> policy \<noteq> ''hard'' then Inl (InvalidIoPolicy policy)
         else if list_ex (\<lambda>n. n = ''soft'' \<or> n = ''hard'') names then Inl RawIoOptions
         else if list_ex (\<lambda>n. n \<in> set RESERVED_OPTIONS) names then Inl RawOwnedOptions
         else Inr (policy # mount_options t))"

definition handle_choices :: "target_config \<Rightarrow> cifs_error + string option list" where
  "handle_choices t =
     (let p = handle_reconnect_policy t
      in if p = ''auto'' then Inr [Some ''persistenthandles'', Some ''resilienthandles'', None]
         else if p = ''persistent'' \<or> p = ''resilient'' then Inr [Some (p @ ''handles'')]
         else if p = ''disabled'' then Inr [None]
         else Inl (InvalidHandlePolicy p))"

definition channel_choices :: "target_config \<Rightarrow> cifs_error + string list list" where
  "channel_choices t =
     (let p = multichannel_policy t; enabled = [''multichannel'', ''max_channels='' @ show_int (max_channels t)]
      in if p = ''auto'' then Inr [enabled, []]
         else if p = ''required'' then Inr [enabled]
         else if p = ''disabled'' then Inr [[]]
         else Inl (InvalidMultichannelPolicy p))"

definition profile :: "string list \<Rightarrow> string option \<Rightarrow> string list \<Rightarrow> string list" where
  "profile base handle channels = base @ (case handle of Some h \<Rightarrow> [h] | None \<Rightarrow> []) @ channels"

fun add_profiles :: "string list list \<Rightarrow> string list list \<Rightarrow> string list list" where
  "add_profiles acc [] = acc"
| "add_profiles acc (p # ps) = add_profiles (if p \<in> set acc then acc else acc @ [p]) ps"

definition cifs_mount_profiles :: "target_config \<Rightarrow> cifs_error + string list list" where
  "cifs_mount_profiles t =
     bindE (cifs_mount_options t) (\<lambda>base.
     bindE (handle_choices t) (\<lambda>handles.
     bindE (channel_choices t) (\<lambda>channels.
     Inr (add_profiles [] (concat (map (\<lambda>h. map (profile base h) channels) handles))))))"

section \<open>Certification\<close>

definition dialect_rank :: "string \<Rightarrow> (nat \<times> nat \<times> nat) option" where
  "dialect_rank d = map_of
     [(''1.0'', (1, 0, 0)), (''2.0'', (2, 0, 0)), (''2.1'', (2, 1, 0)),
      (''3.0'', (3, 0, 0)), (''3.02'', (3, 0, 2)), (''3.1.1'', (3, 1, 1))] d"

text \<open>\<open>rstrip(",")\<close>.\<close>

definition strip_commas :: "string \<Rightarrow> string" where
  "strip_commas s = rev (dropWhile (\<lambda>c. c = CHR '','') (rev s))"

definition normalize_dialect :: "string \<Rightarrow> string" where
  "normalize_dialect s =
     (let c = strip_commas (py_lower (py_strip s))
      in case map_of [(''0x100'', ''1.0''), (''0x202'', ''2.0''), (''0x210'', ''2.1''), (''0x300'', ''3.0''),
                      (''0x302'', ''3.02''), (''0x311'', ''3.1.1''), (''3.0.2'', ''3.02''), (''smb3'', ''3.0''),
                      (''smb3.1.1'', ''3.1.1'')] c of
           Some d \<Rightarrow> d
         | None \<Rightarrow> c)"

text \<open>\<open>_normalize_unc\<close>: slashes in either direction collapsed, none at the ends, lower case.\<close>

fun collapse_slashes :: "string \<Rightarrow> string" where
  "collapse_slashes (a # b # s) =
     (if a = CHR ''/'' \<and> b = CHR ''/'' then collapse_slashes (b # s) else a # collapse_slashes (b # s))"
| "collapse_slashes s = s"

definition strip_slashes :: "string \<Rightarrow> string" where
  "strip_slashes s = rev (dropWhile (\<lambda>c. c = CHR ''/'') (rev (dropWhile (\<lambda>c. c = CHR ''/'') s)))"

definition normalize_unc :: "string \<Rightarrow> string" where
  "normalize_unc s = py_lower (strip_slashes (collapse_slashes
     (map (\<lambda>c. if c = CHR 0x5C then CHR ''/'' else c) (py_strip s))))"

fun option_value :: "string list \<Rightarrow> string \<Rightarrow> string" where
  "option_value [] n = []"
| "option_value (opt # opts) n =
     (case py_partition (CHR ''='') opt of (key, sep, v) \<Rightarrow>
        if py_lower (py_strip key) = n \<and> sep then py_strip v else option_value opts n)"

record debug_data =
  dd_dialect :: string
  dd_shares :: "(string \<times> int option) list"
  dd_allocated :: "int option"
  dd_connected :: "int option"
  dd_tcp :: "int option"

record certification =
  ct_io_policy :: string
  ct_handle_policy :: string
  ct_handle_mode :: string
  ct_multichannel_policy :: string
  ct_multichannel :: bool
  ct_observed :: bool
  ct_share_status :: "int option"
  ct_allocated :: "int option"
  ct_connected :: "int option"
  ct_tcp :: "int option"
  ct_dialect :: "string option"
  ct_session_reconnects :: "int option"
  ct_share_reconnects :: "int option"

definition initial_certification :: "target_config \<Rightarrow> certification" where
  "initial_certification t =
     \<lparr>ct_io_policy = effective_io_failure_policy t, ct_handle_policy = handle_reconnect_policy t,
      ct_handle_mode = ''disabled'', ct_multichannel_policy = multichannel_policy t, ct_multichannel = False,
      ct_observed = False, ct_share_status = None, ct_allocated = None, ct_connected = None, ct_tcp = None,
      ct_dialect = None, ct_session_reconnects = None, ct_share_reconnects = None\<rparr>"

definition strict_policy :: "target_config \<Rightarrow> bool" where
  "strict_policy t \<longleftrightarrow> minimum_smb_dialect t \<noteq> [] \<or> handle_reconnect_policy t \<in> {''persistent'', ''resilient''}
     \<or> multichannel_policy t = ''required'' \<or> require_transport_observability t"

definition matched_share :: "target_config \<Rightarrow> debug_data option \<Rightarrow> (string \<times> int option) option" where
  "matched_share t dbg = (case dbg of
       None \<Rightarrow> None
     | Some d \<Rightarrow> find (\<lambda>(s, _). normalize_unc s = normalize_unc (source t)) (dd_shares d))"

definition effective_dialect :: "string list \<Rightarrow> debug_data option \<Rightarrow> string" where
  "effective_dialect opts dbg =
     (let vers = option_value opts ''vers''; from_mount = (if vers \<noteq> [] then normalize_dialect vers else [])
      in case dbg of Some d \<Rightarrow> (if dd_dialect d \<noteq> [] then dd_dialect d else from_mount) | None \<Rightarrow> from_mount)"

definition handle_mode :: "string list \<Rightarrow> string" where
  "handle_mode names = (if ''persistenthandles'' \<in> set names then ''persistent''
     else if ''resilienthandles'' \<in> set names then ''resilient'' else ''disabled'')"

text \<open>The checks on the dialect, the handles, the channels and the telemetry, in this order.\<close>

definition check_dialect :: "string \<Rightarrow> string \<Rightarrow> cifs_error + unit" where
  "check_dialect minimum d =
     (if minimum = [] then Inr ()
      else if d = [] then Inl CannotCertifyDialect
      else case dialect_rank d of
        None \<Rightarrow> Inl (DialectBelowMinimum d minimum)
      | Some x \<Rightarrow> (case dialect_rank minimum of
            None \<Rightarrow> Inl (DialectKeyError minimum)
          | Some y \<Rightarrow> (if x < y then Inl (DialectBelowMinimum d minimum) else Inr ())))"

definition check_policy ::
  "target_config \<Rightarrow> string \<Rightarrow> string \<Rightarrow> bool \<Rightarrow> int \<Rightarrow> bool \<Rightarrow> cifs_error + unit" where
  "check_policy t dialect mode multichannel observed matched =
     bindE (check_dialect (minimum_smb_dialect t) dialect) (\<lambda>_.
      if handle_reconnect_policy t \<in> {''persistent'', ''resilient''} \<and> mode \<noteq> handle_reconnect_policy t
      then Inl (HandlesNotActive (handle_reconnect_policy t))
      else if multichannel_policy t = ''required'' \<and> \<not> multichannel then Inl MultichannelNotActive
      else if multichannel_policy t = ''required'' \<and> observed \<noteq> 0 \<and> observed < 2 then Inl TooFewChannels
      else if require_transport_observability t \<and> \<not> matched then Inl TelemetryUnavailable
      else Inr ())"

definition multichannel_active :: "string list \<Rightarrow> bool" where
  "multichannel_active names \<longleftrightarrow> ''multichannel'' \<in> set names \<or> ''max_channels'' \<in> set names"

definition debug_count :: "(debug_data \<Rightarrow> int option) \<Rightarrow> debug_data option \<Rightarrow> int option" where
  "debug_count f dbg = (case dbg of Some d \<Rightarrow> f d | None \<Rightarrow> None)"

definition observed_channels :: "debug_data option \<Rightarrow> int" where
  "observed_channels dbg = (case debug_count dd_connected dbg of
       Some n \<Rightarrow> n
     | None \<Rightarrow> (case debug_count dd_allocated dbg of Some n \<Rightarrow> n | None \<Rightarrow> 0))"

definition share_disconnected :: "target_config \<Rightarrow> debug_data option \<Rightarrow> bool" where
  "share_disconnected t dbg \<longleftrightarrow> (case matched_share t dbg of Some (_, Some st) \<Rightarrow> st = 0 | _ \<Rightarrow> False)"

definition certify_cifs_transport ::
  "target_config \<Rightarrow> string list option \<Rightarrow> debug_data option \<Rightarrow> (int \<times> int) option
     \<Rightarrow> cifs_error + certification option" where
  "certify_cifs_transport t mount dbg stats =
     (if tgt_type t \<noteq> ''cifs'' then Inr None
      else case mount of
        None \<Rightarrow> (if strict_policy t then Inl CannotCertify else Inr (Some (initial_certification t)))
      | Some opts \<Rightarrow>
          (let names = map mount_option_name opts; mode = handle_mode names;
               multichannel = multichannel_active names;
               share = matched_share t dbg; dialect = effective_dialect opts dbg
           in if share_disconnected t dbg then Inl ShareDisconnected
              else bindE (check_policy t dialect mode multichannel (observed_channels dbg) (share \<noteq> None)) (\<lambda>_.
                Inr (Some ((initial_certification t)
                  \<lparr>ct_handle_mode := mode, ct_multichannel := multichannel, ct_observed := (share \<noteq> None),
                   ct_share_status := (case share of Some (_, st) \<Rightarrow> st | None \<Rightarrow> None),
                   ct_allocated := debug_count dd_allocated dbg, ct_connected := debug_count dd_connected dbg,
                   ct_tcp := debug_count dd_tcp dbg,
                   ct_dialect := (if dialect \<noteq> [] then Some dialect else None),
                   ct_session_reconnects := map_option fst stats,
                   ct_share_reconnects := map_option snd stats\<rparr>)))))"

section \<open>Profiles\<close>

lemma set_add_profiles: "set (add_profiles acc ps) = set acc \<union> set ps"
  by (induction ps arbitrary: acc) auto

lemma distinct_add_profiles: "distinct acc \<Longrightarrow> distinct (add_profiles acc ps)"
  by (induction ps arbitrary: acc) auto

lemma hd_add_profiles: "acc \<noteq> [] \<Longrightarrow> hd (add_profiles acc ps) = hd acc"
  by (induction ps arbitrary: acc) auto

lemma policy_wf_options:
  "policy_wf t \<Longrightarrow> cifs_mount_options t = Inr (io_failure_policy t # mount_options t)"
  by (auto simp: cifs_mount_options_def policy_wf_def policy_lists effective_io_failure_policy_def
      RESERVED_OPTIONS_def list_ex_iff Let_def)

text \<open>The options a policy allows for handles and for channels.\<close>

definition handle_ok :: "target_config \<Rightarrow> string option \<Rightarrow> bool" where
  "handle_ok t h \<longleftrightarrow> (handle_reconnect_policy t = ''persistent'' \<longrightarrow> h = Some ''persistenthandles'')
     \<and> (handle_reconnect_policy t = ''resilient'' \<longrightarrow> h = Some ''resilienthandles'')
     \<and> (handle_reconnect_policy t = ''disabled'' \<longrightarrow> h = None)"

lemma check_dialect_Inr:
  "minimum = [] \<or> minimum \<in> set SMB_DIALECTS \<Longrightarrow> check_dialect minimum d = Inr () \<longleftrightarrow>
     (minimum \<noteq> [] \<longrightarrow> (\<exists>x y. dialect_rank d = Some x \<and> dialect_rank minimum = Some y \<and> y \<le> x))"
  by (cases "d = []") (auto simp: check_dialect_def dialect_rank_def SMB_DIALECTS_def split: option.splits if_splits)

lemma check_policy_Inr:
  "check_policy t d mode mc n m = Inr () \<longleftrightarrow> check_dialect (minimum_smb_dialect t) d = Inr ()
     \<and> (handle_reconnect_policy t \<in> {''persistent'', ''resilient''} \<longrightarrow> mode = handle_reconnect_policy t)
     \<and> (multichannel_policy t = ''required'' \<longrightarrow> mc \<and> (n = 0 \<or> 2 \<le> n)) \<and> (require_transport_observability t \<longrightarrow> m)"
  unfolding check_policy_def res_simps by (cases "check_dialect (minimum_smb_dialect t) d") auto

lemma certify_Inr:
  "tgt_type t = ''cifs'' \<Longrightarrow> (\<exists>c. certify_cifs_transport t (Some opts) dbg stats = Inr (Some c)) \<longleftrightarrow>
     \<not> share_disconnected t dbg
     \<and> check_policy t (effective_dialect opts dbg) (handle_mode (map mount_option_name opts))
         (multichannel_active (map mount_option_name opts)) (observed_channels dbg) (matched_share t dbg \<noteq> None) = Inr ()"
  by (simp add: certify_cifs_transport_def Let_def res_simps)

section \<open>Properties\<close>

text \<open>
  A parsed CIFS target can always be mounted: its mount profiles exist, at least one, without duplicates,
  strongest first; each starts with the configured failure policy and the operator's options; a required
  handle or channel mode is in every profile, a disabled one in none, and an automatic one is in the first and
  absent from the last.
\<close>

theorem parsed_target_profiles:
  assumes "parse_target name raw rdir = Inr t" "tgt_type t = ''cifs''"
  shows "\<exists>ps. cifs_mount_profiles t = Inr ps \<and> ps \<noteq> [] \<and> distinct ps
    \<and> (\<forall>p\<in>set ps. \<exists>h ch. p = profile (io_failure_policy t # mount_options t) h ch \<and> handle_ok t h
          \<and> (multichannel_policy t = ''required'' \<longrightarrow> ch \<noteq> []) \<and> (multichannel_policy t = ''disabled'' \<longrightarrow> ch = []))
    \<and> (handle_reconnect_policy t = ''auto'' \<longrightarrow> multichannel_policy t = ''auto'' \<longrightarrow>
         hd ps = profile (io_failure_policy t # mount_options t) (Some ''persistenthandles'')
           [''multichannel'', ''max_channels='' @ show_int (max_channels t)]
         \<and> io_failure_policy t # mount_options t \<in> set ps)"
proof -
  have wf: "policy_wf t" using assms by (rule parse_target_policy_wf)
  obtain hs where hs: "handle_choices t = Inr hs" "hs \<noteq> []" "\<forall>h\<in>set hs. handle_ok t h"
      "handle_reconnect_policy t = ''auto'' \<longrightarrow> hd hs = Some ''persistenthandles'' \<and> None \<in> set hs"
    using wf by (auto simp: policy_wf_def policy_lists handle_choices_def handle_ok_def Let_def)
  obtain cs where cs: "channel_choices t = Inr cs" "cs \<noteq> []"
      "\<forall>c\<in>set cs. (multichannel_policy t = ''required'' \<longrightarrow> c \<noteq> []) \<and> (multichannel_policy t = ''disabled'' \<longrightarrow> c = [])"
      "multichannel_policy t = ''auto'' \<longrightarrow>
         hd cs = [''multichannel'', ''max_channels='' @ show_int (max_channels t)] \<and> [] \<in> set cs"
    using wf by (auto simp: policy_wf_def policy_lists channel_choices_def Let_def)
  let ?base = "io_failure_policy t # mount_options t"
  let ?raw = "concat (map (\<lambda>h. map (profile ?base h) cs) hs)"
  obtain h0 hs' c0 cs' where h0: "hs = h0 # hs'" and c0: "cs = c0 # cs'" using hs(2) cs(2) by (cases hs; cases cs) auto
  have ps: "cifs_mount_profiles t = Inr (add_profiles [] ?raw)"
    by (simp add: cifs_mount_profiles_def policy_wf_options[OF wf] hs(1) cs(1))
  have first: "hd (add_profiles [] ?raw) = profile ?base h0 c0" "add_profiles [] ?raw \<noteq> []"
    using hd_add_profiles[of "[profile ?base h0 c0]"] set_add_profiles[of "[]" ?raw] by (auto simp: h0 c0)
  have set: "p \<in> set (add_profiles [] ?raw) \<longleftrightarrow> (\<exists>h\<in>set hs. \<exists>c\<in>set cs. p = profile ?base h c)" for p
    by (auto simp: set_add_profiles)
  have all: "\<forall>p\<in>set (add_profiles [] ?raw). \<exists>h ch. p = profile ?base h ch \<and> handle_ok t h
      \<and> (multichannel_policy t = ''required'' \<longrightarrow> ch \<noteq> []) \<and> (multichannel_policy t = ''disabled'' \<longrightarrow> ch = [])"
    using hs(3) cs(3) unfolding set Ball_def by blast
  have "?base = profile ?base None []" by (simp add: profile_def)
  then have auto: "?base \<in> set (add_profiles [] ?raw)" if "None \<in> set hs" "[] \<in> set cs"
    using that unfolding set by blast
  show ?thesis
  proof (intro exI[of _ "add_profiles [] ?raw"] conjI impI)
    assume "handle_reconnect_policy t = ''auto''" "multichannel_policy t = ''auto''"
    then have both: "None \<in> set hs" "[] \<in> set cs" "hd hs = Some ''persistenthandles''"
        "hd cs = [''multichannel'', ''max_channels='' @ show_int (max_channels t)]"
      using hs(4) cs(4) by simp_all
    then have choice: "h0 = Some ''persistenthandles''" "c0 = [''multichannel'', ''max_channels='' @ show_int (max_channels t)]"
      by (simp_all add: h0 c0)
    show "hd (add_profiles [] ?raw) = profile ?base (Some ''persistenthandles'')
        [''multichannel'', ''max_channels='' @ show_int (max_channels t)]"
      using first(1) unfolding choice(1,2) .
    show "?base \<in> set (add_profiles [] ?raw)" using auto both(1,2) .
  qed (use ps first(2) all distinct_add_profiles in simp_all)
qed

theorem parsed_target_profiles_witness:
  "\<exists>t ps. parse_target ''data'' example_table (path_of_string ''/run/node'') = Inr t
     \<and> cifs_mount_profiles t = Inr ps \<and> ps \<noteq> [] \<and> distinct ps"
proof -
  obtain t where t: "parse_target ''data'' example_table (path_of_string ''/run/node'') = Inr t" "tgt_type t = ''cifs''"
    using example_table_parses by (elim exE conjE)
  from parsed_target_profiles[OF t] t(1) show ?thesis by blast
qed


definition example_cifs :: target_config where
  "example_cifs = (default_target ''data'' ''cifs'' (path_of_string ''/mnt'') [] ''ds'')
     \<lparr>source := ''//NAS/share/'', io_failure_policy := ''hard'', minimum_smb_dialect := ''3.0'',
      handle_reconnect_policy := ''persistent'', multichannel_policy := ''required'', max_channels := 4,
      require_transport_observability := True\<rparr>"

definition example_debug :: debug_data where
  "example_debug = \<lparr>dd_dialect = [], dd_shares = [([CHR 0x5C, CHR 0x5C] @ ''nas'' @ [CHR 0x5C] @ ''share'', Some 1)],
     dd_allocated = Some 2, dd_connected = None, dd_tcp = None\<rparr>"

definition example_options :: "string list" where
  "example_options = [''rw'', ''vers=3.1.1'', ''persistenthandles'', ''max_channels=2'']"


end
