(* ===== verification/Effects.thy ===== *)
theory Effects
  imports Prelude
begin

text \<open>
  Stateful code that may raise. An operation takes the state and gives a result (\<open>Inl\<close> the exception, \<open>Inr\<close> the
  value) together with the state it leaves, also when it raises: Python keeps every effect made before the
  exception. \<open>try/except\<close> and \<open>try/finally\<close> are combinators. Properties are stated by \<open>wp\<close>, what holds after a
  normal and after an exceptional end, and by \<open>keeps\<close>, a predicate of the state no operation breaks.
\<close>

section \<open>Operations\<close>

type_synonym ('s, 'e, 'a) eff = "'s \<Rightarrow> ('e + 'a) \<times> 's"

definition returnS :: "'a \<Rightarrow> ('s, 'e, 'a) eff" where
  "returnS x s = (Inr x, s)"

definition raiseS :: "'e \<Rightarrow> ('s, 'e, 'a) eff" where
  "raiseS e s = (Inl e, s)"

definition bindS :: "('s, 'e, 'a) eff \<Rightarrow> ('a \<Rightarrow> ('s, 'e, 'b) eff) \<Rightarrow> ('s, 'e, 'b) eff" where
  "bindS m f s = (case m s of (Inl e, s') \<Rightarrow> (Inl e, s') | (Inr x, s') \<Rightarrow> f x s')"

definition getS :: "('s \<Rightarrow> 'a) \<Rightarrow> ('s, 'e, 'a) eff" where
  "getS f s = (Inr (f s), s)"

definition modS :: "('s \<Rightarrow> 's) \<Rightarrow> ('s, 'e, unit) eff" where
  "modS g s = (Inr (), g s)"

definition liftS :: "'e + 'a \<Rightarrow> ('s, 'e, 'a) eff" where
  "liftS r s = (r, s)"

definition whenS :: "bool \<Rightarrow> ('s, 'e, unit) eff \<Rightarrow> ('s, 'e, unit) eff" where
  "whenS b m = (if b then m else returnS ())"

text \<open>\<open>try: m except: h\<close> and \<open>try: m finally: f\<close>; an exception in the handler or in the clean-up replaces the first.\<close>

definition catchS :: "('s, 'e, 'a) eff \<Rightarrow> ('e \<Rightarrow> ('s, 'e, 'a) eff) \<Rightarrow> ('s, 'e, 'a) eff" where
  "catchS m h s = (case m s of (Inl e, s') \<Rightarrow> h e s' | (Inr x, s') \<Rightarrow> (Inr x, s'))"

definition finallyS :: "('s, 'e, 'a) eff \<Rightarrow> ('s, 'e, unit) eff \<Rightarrow> ('s, 'e, 'a) eff" where
  "finallyS m f s = (case m s of (r, s') \<Rightarrow>
     (case f s' of (Inl e, s'') \<Rightarrow> (Inl e, s'') | (Inr _, s'') \<Rightarrow> (r, s'')))"

primrec forS :: "('x \<Rightarrow> ('s, 'e, unit) eff) \<Rightarrow> 'x list \<Rightarrow> ('s, 'e, unit) eff" where
  "forS f [] = returnS ()"
| "forS f (x # xs) = bindS (f x) (\<lambda>_. forS f xs)"

text \<open>An operation on a part of the state, and one whose exceptions are embedded in a larger type.\<close>

definition zoomS :: "('s \<Rightarrow> 'p) \<Rightarrow> ('p \<Rightarrow> 's \<Rightarrow> 's) \<Rightarrow> ('e \<Rightarrow> 'f) \<Rightarrow> ('p, 'e, 'a) eff \<Rightarrow> ('s, 'f, 'a) eff" where
  "zoomS get put err m s = (case m (get s) of
       (Inl e, p) \<Rightarrow> (Inl (err e), put p s)
     | (Inr x, p) \<Rightarrow> (Inr x, put p s))"

section \<open>What holds after an operation\<close>

definition wp :: "('s, 'e, 'a) eff \<Rightarrow> ('a \<Rightarrow> 's \<Rightarrow> bool) \<Rightarrow> ('e \<Rightarrow> 's \<Rightarrow> bool) \<Rightarrow> 's \<Rightarrow> bool" where
  "wp m Q E s = (case m s of (Inl e, s') \<Rightarrow> E e s' | (Inr x, s') \<Rightarrow> Q x s')"

named_theorems wp_simps \<open>what holds after each combinator\<close>

lemma wp_return [wp_simps]: "wp (returnS x) Q E = Q x"
  by (simp add: fun_eq_iff wp_def returnS_def)

lemma wp_raise [wp_simps]: "wp (raiseS e) Q E = E e"
  by (simp add: fun_eq_iff wp_def raiseS_def)

lemma wp_bind [wp_simps]: "wp (bindS m f) Q E = wp m (\<lambda>x. wp (f x) Q E) E"
  by (simp add: fun_eq_iff wp_def bindS_def split: sum.split prod.split)

lemma wp_get [wp_simps]: "wp (getS f) Q E = (\<lambda>s. Q (f s) s)"
  by (simp add: fun_eq_iff wp_def getS_def)

lemma wp_mod [wp_simps]: "wp (modS g) Q E = (\<lambda>s. Q () (g s))"
  by (simp add: fun_eq_iff wp_def modS_def)

lemma wp_lift [wp_simps]: "wp (liftS r) Q E s = (case r of Inl e \<Rightarrow> E e s | Inr x \<Rightarrow> Q x s)"
  by (simp add: wp_def liftS_def)

lemma wp_if [wp_simps]: "wp (if b then m else n) Q E s = (if b then wp m Q E s else wp n Q E s)"
  by simp

lemma wp_when [wp_simps]: "wp (whenS b m) Q E s = (if b then wp m Q E s else Q () s)"
  by (simp add: whenS_def wp_simps)

lemma wp_catch [wp_simps]: "wp (catchS m h) Q E = wp m Q (\<lambda>e. wp (h e) Q E)"
  by (simp add: fun_eq_iff wp_def catchS_def split: sum.split prod.split)

lemma wp_finally [wp_simps]:
  "wp (finallyS m f) Q E = wp m (\<lambda>x. wp f (\<lambda>_. Q x) E) (\<lambda>e. wp f (\<lambda>_. E e) E)"
proof
  fix s show "wp (finallyS m f) Q E s = wp m (\<lambda>x. wp f (\<lambda>_. Q x) E) (\<lambda>e. wp f (\<lambda>_. E e) E) s"
    by (cases "m s"; cases "fst (m s)") (auto simp: wp_def finallyS_def split: sum.split prod.split)
qed

lemma wp_zoom [wp_simps]:
  "wp (zoomS get put err m) Q E s = wp m (\<lambda>x p. Q x (put p s)) (\<lambda>e p. E (err e) (put p s)) (get s)"
  by (simp add: wp_def zoomS_def split: sum.split prod.split)

lemma wp_for_Nil [wp_simps]: "wp (forS f []) Q E s = Q () s"
  by (simp add: wp_simps)

lemma wp_for_Cons: "wp (forS f (x # xs)) Q E s = wp (f x) (\<lambda>_. wp (forS f xs) Q E) E s"
  by (simp add: wp_simps)

lemma wp_mono:
  assumes "wp m Q E s" "\<And>x s'. Q x s' \<Longrightarrow> Q' x s'" "\<And>e s'. E e s' \<Longrightarrow> E' e s'"
  shows "wp m Q' E' s"
  using assms by (auto simp: wp_def split: sum.splits prod.splits)

lemma wp_seq: "wp m R E s \<Longrightarrow> (\<And>x s'. R x s' \<Longrightarrow> wp (f x) Q E s') \<Longrightarrow> wp (bindS m f) Q E s"
  unfolding wp_bind by (rule wp_mono)

lemma wp_conj: "wp m Q E s \<Longrightarrow> wp m Q' E' s \<Longrightarrow> wp m (\<lambda>x s'. Q x s' \<and> Q' x s') (\<lambda>e s'. E e s' \<and> E' e s') s"
  by (simp add: wp_def split: sum.splits prod.splits)

lemma wp_run: "wp m Q E s \<longleftrightarrow> (\<forall>x s'. m s = (Inr x, s') \<longrightarrow> Q x s') \<and> (\<forall>e s'. m s = (Inl e, s') \<longrightarrow> E e s')"
  by (auto simp: wp_def split: sum.splits prod.splits)

lemma wp_Inr: "wp m Q E s \<Longrightarrow> m s = (Inr x, s') \<Longrightarrow> Q x s'"
  by (simp add: wp_def)

lemma wp_Inl: "wp m Q E s \<Longrightarrow> m s = (Inl e, s') \<Longrightarrow> E e s'"
  by (simp add: wp_def)

text \<open>A loop keeps what its body keeps.\<close>

lemma wp_for_inv:
  assumes "\<And>x s. x \<in> set xs \<Longrightarrow> I s \<Longrightarrow> wp (f x) (\<lambda>_. I) E s" "I s"
  shows "wp (forS f xs) (\<lambda>_. I) E s"
  using assms
proof (induction xs arbitrary: s)
  case (Cons x xs)
  show ?case unfolding wp_for_Cons
    by (rule wp_mono[OF Cons.prems(1)[of x s]]) (use Cons in auto)
qed (simp add: wp_simps)

section \<open>Predicates no operation breaks\<close>

definition keeps :: "('s \<Rightarrow> bool) \<Rightarrow> ('s, 'e, 'a) eff \<Rightarrow> bool" where
  "keeps I m \<longleftrightarrow> (\<forall>s. I s \<longrightarrow> wp m (\<lambda>_. I) (\<lambda>_. I) s)"

named_theorems keeps_intros \<open>predicates kept by each combinator\<close>

lemma keepsD: "keeps I m \<Longrightarrow> I s \<Longrightarrow> wp m (\<lambda>_. I) (\<lambda>_. I) s"
  by (simp add: keeps_def)

lemma keeps_run: "keeps I m \<Longrightarrow> I s \<Longrightarrow> I (snd (m s))"
  by (cases "m s") (auto simp: keeps_def wp_def split: sum.splits prod.splits)

lemma keepsI: "(\<And>s. I s \<Longrightarrow> I (snd (m s))) \<Longrightarrow> keeps I m"
  unfolding keeps_def wp_def by (metis (mono_tags) case_prod_beta sum.case_eq_if)

lemma keeps_return [keeps_intros]: "keeps I (returnS x)"
  and keeps_raise [keeps_intros]: "keeps I (raiseS e)"
  and keeps_get [keeps_intros]: "keeps I (getS f)"
  and keeps_lift [keeps_intros]: "keeps I (liftS r)"
  by (auto simp: keeps_def wp_simps split: sum.splits)

lemma keeps_mod: "(\<And>s. I s \<Longrightarrow> I (g s)) \<Longrightarrow> keeps I (modS g)"
  by (simp add: keeps_def wp_simps)

lemma keeps_bind [keeps_intros]:
  assumes "keeps I m" "\<And>x. keeps I (f x)"
  shows "keeps I (bindS m f)"
  unfolding keeps_def wp_bind
proof (intro allI impI)
  fix s assume "I s"
  then have "wp m (\<lambda>_. I) (\<lambda>_. I) s" by (rule keepsD[OF assms(1)])
  then show "wp m (\<lambda>x. wp (f x) (\<lambda>_. I) (\<lambda>_. I)) (\<lambda>_. I) s" by (rule wp_mono) (use assms(2) in \<open>auto dest: keepsD\<close>)
qed

lemma keeps_if [keeps_intros]: "keeps I m \<Longrightarrow> keeps I n \<Longrightarrow> keeps I (if b then m else n)"
  by simp

lemma keeps_when [keeps_intros]: "keeps I m \<Longrightarrow> keeps I (whenS b m)"
  by (simp add: whenS_def keeps_return)

lemma keeps_catch [keeps_intros]:
  assumes "keeps I m" "\<And>e. keeps I (h e)"
  shows "keeps I (catchS m h)"
  unfolding keeps_def wp_catch
proof (intro allI impI)
  fix s assume "I s"
  then have "wp m (\<lambda>_. I) (\<lambda>_. I) s" by (rule keepsD[OF assms(1)])
  then show "wp m (\<lambda>_. I) (\<lambda>e. wp (h e) (\<lambda>_. I) (\<lambda>_. I)) s" by (rule wp_mono) (use assms(2) in \<open>auto dest: keepsD\<close>)
qed

lemma keeps_finally [keeps_intros]:
  assumes "keeps I m" "keeps I f"
  shows "keeps I (finallyS m f)"
  unfolding keeps_def wp_finally
proof (intro allI impI)
  fix s assume "I s"
  then have "wp m (\<lambda>_. I) (\<lambda>_. I) s" by (rule keepsD[OF assms(1)])
  then show "wp m (\<lambda>x. wp f (\<lambda>_. I) (\<lambda>_. I)) (\<lambda>e. wp f (\<lambda>_. I) (\<lambda>_. I)) s"
    by (rule wp_mono) (use assms(2) in \<open>auto dest: keepsD\<close>)
qed

lemma keeps_for [keeps_intros]: "(\<And>x. keeps I (f x)) \<Longrightarrow> keeps I (forS f xs)"
  by (induction xs) (auto intro: keeps_intros)

lemma keeps_case_option [keeps_intros]:
  "(\<And>x. v = Some x \<Longrightarrow> keeps I (f x)) \<Longrightarrow> (v = None \<Longrightarrow> keeps I m) \<Longrightarrow> keeps I (case v of Some x \<Rightarrow> f x | None \<Rightarrow> m)"
  by (cases v) auto

lemma keeps_case_prod [keeps_intros]:
  "(\<And>x y. keeps I (f x y)) \<Longrightarrow> keeps I (case v of (x, y) \<Rightarrow> f x y)"
  by (cases v) auto

lemma keeps_case_sum [keeps_intros]:
  "(\<And>x. keeps I (f x)) \<Longrightarrow> (\<And>x. keeps I (g x)) \<Longrightarrow> keeps I (case v of Inl x \<Rightarrow> f x | Inr x \<Rightarrow> g x)"
  by (cases v) auto

lemma keeps_Let [keeps_intros]: "(\<And>x. keeps I (f x)) \<Longrightarrow> keeps I (let x = v in f x)"
  by simp

lemma keeps_zoom:
  assumes "\<And>s. I s \<Longrightarrow> J s (get s)" "\<And>s. I s \<Longrightarrow> keeps (J s) m" "\<And>s p. I s \<Longrightarrow> J s p \<Longrightarrow> I (put p s)"
  shows "keeps I (zoomS get put err m)"
  unfolding keeps_def wp_zoom
proof (intro allI impI)
  fix s assume s: "I s"
  have "wp m (\<lambda>_. J s) (\<lambda>_. J s) (get s)" by (rule keepsD[OF assms(2)[OF s] assms(1)[OF s]])
  then show "wp m (\<lambda>x p. I (put p s)) (\<lambda>e p. I (put p s)) (get s)"
    by (rule wp_mono) (use assms(3)[OF s] in auto)
qed

end
