(* ===== verification/Processes.thy ===== *)
theory Processes
  imports Effects
begin

text \<open>
  The operating system as the program sees it, and the supervised processes of \<open>processes.py\<close>. Every interaction
  is an event of a trace; what the system answers (exit codes, whether a process has ended, the clock) is a
  function of the trace so far, so that any sequence of answers is possible and two equal questions may be
  answered differently.
\<close>

section \<open>The operating system\<close>

datatype sig = SIGTERM | SIGKILL

datatype os_event =
    ERun "string list"
  | ESpawn "string list"
  | EPoll int
  | EKill int sig
  | EWait int
  | EClock
  | ESleep rat
  | EAsk string
  | ENote string

record os_state =
  trace :: "os_event list"

text \<open>A command run to its end: exit code, standard error and standard output, or the timeout.\<close>

datatype run_result = Completed int string string | RunTimeout

record os_env =
  run_result :: "os_event list \<Rightarrow> string list \<Rightarrow> run_result"
  spawn :: "os_event list \<Rightarrow> string list \<Rightarrow> string + int"
  poll_code :: "os_event list \<Rightarrow> int \<Rightarrow> int option"
  kill_found :: "os_event list \<Rightarrow> int \<Rightarrow> bool"
  wait_ends :: "os_event list \<Rightarrow> int \<Rightarrow> bool"
  clock :: "os_event list \<Rightarrow> rat"
  asked :: "os_event list \<Rightarrow> string \<Rightarrow> bool"

definition askS :: "os_event \<Rightarrow> (os_event list \<Rightarrow> 'r) \<Rightarrow> ('z os_state_scheme, 'e, 'r) eff" where
  "askS ev answer s = (Inr (answer (trace s)), s\<lparr>trace := trace s @ [ev]\<rparr>)"

definition poll :: "os_env \<Rightarrow> int \<Rightarrow> ('z os_state_scheme, 'e, int option) eff" where
  "poll env pid = askS (EPoll pid) (\<lambda>tr. poll_code env tr pid)"

definition monotonic :: "os_env \<Rightarrow> ('z os_state_scheme, 'e, rat) eff" where
  "monotonic env = askS EClock (clock env)"

text \<open>\<open>os.killpg\<close>: whether the process was still there.\<close>

definition killpg :: "os_env \<Rightarrow> int \<Rightarrow> sig \<Rightarrow> ('z os_state_scheme, 'e, bool) eff" where
  "killpg env pid sg = askS (EKill pid sg) (\<lambda>tr. kill_found env tr pid)"

definition wait_exit :: "os_env \<Rightarrow> int \<Rightarrow> ('z os_state_scheme, 'e, bool) eff" where
  "wait_exit env pid = askS (EWait pid) (\<lambda>tr. wait_ends env tr pid)"

definition ask :: "os_env \<Rightarrow> string \<Rightarrow> ('z os_state_scheme, 'e, bool) eff" where
  "ask env q = askS (EAsk q) (\<lambda>tr. asked env tr q)"

definition popen :: "os_env \<Rightarrow> (string \<Rightarrow> 'e) \<Rightarrow> string list \<Rightarrow> ('z os_state_scheme, 'e, int) eff" where
  "popen env err cmd = bindS (askS (ESpawn cmd) (\<lambda>tr. spawn env tr cmd)) (\<lambda>r.
     case r of Inl e \<Rightarrow> raiseS (err e) | Inr pid \<Rightarrow> returnS pid)"

lemma wp_ask [wp_simps]: "wp (askS ev f) Q E s = Q (f (trace s)) (s\<lparr>trace := trace s @ [ev]\<rparr>)"
  by (simp add: wp_def askS_def)

lemmas os_defs = poll_def monotonic_def killpg_def wait_exit_def ask_def

lemma wp_popen [wp_simps]:
  "wp (popen env err cmd) Q E s = (case spawn env (trace s) cmd of
       Inl e \<Rightarrow> E (err e) (s\<lparr>trace := trace s @ [ESpawn cmd]\<rparr>)
     | Inr pid \<Rightarrow> Q pid (s\<lparr>trace := trace s @ [ESpawn cmd]\<rparr>))"
  by (simp add: popen_def wp_simps split: sum.split)

text \<open>What is known of \<open>time.monotonic\<close> and \<open>time.sleep\<close>: the clock does not go back, and a sleep takes at least the time
  asked for.\<close>

definition sleeps :: "'z os_env_scheme \<Rightarrow> bool" where
  "sleeps env \<longleftrightarrow> (\<forall>tr ev. clock env tr \<le> clock env (tr @ [ev])) \<and> (\<forall>tr d. clock env tr + d \<le> clock env (tr @ [ESleep d]))"

lemma sleeps_append: "sleeps env \<Longrightarrow> clock env tr \<le> clock env (tr @ tr')"
proof (induction tr' rule: rev_induct)
  case (snoc e tr')
  then have "clock env (tr @ tr') \<le> clock env ((tr @ tr') @ [e])" unfolding sleeps_def by blast
  with snoc show ?case by simp
qed simp

section \<open>Supervised processes\<close>

datatype process_error = ProcessError string | SpawnError string

record managed_process =
  mp_name :: string
  mp_command :: "string list"
  mp_uid :: "int option"
  mp_gid :: "int option"
  mp_cwd :: "string option"
  mp_process :: "int option"

definition running :: "os_env \<Rightarrow> managed_process \<Rightarrow> ('z os_state_scheme, 'e, bool) eff" where
  "running env p = (case mp_process p of
       None \<Rightarrow> returnS False
     | Some pid \<Rightarrow> bindS (poll env pid) (\<lambda>c. returnS (c = None)))"

definition exit_code :: "os_env \<Rightarrow> managed_process \<Rightarrow> ('z os_state_scheme, 'e, int option) eff" where
  "exit_code env p = (case mp_process p of None \<Rightarrow> returnS None | Some pid \<Rightarrow> poll env pid)"

text \<open>\<open>start\<close> gives the process object with its handle.\<close>

definition start_process ::
  "os_env \<Rightarrow> (string \<Rightarrow> 'e) \<Rightarrow> managed_process \<Rightarrow> ('z os_state_scheme, 'e, managed_process) eff" where
  "start_process env err p =
     bindS (running env p) (\<lambda>r.
       if r then returnS p
       else bindS (popen env err (mp_command p)) (\<lambda>pid. returnS (p\<lparr>mp_process := Some pid\<rparr>)))"

text \<open>\<open>stop_until\<close>: the deadline only bounds the waiting, which the system answers; the result says whether the
  process is gone.\<close>

definition stop_until :: "os_env \<Rightarrow> managed_process \<Rightarrow> ('z os_state_scheme, 'e, bool) eff" where
  "stop_until env p = (case mp_process p of
       None \<Rightarrow> returnS True
     | Some pid \<Rightarrow>
         bindS (poll env pid) (\<lambda>c.
         if c \<noteq> None then returnS True
         else bindS (killpg env pid SIGTERM) (\<lambda>found.
           if \<not> found then returnS True
           else bindS (monotonic env) (\<lambda>_.
             bindS (wait_exit env pid) (\<lambda>ended.
             if ended then returnS True
             else bindS (killpg env pid SIGKILL) (\<lambda>_.
               bindS (monotonic env) (\<lambda>_. wait_exit env pid)))))))"

definition code_text :: "int option \<Rightarrow> string" where
  "code_text c = (case c of None \<Rightarrow> ''None'' | Some n \<Rightarrow> show_int n)"

definition exited_error :: "os_env \<Rightarrow> (process_error \<Rightarrow> 'e) \<Rightarrow> managed_process \<Rightarrow> ('z os_state_scheme, 'e, 'a) eff" where
  "exited_error env err p = bindS (exit_code env p) (\<lambda>c.
     raiseS (err (ProcessError (mp_name p @ '' exited with code '' @ code_text c))))"

text \<open>\<open>wait_for_tcp\<close>: \<open>fuel\<close> bounds the rounds of the loop. A round that finds no connection sleeps for a quarter of
  a second, so a loop of \<open>timeout\<close> seconds has at most four rounds a second.\<close>

primrec wait_for_tcp_rounds ::
  "nat \<Rightarrow> os_env \<Rightarrow> (process_error \<Rightarrow> 'e) \<Rightarrow> string \<Rightarrow> rat \<Rightarrow> managed_process \<Rightarrow> ('z os_state_scheme, 'e, unit) eff" where
  "wait_for_tcp_rounds 0 env err endpoint deadline p =
     raiseS (err (ProcessError (''timed out waiting for '' @ endpoint)))"
| "wait_for_tcp_rounds (Suc fuel) env err endpoint deadline p =
     bindS (monotonic env) (\<lambda>t.
     if t < deadline then
       bindS (running env p) (\<lambda>alive.
       if \<not> alive then exited_error env err p
       else bindS (ask env endpoint) (\<lambda>connected.
         if connected then returnS ()
         else bindS (askS (ESleep (1 / 4)) (\<lambda>_. ())) (\<lambda>_. wait_for_tcp_rounds fuel env err endpoint deadline p)))
     else raiseS (err (ProcessError (''timed out waiting for '' @ endpoint))))"

definition wait_for_tcp ::
  "os_env \<Rightarrow> (process_error \<Rightarrow> 'e) \<Rightarrow> string \<Rightarrow> int \<Rightarrow> int \<Rightarrow> managed_process \<Rightarrow> ('z os_state_scheme, 'e, unit) eff" where
  "wait_for_tcp env err host port timeout p =
     bindS (monotonic env) (\<lambda>t.
       wait_for_tcp_rounds (nat (4 * timeout) + 1) env err (host @ '':'' @ show_int port) (t + of_int timeout) p)"

section \<open>The rounds of \<open>wait_for_tcp\<close> are enough\<close>

text \<open>A round that does not end the loop takes a quarter of a second.\<close>

definition tcp_round :: "os_env \<Rightarrow> (process_error \<Rightarrow> 'e) \<Rightarrow> string \<Rightarrow> rat \<Rightarrow> managed_process \<Rightarrow>
    ('z os_state_scheme, 'e, unit) eff \<Rightarrow> ('z os_state_scheme, 'e, unit) eff" where
  "tcp_round env err endpoint deadline p again =
     bindS (monotonic env) (\<lambda>t.
     if t < deadline then
       bindS (running env p) (\<lambda>alive.
       if \<not> alive then exited_error env err p
       else bindS (ask env endpoint) (\<lambda>connected.
         if connected then returnS () else bindS (askS (ESleep (1 / 4)) (\<lambda>_. ())) (\<lambda>_. again)))
     else raiseS (err (ProcessError (''timed out waiting for '' @ endpoint))))"

lemma tcp_round_cong:
  assumes "\<And>evs. again (s\<lparr>trace := (trace s @ evs) @ [ESleep (1 / 4)]\<rparr>) = again' (s\<lparr>trace := (trace s @ evs) @ [ESleep (1 / 4)]\<rparr>)"
  shows "tcp_round env err endpoint deadline p again s = tcp_round env err endpoint deadline p again' s"
  using assms[of "[EClock, EAsk endpoint]"] assms[of "[EClock, EPoll _, EAsk endpoint]"]
  by (simp add: tcp_round_def running_def os_defs bindS_def askS_def returnS_def split: option.split)

lemma wait_for_tcp_round: "wait_for_tcp_rounds (Suc n) env err endpoint deadline p
    = tcp_round env err endpoint deadline p (wait_for_tcp_rounds n env err endpoint deadline p)"
  by (simp add: tcp_round_def)

lemma wait_for_tcp_more:
  assumes "sleeps env" "deadline \<le> clock env (trace s) + of_nat n / 4"
  shows "wait_for_tcp_rounds (Suc (n + k)) env err endpoint deadline p s = wait_for_tcp_rounds (Suc n) env err endpoint deadline p s"
  using assms(2)
proof (induction n arbitrary: s)
  case 0
  then show ?case by (simp add: bindS_def monotonic_def askS_def)
next
  case (Suc n)
  have "wait_for_tcp_rounds (Suc (n + k)) env err endpoint deadline p (s\<lparr>trace := (trace s @ evs) @ [ESleep (1 / 4)]\<rparr>)
      = wait_for_tcp_rounds (Suc n) env err endpoint deadline p (s\<lparr>trace := (trace s @ evs) @ [ESleep (1 / 4)]\<rparr>)" for evs
  proof (rule Suc.IH)
    have "clock env (trace s) \<le> clock env (trace s @ evs)" using assms(1) by (rule sleeps_append)
    moreover have "clock env (trace s @ evs) + 1 / 4 \<le> clock env ((trace s @ evs) @ [ESleep (1 / 4)])"
      using assms(1) unfolding sleeps_def by blast
    ultimately show "deadline \<le> clock env (trace (s\<lparr>trace := (trace s @ evs) @ [ESleep (1 / 4)]\<rparr>)) + of_nat n / 4"
      using Suc.prems by (simp add: field_simps)
  qed
  then show ?case unfolding wait_for_tcp_round[of "Suc n"] add_Suc wait_for_tcp_round[of "Suc (n + k)"] by (rule tcp_round_cong)
qed

end
