(* ===== verification/Worker_Generation.thy ===== *)
theory Worker_Generation
  imports Processes Py_Path
begin

text \<open>
  Worker generations of \<open>generation.py\<close>: the numbered generations of \<open>GenerationFactory\<close>, the namespace a
  generation runs in, its resolver, the commands that enter it, and its fence: deleting the host side of the
  network link. The address arithmetic of Python's \<open>ipaddress\<close> module is a parameter, since how it prints
  an address differs between the supported versions.
\<close>

section \<open>State\<close>

datatype gen_error = GenerationError string | AddressValueError string | GenOSError string

record gen_doc =
  gd_generation :: int
  gd_token :: string
  gd_mode :: string
  gd_state :: string
  gd_namespace_pid :: "int option"
  gd_worker_ip :: string
  gd_fenced :: bool
  gd_fence_reason :: string

record gen_state = os_state +
  generation :: int
  token :: string
  mode :: string
  gen_dir :: ppath
  host_address :: string
  gen_worker_address :: string
  gateway :: string
  keeper :: "int option"
  dns_proxy :: "int option"
  fenced :: bool
  fence_reason :: string
  gen_file :: "gen_doc option"
  worker_resolv :: "string option"

type_synonym 'a gen = "(gen_state, gen_error, 'a) eff"

text \<open>\<open>ip_address\<close> gives the text of a parsed address; \<open>ip_interface\<close> gives the texts of the address and of its
  network. The resolver configuration is its text or the error of reading it.\<close>

record gen_env = os_env +
  ip_address :: "string \<Rightarrow> string option"
  ip_interface :: "string \<Rightarrow> (string \<times> string) option"
  resolver_text :: "string + string"
  forwarding :: "os_event list \<Rightarrow> string + string"
  forwarding_write :: "string option"
  executable :: string
  child_stderr :: "int \<Rightarrow> string"

definition HOST_LINK :: string where "HOST_LINK = ''s3g-host''"
definition PEER_LINK :: string where "PEER_LINK = ''s3g-peer''"

section \<open>Resolver\<close>

definition namespace_visible_command :: "string list \<Rightarrow> string list" where
  "namespace_visible_command cmd =
     map (\<lambda>a. if a = ''-ip.bind=127.0.0.1'' then ''-ip.bind=0.0.0.0'' else a) cmd"

definition resolver_path :: string where "resolver_path = ''/etc/resolv.conf''"

definition nameserver_line :: "gen_env \<Rightarrow> string \<Rightarrow> string list \<Rightarrow> gen_error + string list" where
  "nameserver_line env line found = (case py_split line of
       [] \<Rightarrow> Inr found
     | w # ws \<Rightarrow>
         (if w \<noteq> ''nameserver'' then Inr found
          else case ws of
            [] \<Rightarrow> Inl (GenerationError (''invalid nameserver line in '' @ resolver_path @ '': '' @ py_repr_string line))
          | a # _ \<Rightarrow> (case ip_address env a of
                None \<Rightarrow> Inl (GenerationError (''invalid nameserver address in '' @ resolver_path @ '': '' @ py_repr_string a))
              | Some ip \<Rightarrow> Inr (if ip \<in> set found then found else found @ [ip]))))"

definition resolver_nameservers :: "gen_env \<Rightarrow> gen_error + string list" where
  "resolver_nameservers env = (case resolver_text env of
       Inl e \<Rightarrow> Inl (GenerationError (''unable to read resolver configuration '' @ resolver_path @ '': '' @ e))
     | Inr text \<Rightarrow>
         bindE (foldE (nameserver_line env) (py_splitlines text) []) (\<lambda>found.
         if found = [] then Inl (GenerationError (''resolver configuration '' @ resolver_path @ '' contains no nameserver entries''))
         else Inr found))"

definition preserved_lines :: "string \<Rightarrow> string list" where
  "preserved_lines text =
     filter (\<lambda>l. l \<noteq> [] \<and> \<not> py_startswith l ''#'' \<and> hd (py_split l) \<in> {''search'', ''domain'', ''options''})
       (map py_strip (py_splitlines text))"

definition render_worker_resolv_conf :: "gen_env \<Rightarrow> string \<Rightarrow> gen_error + string" where
  "render_worker_resolv_conf env gw = (case resolver_text env of
       Inl e \<Rightarrow> Inl (GenerationError (''unable to read resolver configuration '' @ resolver_path @ '': '' @ e))
     | Inr text \<Rightarrow> (case ip_address env gw of
           None \<Rightarrow> Inl (GenerationError (''invalid worker DNS gateway: '' @ py_repr_string gw))
         | Some ip \<Rightarrow> Inr (concat (map (\<lambda>l. l @ [CHR 0x0A]) ((''nameserver '' @ ip) # preserved_lines text)))))"

section \<open>Commands\<close>

definition gen_run :: "gen_env \<Rightarrow> string list \<Rightarrow> run_result gen" where
  "gen_run env cmd = askS (ERun cmd) (\<lambda>tr. run_result env tr cmd)"

definition returncode :: "run_result \<Rightarrow> int" where
  "returncode r = (case r of Completed c _ _ \<Rightarrow> c | RunTimeout \<Rightarrow> -1)"

text \<open>\<open>_run\<close>: the error carries what the command printed. These commands have no timeout.\<close>

definition failure_message :: "run_result \<Rightarrow> string" where
  "failure_message r = (case r of
       Completed c err out \<Rightarrow> (if py_strip err \<noteq> [] then py_strip err else if py_strip out \<noteq> [] then py_strip out
                               else ''exit code '' @ show_int c)
     | RunTimeout \<Rightarrow> [])"

definition run_command :: "gen_env \<Rightarrow> string list \<Rightarrow> unit gen" where
  "run_command env cmd = bindS (gen_run env cmd) (\<lambda>r.
     if returncode r \<noteq> 0
     then raiseS (GenerationError (''command failed: '' @ py_join '' '' cmd @ '': '' @ failure_message r))
     else returnS ())"

definition ensure_iptables :: "gen_env \<Rightarrow> string list \<Rightarrow> string list \<Rightarrow> unit gen" where
  "ensure_iptables env check_args add_args =
     bindS (gen_run env ([''iptables'', ''-w''] @ check_args)) (\<lambda>checked.
       whenS (returncode checked \<noteq> 0) (run_command env ([''iptables'', ''-w''] @ add_args)))"

definition ensure_ip_forwarding :: "gen_env \<Rightarrow> unit gen" where
  "ensure_ip_forwarding env =
     bindS (askS (EAsk ''ip_forward'') (forwarding env)) (\<lambda>current. case current of
       Inl e \<Rightarrow> raiseS (GenerationError (''unable to inspect namespace forwarding: '' @ e))
     | Inr text \<Rightarrow>
         (if py_strip text = ''1'' then returnS ()
          else case forwarding_write env of
            Some e \<Rightarrow> raiseS (GenerationError (''unable to enable namespace forwarding: '' @ e))
          | None \<Rightarrow>
              bindS (askS (ENote ''ip_forward=1'') (\<lambda>_. ())) (\<lambda>_.
              bindS (askS (EAsk ''ip_forward'') (forwarding env)) (\<lambda>after. case after of
                Inl e \<Rightarrow> raiseS (GenerationError (''unable to verify namespace forwarding: '' @ e))
              | Inr text' \<Rightarrow>
                  (if py_strip text' \<noteq> ''1''
                   then raiseS (GenerationError (''namespace forwarding remained disabled after update: ''
                          @ py_repr_string (py_strip text')))
                   else returnS ())))))"

section \<open>The generation document\<close>

definition worker_ip :: "gen_env \<Rightarrow> gen_state \<Rightarrow> gen_error + string" where
  "worker_ip env s = (if mode s \<noteq> ''namespace'' then Inr ''127.0.0.1''
     else case ip_interface env (gen_worker_address s) of
       None \<Rightarrow> Inl (AddressValueError (gen_worker_address s))
     | Some (ip, _) \<Rightarrow> Inr ip)"

definition persist_doc :: "gen_env \<Rightarrow> string \<Rightarrow> unit gen" where
  "persist_doc env st =
     bindS (getS (worker_ip env)) (\<lambda>r.
     bindS (liftS r) (\<lambda>ip.
     modS (\<lambda>s. s\<lparr>gen_file := Some
       \<lparr>gd_generation = generation s, gd_token = token s, gd_mode = mode s, gd_state = st,
        gd_namespace_pid = keeper s, gd_worker_ip = ip, gd_fenced = fenced s, gd_fence_reason = fence_reason s\<rparr>\<rparr>)))"

section \<open>Stopping the helpers\<close>

text \<open>Both helpers are stopped alike: nothing for one that has ended, else \<open>SIGTERM\<close> and, if it is not found or does
  not end in time, \<open>SIGKILL\<close>.\<close>

definition stop_group :: "gen_env \<Rightarrow> int \<Rightarrow> unit gen" where
  "stop_group env pid =
     bindS (askS (EPoll pid) (\<lambda>tr. poll_code env tr pid)) (\<lambda>c.
     if c \<noteq> None then returnS ()
     else bindS (askS (EKill pid SIGTERM) (\<lambda>tr. kill_found env tr pid)) (\<lambda>found.
       bindS (if found then askS (EWait pid) (\<lambda>tr. wait_ends env tr pid) else returnS False) (\<lambda>ended.
       if ended then returnS ()
       else bindS (askS (EKill pid SIGKILL) (\<lambda>_. ())) (\<lambda>_. askS (EWait pid) (\<lambda>_. ())))))"

definition stop_dns_proxy :: "gen_env \<Rightarrow> unit gen" where
  "stop_dns_proxy env =
     bindS (getS dns_proxy) (\<lambda>proxy.
     bindS (modS (\<lambda>s. s\<lparr>dns_proxy := None\<rparr>)) (\<lambda>_.
     case proxy of None \<Rightarrow> returnS () | Some pid \<Rightarrow> stop_group env pid))"

definition stop_keeper :: "gen_env \<Rightarrow> unit gen" where
  "stop_keeper env =
     bindS (getS keeper) (\<lambda>k.
     bindS (modS (\<lambda>s. s\<lparr>keeper := None\<rparr>)) (\<lambda>_.
     case k of None \<Rightarrow> returnS () | Some pid \<Rightarrow> stop_group env pid))"

section \<open>Fencing\<close>

definition link_del :: "string list" where "link_del = [''ip'', ''link'', ''del'', HOST_LINK]"
definition link_show :: "string list" where "link_show = [''ip'', ''link'', ''show'', HOST_LINK]"

definition fence :: "gen_env \<Rightarrow> string \<Rightarrow> unit gen" where
  "fence env reason =
     bindS (getS fenced) (\<lambda>already.
     if already then returnS ()
     else
       bindS (getS mode) (\<lambda>m.
       bindS (whenS (m = ''namespace'')
         (bindS (gen_run env link_del) (\<lambda>_.
          bindS (gen_run env link_show) (\<lambda>remaining.
          bindS (getS generation) (\<lambda>g.
          if returncode remaining = 0
          then raiseS (GenerationError (''failed to fence worker generation '' @ show_int g @ '': '' @ HOST_LINK
                 @ '' still exists''))
          else stop_dns_proxy env))))) (\<lambda>_.
       bindS (modS (\<lambda>s. s\<lparr>fenced := True, fence_reason := reason\<rparr>)) (\<lambda>_. persist_doc env ''fenced''))))"

definition stop_helpers :: "gen_env \<Rightarrow> unit gen" where
  "stop_helpers env = bindS (stop_dns_proxy env) (\<lambda>_. stop_keeper env)"

definition retire :: "gen_env \<Rightarrow> unit gen" where
  "retire env =
     bindS (getS fence_reason) (\<lambda>r.
     bindS (finallyS (fence env (if r \<noteq> [] then r else ''generation retired''))
              (stop_helpers env)) (\<lambda>_.
     persist_doc env ''retired''))"

section \<open>Starting\<close>

definition configure_network :: "gen_env \<Rightarrow> unit gen" where
  "configure_network env =
     bindS (getS keeper) (\<lambda>k. case k of
       None \<Rightarrow> raiseS (GenerationError ''worker namespace is not running'')
     | Some pid \<Rightarrow>
       bindS (getS host_address) (\<lambda>ha.
       bindS (getS gen_worker_address) (\<lambda>wa.
       bindS (getS gateway) (\<lambda>gw.
       case ip_interface env ha of None \<Rightarrow> raiseS (AddressValueError ha)
       | Some (_, subnet) \<Rightarrow>
       (case ip_interface env wa of None \<Rightarrow> raiseS (AddressValueError wa)
       | Some (_, subnet') \<Rightarrow>
         if subnet \<noteq> subnet'
         then raiseS (GenerationError ''worker host and namespace addresses must share one subnet'')
         else
           let prefix = [''nsenter'', ''--target'', show_int pid, ''--net'', ''--''];
               established = [''FORWARD'', ''-o'', HOST_LINK, ''-m'', ''conntrack'', ''--ctstate'', ''RELATED,ESTABLISHED'', ''-j'', ''ACCEPT'']
           in bindS (gen_run env link_del) (\<lambda>_.
              bindS (forS (run_command env)
                [[''ip'', ''link'', ''add'', HOST_LINK, ''type'', ''veth'', ''peer'', ''name'', PEER_LINK],
                 [''ip'', ''addr'', ''add'', ha, ''dev'', HOST_LINK],
                 [''ip'', ''link'', ''set'', HOST_LINK, ''up''],
                 [''ip'', ''link'', ''set'', PEER_LINK, ''netns'', show_int pid],
                 prefix @ [''ip'', ''link'', ''set'', ''lo'', ''up''],
                 prefix @ [''ip'', ''addr'', ''add'', wa, ''dev'', PEER_LINK],
                 prefix @ [''ip'', ''link'', ''set'', PEER_LINK, ''up''],
                 prefix @ [''ip'', ''route'', ''replace'', ''default'', ''via'', gw]]) (\<lambda>_.
              bindS (ensure_ip_forwarding env) (\<lambda>_.
              bindS (ensure_iptables env
                [''-t'', ''nat'', ''-C'', ''POSTROUTING'', ''-s'', subnet, ''-j'', ''MASQUERADE'']
                [''-t'', ''nat'', ''-A'', ''POSTROUTING'', ''-s'', subnet, ''-j'', ''MASQUERADE'']) (\<lambda>_.
              bindS (ensure_iptables env
                [''-C'', ''FORWARD'', ''-i'', HOST_LINK, ''-j'', ''ACCEPT'']
                [''-A'', ''FORWARD'', ''-i'', HOST_LINK, ''-j'', ''ACCEPT'']) (\<lambda>_.
              ensure_iptables env (''-C'' # established) (''-A'' # established)))))))))))"

text \<open>The two waiting loops poll every twentieth of a second for five seconds: at most a hundred rounds.\<close>

definition STARTUP_ROUNDS :: nat where "STARTUP_ROUNDS = 101"

primrec await_proxy :: "nat \<Rightarrow> gen_env \<Rightarrow> int \<Rightarrow> rat \<Rightarrow> unit gen" where
  "await_proxy 0 env pid deadline =
     bindS (stop_dns_proxy env) (\<lambda>_. raiseS (GenerationError ''timed out starting worker DNS proxy''))"
| "await_proxy (Suc n) env pid deadline =
     bindS (askS EClock (clock env)) (\<lambda>t.
     if t < deadline then
       bindS (askS (EAsk ''dns-proxy.ready'') (\<lambda>tr. asked env tr ''dns-proxy.ready'')) (\<lambda>ready.
       if ready then returnS ()
       else bindS (askS (EPoll pid) (\<lambda>tr. poll_code env tr pid)) (\<lambda>c.
         if c \<noteq> None
         then raiseS (GenerationError (''worker DNS proxy exited during startup: '' @ py_strip (child_stderr env pid)))
         else bindS (askS (ESleep (1 / 20)) (\<lambda>_. ())) (\<lambda>_. await_proxy n env pid deadline)))
     else bindS (stop_dns_proxy env) (\<lambda>_. raiseS (GenerationError ''timed out starting worker DNS proxy'')))"

definition configure_dns :: "gen_env \<Rightarrow> unit gen" where
  "configure_dns env =
     bindS (getS keeper) (\<lambda>k. case k of
       None \<Rightarrow> raiseS (GenerationError ''worker namespace is not running'')
     | Some pid \<Rightarrow>
       bindS (liftS (resolver_nameservers env)) (\<lambda>upstreams.
       bindS (getS gateway) (\<lambda>gw0.
       bindS (liftS (case ip_address env gw0 of None \<Rightarrow> Inl (AddressValueError gw0) | Some ip \<Rightarrow> Inr ip)) (\<lambda>gw.
       bindS (getS gen_dir) (\<lambda>dir.
       bindS (liftS (render_worker_resolv_conf env gw)) (\<lambda>text.
       bindS (modS (\<lambda>s. s\<lparr>worker_resolv := Some text\<rparr>)) (\<lambda>_.
       bindS (popen (os_env.truncate env) GenOSError
         ([executable env, ''-m'', ''s3_storage_node.dns_proxy'', ''--listen-address'', gw, ''--ready-file'',
           string_of_path (path_div dir ''dns-proxy.ready'')]
          @ concat (map (\<lambda>u. [''--upstream'', u]) upstreams))) (\<lambda>proxy.
       bindS (modS (\<lambda>s. s\<lparr>dns_proxy := Some proxy\<rparr>)) (\<lambda>_.
       bindS (askS EClock (clock env)) (\<lambda>t.
       bindS (await_proxy STARTUP_ROUNDS env proxy (t + 5)) (\<lambda>_.
       catchS (run_command env [''nsenter'', ''--target'', show_int pid, ''--mount'', ''--'', ''mount'', ''--bind'',
                 string_of_path (path_div dir ''resolv.conf''), ''/etc/resolv.conf''])
         (\<lambda>e. bindS (stop_dns_proxy env) (\<lambda>_. raiseS e)))))))))))))"

primrec await_namespace :: "nat \<Rightarrow> gen_env \<Rightarrow> int \<Rightarrow> rat \<Rightarrow> unit gen" where
  "await_namespace 0 env pid deadline =
     bindS (stop_keeper env) (\<lambda>_. raiseS (GenerationError ''timed out creating worker namespace''))"
| "await_namespace (Suc n) env pid deadline =
     bindS (askS EClock (clock env)) (\<lambda>t.
     if t < deadline then
       bindS (askS (EPoll pid) (\<lambda>tr. poll_code env tr pid)) (\<lambda>c.
       if c \<noteq> None
       then raiseS (GenerationError (''worker namespace exited during startup: '' @ py_strip (child_stderr env pid)))
       else bindS (askS (EAsk ''ns/net'') (\<lambda>tr. asked env tr ''ns/net'')) (\<lambda>there.
         if there then returnS ()
         else bindS (askS (ESleep (1 / 20)) (\<lambda>_. ())) (\<lambda>_. await_namespace n env pid deadline)))
     else bindS (stop_keeper env) (\<lambda>_. raiseS (GenerationError ''timed out creating worker namespace'')))"

definition unshare_command :: "string list" where
  "unshare_command = [''unshare'', ''--mount'', ''--net'', ''--propagation'', ''private'', ''--'', ''sleep'', ''infinity'']"

definition configure_generation :: "gen_env \<Rightarrow> unit gen" where
  "configure_generation env =
     catchS (bindS (configure_network env) (\<lambda>_. configure_dns env))
       (\<lambda>e. bindS (fence env ''namespace setup failed'') (\<lambda>_. bindS (stop_keeper env) (\<lambda>_. raiseS e)))"

definition start_worker :: "gen_env \<Rightarrow> unit gen" where
  "start_worker env =
     bindS (getS mode) (\<lambda>m.
     if m = ''disabled'' then persist_doc env ''active''
     else if m \<noteq> ''namespace'' then raiseS (GenerationError (''unsupported worker fencing mode: '' @ m))
     else
       bindS (popen (os_env.truncate env) GenOSError unshare_command) (\<lambda>pid.
       bindS (modS (\<lambda>s. s\<lparr>keeper := Some pid\<rparr>)) (\<lambda>_.
       bindS (askS EClock (clock env)) (\<lambda>t.
       bindS (await_namespace STARTUP_ROUNDS env pid (t + 5)) (\<lambda>_.
       bindS (configure_generation env) (\<lambda>_.
       persist_doc env ''active''))))))"

section \<open>Entering a generation\<close>

definition enter_command :: "gen_env \<Rightarrow> string list \<Rightarrow> int option \<Rightarrow> int option \<Rightarrow> string list gen" where
  "enter_command env cmd uid gid =
     bindS (getS mode) (\<lambda>m.
     if m = ''disabled'' then returnS cmd
     else bindS (getS keeper) (\<lambda>k. case k of
       None \<Rightarrow> raiseS (GenerationError ''worker namespace is unavailable'')
     | Some pid \<Rightarrow>
         bindS (askS (EPoll pid) (\<lambda>tr. poll_code env tr pid)) (\<lambda>c.
         if c \<noteq> None then raiseS (GenerationError ''worker namespace is unavailable'')
         else
           let wrapped = [''nsenter'', ''--target'', show_int pid, ''--mount'', ''--net'', ''--''];
               visible = namespace_visible_command cmd
           in case (uid, gid) of
                (None, None) \<Rightarrow> returnS (wrapped @ visible)
              | (Some u, Some g) \<Rightarrow>
                  returnS (wrapped @ [''setpriv'', ''--reuid='' @ show_int u, ''--regid='' @ show_int g, ''--clear-groups'', ''--'']
                    @ visible)
              | _ \<Rightarrow> raiseS (GenerationError ''worker uid and gid must be supplied together''))))"

section \<open>The factory\<close>

text \<open>\<open>_next_generation\<close> on the text of the counter file, if there is one: the next number and the new text. Text that
  is no integer counts as zero.\<close>

definition next_generation :: "string option \<Rightarrow> int \<times> string" where
  "next_generation counter =
     (let current = (case counter of None \<Rightarrow> 0
            | Some text \<Rightarrow> (case int_of_string text of None \<Rightarrow> 0 | Some n \<Rightarrow> n))
      in (current + 1, show_int (current + 1) @ [CHR 0x0A]))"

record factory =
  fac_counter :: "string option"
  last_allocated :: int

definition new_generation ::
  "int \<Rightarrow> string \<Rightarrow> string \<Rightarrow> ppath \<Rightarrow> string \<Rightarrow> string \<Rightarrow> string \<Rightarrow> os_event list \<Rightarrow> gen_doc option \<Rightarrow> gen_state" where
  "new_generation n tok m rdir ha wa gw tr doc =
     \<lparr>trace = tr, generation = n, token = tok, mode = m, gen_dir = path_div (path_div rdir ''generations'') (show_int n),
      host_address = ha, gen_worker_address = wa, gateway = gw, keeper = None, dns_proxy = None, fenced = False,
      fence_reason = [], gen_file = doc, worker_resolv = None\<rparr>"

text \<open>\<open>create\<close>: the number is spent, in the counter file and in memory, before anything is started.\<close>

definition create_generation ::
  "gen_env \<Rightarrow> string \<Rightarrow> ppath \<Rightarrow> string \<Rightarrow> string \<Rightarrow> string \<Rightarrow> string \<Rightarrow> os_event list \<Rightarrow> gen_doc option \<Rightarrow> factory \<Rightarrow>
     (gen_error + unit) \<times> gen_state \<times> factory" where
  "create_generation env tok rdir m ha wa gw tr doc f =
     (case next_generation (fac_counter f) of (n, text) \<Rightarrow>
        case start_worker env (new_generation n tok m rdir ha wa gw tr doc) of (r, g) \<Rightarrow>
          (r, g, \<lparr>fac_counter = Some text, last_allocated = n\<rparr>))"

section \<open>Laws\<close>

lemma wp_gen_run [wp_simps]: "wp (gen_run env cmd) Q E s = Q (run_result env (trace s) cmd) (s\<lparr>trace := trace s @ [ERun cmd]\<rparr>)"
  by (simp add: gen_run_def wp_simps)

text \<open>Stopping a helper touches nothing but the trace and its own handle.\<close>

lemma wp_stop_group:
  assumes "\<And>evs. Q () (s\<lparr>trace := trace s @ evs\<rparr>)"
  shows "wp (stop_group env pid) Q E s"
  using assms by (simp add: stop_group_def wp_simps)

lemma wp_stop_dns_proxy:
  assumes "\<And>evs. Q () (s\<lparr>dns_proxy := None, trace := trace s @ evs\<rparr>)"
  shows "wp (stop_dns_proxy env) Q E s"
  using assms[of "[]"] assms
  by (cases "dns_proxy s") (auto simp: stop_dns_proxy_def wp_simps intro!: wp_stop_group)

lemma wp_stop_keeper:
  assumes "\<And>evs. Q () (s\<lparr>keeper := None, trace := trace s @ evs\<rparr>)"
  shows "wp (stop_keeper env) Q E s"
  using assms[of "[]"] assms
  by (cases "keeper s") (auto simp: stop_keeper_def wp_simps intro!: wp_stop_group)

definition valid_address :: "gen_env \<Rightarrow> gen_state \<Rightarrow> bool" where
  "valid_address env s \<longleftrightarrow> (\<exists>ip. worker_ip env s = Inr ip)"

definition doc_of :: "gen_env \<Rightarrow> string \<Rightarrow> gen_state \<Rightarrow> gen_doc" where
  "doc_of env st s = \<lparr>gd_generation = generation s, gd_token = token s, gd_mode = mode s, gd_state = st,
     gd_namespace_pid = keeper s, gd_worker_ip = (case worker_ip env s of Inr ip \<Rightarrow> ip | Inl _ \<Rightarrow> []),
     gd_fenced = fenced s, gd_fence_reason = fence_reason s\<rparr>"

lemma wp_persist_doc:
  "wp (persist_doc env st) Q E s = (case worker_ip env s of Inl e \<Rightarrow> E e s | Inr _ \<Rightarrow> Q () (s\<lparr>gen_file := Some (doc_of env st s)\<rparr>))"
  by (simp add: persist_doc_def doc_of_def wp_simps split: sum.split)

lemma worker_ip_cong: "mode s' = mode s \<Longrightarrow> gen_worker_address s' = gen_worker_address s \<Longrightarrow> worker_ip env s' = worker_ip env s"
  by (simp add: worker_ip_def cong: option.case_cong)

lemma doc_of_gen_file [simp]: "doc_of env st (s\<lparr>gen_file := f\<rparr>) = doc_of env st s"
  using worker_ip_cong[of "s\<lparr>gen_file := f\<rparr>" s env] by (simp add: doc_of_def)

text \<open>What fencing and stopping never change.\<close>

definition same_generation :: "gen_state \<Rightarrow> gen_state \<Rightarrow> bool" where
  "same_generation s s' \<longleftrightarrow> generation s' = generation s \<and> token s' = token s \<and> mode s' = mode s \<and> gen_dir s' = gen_dir s
     \<and> host_address s' = host_address s \<and> gen_worker_address s' = gen_worker_address s \<and> gateway s' = gateway s
     \<and> worker_resolv s' = worker_resolv s"

text \<open>What a fence does to a generation that is not fenced yet.\<close>

definition fence_refused :: "gen_env \<Rightarrow> gen_state \<Rightarrow> bool" where
  "fence_refused env s \<longleftrightarrow> mode s = ''namespace'' \<and> returncode (run_result env (trace s @ [ERun link_del]) link_show) = 0"

definition fenced_by :: "string \<Rightarrow> gen_state \<Rightarrow> gen_state \<Rightarrow> bool" where
  "fenced_by reason s s' \<longleftrightarrow> same_generation s s' \<and> keeper s' = keeper s \<and> fenced s' \<and> fence_reason s' = reason
     \<and> (\<exists>evs. trace s' = trace s @ evs \<and> (mode s = ''namespace'' \<longrightarrow> dns_proxy s' = None \<and> take 2 evs = [ERun link_del, ERun link_show]))"

lemma fence_run:
  assumes "\<not> fenced s"
  shows "wp (fence env reason)
    (\<lambda>_ s'. \<not> fence_refused env s \<and> fenced_by reason s s' \<and> gen_file s' = Some (doc_of env ''fenced'' s') \<and> (\<exists>ip. worker_ip env s = Inr ip))
    (\<lambda>e s'. fence_refused env s \<and> s' = s\<lparr>trace := trace s @ [ERun link_del, ERun link_show]\<rparr>
       \<or> \<not> fence_refused env s \<and> fenced_by reason s s' \<and> worker_ip env s = Inl e \<and> gen_file s' = gen_file s) s"
proof (cases "mode s = ''namespace''")
  case True
  have *: "wp (stop_dns_proxy env) (\<lambda>_. wp (bindS (modS (\<lambda>s. s\<lparr>fenced := True, fence_reason := reason\<rparr>)) (\<lambda>_. persist_doc env ''fenced''))
      (\<lambda>_ s'. fenced_by reason s s' \<and> gen_file s' = Some (doc_of env ''fenced'' s') \<and> (\<exists>ip. worker_ip env s = Inr ip))
      (\<lambda>e s'. fenced_by reason s s' \<and> worker_ip env s = Inl e \<and> gen_file s' = gen_file s)) E
      (s\<lparr>trace := trace s @ [ERun link_del, ERun link_show]\<rparr>)" for E
    by (rule wp_stop_dns_proxy)
       (auto simp: wp_simps wp_persist_doc fenced_by_def same_generation_def doc_of_def worker_ip_def
          cong: option.case_cong split: sum.splits)
  show ?thesis
  proof (cases "fence_refused env s")
    case False
    then show ?thesis using assms True * by (simp add: fence_def wp_simps fence_refused_def)
  qed (use assms True in \<open>simp add: fence_def wp_simps fence_refused_def\<close>)
next
  case False
  then show ?thesis using assms
    by (auto simp: fence_def wp_simps wp_persist_doc fenced_by_def same_generation_def doc_of_def fence_refused_def
        worker_ip_def split: sum.splits)
qed

lemma fence_again [simp]: "fenced s \<Longrightarrow> fence env reason s = (Inr (), s)"
  by (simp add: fence_def bindS_def getS_def returnS_def)

lemma stop_keeper_run: "wp (stop_keeper env) (\<lambda>_ s'. same_generation s s' \<and> keeper s' = None \<and> dns_proxy s' = dns_proxy s
    \<and> fenced s' = fenced s \<and> fence_reason s' = fence_reason s \<and> gen_file s' = gen_file s) (\<lambda>_ _. False) s"
  by (rule wp_stop_keeper) (simp add: same_generation_def)

lemma stop_dns_proxy_run: "wp (stop_dns_proxy env) (\<lambda>_ s'. same_generation s s' \<and> keeper s' = keeper s \<and> dns_proxy s' = None
    \<and> fenced s' = fenced s \<and> fence_reason s' = fence_reason s \<and> gen_file s' = gen_file s) (\<lambda>_ _. False) s"
  by (rule wp_stop_dns_proxy) (simp add: same_generation_def)

lemma same_generation_trans: "same_generation s s' \<Longrightarrow> same_generation s' s'' \<Longrightarrow> same_generation s s''"
  by (simp add: same_generation_def)

lemma same_generation_ip: "same_generation s s' \<Longrightarrow> worker_ip env s' = worker_ip env s"
  by (intro worker_ip_cong) (simp_all add: same_generation_def)

text \<open>The clean-up of \<open>retire\<close>: both helpers are gone whatever the fence did.\<close>

lemma stop_helpers_run:
  "wp (stop_helpers env) (\<lambda>_ s'. same_generation s s' \<and> keeper s' = None \<and> dns_proxy s' = None
     \<and> fenced s' = fenced s \<and> gen_file s' = gen_file s) (\<lambda>_ _. False) s"
  unfolding wp_bind stop_helpers_def
proof (rule wp_mono[OF stop_dns_proxy_run[of env s]])
  fix x s1 assume s1: "same_generation s s1 \<and> keeper s1 = keeper s \<and> dns_proxy s1 = None \<and> fenced s1 = fenced s
      \<and> fence_reason s1 = fence_reason s \<and> gen_file s1 = gen_file s"
  show "wp (stop_keeper env) (\<lambda>_ s'. same_generation s s' \<and> keeper s' = None \<and> dns_proxy s' = None
     \<and> fenced s' = fenced s \<and> gen_file s' = gen_file s) (\<lambda>_ _. False) s1"
    by (rule wp_mono[OF stop_keeper_run[of env s1]]) (use s1 same_generation_trans in auto)
qed

lemma retire_run:
  assumes "worker_ip env s = Inr ip"
  shows "wp (retire env)
    (\<lambda>_ s'. fenced s' \<and> keeper s' = None \<and> dns_proxy s' = None \<and> gen_file s' = Some (doc_of env ''retired'' s') \<and> (fenced s \<or> \<not> fence_refused env s))
    (\<lambda>_ s'. \<not> fenced s \<and> fence_refused env s \<and> \<not> fenced s' \<and> keeper s' = None \<and> dns_proxy s' = None \<and> gen_file s' = gen_file s) s"
    (is "wp _ ?Q ?E s")
proof -
  let ?r = "if fence_reason s \<noteq> [] then fence_reason s else ''generation retired''"
  let ?A = "\<lambda>s1. same_generation s s1 \<and> fenced s1 \<and> (fenced s \<or> \<not> fence_refused env s)"
  have fence: "wp (fence env ?r) (\<lambda>_. ?A)
      (\<lambda>_ s1. \<not> fenced s \<and> fence_refused env s \<and> \<not> fenced s1 \<and> gen_file s1 = gen_file s) s"
  proof (cases "fenced s")
    case False
    show ?thesis by (rule wp_mono[OF fence_run[OF False]]) (use assms False in \<open>auto simp: fenced_by_def\<close>)
  qed (simp add: wp_def same_generation_def)
  show ?thesis unfolding retire_def wp_bind wp_get wp_finally
  proof (rule wp_mono[OF fence])
    fix x s1 assume s1: "?A s1"
    show "wp (stop_helpers env) (\<lambda>_. wp (persist_doc env ''retired'') ?Q ?E) ?E s1"
    proof (rule wp_mono[OF stop_helpers_run[of env s1]])
      fix y s2 assume s2: "same_generation s1 s2 \<and> keeper s2 = None \<and> dns_proxy s2 = None \<and> fenced s2 = fenced s1
          \<and> gen_file s2 = gen_file s1"
      then have "worker_ip env s2 = Inr ip"
        using s1 assms same_generation_ip[of s s2 env] same_generation_trans[of s s1 s2] by simp
      then show "wp (persist_doc env ''retired'') ?Q ?E s2"
        using s1 s2 by (simp add: wp_persist_doc)
    qed simp
  next
    fix e and s1 :: gen_state assume s1: "\<not> fenced s \<and> fence_refused env s \<and> \<not> fenced s1 \<and> gen_file s1 = gen_file s"
    show "wp (stop_helpers env) (\<lambda>_. ?E e) ?E s1"
      by (rule wp_mono[OF stop_helpers_run[of env s1]]) (use s1 in auto)
  qed
qed

section \<open>A start that fails\<close>

definition unfenced_file :: "gen_doc option \<Rightarrow> gen_state \<Rightarrow> bool" where
  "unfenced_file f s \<longleftrightarrow> gen_file s = f \<and> \<not> fenced s \<and> mode s = ''namespace''"

lemma keeps_gen_ask [keeps_intros]: "keeps (unfenced_file f) (askS ev g)"
  by (simp add: keeps_def wp_simps unfenced_file_def)

lemma keeps_gen_popen [keeps_intros]: "keeps (unfenced_file f) (popen env err cmd)"
  by (simp add: keeps_def wp_simps unfenced_file_def split: sum.split)

lemma keeps_gen_run [keeps_intros]: "keeps (unfenced_file f) (gen_run env cmd)"
  by (simp add: gen_run_def keeps_gen_ask)

lemma keeps_stop_keeper [keeps_intros]: "keeps (unfenced_file f) (stop_keeper env)"
  unfolding keeps_def by (intro allI impI wp_stop_keeper) (simp add: unfenced_file_def)

lemma keeps_stop_dns_proxy [keeps_intros]: "keeps (unfenced_file f) (stop_dns_proxy env)"
  unfolding keeps_def by (intro allI impI wp_stop_dns_proxy) (simp add: unfenced_file_def)

lemma keeps_run_command [keeps_intros]: "keeps (unfenced_file f) (run_command env cmd)"
  unfolding run_command_def by (intro keeps_intros)

lemma keeps_await_namespace [keeps_intros]: "keeps (unfenced_file f) (await_namespace n env pid d)"
  by (induction n) (simp_all, (intro keeps_intros; assumption?)+)

lemma keeps_await_proxy [keeps_intros]: "keeps (unfenced_file f) (await_proxy n env pid d)"
  by (induction n) (simp_all, (intro keeps_intros; assumption?)+)

lemma keeps_ensure_iptables [keeps_intros]: "keeps (unfenced_file f) (ensure_iptables env c a)"
  unfolding ensure_iptables_def by (intro keeps_intros)

lemma keeps_ensure_ip_forwarding [keeps_intros]: "keeps (unfenced_file f) (ensure_ip_forwarding env)"
  unfolding ensure_ip_forwarding_def by (intro keeps_intros)

lemma keeps_configure_network [keeps_intros]: "keeps (unfenced_file f) (configure_network env)"
  unfolding configure_network_def by (intro keeps_intros)

lemma keeps_configure_dns [keeps_intros]: "keeps (unfenced_file f) (configure_dns env)"
  unfolding configure_dns_def by (intro keeps_intros keeps_mod) (simp_all add: unfenced_file_def)

text \<open>What a failed start leaves behind.\<close>

definition start_failed :: "gen_doc option \<Rightarrow> gen_state \<Rightarrow> bool" where
  "start_failed f s' \<longleftrightarrow> gen_file s' = f
     \<or> fenced s' \<and> keeper s' = None \<and> dns_proxy s' = None \<and> (\<exists>d. gen_file s' = Some d \<and> gd_state d = ''fenced'' \<and> gd_fenced d)"

lemma abandon_run:
  assumes "unfenced_file f s"
  shows "wp (bindS (fence env r) (\<lambda>_. bindS (stop_keeper env) (\<lambda>_. raiseS e))) Q (\<lambda>_. start_failed f) s"
  unfolding wp_bind wp_raise
proof (rule wp_mono[OF fence_run[of s env r]])
  show "\<not> fenced s" using assms by (simp add: unfenced_file_def)
next
  fix x s1
  assume "\<not> fence_refused env s \<and> fenced_by r s s1 \<and> gen_file s1 = Some (doc_of env ''fenced'' s1) \<and> (\<exists>ip. worker_ip env s = Inr ip)"
  then have s1: "fenced s1" "dns_proxy s1 = None" "gen_file s1 = Some (doc_of env ''fenced'' s1)"
    using assms by (auto simp: fenced_by_def unfenced_file_def)
  show "wp (stop_keeper env) (\<lambda>_. start_failed f) (\<lambda>_. start_failed f) s1"
    by (rule wp_stop_keeper) (use s1 in \<open>simp add: start_failed_def doc_of_def\<close>)
qed (use assms in \<open>auto simp: start_failed_def unfenced_file_def\<close>)

lemma configure_run:
  assumes "unfenced_file f s"
  shows "wp (configure_generation env) (\<lambda>_. unfenced_file f) (\<lambda>_. start_failed f) s"
  unfolding configure_generation_def wp_catch
proof (rule wp_mono[OF keepsD[of "unfenced_file f"]])
  show "keeps (unfenced_file f) (bindS (configure_network env) (\<lambda>_. configure_dns env))" by (intro keeps_intros)
  show "unfenced_file f s" by (fact assms)
qed (assumption, rule abandon_run)

lemma start_run:
  assumes "\<not> fenced s"
  shows "wp (start_worker env) (\<lambda>_ s'. gen_file s' = Some (doc_of env ''active'' s') \<and> \<not> fenced s') (\<lambda>_. start_failed (gen_file s)) s"
    (is "wp _ ?Q ?E s")
proof -
  let ?J = "unfenced_file (gen_file s)"
  have fin: "wp (persist_doc env ''active'') ?Q ?E s1" if "gen_file s1 = gen_file s" "\<not> fenced s1" for s1
    using that by (simp add: wp_persist_doc start_failed_def split: sum.split)
  have conf: "wp (configure_generation env) (\<lambda>_. wp (persist_doc env ''active'') ?Q ?E) ?E s1" if "?J s1" for s1
    by (rule wp_mono[OF configure_run[OF that]], rule fin) (simp_all add: unfenced_file_def)
  have waited: "wp (await_namespace STARTUP_ROUNDS env pid d)
      (\<lambda>_. wp (configure_generation env) (\<lambda>_. wp (persist_doc env ''active'') ?Q ?E) ?E) ?E s1" if "?J s1" for s1 pid d
    by (rule wp_mono[OF keepsD[OF keeps_await_namespace that]], rule conf) (simp_all add: start_failed_def unfenced_file_def)
  show ?thesis
  proof (cases "mode s = ''namespace''")
    case True
    then show ?thesis using assms waited
      by (simp add: start_worker_def wp_simps start_failed_def unfenced_file_def split: sum.split)
  next
    case False
    then show ?thesis using assms fin[of s] by (simp add: start_worker_def wp_simps start_failed_def)
  qed
qed

section \<open>Numbers\<close>

text \<open>Creating generations one after the other, each in its own circumstances: the numbers they got.\<close>

type_synonym creation = "gen_env \<times> string \<times> ppath \<times> string \<times> (string \<times> string \<times> string) \<times> os_event list \<times> gen_doc option"

fun create_all :: "creation list \<Rightarrow> factory \<Rightarrow> int list" where
  "create_all [] f = []"
| "create_all ((env, tok, rdir, m, (ha, wa, gw), tr, doc) # cs) f =
     (case create_generation env tok rdir m ha wa gw tr doc f of (r, g, f') \<Rightarrow> generation g # create_all cs f')"

lemma next_generation_text: "next_generation (Some (show_int n @ [CHR 0x0A])) = (n + 1, show_int (n + 1) @ [CHR 0x0A])"
  by (simp add: next_generation_def int_of_string_line)

lemma keeps_number_ask [keeps_intros]: "keeps (\<lambda>s. generation s = n) (askS ev g)"
  by (simp add: keeps_def wp_simps)

lemma keeps_number_popen [keeps_intros]: "keeps (\<lambda>s. generation s = n) (popen env err cmd)"
  by (simp add: keeps_def wp_simps split: sum.split)

lemma keeps_number_stop [keeps_intros]:
  "keeps (\<lambda>s. generation s = n) (stop_keeper env)" "keeps (\<lambda>s. generation s = n) (stop_dns_proxy env)"
  unfolding keeps_def by (intro allI impI wp_stop_keeper wp_stop_dns_proxy; simp)+

lemma keeps_number_persist [keeps_intros]: "keeps (\<lambda>s. generation s = n) (persist_doc env st)"
  unfolding persist_doc_def by (intro keeps_intros keeps_mod) simp

lemma keeps_number_fence [keeps_intros]: "keeps (\<lambda>s. generation s = n) (fence env r)"
  unfolding fence_def gen_run_def by (intro keeps_intros keeps_mod) simp

lemma keeps_number_await [keeps_intros]:
  "keeps (\<lambda>s. generation s = n) (await_namespace k env pid d)"
  "keeps (\<lambda>s. generation s = n) (await_proxy k env pid d)"
  by (induction k) (simp_all, (intro keeps_intros; assumption?)+)

lemma keeps_number_run_command [keeps_intros]: "keeps (\<lambda>s. generation s = n) (run_command env cmd)"
  unfolding run_command_def gen_run_def by (intro keeps_intros)

lemma keeps_number_configure [keeps_intros]: "keeps (\<lambda>s. generation s = n) (configure_generation env)"
  unfolding configure_generation_def configure_network_def configure_dns_def ensure_iptables_def
    ensure_ip_forwarding_def gen_run_def
  by (intro keeps_intros keeps_mod) simp_all

lemma keeps_number_start: "keeps (\<lambda>s. generation s = n) (start_worker env)"
  unfolding start_worker_def by (intro keeps_intros keeps_mod) simp_all

lemma create_number:
  assumes "create_generation env tok rdir m ha wa gw tr doc f = (r, g, f')"
  shows "generation g = fst (next_generation (fac_counter f)) \<and> last_allocated f' = generation g
    \<and> fac_counter f' = Some (snd (next_generation (fac_counter f)))"
proof -
  obtain n line where n: "next_generation (fac_counter f) = (n, line)" by (cases "next_generation (fac_counter f)")
  have "generation (snd (start_worker env (new_generation n tok m rdir ha wa gw tr doc))) = n"
    using keeps_run[OF keeps_number_start] by (simp add: new_generation_def)
  then show ?thesis using assms n by (auto simp: create_generation_def split: prod.splits)
qed

section \<open>Properties\<close>


text \<open>
  Retiring a generation always stops its helpers: whether or not the fence succeeds, the namespace keeper
  and the DNS relay are gone afterwards; the generation is recorded as retired exactly if it was fenced before
  or the fence is verified now, and is otherwise left unfenced with its document untouched.
\<close>

theorem retire_stops:
  assumes "worker_ip env s = Inr ip" "retire env s = (r, s')"
  shows "keeper s' = None \<and> dns_proxy s' = None
    \<and> (r = Inr () \<longleftrightarrow> fenced s \<or> \<not> fence_refused env s)
    \<and> (if r = Inr () then fenced s' \<and> gen_file s' = Some (doc_of env ''retired'' s') else \<not> fenced s' \<and> gen_file s' = gen_file s)"
  using retire_run[OF assms(1)] assms(2) by (cases r) (auto simp: wp_def)

text \<open>
  A start that fails is never taken for a running generation: it records nothing, or it records the generation as
  fenced, with its helpers stopped. A start that succeeds records the generation as active, unfenced.
\<close>

theorem start_fails_closed:
  assumes "\<not> fenced s" "start_worker env s = (r, s')"
  shows "case r of
      Inr _ \<Rightarrow> gen_file s' = Some (doc_of env ''active'' s') \<and> \<not> fenced s'
    | Inl _ \<Rightarrow> gen_file s' = gen_file s
        \<or> fenced s' \<and> keeper s' = None \<and> dns_proxy s' = None \<and> (\<exists>d. gen_file s' = Some d \<and> gd_state d = ''fenced'' \<and> gd_fenced d)"
  using start_run[OF assms(1), of env] assms(2) by (simp add: wp_def start_failed_def split: sum.splits)

text \<open>
  Generation numbers are never reused: creating generations one after the other gives consecutive
  numbers, whether or not each of them starts, because the number is spent in the counter file first and the counter
  file is read back as it was written.
\<close>

theorem generations_increase:
  "create_all cs f = map (\<lambda>i. fst (next_generation (fac_counter f)) + int i) [0..<length cs]"
proof (induction cs f rule: create_all.induct)
  case (2 env tok rdir m ha wa gw tr doc cs f)
  obtain r g f' where c: "create_generation env tok rdir m ha wa gw tr doc f = (r, g, f')"
    by (metis prod.exhaust)
  note n = create_number[OF c]
  have "fst (next_generation (fac_counter f')) = fst (next_generation (fac_counter f)) + 1"
    using n by (simp add: next_generation_def Let_def int_of_string_line)
  then have "create_all cs f' = map (\<lambda>i. fst (next_generation (fac_counter f)) + int i) (map Suc [0..<length cs])"
    using 2[OF c[symmetric] refl] by (simp add: algebra_simps)
  then show ?case using c n
    by (simp only: create_all.simps map_Suc_upt) (simp add: upt_rec[of 0] del: upt_Suc)
qed simp

text \<open>
  Inside a namespace generation nothing runs outside it: every command that is built to enter it starts with
  \<open>nsenter\<close> into the mount and network namespaces of the live keeper, and no argument binds a service to
  the loopback address the supervisor could not reach.
\<close>

theorem enter_confined:
  assumes "mode s = ''namespace''" "enter_command env cmd uid gid s = (Inr built, s')"
  shows "\<exists>pid priv. keeper s = Some pid \<and> poll_code env (trace s) pid = None
    \<and> built = [''nsenter'', ''--target'', show_int pid, ''--mount'', ''--net'', ''--''] @ priv @ namespace_visible_command cmd
    \<and> (uid = None \<longrightarrow> priv = []) \<and> ''-ip.bind=127.0.0.1'' \<notin> set built"
proof -
  have no: "''-ip.bind=127.0.0.1'' \<notin> set (namespace_visible_command cmd)"
    by (auto simp: namespace_visible_command_def)
  have digits: "show_int n \<noteq> ''-ip.bind=127.0.0.1''" for n
    using int_of_string_show[of n] by (auto simp: int_of_string_def py_strip_def py_lstrip_def py_isspace_def
        unsigned_value_def digit_value_def)
  have "wp (enter_command env cmd uid gid) (\<lambda>b _. \<exists>pid priv. keeper s = Some pid \<and> poll_code env (trace s) pid = None
      \<and> b = [''nsenter'', ''--target'', show_int pid, ''--mount'', ''--net'', ''--''] @ priv @ namespace_visible_command cmd
      \<and> (uid = None \<longrightarrow> priv = []) \<and> ''-ip.bind=127.0.0.1'' \<notin> set b) (\<lambda>_ _. True) s"
    using assms(1) no by (auto simp: enter_command_def wp_simps Let_def digits digits[symmetric] split: option.split)
  then show ?thesis using assms(2) by (simp add: wp_def)
qed

text \<open>
  The worker's resolver points at the relay and nowhere else: reading the rendered worker configuration back
  with the program's own parser gives the gateway address as the only name server, whatever name servers the
  source lists, and the search, domain and options lines of the source are kept.
\<close>

theorem worker_resolver_gateway:
  assumes "render_worker_resolv_conf env gw = Inr rendered" "ip_address env gw = Some ip"
    and "ip_address env ip = Some ip" "ip \<noteq> []" "\<forall>c\<in>set ip. \<not> py_isspace c"
  shows "resolver_nameservers (env\<lparr>resolver_text := Inr rendered\<rparr>) = Inr [ip]
    \<and> (\<exists>source. resolver_text env = Inr source
         \<and> py_splitlines rendered = (''nameserver '' @ ip) # preserved_lines source)"
proof -
  obtain source where src: "resolver_text env = Inr source"
    and r: "rendered = concat (map (\<lambda>l. l @ [CHR 0x0A]) ((''nameserver '' @ ip) # preserved_lines source))"
    using assms(1,2) by (auto simp: render_worker_resolv_conf_def split: sum.splits)
  have brk: "line_break c \<Longrightarrow> py_isspace c" for c by (auto simp: line_break_def py_isspace_def Let_def)
  have "\<forall>l\<in>set (preserved_lines source). \<forall>c\<in>set l. \<not> line_break c"
    using set_py_strip py_splitlines_no_break by (fastforce simp: preserved_lines_def)
  moreover have "\<forall>c\<in>set (''nameserver '' @ ip). \<not> line_break c"
    using assms(5) brk by (auto simp: line_break_def)
  ultimately have lines: "py_splitlines rendered = (''nameserver '' @ ip) # preserved_lines source"
    unfolding r by (intro py_splitlines_lines) auto
  have word: "\<forall>c\<in>set ''nameserver''. \<not> py_isspace c" by (auto simp: py_isspace_def)
  have first: "py_split (''nameserver '' @ ip) = [''nameserver'', ip]"
    using py_split_pair[OF word assms(5) _ assms(4)] by simp
  have skip: "nameserver_line env' l found = Inr found" if "l \<in> set (preserved_lines source)" for env' l found
    using that by (auto simp: preserved_lines_def nameserver_line_def split: list.split)
  have rest: "foldE (nameserver_line env') ls [ip] = Inr [ip]" if "set ls \<subseteq> set (preserved_lines source)" for ls env'
    using that by (induction ls) (auto simp: skip)
  show ?thesis
    using src lines first assms(3) rest[of "preserved_lines source"]
    by (simp add: resolver_nameservers_def nameserver_line_def)
qed

section \<open>Examples\<close>

definition example_gen_env :: gen_env where
  "example_gen_env = \<lparr>run_result = \<lambda>tr cmd. if cmd = link_show then Completed 1 [] [] else Completed 0 [] [],
     spawn = \<lambda>tr cmd. Inr 7, poll_code = \<lambda>tr pid. None, kill_found = \<lambda>tr pid. True, wait_ends = \<lambda>tr pid. True,
     clock = \<lambda>tr. of_nat (length tr), asked = \<lambda>tr q. True, ip_address = Some, ip_interface = \<lambda>a. Some (a, ''net''),
     resolver_text = Inr (''nameserver 9.9.9.9'' @ [CHR 0x0A] @ ''search lan''), forwarding = \<lambda>tr. Inr ''1'',
     forwarding_write = None, executable = ''python3'', child_stderr = \<lambda>pid. []\<rparr>"

definition example_gen :: gen_state where
  "example_gen = (new_generation 3 ''t'' ''namespace'' (path_of_string ''/run'') ''h'' ''w'' ''g'' [] None)\<lparr>keeper := Some 5, dns_proxy := Some 6\<rparr>"

lemma example_gen_facts: "\<not> fenced example_gen" "worker_ip example_gen_env example_gen = Inr ''w''"
    "\<not> fence_refused example_gen_env example_gen" "mode example_gen = ''namespace''"
  by (simp_all add: example_gen_def example_gen_env_def new_generation_def worker_ip_def fence_refused_def returncode_def)


theorem retire_stops_witness: "\<exists>s'. retire example_gen_env example_gen = (Inr (), s') \<and> keeper s' = None \<and> fenced s'"
proof -
  obtain r s' where r: "retire example_gen_env example_gen = (r, s')" by (cases "retire example_gen_env example_gen")
  from retire_stops[OF example_gen_facts(2) r] example_gen_facts(3) have "r = Inr ()" "keeper s' = None" "fenced s'" by simp_all
  with r show ?thesis by simp
qed

theorem start_fails_closed_witness:
  "\<exists>r s'. start_worker example_gen_env example_gen = (r, s') \<and> (case r of
      Inr _ \<Rightarrow> gen_file s' = Some (doc_of example_gen_env ''active'' s') \<and> \<not> fenced s'
    | Inl _ \<Rightarrow> gen_file s' = gen_file example_gen \<or> fenced s')"
proof -
  obtain r s' where r: "start_worker example_gen_env example_gen = (r, s')"
    by (cases "start_worker example_gen_env example_gen")
  from start_fails_closed[OF example_gen_facts(1) r] r show ?thesis by (auto split: sum.splits)
qed

theorem enter_confined_witness:
  "\<exists>built s'. enter_command example_gen_env [''weed'', ''-ip.bind=127.0.0.1''] (Some 1) (Some 2) example_gen = (Inr built, s')
     \<and> ''-ip.bind=127.0.0.1'' \<notin> set built"
proof -
  have "\<exists>built s'. enter_command example_gen_env [''weed'', ''-ip.bind=127.0.0.1''] (Some 1) (Some 2) example_gen = (Inr built, s')"
    by (simp add: enter_command_def bindS_def getS_def askS_def returnS_def example_gen_def example_gen_env_def new_generation_def)
  then obtain built s' where b: "enter_command example_gen_env [''weed'', ''-ip.bind=127.0.0.1''] (Some 1) (Some 2) example_gen = (Inr built, s')"
    by (elim exE)
  from enter_confined[OF example_gen_facts(4) b] b show ?thesis by blast
qed

theorem worker_resolver_gateway_witness:
  "\<exists>rendered. render_worker_resolv_conf example_gen_env ''10.0.0.1'' = Inr rendered
     \<and> resolver_nameservers (example_gen_env\<lparr>resolver_text := Inr rendered\<rparr>) = Inr [''10.0.0.1'']"
proof -
  have "\<exists>rendered. render_worker_resolv_conf example_gen_env ''10.0.0.1'' = Inr rendered"
    by (simp add: render_worker_resolv_conf_def example_gen_env_def)
  then obtain rendered where r: "render_worker_resolv_conf example_gen_env ''10.0.0.1'' = Inr rendered" by (elim exE)
  have a: "ip_address example_gen_env ''10.0.0.1'' = Some ''10.0.0.1''" by (simp add: example_gen_env_def)
  have "\<forall>c\<in>set ''10.0.0.1''. \<not> py_isspace c" by (simp add: py_isspace_def)
  from worker_resolver_gateway[OF r a a _ this] r show ?thesis by simp
qed

end
