(* ===== verification/Generation_History.thy ===== *)
theory Generation_History
  imports Prelude
begin

text \<open>
  The bounded, crash-safe generation history of \<open>generation_history.py\<close>: the sanitising load, the in-memory
  state with its persisted copy, and every operation of \<open>GenerationHistory\<close>. Entries have the types
  \<open>_persist\<close> writes; the checks of \<open>_load\<close> on the shape of the document are cases of the model. A restart of
  the guardian drops the memory and loads the file again.
\<close>

record active_record =
  ar_generation :: "int option"
  ar_transport :: string
  ar_mode :: string
  ar_started_at :: "rat option"

record outcome_record =
  oc_active :: active_record
  oc_ended_at :: rat
  oc_duration :: rat
  oc_cause :: string
  oc_reason :: string
  oc_phase :: string
  oc_clean_shutdown :: bool
  oc_fence_verified :: bool

record history_payload =
  hp_counters :: "(string \<rightharpoonup> int) field"
  hp_history :: "outcome_record list field"
  hp_active :: "active_record field"
  hp_certified :: "bool field"
  hp_reason :: "string option"
  hp_certified_at :: "rat option"

datatype history_file =
    HistoryAbsent
  | HistoryUnreadable
  | HistoryNotObject
  | HistoryObject history_payload

record history_state =
  counters :: "string \<rightharpoonup> int"
  history :: "outcome_record list"
  active_gen :: "active_record option"
  indexes_certified :: bool
  index_certification_reason :: string
  index_certified_at :: rat

text \<open>The object: what it holds in memory and what is on disk.\<close>

record generation_history =
  gh_state :: history_state
  gh_file :: history_file

definition MAX_HISTORY :: nat where
  "MAX_HISTORY = 64"

section \<open>Loading and persisting\<close>

definition field_or :: "'a field \<Rightarrow> 'a \<Rightarrow> 'a" where
  "field_or v d = (case v of Good x \<Rightarrow> x | _ \<Rightarrow> d)"

definition empty_history_payload :: history_payload where
  "empty_history_payload = \<lparr>hp_counters = Absent, hp_history = Absent, hp_active = Absent,
     hp_certified = Absent, hp_reason = None, hp_certified_at = None\<rparr>"

definition is_wrong :: "'a field \<Rightarrow> bool" where
  "is_wrong v = (case v of Wrong \<Rightarrow> True | _ \<Rightarrow> False)"

text \<open>The state a payload gives, when reading it was already uncertain or not.\<close>

definition history_of_payload :: "bool \<Rightarrow> history_payload \<Rightarrow> history_state" where
  "history_of_payload unreadable p =
     (let uncertain = (unreadable \<or> is_wrong (hp_counters p) \<or> is_wrong (hp_history p)
            \<or> is_wrong (hp_active p) \<or> is_wrong (hp_certified p))
      in \<lparr>counters = field_or (hp_counters p) Map.empty, history = field_or (hp_history p) [],
          active_gen = (case hp_active p of Good a \<Rightarrow> Some a | _ \<Rightarrow> None),
          indexes_certified = (if uncertain then False else field_or (hp_certified p) True),
          index_certification_reason =
            (if uncertain then ''generation history was unreadable''
             else case hp_reason p of Some r \<Rightarrow> r | None \<Rightarrow> ''no unclean generation recorded''),
          index_certified_at =
            (if uncertain then 0 else case hp_certified_at p of Some t \<Rightarrow> t | None \<Rightarrow> 0)\<rparr>)"

definition load_history :: "history_file \<Rightarrow> history_state" where
  "load_history f = (case f of
       HistoryAbsent \<Rightarrow> history_of_payload False empty_history_payload
     | HistoryUnreadable \<Rightarrow> history_of_payload True empty_history_payload
     | HistoryNotObject \<Rightarrow> history_of_payload True empty_history_payload
     | HistoryObject p \<Rightarrow> history_of_payload False p)"

definition write_history :: "history_state \<Rightarrow> history_file" where
  "write_history s = HistoryObject
     \<lparr>hp_counters = Good (counters s), hp_history = Good (history s),
      hp_active = (case active_gen s of None \<Rightarrow> Absent | Some a \<Rightarrow> Good a),
      hp_certified = Good (indexes_certified s), hp_reason = Some (index_certification_reason s),
      hp_certified_at = Some (index_certified_at s)\<rparr>"

definition open_history :: "history_file \<Rightarrow> generation_history" where
  "open_history f = \<lparr>gh_state = load_history f, gh_file = f\<rparr>"

definition persist :: "history_state \<Rightarrow> generation_history" where
  "persist s = \<lparr>gh_state = s, gh_file = write_history s\<rparr>"

section \<open>Operations\<close>

definition counter :: "history_state \<Rightarrow> string \<Rightarrow> int" where
  "counter s k = (case counters s k of None \<Rightarrow> 0 | Some n \<Rightarrow> n)"

definition increment :: "string \<Rightarrow> history_state \<Rightarrow> history_state" where
  "increment k s = s\<lparr>counters := (counters s)(k \<mapsto> counter s k + 1)\<rparr>"

definition empty_active :: active_record where
  "empty_active = \<lparr>ar_generation = None, ar_transport = [], ar_mode = [], ar_started_at = None\<rparr>"

record outcome =
  o_cause :: string
  o_reason :: string
  o_phase :: string
  o_clean :: bool
  o_fence :: bool

definition close_record :: "rat \<Rightarrow> outcome \<Rightarrow> active_record \<Rightarrow> outcome_record" where
  "close_record now oc a =
     \<lparr>oc_active = a, oc_ended_at = now,
      oc_duration = max 0 (now - (case ar_started_at a of Some t \<Rightarrow> t | None \<Rightarrow> now)),
      oc_cause = o_cause oc, oc_reason = o_reason oc, oc_phase = o_phase oc,
      oc_clean_shutdown = o_clean oc, oc_fence_verified = o_fence oc\<rparr>"

definition note_shutdown :: "outcome \<Rightarrow> active_record \<Rightarrow> history_state \<Rightarrow> history_state" where
  "note_shutdown oc a s =
     (if o_clean oc then increment ''clean_shutdowns_total'' s
      else (increment ''unclean_shutdowns_total'' s)
        \<lparr>indexes_certified := False,
         index_certification_reason :=
           ''generation '' @ show_int (case ar_generation a of Some g \<Rightarrow> g | None \<Rightarrow> 0)
             @ '' ended uncleanly: '' @ o_reason oc,
         index_certified_at := 0\<rparr>)"

definition finish_active :: "rat \<Rightarrow> outcome \<Rightarrow> history_state \<Rightarrow> history_state" where
  "finish_active now oc s =
     (let a = (case active_gen s of Some a \<Rightarrow> a | None \<Rightarrow> empty_active);
          s1 = s\<lparr>history := last_n MAX_HISTORY (history s @ [close_record now oc a]), active_gen := None\<rparr>;
          s2 = increment (''cause:'' @ o_cause oc) (increment ''generations_completed_total'' s1);
          s3 = note_shutdown oc a s2
      in increment (if o_fence oc then ''verified_fences_total'' else ''unverified_fences_total'') s3)"

definition restart_outcome :: outcome where
  "restart_outcome = \<lparr>o_cause = ''guardian_restart_detected'',
     o_reason = ''guardian restarted before the prior generation recorded an outcome'',
     o_phase = ''startup'', o_clean = False, o_fence = False\<rparr>"

definition superseded_outcome :: outcome where
  "superseded_outcome = \<lparr>o_cause = ''superseded_without_outcome'',
     o_reason = ''a replacement generation started without a recorded prior outcome'',
     o_phase = ''creating_generation'', o_clean = False, o_fence = False\<rparr>"

definition recover_interrupted_active :: "rat \<Rightarrow> generation_history \<Rightarrow> bool \<times> generation_history" where
  "recover_interrupted_active now h =
     (if active_gen (gh_state h) \<noteq> None
      then (True, persist (finish_active now restart_outcome (gh_state h)))
      else (False, h))"

definition start_generation ::
  "rat \<Rightarrow> int \<Rightarrow> string \<Rightarrow> string \<Rightarrow> generation_history \<Rightarrow> generation_history" where
  "start_generation now g transport mode h =
     (let s0 = gh_state h;
          s1 = (if active_gen s0 \<noteq> None then finish_active now superseded_outcome s0 else s0)
      in persist ((increment ''generations_created_total'' s1)
           \<lparr>active_gen := Some \<lparr>ar_generation = Some g, ar_transport = transport, ar_mode = mode,
                              ar_started_at = Some now\<rparr>\<rparr>))"

definition finish_generation :: "rat \<Rightarrow> outcome \<Rightarrow> generation_history \<Rightarrow> generation_history" where
  "finish_generation now oc h =
     (if active_gen (gh_state h) = None then h else persist (finish_active now oc (gh_state h)))"

definition certify_indexes :: "rat \<Rightarrow> string \<Rightarrow> generation_history \<Rightarrow> generation_history" where
  "certify_indexes now reason h =
     persist (increment ''index_certifications_total''
       ((gh_state h)\<lparr>indexes_certified := True, index_certification_reason := reason,
                     index_certified_at := now\<rparr>))"

definition classify_cause :: "string \<Rightarrow> string \<Rightarrow> string" where
  "classify_cause name phase =
     (if name = ''TransportSwitchRequested'' then ''operator_transport_switch''
      else if name = ''StorageError'' then ''storage_failure''
      else if name = ''ProcessError'' then ''process_failure''
      else if name \<in> set [''SeaweedHealthError'', ''UnexpectedReadonlyVolumes''] then ''seaweed_volume_health_failure''
      else if name \<in> set [''IndexRepairError'', ''IndexRepairJournalError'', ''IndexRepairManualIntervention'',
                          ''IndexValidationRequired''] then ''seaweed_index_repair_failure''
      else if name = ''S3CheckError'' then ''s3_canary_failure''
      else if phase \<in> set [''MOUNTING'', ''VERIFYING_STORAGE'', ''VERIFYING_TRANSPORTS''] then ''storage_startup_failure''
      else if phase = ''STARTING_SEAWEED'' then ''seaweed_startup_failure''
      else if phase = ''CREATING_GENERATION'' then ''generation_creation_failure''
      else ''runtime_failure'')"

record history_snapshot =
  hs_certified :: bool
  hs_reason :: string
  hs_certified_at :: rat
  hs_counters :: "string \<rightharpoonup> int"
  hs_active :: "active_record option"
  hs_recent :: "outcome_record list"

definition history_snapshot_of :: "generation_history \<Rightarrow> history_snapshot" where
  "history_snapshot_of h = (let s = gh_state h in
     \<lparr>hs_certified = indexes_certified s, hs_reason = index_certification_reason s,
      hs_certified_at = index_certified_at s, hs_counters = counters s, hs_active = active_gen s,
      hs_recent = last_n 10 (history s)\<rparr>)"

text \<open>One event in the life of the history; a restart loads the file and closes an interrupted record.\<close>

datatype history_op =
    HStart rat int string string
  | HFinish rat outcome
  | HCertify rat string
  | HRestart rat

fun history_step :: "history_op \<Rightarrow> generation_history \<Rightarrow> unit + generation_history" where
  "history_step (HStart now g t m) h = Inr (start_generation now g t m h)"
| "history_step (HFinish now oc) h = Inr (finish_generation now oc h)"
| "history_step (HCertify now r) h = Inr (certify_indexes now r h)"
| "history_step (HRestart now) h = Inr (snd (recover_interrupted_active now (open_history (gh_file h))))"

section \<open>Persistence\<close>

lemma load_write_history [simp]: "load_history (write_history s) = s"
  by (cases s) (auto simp: load_history_def write_history_def history_of_payload_def field_or_def is_wrong_def
      Let_def split: option.splits)

interpretation hs: persistent_state "\<lambda>f. Inr (load_history f) :: unit + history_state" write_history "\<lambda>_. True"
  by unfold_locales simp_all

definition in_sync :: "generation_history \<Rightarrow> bool" where
  "in_sync h \<longleftrightarrow> gh_state h = load_history (gh_file h)"

lemma in_sync_persist [simp]: "in_sync (persist s)" "gh_state (persist s) = s"
  by (simp_all add: in_sync_def persist_def)

lemma open_in_sync [simp]: "in_sync h \<Longrightarrow> open_history (gh_file h) = h" "in_sync (open_history f)"
  by (simp_all add: in_sync_def open_history_def)

lemmas history_op_defs = start_generation_def finish_generation_def certify_indexes_def
  recover_interrupted_active_def

section \<open>Accounting\<close>

abbreviation created :: "history_state \<Rightarrow> int" where "created s \<equiv> counter s ''generations_created_total''"
abbreviation completed :: "history_state \<Rightarrow> int" where "completed s \<equiv> counter s ''generations_completed_total''"
abbreviation clean_total :: "history_state \<Rightarrow> int" where "clean_total s \<equiv> counter s ''clean_shutdowns_total''"
abbreviation unclean_total :: "history_state \<Rightarrow> int" where "unclean_total s \<equiv> counter s ''unclean_shutdowns_total''"
abbreviation fenced_total :: "history_state \<Rightarrow> int" where "fenced_total s \<equiv> counter s ''verified_fences_total''"
abbreviation unfenced_total :: "history_state \<Rightarrow> int" where "unfenced_total s \<equiv> counter s ''unverified_fences_total''"

definition active_count :: "history_state \<Rightarrow> int" where
  "active_count s = (if active_gen s = None then 0 else 1)"

definition accounts :: "history_state \<Rightarrow> bool" where
  "accounts s \<longleftrightarrow> created s = completed s + active_count s
     \<and> completed s = clean_total s + unclean_total s \<and> completed s = fenced_total s + unfenced_total s
     \<and> 0 \<le> completed s \<and> int (length (history s)) = min 64 (completed s)"

lemma counter_increment [simp]: "counter (increment k s) j = (if j = k then counter s j + 1 else counter s j)"
  by (simp add: increment_def counter_def)

lemma increment_fields [simp]:
  "history (increment k s) = history s" "active_gen (increment k s) = active_gen s"
  "indexes_certified (increment k s) = indexes_certified s"
  "index_certification_reason (increment k s) = index_certification_reason s"
  by (simp_all add: increment_def)

lemma counter_cong [simp]:
  "counter (history_update f1 s) k = counter s k"
  "counter (active_gen_update f2 s) k = counter s k"
  "counter (indexes_certified_update f3 s) k = counter s k"
  "counter (index_certification_reason_update f4 s) k = counter s k"
  "counter (index_certified_at_update f5 s) k = counter s k"
  by (simp_all add: counter_def)

lemma finish_active_fields [simp]:
  "active_gen (finish_active now oc s) = None"
  "history (finish_active now oc s) = last_n MAX_HISTORY (history s @
     [close_record now oc (case active_gen s of Some a \<Rightarrow> a | None \<Rightarrow> empty_active)])"
  "indexes_certified (finish_active now oc s) \<longleftrightarrow> o_clean oc \<and> indexes_certified s"
  by (simp_all add: finish_active_def note_shutdown_def Let_def)

lemma counter_finish:
  "counter (finish_active now oc s) k = counter s k
     + (if k = ''generations_completed_total'' then 1 else 0) + (if k = ''cause:'' @ o_cause oc then 1 else 0)
     + (if k = (if o_clean oc then ''clean_shutdowns_total'' else ''unclean_shutdowns_total'') then 1 else 0)
     + (if k = (if o_fence oc then ''verified_fences_total'' else ''unverified_fences_total'') then 1 else 0)"
  by (simp add: finish_active_def note_shutdown_def Let_def)

lemma accounts_finish:
  "accounts s \<Longrightarrow> active_gen s \<noteq> None \<Longrightarrow> accounts (finish_active now oc s)"
  by (auto simp: accounts_def counter_finish active_count_def MAX_HISTORY_def)

lemma accounts_step:
  assumes "history_step op h = Inr h'" "in_sync h \<and> accounts (gh_state h)"
  shows "in_sync h' \<and> accounts (gh_state h')"
proof (cases op)
  case (HStart now g t m)
  have "accounts s1 \<Longrightarrow> active_gen s1 = None \<Longrightarrow>
      accounts ((increment ''generations_created_total'' s1)\<lparr>active_gen := Some a\<rparr>)" for s1 a
    by (simp add: accounts_def active_count_def)
  then show ?thesis
    using assms HStart by (auto simp: start_generation_def Let_def accounts_finish)
next
  case (HCertify now r)
  then show ?thesis
    using assms by (auto simp: certify_indexes_def accounts_def active_count_def)
qed (use assms in \<open>auto simp: history_op_defs accounts_finish\<close>)

interpretation hm: guarded_machine history_step "\<lambda>h. in_sync h \<and> accounts (gh_state h)"
  by unfold_locales (rule accounts_step)

section \<open>Properties\<close>

lemma load_absent:
  "load_history HistoryAbsent = \<lparr>counters = Map.empty, history = [], active_gen = None,
     indexes_certified = True, index_certification_reason = ''no unclean generation recorded'',
     index_certified_at = 0\<rparr>"
  by (simp add: load_history_def history_of_payload_def empty_history_payload_def field_or_def is_wrong_def)

lemma fresh_history: "in_sync (open_history HistoryAbsent) \<and> accounts (gh_state (open_history HistoryAbsent))"
  by (simp add: accounts_def active_count_def counter_def open_history_def load_absent in_sync_def)

text \<open>
  C26. The history accounts for every generation: after any sequence of starts, outcomes, certifications and
  guardian restarts from an empty state directory, the memory is what a restart would read back; every
  created generation is completed or is the active one, every completed one is counted once as clean or
  unclean and once as fenced or not, and the retained outcomes are the last 64 completed.
\<close>

theorem history_accounts:
  "\<exists>s. gh_state (hm.run_ops ops (open_history HistoryAbsent)) = s
     \<and> load_history (gh_file (hm.run_ops ops (open_history HistoryAbsent))) = s
     \<and> created s = completed s + active_count s
     \<and> completed s = clean_total s + unclean_total s
     \<and> completed s = fenced_total s + unfenced_total s
     \<and> int (length (history s)) = min 64 (completed s)"
  using hm.run_ops_inv[OF fresh_history, of ops] by (auto simp: in_sync_def accounts_def)

lemma uncertified_step:
  assumes "history_step op h = Inr h'" "in_sync h \<and> \<not> indexes_certified (gh_state h)"
    "\<forall>now r. op \<noteq> HCertify now r"
  shows "in_sync h' \<and> \<not> indexes_certified (gh_state h')"
  using assms by (cases op) (auto simp: history_op_defs Let_def split: if_splits)

text \<open>
  An unclean end withdraws the certification of the indexes until somebody certifies them again: when a
  generation ends uncleanly, is superseded without an outcome, or is found active after a restart of the
  guardian, the indexes are not certified, on disk either, after any further sequence of events without a
  certification.
\<close>

theorem unclean_decertifies:
  assumes "in_sync h" "active_gen (gh_state h) \<noteq> None"
    "op = HRestart now \<or> op = HStart now g t m \<or> op = HFinish now oc \<and> \<not> o_clean oc"
    "\<forall>now r. HCertify now r \<notin> set ops"
  shows "\<not> indexes_certified (gh_state (hm.run_ops (op # ops) h))
    \<and> \<not> indexes_certified (load_history (gh_file (hm.run_ops (op # ops) h)))"
proof -
  let ?P = "\<lambda>h. in_sync h \<and> \<not> indexes_certified (gh_state h)"
  have "?P (hm.apply_op op h)"
    using assms(1-3)
    by (auto simp: hm.apply_op_def history_op_defs Let_def restart_outcome_def superseded_outcome_def)
  then have "?P (hm.run_ops ops (hm.apply_op op h))"
    by (rule hm.run_ops_stable[where P = ?P, rotated])
       (rule uncertified_step, use assms(4) in auto)
  then show ?thesis unfolding in_sync_def hm.run_ops_simps(2) by (metis (no_types))
qed

theorem unclean_decertifies_witness:
  "\<exists>h. h = start_generation 5 1 ''cifs'' ''namespace'' (open_history HistoryAbsent)
     \<and> indexes_certified (gh_state h)
     \<and> \<not> indexes_certified (gh_state (hm.run_ops [HRestart 9, HStart 10 2 ''cifs'' ''namespace''] h))"
proof -
  define h where "h = start_generation 5 1 ''cifs'' ''namespace'' (open_history HistoryAbsent)"
  have "in_sync h" "active_gen (gh_state h) \<noteq> None" by (simp_all add: h_def start_generation_def Let_def)
  moreover have "indexes_certified (gh_state h)"
    by (simp add: h_def start_generation_def Let_def open_history_def load_absent)
  ultimately show ?thesis
    using unclean_decertifies[of h "HRestart 9" 9 0 "[]" "[]" restart_outcome
        "[HStart 10 2 ''cifs'' ''namespace'']"] h_def by auto
qed

text \<open>
  Loading fails closed: whatever the file holds, a document that is unreadable, not an object, or has a
  counter table, history, active record or certification of the wrong type leaves the indexes uncertified;
  they are certified after a load only if the file says so or the file was never written to say otherwise.
\<close>

theorem history_load_fail_closed:
  "indexes_certified (load_history f) \<longleftrightarrow>
     f = HistoryAbsent \<or> (\<exists>p. f = HistoryObject p \<and> hp_certified p \<in> {Absent, Good True}
       \<and> hp_counters p \<noteq> Wrong \<and> hp_history p \<noteq> Wrong \<and> hp_active p \<noteq> Wrong)"
  by (auto simp: load_history_def history_of_payload_def Let_def is_wrong_def field_or_def
      empty_history_payload_def split: history_file.splits field.splits)

text \<open>
  A restart closes the interrupted generation exactly once: the first recovery after a crash reports it,
  leaves no active record and appends one outcome with the crash as its cause; a second recovery changes
  nothing.
\<close>

theorem recover_interrupted_once:
  assumes "in_sync h" "active_gen (gh_state h) = Some a"
    "recover_interrupted_active now (open_history (gh_file h)) = (b, h')"
  shows "b \<and> active_gen (gh_state h') = None \<and> history (gh_state h') \<noteq> []
    \<and> last (history (gh_state h')) = close_record now restart_outcome a
    \<and> completed (gh_state h') = completed (gh_state h) + 1
    \<and> unfenced_total (gh_state h') = unfenced_total (gh_state h) + 1
    \<and> recover_interrupted_active now' (open_history (gh_file h')) = (False, h')"
proof -
  have h': "b" "h' = persist (finish_active now restart_outcome (gh_state h))"
    using assms by (auto simp: recover_interrupted_active_def)
  have "open_history (gh_file h') = h'" by (simp add: h')
  moreover have "last (last_n MAX_HISTORY (history (gh_state h) @ [x])) = x
      \<and> last_n MAX_HISTORY (history (gh_state h) @ [x]) \<noteq> []" for x
    by (rule last_n_snoc) (simp add: MAX_HISTORY_def)
  ultimately show ?thesis
    using assms(2) h' by (simp add: recover_interrupted_active_def counter_finish restart_outcome_def)
qed

theorem recover_interrupted_once_witness:
  "\<exists>(h :: generation_history) h'. recover_interrupted_active 9 (open_history (gh_file h)) = (True, h')
     \<and> active_gen (gh_state h') = None \<and> completed (gh_state h') = completed (gh_state h) + 1"
proof -
  define h where "h = start_generation 5 1 ''cifs'' ''namespace'' (open_history HistoryAbsent)"
  have h: "in_sync h" "active_gen (gh_state h) = Some \<lparr>ar_generation = Some 1, ar_transport = ''cifs'',
      ar_mode = ''namespace'', ar_started_at = Some 5\<rparr>"
    by (simp_all add: h_def start_generation_def Let_def)
  obtain b h' where r: "recover_interrupted_active 9 (open_history (gh_file h)) = (b, h')"
    by (cases "recover_interrupted_active 9 (open_history (gh_file h))")
  show ?thesis
    using recover_interrupted_once[OF h r, of 10] r by (intro exI[of _ h] exI[of _ h']) simp
qed

end
