(* ===== verification/Sentinel.thy ===== *)
theory Sentinel
  imports Config_Types
begin

text \<open>
  The dataset identity document of \<open>sentinel.py\<close>: the Sentinel V2 payload an enrolment writes and the
  validation every probe performs on the parsed document.
\<close>

definition SENTINEL_SCHEMA :: string where
  "SENTINEL_SCHEMA = ''s3-storage-node/dataset-sentinel''"

definition CURRENT_SENTINEL_VERSION :: int where
  "CURRENT_SENTINEL_VERSION = 2"

record sentinel_identity =
  id_version :: int
  id_schema :: string
  id_dataset :: string
  id_target :: string
  id_subdirectory :: string
  id_legacy :: bool

datatype sentinel_error =
    NotAnObject
  | VersionNotInteger
  | BadStringField string
  | DatasetMismatch string
  | LegacyTargetNotString
  | UnsupportedVersion int
  | UnexpectedSchema string
  | SubdirectoryNotString
  | NotTransportIndependent
  | IdsDiffer
  | TargetMismatch string
  | SubdirectoryMismatch string

definition sentinel_v2_payload :: "target_config \<Rightarrow> json" where
  "sentinel_v2_payload t = JObj
     [(''schema'', JStr SENTINEL_SCHEMA),
      (''version'', JInt CURRENT_SENTINEL_VERSION),
      (''sentinel_id'', JStr (sentinel_id t)),
      (''dataset_id'', JStr (sentinel_id t)),
      (''target'', JStr (tgt_name t)),
      (''subdirectory'', JStr (subdirectory t)),
      (''transport_independent'', JBool True)]"

definition sentinel_string :: "(string \<times> json) list \<Rightarrow> string \<Rightarrow> sentinel_error + string" where
  "sentinel_string d k = (case json_get d k of
       Some (JStr s) \<Rightarrow> if s = [] then Inl (BadStringField k) else Inr s
     | _ \<Rightarrow> Inl (BadStringField k))"

definition validate_v1 :: "target_config \<Rightarrow> (string \<times> json) list \<Rightarrow> sentinel_error + sentinel_identity" where
  "validate_v1 t d =
     bindE (sentinel_string d ''sentinel_id'') (\<lambda>sid.
     bindE (requireE (sid = sentinel_id t) (DatasetMismatch sid)) (\<lambda>_.
     bindE (case json_get d ''target'' of
              None \<Rightarrow> Inr []
            | Some JNull \<Rightarrow> Inr []
            | Some (JStr s) \<Rightarrow> Inr s
            | Some _ \<Rightarrow> Inl LegacyTargetNotString) (\<lambda>lt.
     Inr \<lparr>id_version = 1, id_schema = ''legacy-v1'', id_dataset = sid,
          id_target = (if lt = [] then tgt_name t else lt),
          id_subdirectory = subdirectory t, id_legacy = True\<rparr>)))"

definition validate_v2 :: "target_config \<Rightarrow> (string \<times> json) list \<Rightarrow> sentinel_error + sentinel_identity" where
  "validate_v2 t d =
     bindE (sentinel_string d ''schema'') (\<lambda>schema.
     bindE (requireE (schema = SENTINEL_SCHEMA) (UnexpectedSchema schema)) (\<lambda>_.
     bindE (sentinel_string d ''sentinel_id'') (\<lambda>sid.
     bindE (sentinel_string d ''dataset_id'') (\<lambda>did.
     bindE (sentinel_string d ''target'') (\<lambda>tn.
     bindE (case json_get d ''subdirectory'' of
              Some (JStr s) \<Rightarrow> Inr s | _ \<Rightarrow> Inl SubdirectoryNotString) (\<lambda>sub.
     bindE (requireE (json_get d ''transport_independent'' = Some (JBool True)) NotTransportIndependent) (\<lambda>_.
     bindE (requireE (\<not> (sid \<noteq> sentinel_id t \<or> did \<noteq> sentinel_id t))
              (DatasetMismatch (if did \<noteq> sentinel_id t then did else sid))) (\<lambda>_.
     bindE (requireE (sid = did) IdsDiffer) (\<lambda>_.
     bindE (requireE (tn = tgt_name t) (TargetMismatch tn)) (\<lambda>_.
     bindE (requireE (sub = subdirectory t) (SubdirectoryMismatch sub)) (\<lambda>_.
     Inr \<lparr>id_version = CURRENT_SENTINEL_VERSION, id_schema = schema, id_dataset = did,
          id_target = tn, id_subdirectory = sub, id_legacy = False\<rparr>)))))))))))"

definition validate_sentinel_payload :: "target_config \<Rightarrow> json \<Rightarrow> sentinel_error + sentinel_identity" where
  "validate_sentinel_payload t payload = (case payload of
       JObj d \<Rightarrow>
         (case (case json_get d ''version'' of None \<Rightarrow> JInt 1 | Some v \<Rightarrow> v) of
            JInt version \<Rightarrow>
              (if version = 1 then validate_v1 t d
               else if version \<noteq> CURRENT_SENTINEL_VERSION then Inl (UnsupportedVersion version)
               else validate_v2 t d)
          | _ \<Rightarrow> Inl VersionNotInteger)
     | _ \<Rightarrow> Inl NotAnObject)"

section \<open>Identity is a contract between targets\<close>

text \<open>
  What the storage layer relies on: validation accepts what enrolment wrote for the same target, depends
  on the target's identity fields only, and accepts a document for one dataset at most.
\<close>

definition same_dataset :: "target_config \<Rightarrow> target_config \<Rightarrow> bool" where
  "same_dataset a b \<longleftrightarrow>
     sentinel_id a = sentinel_id b \<and> tgt_name a = tgt_name b \<and> subdirectory a = subdirectory b"

locale dataset_identity =
  fixes enrol :: "'t \<Rightarrow> 'doc" and validate :: "'t \<Rightarrow> 'doc \<Rightarrow> 'e + 'i"
    and dataset :: "'t \<Rightarrow> 'd" and same :: "'t \<Rightarrow> 't \<Rightarrow> bool" and wf :: "'t \<Rightarrow> bool"
  assumes accept: "wf t \<Longrightarrow> \<exists>i. validate t (enrol t) = Inr i"
    and cong: "same a b \<Longrightarrow> validate a doc = validate b doc"
    and unique: "validate a doc = Inr i \<Longrightarrow> validate b doc = Inr j \<Longrightarrow> dataset a = dataset b"
begin

text \<open>Every route to the same dataset accepts the document any one of them enrolled, and a target of
  another dataset rejects it.\<close>

lemma shared_document:
  assumes "wf a" "same b a"
  shows "\<exists>i. validate b (enrol a) = Inr i"
  using accept[OF assms(1)] cong[OF assms(2), of "enrol a"] by simp

lemma foreign_document:
  assumes "wf a" "dataset b \<noteq> dataset a"
  shows "\<exists>e. validate b (enrol a) = Inl e"
proof (cases "validate b (enrol a)")
  case (Inr j)
  with accept[OF assms(1)] assms(2) show ?thesis by (metis unique)
qed simp

end

definition enrollable :: "target_config \<Rightarrow> bool" where
  "enrollable t \<longleftrightarrow> sentinel_id t \<noteq> [] \<and> tgt_name t \<noteq> []"

lemmas validate_defs = validate_sentinel_payload_def validate_v1_def validate_v2_def

lemma validate_accepts_payload:
  "enrollable t \<Longrightarrow> validate_sentinel_payload t (sentinel_v2_payload t) =
     Inr \<lparr>id_version = 2, id_schema = SENTINEL_SCHEMA, id_dataset = sentinel_id t,
          id_target = tgt_name t, id_subdirectory = subdirectory t, id_legacy = False\<rparr>"
  by (simp add: validate_defs sentinel_v2_payload_def json_get_def sentinel_string_def enrollable_def
      CURRENT_SENTINEL_VERSION_def SENTINEL_SCHEMA_def)

lemma sentinel_string_Inr [res_simps]:
  "sentinel_string d k = Inr s \<longleftrightarrow> json_get d k = Some (JStr s) \<and> s \<noteq> []"
  by (auto simp: sentinel_string_def split: option.splits json.splits)

lemma validate_v1_cong: "same_dataset a b \<Longrightarrow> validate_v1 a d = validate_v1 b d"
  by (simp add: validate_v1_def same_dataset_def cong: if_cong)

lemma validate_v2_cong: "same_dataset a b \<Longrightarrow> validate_v2 a d = validate_v2 b d"
  by (simp add: validate_v2_def same_dataset_def cong: if_cong)

lemma validate_cong:
  "same_dataset a b \<Longrightarrow> validate_sentinel_payload a p = validate_sentinel_payload b p"
  by (simp add: validate_sentinel_payload_def validate_v1_cong[of a b] validate_v2_cong[of a b]
      cong: json.case_cong if_cong)

lemma validate_v1_sound:
  "validate_v1 t d = Inr i \<Longrightarrow> json_get d ''sentinel_id'' = Some (JStr (sentinel_id t))
     \<and> sentinel_id t \<noteq> [] \<and> id_dataset i = sentinel_id t \<and> id_version i = 1"
  by (auto simp: validate_v1_def res_simps)

lemma validate_v2_sound:
  "validate_v2 t d = Inr i \<Longrightarrow>
     json_get d ''sentinel_id'' = Some (JStr (sentinel_id t))
     \<and> json_get d ''dataset_id'' = Some (JStr (sentinel_id t))
     \<and> json_get d ''target'' = Some (JStr (tgt_name t))
     \<and> json_get d ''subdirectory'' = Some (JStr (subdirectory t))
     \<and> json_get d ''schema'' = Some (JStr SENTINEL_SCHEMA)
     \<and> json_get d ''transport_independent'' = Some (JBool True)
     \<and> sentinel_id t \<noteq> [] \<and> tgt_name t \<noteq> []
     \<and> i = \<lparr>id_version = 2, id_schema = SENTINEL_SCHEMA, id_dataset = sentinel_id t,
           id_target = tgt_name t, id_subdirectory = subdirectory t, id_legacy = False\<rparr>"
  by (auto simp: validate_v2_def res_simps CURRENT_SENTINEL_VERSION_def
      split: option.splits json.splits)

text \<open>The version a document declares, with the default of V1.\<close>

definition declared_version :: "(string \<times> json) list \<Rightarrow> json" where
  "declared_version d = (case json_get d ''version'' of None \<Rightarrow> JInt 1 | Some v \<Rightarrow> v)"

lemma validate_Inr_iff:
  "validate_sentinel_payload t p = Inr i \<longleftrightarrow>
     (\<exists>d. p = JObj d \<and> (declared_version d = JInt 1 \<and> validate_v1 t d = Inr i
                      \<or> declared_version d = JInt 2 \<and> validate_v2 t d = Inr i))"
  by (auto simp: validate_sentinel_payload_def declared_version_def CURRENT_SENTINEL_VERSION_def
      split: json.splits option.splits)

lemma validate_sound_id:
  "validate_sentinel_payload t p = Inr i \<Longrightarrow>
     (\<exists>d. p = JObj d \<and> json_get d ''sentinel_id'' = Some (JStr (sentinel_id t)))"
  by (auto simp: validate_Inr_iff dest: validate_v1_sound validate_v2_sound)

interpretation sv: dataset_identity sentinel_v2_payload validate_sentinel_payload sentinel_id
  same_dataset enrollable
proof unfold_locales
  fix a b doc i j
  assume "validate_sentinel_payload a doc = Inr i" "validate_sentinel_payload b doc = Inr j"
  then show "sentinel_id a = sentinel_id b"
    by (auto dest!: validate_sound_id)
qed (auto simp: validate_accepts_payload intro: validate_cong)

section \<open>Properties\<close>

text \<open>
  C22. What an accepted sentinel proves: validation succeeds exactly on a JSON object that is a V1 document
  carrying the target's non-empty dataset id (with a target label that is absent, null or a string), or a
  V2 document whose schema, both ids, target, subdirectory and transport independence are exactly the
  target's; the identity returned is the target's dataset.
\<close>

theorem validate_sentinel_exact:
  "(\<exists>i. validate_sentinel_payload t p = Inr i) \<longleftrightarrow>
     (\<exists>d. p = JObj d \<and> sentinel_id t \<noteq> []
        \<and> json_get d ''sentinel_id'' = Some (JStr (sentinel_id t))
        \<and> (declared_version d = JInt 1
             \<and> (json_get d ''target'' \<in> {None, Some JNull} \<or> (\<exists>s. json_get d ''target'' = Some (JStr s)))
           \<or> declared_version d = JInt 2
             \<and> json_get d ''schema'' = Some (JStr SENTINEL_SCHEMA)
             \<and> json_get d ''dataset_id'' = Some (JStr (sentinel_id t))
             \<and> json_get d ''target'' = Some (JStr (tgt_name t)) \<and> tgt_name t \<noteq> []
             \<and> json_get d ''subdirectory'' = Some (JStr (subdirectory t))
             \<and> json_get d ''transport_independent'' = Some (JBool True)))"
  (is "?L \<longleftrightarrow> ?R")
proof
  assume ?L
  then obtain d i where d: "p = JObj d" and c:
    "declared_version d = JInt 1 \<and> validate_v1 t d = Inr i
     \<or> declared_version d = JInt 2 \<and> validate_v2 t d = Inr i"
    by (auto simp: validate_Inr_iff)
  then show ?R
  proof (elim disjE conjE)
    assume v: "declared_version d = JInt 1" "validate_v1 t d = Inr i"
    then have "json_get d ''target'' \<in> {None, Some JNull} \<or> (\<exists>s. json_get d ''target'' = Some (JStr s))"
      by (auto simp: validate_v1_def res_simps split: option.splits json.splits)
    with v validate_v1_sound[OF v(2)] d show ?R by blast
  next
    assume v: "declared_version d = JInt 2" "validate_v2 t d = Inr i"
    from v validate_v2_sound[OF v(2)] d show ?R by blast
  qed
next
  assume ?R
  then obtain d where d: "p = JObj d" "sentinel_id t \<noteq> []"
      "json_get d ''sentinel_id'' = Some (JStr (sentinel_id t))" and c:
      "declared_version d = JInt 1
         \<and> (json_get d ''target'' \<in> {None, Some JNull} \<or> (\<exists>s. json_get d ''target'' = Some (JStr s)))
       \<or> declared_version d = JInt 2
         \<and> json_get d ''schema'' = Some (JStr SENTINEL_SCHEMA)
         \<and> json_get d ''dataset_id'' = Some (JStr (sentinel_id t))
         \<and> json_get d ''target'' = Some (JStr (tgt_name t)) \<and> tgt_name t \<noteq> []
         \<and> json_get d ''subdirectory'' = Some (JStr (subdirectory t))
         \<and> json_get d ''transport_independent'' = Some (JBool True)"
    by blast
  from c have "\<exists>i. declared_version d = JInt 1 \<and> validate_v1 t d = Inr i
      \<or> declared_version d = JInt 2 \<and> validate_v2 t d = Inr i"
    using d by (auto simp: validate_v1_def validate_v2_def sentinel_string_def SENTINEL_SCHEMA_def)
  then show ?L
    using d(1) by (auto simp: validate_Inr_iff)
qed

end
