(* ===== verification/Failover_Config.thy ===== *)
theory Failover_Config
  imports Sentinel "HOL-Library.Multiset"
begin

text \<open>
  The exclusive failover configuration of \<open>transport_failover.py\<close>: the dataclasses, the order of the
  transports, \<open>resolve\<close> (which turns a transport name into a mountable target), the validating parser
  \<open>load_exclusive_failover\<close> over a decoded TOML document, and \<open>resolve_target\<close>. The exact messages of the
  configuration errors are part of the model.
\<close>

record sshfs_transport =
  tr_name :: string
  priority :: int
  tr_source :: string
  tr_auth_mode :: string
  known_hosts_file :: string
  identity_file :: string
  tr_credentials_file :: string
  port :: int
  tr_mount_options :: "string list"

record failover_config =
  fo_target :: string
  primary_name :: string
  primary_priority :: int
  failback_policy :: string
  failure_cooldown_seconds :: int
  verify_all_transports_on_startup :: bool
  transports :: "sshfs_transport list"
  worker_uid :: int
  worker_gid :: int
  fo_runtime_dir :: ppath

datatype transport_error =
    UnknownTransport string
  | NoFailoverForTarget string
  | StateUnreadable
  | StateNotObject
  | QuarantineNotObject
  | RequestedQuarantined string
  | RequestedNotConfigured string
  | AllQuarantined
  | AllCooling string int

section \<open>Order and resolution\<close>

definition ranked :: "failover_config \<Rightarrow> (int \<times> string) list" where
  "ranked fo = sort ((primary_priority fo, primary_name fo)
     # map (\<lambda>t. (priority t, tr_name t)) (transports fo))"

definition ordered_names :: "failover_config \<Rightarrow> string list" where
  "ordered_names fo = map snd (ranked fo)"

definition contains :: "failover_config \<Rightarrow> string \<Rightarrow> bool" where
  "contains fo n \<longleftrightarrow> n \<in> set (ordered_names fo)"

definition runtime_file :: "failover_config \<Rightarrow> sshfs_transport \<Rightarrow> string \<Rightarrow> ppath" where
  "runtime_file fo t suffix =
     path_div (path_div (fo_runtime_dir fo) ''generated'') (''ssh-'' @ tr_name t @ suffix)"

definition sshfs_options :: "failover_config \<Rightarrow> sshfs_transport \<Rightarrow> string list" where
  "sshfs_options fo t =
     (if tr_auth_mode t = ''key'' then
        [''IdentityFile='' @ string_of_path (runtime_file fo t ''.key''),
         ''BatchMode=yes'', ''PreferredAuthentications=publickey'', ''PasswordAuthentication=no'',
         ''KbdInteractiveAuthentication=no'']
      else
        [''password_stdin'', ''BatchMode=no'', ''PreferredAuthentications=password'',
         ''PubkeyAuthentication=no'', ''KbdInteractiveAuthentication=no'', ''NumberOfPasswordPrompts=1''])
     @ [''UserKnownHostsFile='' @ known_hosts_file t, ''StrictHostKeyChecking=yes'',
        ''port='' @ show_int (port t), ''reconnect'', ''ServerAliveInterval=15'', ''ServerAliveCountMax=3'',
        ''sshfs_sync'', ''dir_cache=no'', ''allow_other'', ''default_permissions'',
        ''uid='' @ show_int (worker_uid fo), ''gid='' @ show_int (worker_gid fo), ''umask=007'']
     @ tr_mount_options t"

definition sshfs_target :: "failover_config \<Rightarrow> target_config \<Rightarrow> sshfs_transport \<Rightarrow> target_config" where
  "sshfs_target fo base t = base
     \<lparr>tgt_type := ''sshfs'', source := tr_source t, credentials_file := [],
      mount_options := sshfs_options fo t, io_failure_policy := [], minimum_smb_dialect := [],
      handle_reconnect_policy := ''disabled'', multichannel_policy := ''disabled'', max_channels := 2,
      require_transport_observability := False, transport_name := tr_name t,
      ssh_auth_mode := tr_auth_mode t, ssh_identity_file := identity_file t,
      ssh_credentials_file := tr_credentials_file t, ssh_known_hosts_file := known_hosts_file t,
      ssh_runtime_identity_file :=
        (if tr_auth_mode t = ''key'' then string_of_path (runtime_file fo t ''.key'') else []),
      ssh_runtime_pid_file := string_of_path (runtime_file fo t ''.pid''),
      ssh_port := port t\<rparr>"

definition resolve :: "failover_config \<Rightarrow> target_config \<Rightarrow> string \<Rightarrow> transport_error + target_config" where
  "resolve fo base n =
     (if n = primary_name fo then Inr (base\<lparr>transport_name := n\<rparr>)
      else case find (\<lambda>t. tr_name t = n) (transports fo) of
             Some t \<Rightarrow> Inr (sshfs_target fo base t)
           | None \<Rightarrow> Inl (UnknownTransport n))"

text \<open>The command line an SSHFS mount runs: all options of the target joined by commas.\<close>

definition sshfs_command :: "target_config \<Rightarrow> string list" where
  "sshfs_command t =
     [''sshfs'', ''-f'', source t, string_of_path (mountpoint t)]
     @ (if mount_options t \<noteq> [] then [''-o'', py_join '','' (mount_options t)] else [])"

section \<open>Parsing\<close>

type_synonym config_error = string

definition fo_require_table :: "json \<Rightarrow> string \<Rightarrow> config_error + (string \<times> json) list" where
  "fo_require_table v n = (case v of JObj d \<Rightarrow> Inr d | _ \<Rightarrow> Inl (n @ '' must be a table''))"

definition fo_string :: "json option \<Rightarrow> string \<Rightarrow> string \<Rightarrow> config_error + string" where
  "fo_string v n dflt = (case v of
       None \<Rightarrow> Inr dflt
     | Some (JStr s) \<Rightarrow> Inr (py_strip s)
     | Some _ \<Rightarrow> Inl (n @ '' must be a string''))"

definition fo_integer :: "json option \<Rightarrow> string \<Rightarrow> int \<Rightarrow> config_error + int" where
  "fo_integer v n dflt = (case v of
       None \<Rightarrow> Inr dflt
     | Some (JInt i) \<Rightarrow> Inr i
     | Some _ \<Rightarrow> Inl (n @ '' must be an integer''))"

definition fo_boolean :: "json option \<Rightarrow> string \<Rightarrow> bool \<Rightarrow> config_error + bool" where
  "fo_boolean v n dflt = (case v of
       None \<Rightarrow> Inr dflt
     | Some (JBool b) \<Rightarrow> Inr b
     | Some _ \<Rightarrow> Inl (n @ '' must be true or false''))"

definition is_JStr :: "json \<Rightarrow> bool" where
  "is_JStr v = (case v of JStr _ \<Rightarrow> True | _ \<Rightarrow> False)"

definition un_JStr :: "json \<Rightarrow> string" where
  "un_JStr v = (case v of JStr s \<Rightarrow> s | _ \<Rightarrow> [])"

definition fo_string_list :: "json option \<Rightarrow> string \<Rightarrow> config_error + string list" where
  "fo_string_list v n = (case v of
       None \<Rightarrow> Inr []
     | Some (JList xs) \<Rightarrow>
         (if list_all is_JStr xs then Inr (map un_JStr xs) else Inl (n @ '' must be an array of strings''))
     | Some _ \<Rightarrow> Inl (n @ '' must be an array of strings''))"

definition is_ascii_alnum :: "char \<Rightarrow> bool" where
  "is_ascii_alnum c = (let k = (of_char c :: nat) in
     (48 \<le> k \<and> k \<le> 57) \<or> (65 \<le> k \<and> k \<le> 90) \<or> (97 \<le> k \<and> k \<le> 122))"

text \<open>A full match of \<open>[A-Za-z0-9][A-Za-z0-9._-]{0,63}\<close>.\<close>

definition transport_name_ok :: "string \<Rightarrow> bool" where
  "transport_name_ok s = (case s of
       [] \<Rightarrow> False
     | c # cs \<Rightarrow> is_ascii_alnum c \<and> length cs \<le> 63
         \<and> list_all (\<lambda>c. is_ascii_alnum c \<or> c = CHR ''.'' \<or> c = CHR ''_'' \<or> c = CHR ''-'') cs)"

definition fo_transport_name :: "json option \<Rightarrow> string \<Rightarrow> string \<Rightarrow> config_error + string" where
  "fo_transport_name v n dflt =
     bindE (fo_string v n dflt) (\<lambda>r.
       if r = [] \<or> \<not> transport_name_ok r
       then Inl (n @ '' must use 1-64 letters, numbers, dots, underscores, or hyphens'')
       else Inr r)"

definition unsafe_path_chars :: "char set" where
  "unsafe_path_chars = {CHR '','', CHR 0x0A, CHR 0x0D, CHR 0x00}"

text \<open>\<open>_absolute_file\<close>, which every caller uses with \<open>required=True\<close>.\<close>

definition fo_absolute_file :: "json option \<Rightarrow> string \<Rightarrow> config_error + string" where
  "fo_absolute_file v n =
     bindE (fo_string v n []) (\<lambda>r.
       if r = [] \<or> \<not> path_is_absolute (path_of_string r) then Inl (n @ '' must be an absolute path'')
       else if set r \<inter> unsafe_path_chars \<noteq> {} then Inl (n @ '' may not contain commas or control characters'')
       else Inr r)"

definition SSHFS_SAFE_OPTIONS :: "string list" where
  "SSHFS_SAFE_OPTIONS =
     [''no_readahead'', ''max_read'', ''max_write'', ''max_background'', ''congestion_threshold'',
      ''dcache_max_size'', ''dcache_timeout'', ''dcache_stat_timeout'', ''dcache_link_timeout'',
      ''dcache_dir_timeout'', ''direct_io'', ''auto_cache'', ''disable_hardlink'', ''renamexdev'',
      ''truncate_workaround'', ''workaround'']"

definition option_key :: "string \<Rightarrow> string" where
  "option_key opt = py_lower (py_strip (fst (py_partition (CHR ''='') opt)))"

fun validate_sshfs_options :: "string list \<Rightarrow> string \<Rightarrow> config_error + unit" where
  "validate_sshfs_options [] n = Inr ()"
| "validate_sshfs_options (opt # opts) n =
     (if option_key opt \<notin> set SSHFS_SAFE_OPTIONS
      then Inl (n @ '' option '' @ py_repr_string (option_key opt)
                @ '' is not in the guarded SSHFS tuning allowlist'')
      else validate_sshfs_options opts n)"

definition sshfs_source_ok :: "string \<Rightarrow> bool" where
  "sshfs_source_ok s \<longleftrightarrow> \<not> (s = [] \<or> py_startswith s ''-'' \<or> CHR '':'' \<notin> set s
     \<or> CHR ''@'' \<notin> set (fst (py_partition (CHR '':'') s))
     \<or> set s \<inter> {CHR 0x0A, CHR 0x0D, CHR 0x00} \<noteq> {})"

type_synonym transport_acc = "string list \<times> int list \<times> sshfs_transport list"

text \<open>The files of the chosen authentication mode: key mode takes an identity and no credentials, password
  mode the reverse, with the CIFS credentials as its default.\<close>

definition parse_auth ::
  "target_config \<Rightarrow> string \<Rightarrow> (string \<times> json) list \<Rightarrow> config_error + (string \<times> string \<times> string)" where
  "parse_auth data prefix item =
     bindE (fo_string (json_get item ''auth_mode'') (prefix @ ''.auth_mode'') []) (\<lambda>mode0.
     bindE (fo_string (json_get item ''identity_file'') (prefix @ ''.identity_file'') []) (\<lambda>ident.
     bindE (fo_string (json_get item ''credentials_file'') (prefix @ ''.credentials_file'') []) (\<lambda>creds.
     let configured = py_lower mode0; has_identity = (ident \<noteq> []); has_credentials = (creds \<noteq> []);
         mode = (if configured \<noteq> [] then configured
                 else if has_credentials \<and> \<not> has_identity then ''password'' else ''key'')
     in if mode \<noteq> ''key'' \<and> mode \<noteq> ''password'' then Inl (prefix @ ''.auth_mode must be key or password'')
        else if mode = ''key'' then
          bindE (fo_absolute_file (json_get item ''identity_file'') (prefix @ ''.identity_file'')) (\<lambda>f.
            if has_credentials
            then Inl (prefix @ ''.credentials_file is only valid with auth_mode=password'')
            else Inr (mode, f, []))
        else if has_identity then Inl (prefix @ ''.identity_file is only valid with auth_mode=key'')
        else
          bindE (fo_absolute_file
                  (case json_get item ''credentials_file'' of
                     Some v \<Rightarrow> Some (if py_truthy v then v else JStr (credentials_file data))
                   | None \<Rightarrow> Some (JStr (credentials_file data)))
                  (prefix @ ''.credentials_file'')) (\<lambda>f.
            Inr (mode, [], f)))))"

definition parse_transport ::
  "target_config \<Rightarrow> nat \<times> json \<Rightarrow> transport_acc \<Rightarrow> config_error + transport_acc" where
  "parse_transport data entry acc =
     (let (idx, v) = entry; (names, prios, ts) = acc;
          prefix = ''storage.data.failover.transports['' @ show_nat idx @ '']''
      in
      bindE (fo_require_table v prefix) (\<lambda>item.
      bindE (fo_string (json_get item ''type'') (prefix @ ''.type'') ''sshfs'') (\<lambda>ty.
      if py_lower ty \<noteq> ''sshfs'' then Inl (prefix @ ''.type currently supports only sshfs'') else
      bindE (fo_transport_name (json_get item ''name'') (prefix @ ''.name'') []) (\<lambda>n.
      if n \<in> set names then Inl (''duplicate storage transport name: '' @ n) else
      bindE (fo_integer (json_get item ''priority'') (prefix @ ''.priority'') (20 + int idx)) (\<lambda>prio.
      if prio < 0 then Inl (prefix @ ''.priority must be zero or greater'') else
      if prio \<in> set prios then Inl (''duplicate storage transport priority: '' @ show_int prio) else
      bindE (fo_string (json_get item ''source'') (prefix @ ''.source'') []) (\<lambda>src.
      if \<not> sshfs_source_ok src then Inl (prefix @ ''.source must look like user@host:/remote/path'') else
      bindE (parse_auth data prefix item) (\<lambda>(mode, ident, creds).
      bindE (fo_absolute_file (json_get item ''known_hosts_file'') (prefix @ ''.known_hosts_file'')) (\<lambda>kh.
      bindE (fo_integer (json_get item ''port'') (prefix @ ''.port'') 22) (\<lambda>p.
      if \<not> (1 \<le> p \<and> p \<le> 65535) then Inl (prefix @ ''.port must be between 1 and 65535'') else
      bindE (fo_string_list (json_get item ''mount_options'') (prefix @ ''.mount_options'')) (\<lambda>opts.
      bindE (validate_sshfs_options opts (prefix @ ''.mount_options'')) (\<lambda>_.
      Inr (n # names, prio # prios,
           ts @ [\<lparr>tr_name = n, priority = prio, tr_source = src, tr_auth_mode = mode,
                  known_hosts_file = kh, identity_file = ident, tr_credentials_file = creds,
                  port = p, tr_mount_options = opts\<rparr>]))))))))))))"

text \<open>The entries of the transports array: a missing, empty or mistyped array gives none.\<close>

definition raw_transports :: "json option \<Rightarrow> json list option" where
  "raw_transports v = (case v of
       Some (JList raws) \<Rightarrow> (if raws = [] then None else Some raws)
     | _ \<Rightarrow> None)"

definition parse_failover ::
  "appliance_config \<Rightarrow> target_config \<Rightarrow> (string \<times> json) list \<Rightarrow> config_error + failover_config" where
  "parse_failover app data fo =
     (if tgt_type data \<noteq> ''cifs''
      then Inl ''storage.data.failover requires the canonical storage.data target to be CIFS'' else
      if worker_fencing_mode app \<noteq> ''namespace''
      then Inl ''storage.data.failover requires appliance.worker_fencing_mode=namespace'' else
      bindE (fo_transport_name (json_get fo ''primary_name'') ''storage.data.failover.primary_name''
               ''cifs-primary'') (\<lambda>pname.
      bindE (fo_integer (json_get fo ''primary_priority'') ''storage.data.failover.primary_priority'' 10) (\<lambda>pprio.
      if pprio < 0 then Inl ''storage.data.failover.primary_priority must be zero or greater'' else
      bindE (fo_string (json_get fo ''failback_policy'') ''storage.data.failover.failback_policy'' ''manual'') (\<lambda>pol.
      if py_lower pol \<noteq> ''manual''
      then Inl ''storage.data.failover.failback_policy currently supports only manual'' else
      bindE (fo_integer (json_get fo ''failure_cooldown_seconds'')
               ''storage.data.failover.failure_cooldown_seconds'' 60) (\<lambda>cool.
      if cool \<le> 0 then Inl ''storage.data.failover.failure_cooldown_seconds must be greater than zero'' else
      bindE (fo_boolean (json_get fo ''verify_all_transports_on_startup'')
               ''storage.data.failover.verify_all_transports_on_startup'' True) (\<lambda>ver.
      case raw_transports (json_get fo ''transports'') of
        Some raws \<Rightarrow>
          bindE (foldE (parse_transport data) (zip [0..<length raws] raws) ([pname], [pprio], []))
            (\<lambda>(names, prios, ts).
              Inr \<lparr>fo_target = ''data'', primary_name = pname, primary_priority = pprio,
                   failback_policy = py_lower pol, failure_cooldown_seconds = cool,
                   verify_all_transports_on_startup = ver, transports = ts,
                   worker_uid = uid app, worker_gid = gid app, fo_runtime_dir = runtime_dir app\<rparr>)
      | None \<Rightarrow> Inl ''storage.data.failover.transports must contain at least one SSHFS transport''))))))"

text \<open>The decoded configuration document: \<open>None\<close> stands for a file that is missing or not TOML.\<close>

definition load_exclusive_failover ::
  "(string \<times> json) list option \<Rightarrow> appliance_config \<Rightarrow> target_config \<Rightarrow> config_error + failover_config option" where
  "load_exclusive_failover raw app data = (case raw of
       None \<Rightarrow> Inl ''unable to read transport failover configuration''
     | Some doc \<Rightarrow>
         (case (case json_get doc ''storage'' of None \<Rightarrow> JObj [] | Some v \<Rightarrow> v) of
            JObj storage \<Rightarrow>
              (case (case json_get storage ''data'' of None \<Rightarrow> JObj [] | Some v \<Rightarrow> v) of
                 JObj d \<Rightarrow>
                   (case json_get d ''failover'' of
                      None \<Rightarrow> Inr None
                    | Some fr \<Rightarrow>
                        bindE (fo_require_table fr ''storage.data.failover'') (\<lambda>fo.
                        bindE (fo_boolean (json_get fo ''enabled'') ''storage.data.failover.enabled'' False) (\<lambda>en.
                        if \<not> en then Inr None
                        else bindE (parse_failover app data fo) (\<lambda>r. Inr (Some r)))))
               | _ \<Rightarrow> Inr None)
          | _ \<Rightarrow> Inr None))"

text \<open>\<open>resolve_target\<close> with the failover configuration already loaded, for the target \<open>name\<close>.\<close>

definition resolve_target ::
  "failover_config option \<Rightarrow> target_config \<Rightarrow> string \<Rightarrow> string \<Rightarrow> transport_error + target_config" where
  "resolve_target fo base name transport = (case fo of
       None \<Rightarrow> (if transport \<noteq> [] then Inl (NoFailoverForTarget name) else Inr base)
     | Some f \<Rightarrow>
         (if name \<noteq> fo_target f then
            (if transport \<noteq> [] then Inl (NoFailoverForTarget name) else Inr base)
          else resolve f base (if transport \<noteq> [] then transport else primary_name f)))"

section \<open>Well-formed configurations\<close>

definition transport_wf :: "sshfs_transport \<Rightarrow> bool" where
  "transport_wf t \<longleftrightarrow> transport_name_ok (tr_name t) \<and> 0 \<le> priority t \<and> sshfs_source_ok (tr_source t)
     \<and> 1 \<le> port t \<and> port t \<le> 65535
     \<and> path_is_absolute (path_of_string (known_hosts_file t))
     \<and> set (known_hosts_file t) \<inter> unsafe_path_chars = {}
     \<and> (tr_auth_mode t = ''key'' \<and> path_is_absolute (path_of_string (identity_file t))
           \<and> set (identity_file t) \<inter> unsafe_path_chars = {} \<and> tr_credentials_file t = []
        \<or> tr_auth_mode t = ''password'' \<and> path_is_absolute (path_of_string (tr_credentials_file t))
           \<and> set (tr_credentials_file t) \<inter> unsafe_path_chars = {} \<and> identity_file t = [])
     \<and> (\<forall>opt\<in>set (tr_mount_options t). option_key opt \<in> set SSHFS_SAFE_OPTIONS)"

definition failover_wf :: "failover_config \<Rightarrow> bool" where
  "failover_wf fo \<longleftrightarrow> fo_target fo = ''data'' \<and> failback_policy fo = ''manual''
     \<and> 0 < failure_cooldown_seconds fo \<and> 0 \<le> primary_priority fo \<and> transport_name_ok (primary_name fo)
     \<and> transports fo \<noteq> []
     \<and> distinct (primary_name fo # map tr_name (transports fo))
     \<and> distinct (primary_priority fo # map priority (transports fo))
     \<and> (\<forall>t\<in>set (transports fo). transport_wf t)"

lemma fo_absolute_file_Inr [res_simps]:
  "fo_absolute_file v n = Inr r \<longleftrightarrow> fo_string v n [] = Inr r \<and> r \<noteq> []
     \<and> path_is_absolute (path_of_string r) \<and> set r \<inter> unsafe_path_chars = {}"
  by (auto simp: fo_absolute_file_def res_simps split: if_splits)

lemma transport_name_ok_Nil [simp]: "\<not> transport_name_ok []"
  by (simp add: transport_name_ok_def)

lemma fo_transport_name_Inr [res_simps]:
  "fo_transport_name v n d = Inr r \<longleftrightarrow> fo_string v n d = Inr r \<and> transport_name_ok r"
  by (cases "fo_string v n d") (auto simp: fo_transport_name_def)

lemma raw_transports_Some [res_simps]:
  "raw_transports v = Some raws \<longleftrightarrow> v = Some (JList raws) \<and> raws \<noteq> []"
  by (auto simp: raw_transports_def split: option.splits json.splits if_splits)

lemma validate_sshfs_options_Inr [res_simps]:
  "validate_sshfs_options opts n = Inr u \<longleftrightarrow> (\<forall>opt\<in>set opts. option_key opt \<in> set SSHFS_SAFE_OPTIONS)"
  by (induction opts) auto

lemma parse_auth_sound:
  assumes "parse_auth data prefix item = Inr (mode, ident, creds)"
  shows "mode = ''key'' \<and> path_is_absolute (path_of_string ident)
           \<and> set ident \<inter> unsafe_path_chars = {} \<and> creds = []
        \<or> mode = ''password'' \<and> path_is_absolute (path_of_string creds)
           \<and> set creds \<inter> unsafe_path_chars = {} \<and> ident = []"
  using assms by (auto simp: parse_auth_def Let_def res_simps split: if_splits)

definition acc_ok :: "string \<Rightarrow> int \<Rightarrow> nat \<Rightarrow> transport_acc \<Rightarrow> bool" where
  "acc_ok pn pp k acc \<longleftrightarrow> (case acc of (names, prios, ts) \<Rightarrow>
     (\<forall>t\<in>set ts. transport_wf t) \<and> length ts = k
     \<and> set names = insert pn (tr_name ` set ts) \<and> distinct (pn # map tr_name ts)
     \<and> set prios = insert pp (priority ` set ts) \<and> distinct (pp # map priority ts))"

lemma parse_transport_sound:
  assumes "parse_transport data e acc = Inr acc'" "acc_ok pn pp k acc"
  shows "acc_ok pn pp (Suc k) acc'"
proof -
  obtain idx v names prios ts where e: "e = (idx, v)" and a: "acc = (names, prios, ts)"
    by (cases e, cases acc) auto
  from assms(1) obtain n prio src mode ident creds kh p opts item prefix where
    acc': "acc' = (n # names, prio # prios,
           ts @ [\<lparr>tr_name = n, priority = prio, tr_source = src, tr_auth_mode = mode,
                  known_hosts_file = kh, identity_file = ident, tr_credentials_file = creds,
                  port = p, tr_mount_options = opts\<rparr>])"
    and chk: "transport_name_ok n" "n \<notin> set names" "0 \<le> prio" "prio \<notin> set prios" "sshfs_source_ok src"
      "path_is_absolute (path_of_string kh)" "set kh \<inter> unsafe_path_chars = {}" "1 \<le> p" "p \<le> 65535"
      "\<forall>opt\<in>set opts. option_key opt \<in> set SSHFS_SAFE_OPTIONS"
    and auth: "parse_auth data prefix item = Inr (mode, ident, creds)"
    by (auto simp: parse_transport_def e a Let_def res_simps split: if_splits)
  show ?thesis
    using assms(2) chk parse_auth_sound[OF auth] unfolding acc' a
    by (auto simp: acc_ok_def transport_wf_def)
qed

lemma parse_transports_sound:
  assumes "foldE (parse_transport data) es acc = Inr acc'" "acc_ok pn pp k acc"
  shows "acc_ok pn pp (k + length es) acc'"
  using assms
proof (induction es arbitrary: acc k)
  case (Cons e es)
  from Cons.prems(1) obtain acc1 where
    1: "parse_transport data e acc = Inr acc1" "foldE (parse_transport data) es acc1 = Inr acc'"
    by (auto simp: res_simps)
  have "acc_ok pn pp (Suc k) acc1"
    using 1(1) Cons.prems(2) by (rule parse_transport_sound)
  from Cons.IH[OF 1(2) this] show ?case by simp
qed simp

lemma parse_failover_wf:
  assumes "parse_failover app data d = Inr fo"
  shows "failover_wf fo \<and> worker_uid fo = uid app \<and> worker_gid fo = gid app
    \<and> fo_runtime_dir fo = runtime_dir app \<and> tgt_type data = ''cifs''
    \<and> worker_fencing_mode app = ''namespace''"
proof -
  from assms obtain pn pp cool ver raws names prios ts where
    chk: "transport_name_ok pn" "0 \<le> pp" "0 < cool" "raws \<noteq> []"
      "tgt_type data = ''cifs''" "worker_fencing_mode app = ''namespace''"
    and fold: "foldE (parse_transport data) (zip [0..<length raws] raws) ([pn], [pp], [])
        = Inr (names, prios, ts)"
    and fo: "fo = \<lparr>fo_target = ''data'', primary_name = pn, primary_priority = pp,
                   failback_policy = ''manual'', failure_cooldown_seconds = cool,
                   verify_all_transports_on_startup = ver, transports = ts,
                   worker_uid = uid app, worker_gid = gid app, fo_runtime_dir = runtime_dir app\<rparr>"
    by (auto simp: parse_failover_def res_simps split: if_splits option.splits)
  have "acc_ok pn pp 0 ([pn], [pp], [])"
    by (simp add: acc_ok_def)
  from parse_transports_sound[OF fold this] have "acc_ok pn pp (length raws) (names, prios, ts)"
    by simp
  then show ?thesis
    using chk by (auto simp: failover_wf_def fo acc_ok_def)
qed

section \<open>Resolution\<close>

abbreviation configured_names :: "failover_config \<Rightarrow> string list" where
  "configured_names fo \<equiv> primary_name fo # map tr_name (transports fo)"

abbreviation configured_priorities :: "failover_config \<Rightarrow> int list" where
  "configured_priorities fo \<equiv> primary_priority fo # map priority (transports fo)"

lemma set_ordered_names: "set (ordered_names fo) = set (configured_names fo)"
  by (simp add: ordered_names_def ranked_def image_image set_insort_key)

lemma mset_ordered_names: "mset (ordered_names fo) = mset (configured_names fo)"
  by (simp add: ordered_names_def ranked_def multiset.map_comp comp_def)

lemma distinct_ordered_names: "failover_wf fo \<Longrightarrow> distinct (ordered_names fo)"
  using mset_eq_imp_distinct_iff[OF mset_ordered_names] by (simp add: failover_wf_def)

lemma map_fst_ranked: "map fst (ranked fo) = sort (configured_priorities fo)"
proof (rule properties_for_sort[symmetric])
  show "mset (map fst (ranked fo)) = mset (configured_priorities fo)"
    by (simp add: ranked_def multiset.map_comp comp_def)
  have "sorted (ranked fo)" unfolding ranked_def by (rule sorted_sort)
  then show "sorted (map fst (ranked fo))"
    by (auto simp: sorted_map sorted_wrt_map less_eq_prod_def elim!: sorted_wrt_mono_rel[rotated])
qed

lemma find_transport:
  "distinct (map tr_name ts) \<Longrightarrow> find (\<lambda>t. tr_name t = n) ts = Some t \<longleftrightarrow> t \<in> set ts \<and> tr_name t = n"
  by (induction ts) (auto simp: image_iff)

lemma find_transport_None: "find (\<lambda>t. tr_name t = n) ts = None \<longleftrightarrow> n \<notin> tr_name ` set ts"
  by (induction ts) auto

lemma resolve_Inr_iff: "(\<exists>t. resolve fo base n = Inr t) \<longleftrightarrow> contains fo n"
  by (auto simp: resolve_def contains_def set_ordered_names find_transport_None
      split: option.splits dest!: find_transport_None[THEN iffD1, rotated] simp: find_None_iff find_Some_iff)

lemma resolve_same_dataset: "resolve fo base n = Inr t \<Longrightarrow> same_dataset t base \<and> transport_name t = n"
  by (auto simp: resolve_def same_dataset_def sshfs_target_def find_Some_iff split: if_splits option.splits)

section \<open>Properties\<close>

text \<open>A document with one key-mode and one password-mode SSHFS transport behind a CIFS primary.\<close>

definition example_failover_doc :: "(string \<times> json) list" where
  "example_failover_doc =
     [(''storage'', JObj [(''data'', JObj [(''failover'', JObj
        [(''enabled'', JBool True),
         (''transports'', JList
           [JObj [(''name'', JStr ''ssh-a''), (''source'', JStr ''u@h:/d''), (''priority'', JInt 5),
                  (''identity_file'', JStr ''/k''), (''known_hosts_file'', JStr ''/n'')],
            JObj [(''name'', JStr ''ssh-b''), (''source'', JStr ''v@h:/d''), (''auth_mode'', JStr ''password''),
                  (''known_hosts_file'', JStr ''/n''), (''mount_options'', JList [JStr ''max_read=65536''])]])])])])]"

definition example_base :: target_config where
  "example_base = (default_target ''data'' ''cifs'' (path_of_string ''/mnt/data'') ''node'' ''ds-1'')
     \<lparr>credentials_file := ''/c''\<rparr>"

definition example_appliance :: appliance_config where
  "example_appliance =
     \<lparr>app_name = ''node'', state_dir = path_of_string ''/var/lib/node'', runtime_dir = path_of_string ''/run/node'',
      uid = 10001, gid = 10001, health_host = ''0.0.0.0'', health_port = 9090,
      app_probe_interval_seconds = 10, full_probe_interval_seconds = 60, app_probe_timeout_seconds = 10,
      startup_timeout_seconds = 120, shutdown_grace_seconds = 20, recovery_initial_seconds = 5,
      recovery_max_seconds = 60, recovery_stability_seconds = 10, recovery_probe_interval_seconds = 2,
      recovery_successes_required = 3, s3_canary_enabled = True, worker_fencing_mode = ''namespace'',
      worker_host_address = ''10.0.0.1/30'', worker_address = ''10.0.0.2/30'', worker_gateway = ''10.0.0.1''\<rparr>"

definition example_failover :: failover_config where
  "example_failover =
     \<lparr>fo_target = ''data'', primary_name = ''cifs-primary'', primary_priority = 10, failback_policy = ''manual'',
      failure_cooldown_seconds = 60, verify_all_transports_on_startup = True,
      transports =
        [\<lparr>tr_name = ''ssh-a'', priority = 5, tr_source = ''u@h:/d'', tr_auth_mode = ''key'',
          known_hosts_file = ''/n'', identity_file = ''/k'', tr_credentials_file = [], port = 22,
          tr_mount_options = []\<rparr>,
         \<lparr>tr_name = ''ssh-b'', priority = 21, tr_source = ''v@h:/d'', tr_auth_mode = ''password'',
          known_hosts_file = ''/n'', identity_file = [], tr_credentials_file = ''/c'', port = 22,
          tr_mount_options = [''max_read=65536'']\<rparr>],
      worker_uid = 10001, worker_gid = 10001, fo_runtime_dir = path_of_string ''/run/node''\<rparr>"

lemma example_failover_loads:
  "load_exclusive_failover (Some example_failover_doc) example_appliance example_base
     = Inr (Some example_failover)"
  by code_simp

lemma load_failover_Some:
  "load_exclusive_failover raw app data = Inr (Some fo) \<Longrightarrow>
     \<exists>d. parse_failover app data d = Inr fo"
  by (auto simp: load_exclusive_failover_def res_simps split: option.splits json.splits if_splits)

text \<open>
  Loading the failover section is sound: whatever document is read, an enabled configuration that is
  accepted has a CIFS canonical target, namespace fencing, at least one SSHFS transport, names and
  priorities all distinct (the primary's included), and only transports that pass every check on their
  name, source, port, files, authentication mode and tuning option keys; its worker ids are the
  appliance's.
\<close>

theorem load_failover_sound:
  assumes "load_exclusive_failover raw app data = Inr (Some fo)"
  shows "failover_wf fo \<and> tgt_type data = ''cifs'' \<and> worker_fencing_mode app = ''namespace''
    \<and> worker_uid fo = uid app \<and> worker_gid fo = gid app \<and> fo_runtime_dir fo = runtime_dir app"
  using load_failover_Some[OF assms] parse_failover_wf by blast

theorem load_failover_sound_witness:
  "load_exclusive_failover (Some example_failover_doc) example_appliance example_base
     = Inr (Some example_failover)
   \<and> failover_wf example_failover \<and> worker_uid example_failover = uid example_appliance"
  using load_failover_sound[OF example_failover_loads] example_failover_loads by blast

lemma example_failover_wf: "failover_wf example_failover"
  using load_failover_Some[OF example_failover_loads] parse_failover_wf by blast

text \<open>
  The order in which transports are tried is the operator's: all configured names, each once, by
  strictly increasing priority.
\<close>

theorem ordered_names_by_priority:
  assumes "failover_wf fo"
  shows "sorted_wrt (<) (map fst (ranked fo)) \<and> distinct (ordered_names fo)
    \<and> mset (ordered_names fo) = mset (configured_names fo)
    \<and> set (ranked fo) = set (zip (configured_priorities fo) (configured_names fo))"
proof (intro conjI)
  have "distinct (configured_priorities fo)"
    using assms by (simp add: failover_wf_def)
  then show "sorted_wrt (<) (map fst (ranked fo))"
    unfolding map_fst_ranked by (simp only: strict_sorted_iff sorted_sort distinct_sort simp_thms)
  show "distinct (ordered_names fo)" by (rule distinct_ordered_names[OF assms])
  show "mset (ordered_names fo) = mset (configured_names fo)" by (rule mset_ordered_names)
  show "set (ranked fo) = set (zip (configured_priorities fo) (configured_names fo))"
    by (simp add: ranked_def set_insort_key zip_map_map zip_same_conv_map image_image)
qed

lemma example_ordered_names: "ordered_names example_failover = [''ssh-a'', ''cifs-primary'', ''ssh-b'']"
  by code_simp

theorem ordered_names_by_priority_witness:
  "sorted_wrt (<) (map fst (ranked example_failover)) \<and> distinct (ordered_names example_failover)
   \<and> ordered_names example_failover = [''ssh-a'', ''cifs-primary'', ''ssh-b'']"
  using ordered_names_by_priority[OF example_failover_wf] example_ordered_names by blast

text \<open>
  C23. Every route leads to the same dataset: each configured transport, and no other name, resolves to a
  target; the sentinel document enrolled through any one of these targets validates through every other,
  while a target whose dataset id differs rejects it.
\<close>

theorem transports_share_dataset:
  assumes "enrollable base"
  shows "((\<exists>t. resolve fo base n = Inr t) \<longleftrightarrow> n \<in> set (configured_names fo))
    \<and> (resolve fo base n = Inr a \<longrightarrow> resolve fo base m = Inr b \<longrightarrow>
        (\<exists>i. validate_sentinel_payload b (sentinel_v2_payload a) = Inr i))
    \<and> (resolve fo base n = Inr a \<longrightarrow> sentinel_id other \<noteq> sentinel_id base \<longrightarrow>
        (\<exists>e. validate_sentinel_payload other (sentinel_v2_payload a) = Inl e))"
proof (intro conjI impI)
  show "(\<exists>t. resolve fo base n = Inr t) \<longleftrightarrow> n \<in> set (configured_names fo)"
    using resolve_Inr_iff[of fo base n] by (simp add: contains_def set_ordered_names)
next
  assume r: "resolve fo base n = Inr a"
  have d: "same_dataset a base" "enrollable a"
    using r assms resolve_same_dataset[OF r] by (simp_all add: same_dataset_def enrollable_def)
  show "\<exists>i. validate_sentinel_payload b (sentinel_v2_payload a) = Inr i" if "resolve fo base m = Inr b"
    using d resolve_same_dataset[OF that] by (intro sv.shared_document) (simp_all add: same_dataset_def)
  show "\<exists>e. validate_sentinel_payload other (sentinel_v2_payload a) = Inl e"
    if "sentinel_id other \<noteq> sentinel_id base"
    using d that by (intro sv.foreign_document) (simp_all add: same_dataset_def)
qed

lemma example_resolves:
  "\<exists>t. resolve example_failover example_base ''ssh-a'' = Inr t"
  "\<exists>t. resolve example_failover example_base ''ssh-b'' = Inr t"
  "\<exists>t. resolve example_failover example_base ''cifs-primary'' = Inr t"
  by (simp_all add: resolve_Inr_iff contains_def example_ordered_names)

theorem transports_share_dataset_witness:
  "\<exists>a b i. resolve example_failover example_base ''ssh-a'' = Inr a
     \<and> resolve example_failover example_base ''cifs-primary'' = Inr b
     \<and> validate_sentinel_payload b (sentinel_v2_payload a) = Inr i"
proof -
  have e: "enrollable example_base"
    by (simp add: enrollable_def example_base_def default_target_def)
  obtain a where a: "resolve example_failover example_base ''ssh-a'' = Inr a"
    using example_resolves(1) by (elim exE)
  obtain b where b: "resolve example_failover example_base ''cifs-primary'' = Inr b"
    using example_resolves(3) by (elim exE)
  have "\<exists>i. validate_sentinel_payload b (sentinel_v2_payload a) = Inr i"
    using transports_share_dataset[OF e, of example_failover "''ssh-a''" a "''cifs-primary''" b] a b by blast
  then show ?thesis using a b by (intro exI[of _ a] exI[of _ b]) simp
qed

text \<open>
  Every SSHFS target demands a verified host key: a resolved transport other than the primary is an
  SSHFS target on the configured source whose options carry strict host key checking against the
  configured known-hosts file and, in password mode, disable public keys (in key mode, passwords); the
  operator's own options all carry an allowlisted key and come last.
\<close>

theorem sshfs_target_verified_host:
  assumes "failover_wf fo" "resolve fo base n = Inr t" "n \<noteq> primary_name fo"
  shows "tgt_type t = ''sshfs'' \<and> ''StrictHostKeyChecking=yes'' \<in> set (mount_options t)
    \<and> ''UserKnownHostsFile='' @ ssh_known_hosts_file t \<in> set (mount_options t)
    \<and> (ssh_auth_mode t = ''key'' \<and> ''PasswordAuthentication=no'' \<in> set (mount_options t)
       \<or> ssh_auth_mode t = ''password'' \<and> ''PubkeyAuthentication=no'' \<in> set (mount_options t))
    \<and> (\<exists>tr\<in>set (transports fo). tr_name tr = n \<and> source t = tr_source tr
       \<and> mount_options t = sshfs_options fo tr
       \<and> (\<forall>opt\<in>set (tr_mount_options tr). option_key opt \<in> set SSHFS_SAFE_OPTIONS))"
proof (intro conjI)
  obtain tr where tr: "tr \<in> set (transports fo)" "tr_name tr = n" "t = sshfs_target fo base tr"
    using assms(1-3) by (auto simp: resolve_def failover_wf_def find_transport split: option.splits)
  have wf: "transport_wf tr" using assms(1) tr(1) by (simp add: failover_wf_def)
  note d = tr(3) sshfs_target_def sshfs_options_def
  show "tgt_type t = ''sshfs''" "''StrictHostKeyChecking=yes'' \<in> set (mount_options t)"
    "''UserKnownHostsFile='' @ ssh_known_hosts_file t \<in> set (mount_options t)"
    by (simp_all add: d)
  show "ssh_auth_mode t = ''key'' \<and> ''PasswordAuthentication=no'' \<in> set (mount_options t)
     \<or> ssh_auth_mode t = ''password'' \<and> ''PubkeyAuthentication=no'' \<in> set (mount_options t)"
    using wf by (auto simp: d transport_wf_def)
  show "\<exists>tr\<in>set (transports fo). tr_name tr = n \<and> source t = tr_source tr
       \<and> mount_options t = sshfs_options fo tr
       \<and> (\<forall>opt\<in>set (tr_mount_options tr). option_key opt \<in> set SSHFS_SAFE_OPTIONS)"
    using tr wf by (intro bexI[of _ tr]) (auto simp: sshfs_target_def transport_wf_def)
qed

theorem sshfs_target_verified_host_witness:
  "\<exists>t. resolve example_failover example_base ''ssh-b'' = Inr t
     \<and> ''StrictHostKeyChecking=yes'' \<in> set (mount_options t) \<and> tgt_type t = ''sshfs''"
proof -
  have n: "''ssh-b'' \<noteq> primary_name example_failover" by (simp add: example_failover_def)
  obtain t where t: "resolve example_failover example_base ''ssh-b'' = Inr t"
    using example_resolves(2) by (elim exE)
  show ?thesis
    using sshfs_target_verified_host[OF example_failover_wf t n] t by (intro exI[of _ t] conjI) blast+
qed



end
