(* ===== verification/Transport_Selector.thy ===== *)
theory Transport_Selector
  imports Failover_Config
begin

text \<open>
  The transport selector of \<open>transport_failover.py\<close>: the state file with its sanitising load, selection
  with an operator request, stickiness, cooling periods and quarantine, and every other operation of
  \<open>TransportSelector\<close>. Each operation runs under the selector's exclusive file lock, so it is one step on
  the file. The file's entries have the types \<open>_save\<close> writes; what \<open>_load\<close> checks (readable, an object, the
  types of \<open>failed\<close>, \<open>quarantined\<close> and the verified list) is a case of the model. A write that fails
  leaves the old file, since the new one is renamed into place.
\<close>

datatype fail_entry =
    FailDict (fail_at: "rat option") (fail_reason: string)
  | FailOther

record mark =
  mk_at :: rat
  mk_reason :: string

record selector_payload =
  p_active :: "string option"
  p_requested :: "string option"
  p_failed :: "(string \<rightharpoonup> fail_entry) field"
  p_quarantined :: "(string \<rightharpoonup> mark) field"
  p_last_success_at :: "rat option"
  p_fingerprint :: "string option"
  p_verified_at :: "rat option"
  p_verified :: "string list field"
  p_updated_at :: "rat option"

datatype transport_file = NoFile | UnreadableFile | NotObjectFile | ObjectFile selector_payload

record selector_state =
  active :: string
  requested :: string
  failed :: "string \<rightharpoonup> fail_entry"
  quarantined :: "string \<rightharpoonup> mark"
  last_success_at :: rat
  verification_fingerprint :: string
  startup_verified_at :: rat
  startup_verified_transports :: "string list"
  updated_at :: rat

definition get_or :: "'a option \<Rightarrow> 'a \<Rightarrow> 'a" where
  "get_or v d = (case v of None \<Rightarrow> d | Some x \<Rightarrow> x)"

definition good_or :: "'a field \<Rightarrow> 'a \<Rightarrow> 'a" where
  "good_or v d = (case v of Good x \<Rightarrow> x | _ \<Rightarrow> d)"

definition empty_payload :: selector_payload where
  "empty_payload = \<lparr>p_active = None, p_requested = None, p_failed = Absent, p_quarantined = Absent,
     p_last_success_at = None, p_fingerprint = None, p_verified_at = None, p_verified = Absent,
     p_updated_at = None\<rparr>"

definition state_of_payload :: "selector_payload \<Rightarrow> transport_error + selector_state" where
  "state_of_payload p = (case p_quarantined p of
       Wrong \<Rightarrow> Inl QuarantineNotObject
     | q \<Rightarrow> Inr
         \<lparr>active = get_or (p_active p) [], requested = get_or (p_requested p) [],
          failed = good_or (p_failed p) Map.empty, quarantined = good_or q Map.empty,
          last_success_at = get_or (p_last_success_at p) 0,
          verification_fingerprint = get_or (p_fingerprint p) [],
          startup_verified_at = get_or (p_verified_at p) 0,
          startup_verified_transports = good_or (p_verified p) [],
          updated_at = get_or (p_updated_at p) 0\<rparr>)"

definition load_state :: "transport_file \<Rightarrow> transport_error + selector_state" where
  "load_state f = (case f of
       NoFile \<Rightarrow> state_of_payload empty_payload
     | UnreadableFile \<Rightarrow> Inl StateUnreadable
     | NotObjectFile \<Rightarrow> Inl StateNotObject
     | ObjectFile p \<Rightarrow> state_of_payload p)"

definition write_state :: "selector_state \<Rightarrow> transport_file" where
  "write_state s = ObjectFile
     \<lparr>p_active = Some (active s), p_requested = Some (requested s), p_failed = Good (failed s),
      p_quarantined = Good (quarantined s), p_last_success_at = Some (last_success_at s),
      p_fingerprint = Some (verification_fingerprint s), p_verified_at = Some (startup_verified_at s),
      p_verified = Good (startup_verified_transports s), p_updated_at = Some (updated_at s)\<rparr>"

text \<open>\<open>_save\<close> at wall clock \<open>w\<close>.\<close>

definition save_state :: "rat \<Rightarrow> selector_state \<Rightarrow> transport_file" where
  "save_state w s = write_state (s\<lparr>updated_at := w\<rparr>)"

section \<open>Selection\<close>

text \<open>The loop over the ordered names: eligible candidates and cooling transports with the time each
  becomes available.\<close>

definition available_at :: "failover_config \<Rightarrow> rat option \<Rightarrow> rat" where
  "available_at fo ta = get_or ta 0 + of_int (failure_cooldown_seconds fo)"

fun classify ::
  "failover_config \<Rightarrow> selector_state \<Rightarrow> rat \<Rightarrow> string list \<Rightarrow> string list \<times> (rat \<times> string) list \<Rightarrow>
     string list \<times> (rat \<times> string) list" where
  "classify fo s now [] acc = acc"
| "classify fo s now (n # ns) (candidates, cooling) =
     (if quarantined s n \<noteq> None then classify fo s now ns (candidates, cooling)
      else case failed s n of
        Some (FailDict ta _) \<Rightarrow>
          (if available_at fo ta \<le> now then classify fo s now ns (candidates @ [n], cooling)
           else classify fo s now ns (candidates, cooling @ [(available_at fo ta, n)]))
      | _ \<Rightarrow> classify fo s now ns (candidates @ [n], cooling))"

definition remaining_seconds :: "rat \<Rightarrow> rat \<Rightarrow> int" where
  "remaining_seconds ta now = max 1 (trunc_rat (ta - now + 999 / 1000))"

definition select_requested ::
  "failover_config \<Rightarrow> rat \<Rightarrow> selector_state \<Rightarrow> transport_error + (string \<times> transport_file)" where
  "select_requested fo w s =
     (if quarantined s (requested s) \<noteq> None then Inl (RequestedQuarantined (requested s))
      else if \<not> contains fo (requested s) then Inl (RequestedNotConfigured (requested s))
      else Inr (requested s, save_state w (s\<lparr>active := requested s, requested := []\<rparr>)))"

definition select_candidate ::
  "failover_config \<Rightarrow> rat \<Rightarrow> rat \<Rightarrow> selector_state \<Rightarrow> transport_error + (string \<times> transport_file)" where
  "select_candidate fo now w s = (case classify fo s now (ordered_names fo) ([], []) of
       ([], []) \<Rightarrow> Inl AllQuarantined
     | ([], cooling) \<Rightarrow> (let (ta, n) = Min (set cooling) in Inl (AllCooling n (remaining_seconds ta now)))
     | (n # _, _) \<Rightarrow> Inr (n, save_state w (s\<lparr>active := n\<rparr>)))"

definition active_usable :: "failover_config \<Rightarrow> selector_state \<Rightarrow> bool" where
  "active_usable fo s \<longleftrightarrow> active s \<noteq> [] \<and> contains fo (active s) \<and> failed s (active s) = None
     \<and> quarantined s (active s) = None"

definition select ::
  "failover_config \<Rightarrow> rat \<Rightarrow> rat \<Rightarrow> transport_file \<Rightarrow> transport_error + (string \<times> transport_file)" where
  "select fo now w f = bindE (load_state f) (\<lambda>s.
     if requested s \<noteq> [] then select_requested fo w s
     else if active_usable fo s then Inr (active s, f)
     else select_candidate fo now w s)"

section \<open>The other operations\<close>

definition record_failure ::
  "failover_config \<Rightarrow> string \<Rightarrow> string \<Rightarrow> rat \<Rightarrow> rat \<Rightarrow> transport_file \<Rightarrow> transport_error + transport_file" where
  "record_failure fo n reason now w f =
     (if \<not> contains fo n then Inr f
      else bindE (load_state f) (\<lambda>s. Inr (save_state w
        (s\<lparr>failed := (failed s)(n \<mapsto> FailDict (Some now) (take 1000 reason)), active := n\<rparr>))))"

definition quarantine ::
  "failover_config \<Rightarrow> string \<Rightarrow> string \<Rightarrow> rat \<Rightarrow> transport_file \<Rightarrow> transport_error + transport_file" where
  "quarantine fo n reason w f =
     (if \<not> contains fo n then Inl (UnknownTransport n)
      else bindE (load_state f) (\<lambda>s. Inr (save_state w
        (s\<lparr>quarantined := (quarantined s)(n \<mapsto> \<lparr>mk_at = w, mk_reason = take 1000 reason\<rparr>),
           verification_fingerprint := []\<rparr>))))"

definition clear_quarantine ::
  "failover_config \<Rightarrow> string \<Rightarrow> rat \<Rightarrow> transport_file \<Rightarrow> transport_error + transport_file" where
  "clear_quarantine fo n w f =
     (if \<not> contains fo n then Inl (UnknownTransport n)
      else bindE (load_state f) (\<lambda>s. Inr (save_state w
        (s\<lparr>quarantined := (quarantined s)(n := None), verification_fingerprint := []\<rparr>))))"

definition record_success :: "string \<Rightarrow> rat \<Rightarrow> rat \<Rightarrow> transport_file \<Rightarrow> transport_error + transport_file" where
  "record_success n now w f = bindE (load_state f) (\<lambda>s. Inr (save_state w
     (s\<lparr>failed := (failed s)(n := None), active := n, last_success_at := now\<rparr>)))"

definition request ::
  "failover_config \<Rightarrow> string \<Rightarrow> rat \<Rightarrow> transport_file \<Rightarrow> transport_error + transport_file" where
  "request fo n w f =
     (if \<not> contains fo n then Inl (UnknownTransport n)
      else bindE (load_state f) (\<lambda>s.
        if quarantined s n \<noteq> None then Inl (RequestedQuarantined n)
        else Inr (save_state w (s\<lparr>requested := (if active s = n then [] else n)\<rparr>))))"

definition pending_request :: "failover_config \<Rightarrow> transport_file \<Rightarrow> transport_error + string" where
  "pending_request fo f = bindE (load_state f) (\<lambda>s.
     if requested s \<noteq> [] \<and> \<not> contains fo (requested s) then Inl (RequestedNotConfigured (requested s))
     else Inr (requested s))"

definition startup_verification_required :: "string \<Rightarrow> transport_file \<Rightarrow> transport_error + bool" where
  "startup_verification_required fp f =
     bindE (load_state f) (\<lambda>s. Inr (verification_fingerprint s \<noteq> fp))"

definition record_startup_verification ::
  "string \<Rightarrow> string list \<Rightarrow> rat \<Rightarrow> transport_file \<Rightarrow> transport_error + transport_file" where
  "record_startup_verification fp ts w f = bindE (load_state f) (\<lambda>s. Inr (save_state w
     (s\<lparr>verification_fingerprint := fp, startup_verified_at := w, startup_verified_transports := ts\<rparr>)))"

text \<open>What \<open>status\<close> reports: the state without the fingerprint, and the policy.\<close>

record selector_status =
  st_state :: selector_state
  st_target :: string
  st_primary :: string
  st_ordered :: "string list"
  st_failback :: string
  st_cooldown :: int
  st_verify_all :: bool

definition status :: "failover_config \<Rightarrow> transport_file \<Rightarrow> transport_error + selector_status" where
  "status fo f = bindE (load_state f) (\<lambda>s. Inr
     \<lparr>st_state = s\<lparr>verification_fingerprint := []\<rparr>, st_target = fo_target fo, st_primary = primary_name fo,
      st_ordered = ordered_names fo, st_failback = failback_policy fo,
      st_cooldown = failure_cooldown_seconds fo,
      st_verify_all = verify_all_transports_on_startup fo\<rparr>)"

text \<open>One call on the selector, for sequences of calls.\<close>

datatype selector_op =
    OpSelect rat rat
  | OpFailure string string rat rat
  | OpQuarantine string string rat
  | OpClear string rat
  | OpSuccess string rat rat
  | OpRequest string rat
  | OpVerified string "string list" rat

fun selector_step ::
  "failover_config \<Rightarrow> selector_op \<Rightarrow> transport_file \<Rightarrow> transport_error + transport_file" where
  "selector_step fo (OpSelect now w) f = bindE (select fo now w f) (\<lambda>(n, f'). Inr f')"
| "selector_step fo (OpFailure n r now w) f = record_failure fo n r now w f"
| "selector_step fo (OpQuarantine n r w) f = quarantine fo n r w f"
| "selector_step fo (OpClear n w) f = clear_quarantine fo n w f"
| "selector_step fo (OpSuccess n now w) f = record_success n now w f"
| "selector_step fo (OpRequest n w) f = request fo n w f"
| "selector_step fo (OpVerified fp ts w) f = record_startup_verification fp ts w f"

section \<open>The state file\<close>

lemma load_write [simp]: "load_state (write_state s) = Inr s"
  by (simp add: load_state_def write_state_def state_of_payload_def get_or_def good_or_def)

lemma load_save_state [simp]: "load_state (save_state w s) = Inr (s\<lparr>updated_at := w\<rparr>)"
  by (simp add: save_state_def)

interpretation ts: persistent_state load_state write_state "\<lambda>_. True"
  by unfold_locales simp_all

section \<open>Selection, characterised\<close>

definition eligible :: "failover_config \<Rightarrow> selector_state \<Rightarrow> rat \<Rightarrow> string \<Rightarrow> bool" where
  "eligible fo s now n \<longleftrightarrow> quarantined s n = None \<and>
     (case failed s n of Some (FailDict ta _) \<Rightarrow> available_at fo ta \<le> now | _ \<Rightarrow> True)"

definition cooling_entries :: "failover_config \<Rightarrow> selector_state \<Rightarrow> rat \<Rightarrow> string list \<Rightarrow> (rat \<times> string) list" where
  "cooling_entries fo s now ns = concat (map (\<lambda>n. if quarantined s n \<noteq> None then [] else
     (case failed s n of
        Some (FailDict ta _) \<Rightarrow> if available_at fo ta \<le> now then [] else [(available_at fo ta, n)]
      | _ \<Rightarrow> [])) ns)"

lemma classify_eq:
  "classify fo s now ns (cs, ks) = (cs @ filter (eligible fo s now) ns, ks @ cooling_entries fo s now ns)"
proof (induction ns arbitrary: cs ks)
  case (Cons n ns)
  then show ?case
    by (cases "failed s n") (auto simp: eligible_def cooling_entries_def split: fail_entry.splits)
qed (simp add: cooling_entries_def)

lemma cooling_entries_empty:
  assumes "\<forall>n\<in>set ns. \<not> eligible fo s now n"
  shows "cooling_entries fo s now ns = [] \<longleftrightarrow> (\<forall>n\<in>set ns. quarantined s n \<noteq> None)"
  using assms
proof (induction ns)
  case (Cons n ns)
  then show ?case
    by (cases "failed s n") (auto simp: cooling_entries_def eligible_def split: fail_entry.splits)
qed (simp add: cooling_entries_def)

lemma filter_find: "filter P xs = [] \<longleftrightarrow> find P xs = None" "filter P xs = y # ys \<Longrightarrow> find P xs = Some y"
  by (induction xs) (auto split: if_splits)

lemma select_candidate_eq:
  "select_candidate fo now w s = (case find (eligible fo s now) (ordered_names fo) of
       Some n \<Rightarrow> Inr (n, save_state w (s\<lparr>active := n\<rparr>))
     | None \<Rightarrow>
         (let ks = cooling_entries fo s now (ordered_names fo)
          in if ks = [] then Inl AllQuarantined
             else Inl (AllCooling (snd (Min (set ks))) (remaining_seconds (fst (Min (set ks))) now))))"
proof (cases "filter (eligible fo s now) (ordered_names fo)")
  case Nil
  then have "find (eligible fo s now) (ordered_names fo) = None"
    by (simp only: filter_find(1))
  with Nil show ?thesis
    by (auto simp: select_candidate_def classify_eq Let_def split: list.splits prod.splits)
next
  case (Cons n ns)
  then show ?thesis
    by (simp add: select_candidate_def classify_eq filter_find(2))
qed

lemma find_eligible_Some:
  "find (eligible fo s now) (ordered_names fo) = Some n \<Longrightarrow> contains fo n \<and> eligible fo s now n"
  by (auto simp: find_Some_iff contains_def)

lemma select_candidate_Inr [res_simps]:
  "select_candidate fo now w s = Inr r \<longleftrightarrow>
     (\<exists>n. find (eligible fo s now) (ordered_names fo) = Some n \<and> r = (n, save_state w (s\<lparr>active := n\<rparr>)))"
  by (auto simp: select_candidate_eq Let_def split: option.splits if_splits)

lemma select_requested_Inr [res_simps]:
  "select_requested fo w s = Inr r \<longleftrightarrow>
     quarantined s (requested s) = None \<and> contains fo (requested s)
     \<and> r = (requested s, save_state w (s\<lparr>active := requested s, requested := []\<rparr>))"
  by (auto simp: select_requested_def split: if_splits)

lemma select_Inr:
  assumes "select fo now w f = Inr (n, f')"
  obtains (req) s where "load_state f = Inr s" "requested s = n" "n \<noteq> []" "quarantined s n = None"
      "contains fo n" "f' = save_state w (s\<lparr>active := n, requested := []\<rparr>)"
    | (sticky) s where "load_state f = Inr s" "requested s = []" "active_usable fo s" "n = active s" "f' = f"
    | (fresh) s where "load_state f = Inr s" "requested s = []" "\<not> active_usable fo s"
        "find (eligible fo s now) (ordered_names fo) = Some n" "f' = save_state w (s\<lparr>active := n\<rparr>)"
proof -
  from assms obtain s where s: "load_state f = Inr s" and
    r: "(if requested s \<noteq> [] then select_requested fo w s
         else if active_usable fo s then Inr (active s, f)
         else select_candidate fo now w s) = Inr (n, f')"
    unfolding select_def bindE_Inr_iff by blast
  show thesis
  proof (cases "requested s = []")
    case False
    with r s show thesis by (intro req[of s]) (simp_all add: res_simps)
  next
    case True
    with r s show thesis
      by (cases "active_usable fo s") (auto simp: res_simps intro: sticky fresh)
  qed
qed

section \<open>The invariant of the state file\<close>

definition state_ok :: "failover_config \<Rightarrow> selector_state \<Rightarrow> bool" where
  "state_ok fo s \<longleftrightarrow> (\<forall>n. failed s n \<noteq> None \<longrightarrow> contains fo n)
     \<and> (\<forall>n. quarantined s n \<noteq> None \<longrightarrow> contains fo n)
     \<and> (requested s = [] \<or> contains fo (requested s))"

definition selector_inv :: "failover_config \<Rightarrow> transport_file \<Rightarrow> bool" where
  "selector_inv fo f \<longleftrightarrow> (\<exists>s. load_state f = Inr s \<and> state_ok fo s)"

lemmas op_defs = record_failure_def quarantine_def clear_quarantine_def record_success_def request_def
  record_startup_verification_def

lemma selector_inv_empty [simp]: "selector_inv fo NoFile"
  by (simp add: selector_inv_def load_state_def state_of_payload_def empty_payload_def get_or_def
      good_or_def state_ok_def)

lemma state_ok_update [simp]: "state_ok fo (s\<lparr>updated_at := w\<rparr>) = state_ok fo s"
  by (simp add: state_ok_def)

lemma state_ok_select:
  "select fo now w f = Inr (n, f') \<Longrightarrow> selector_inv fo f \<Longrightarrow> selector_inv fo f'"
  by (erule select_Inr) (auto simp: selector_inv_def state_ok_def)

lemma selector_step_inv: "selector_inv fo f \<Longrightarrow> selector_step fo op f = Inr f' \<Longrightarrow> selector_inv fo f'"
proof (cases op)
  case (OpSelect now w)
  then show "selector_inv fo f \<Longrightarrow> selector_step fo op f = Inr f' \<Longrightarrow> ?thesis"
    by (auto simp: res_simps intro: state_ok_select)
qed (auto simp: op_defs selector_inv_def state_ok_def res_simps split: if_splits)

interpretation sel: guarded_machine "selector_step fo" "selector_inv fo" for fo
  by unfold_locales (rule selector_step_inv)

section \<open>Properties\<close>

text \<open>
  C2. A selected transport is always usable: selection only returns a configured transport that is not
  quarantined, records it as active, consumes the operator's request, and changes neither the failures
  nor the quarantines.
\<close>

theorem select_sound:
  assumes "select fo now w f = Inr (n, f')"
  shows "contains fo n \<and> (\<exists>s s'. load_state f = Inr s \<and> load_state f' = Inr s'
    \<and> quarantined s n = None \<and> active s' = n \<and> requested s' = [] \<and> (requested s \<noteq> [] \<longrightarrow> n = requested s)
    \<and> failed s' = failed s \<and> quarantined s' = quarantined s
    \<and> verification_fingerprint s' = verification_fingerprint s)"
  using assms
  by (rule select_Inr) (auto simp: active_usable_def eligible_def dest: find_eligible_Some)

definition example_file :: transport_file where
  "example_file = write_state
     \<lparr>active = ''cifs-primary'', requested = [], failed = [''cifs-primary'' \<mapsto> FailDict (Some 100) ''io''],
      quarantined = [''ssh-a'' \<mapsto> \<lparr>mk_at = 90, mk_reason = ''x''\<rparr>], last_success_at = 80,
      verification_fingerprint = ''fp'', startup_verified_at = 10, startup_verified_transports = [],
      updated_at = 100\<rparr>"

lemma example_cooldown [simp]: "failure_cooldown_seconds example_failover = 60"
  by (simp add: example_failover_def)

lemma example_select: "\<exists>f'. select example_failover 130 131 example_file = Inr (''ssh-b'', f')"
  by (simp add: select_def example_file_def active_usable_def select_candidate_eq example_ordered_names
      eligible_def available_at_def get_or_def contains_def)

theorem select_sound_witness:
  "\<exists>f'. select example_failover 130 131 example_file = Inr (''ssh-b'', f') \<and> contains example_failover ''ssh-b''"
  using example_select select_sound by blast

text \<open>
  Selection by priority: with no pending request and no usable active transport, the selector returns
  the first transport in priority order that is neither quarantined nor cooling; if there is none, the
  error tells quarantine from cooling, and names a transport whose cooling ends first.
\<close>

theorem select_by_priority:
  assumes "load_state f = Inr s" "requested s = []" "\<not> active_usable fo s"
  shows "select fo now w f = (case find (eligible fo s now) (ordered_names fo) of
       Some n \<Rightarrow> Inr (n, save_state w (s\<lparr>active := n\<rparr>))
     | None \<Rightarrow>
         (let ks = cooling_entries fo s now (ordered_names fo)
          in if \<forall>n\<in>set (ordered_names fo). quarantined s n \<noteq> None then Inl AllQuarantined
             else Inl (AllCooling (snd (Min (set ks))) (remaining_seconds (fst (Min (set ks))) now))))"
proof -
  have "cooling_entries fo s now (ordered_names fo) = []
      \<longleftrightarrow> (\<forall>n\<in>set (ordered_names fo). quarantined s n \<noteq> None)"
    if "find (eligible fo s now) (ordered_names fo) = None"
    using that cooling_entries_empty by (simp add: find_None_iff)
  then show ?thesis
    using assms by (simp add: select_def select_candidate_eq Let_def split: option.splits)
qed

theorem select_by_priority_witness:
  "\<exists>s. load_state example_file = Inr s
     \<and> select example_failover 130 131 example_file = Inr (''ssh-b'', save_state 131 (s\<lparr>active := ''ssh-b''\<rparr>))"
proof -
  obtain s where s: "load_state example_file = Inr s" "requested s = []" "\<not> active_usable example_failover s"
    "find (eligible example_failover s 130) (ordered_names example_failover) = Some ''ssh-b''"
    by (simp add: example_file_def active_usable_def example_ordered_names eligible_def available_at_def
        get_or_def)
  show ?thesis
    using select_by_priority[OF s(1-3), of 130 131] s(1,4) by (intro exI[of _ s]) simp
qed

definition is_quarantined :: "string \<Rightarrow> transport_file \<Rightarrow> bool" where
  "is_quarantined n f \<longleftrightarrow> (\<exists>s. load_state f = Inr s \<and> quarantined s n \<noteq> None)"

lemma is_quarantined_step:
  assumes "selector_step fo op f = Inr f'" "is_quarantined n f" "\<forall>w. op \<noteq> OpClear n w"
  shows "is_quarantined n f'"
proof (cases op)
  case (OpSelect now w)
  with assms(1) obtain m where "select fo now w f = Inr (m, f')" by (auto simp: res_simps)
  then show ?thesis
    by (rule select_Inr) (use assms(2) in \<open>auto simp: is_quarantined_def\<close>)
qed (use assms in \<open>auto simp: op_defs is_quarantined_def res_simps split: if_splits\<close>)

lemma is_quarantined_select: "is_quarantined n f \<Longrightarrow> select fo now w f \<noteq> Inr (n, f')"
  by (auto simp: is_quarantined_def active_usable_def eligible_def elim!: select_Inr dest: find_eligible_Some)

text \<open>
  C13. Quarantine is never lifted by the program: once a transport is quarantined, no sequence of
  selections, failures, successes, requests, verifications or other clearances lifts it, and after any
  such sequence selection does not return it. Only an explicit clearance of that transport does.
\<close>

theorem quarantine_persists:
  assumes "quarantine fo n r w0 f = Inr f0" "\<forall>w. OpClear n w \<notin> set ops"
  shows "\<exists>s. load_state (sel.run_ops fo ops f0) = Inr s \<and> quarantined s n \<noteq> None
    \<and> (\<forall>now w f'. select fo now w (sel.run_ops fo ops f0) \<noteq> Inr (n, f'))"
proof -
  have "is_quarantined n f0"
    using assms(1) by (auto simp: quarantine_def is_quarantined_def res_simps split: if_splits)
  then have "is_quarantined n (sel.run_ops fo ops f0)"
    by (rule sel.run_ops_stable[where P = "is_quarantined n", rotated])
       (use assms(2) in \<open>auto intro: is_quarantined_step\<close>)
  then show ?thesis
    using is_quarantined_select[of n "sel.run_ops fo ops f0" fo] by (auto simp: is_quarantined_def)
qed

theorem quarantine_persists_witness:
  "\<exists>f0. quarantine example_failover ''ssh-b'' ''lost'' 1 NoFile = Inr f0
     \<and> (\<forall>now w f'. select example_failover now w
          (sel.run_ops example_failover [OpSelect 2 2, OpClear ''ssh-a'' 3, OpSuccess ''ssh-b'' 4 4] f0)
            \<noteq> Inr (''ssh-b'', f'))"
proof -
  obtain s where s: "load_state NoFile = Inr s"
    using selector_inv_empty[of example_failover] by (auto simp: selector_inv_def)
  then obtain f0 where f0: "quarantine example_failover ''ssh-b'' ''lost'' 1 NoFile = Inr f0"
    by (simp add: quarantine_def contains_def example_ordered_names)
  have c: "\<forall>w. OpClear ''ssh-b'' w
      \<notin> set [OpSelect 2 2, OpClear ''ssh-a'' 3, OpSuccess ''ssh-b'' 4 4]"
    by simp
  show ?thesis
    using quarantine_persists[OF f0 c] f0 by blast
qed

fun neutral_op :: "string \<Rightarrow> selector_op \<Rightarrow> bool" where
  "neutral_op n (OpSelect now w) \<longleftrightarrow> True"
| "neutral_op n (OpFailure m r now w) \<longleftrightarrow> False"
| "neutral_op n (OpQuarantine m r w) \<longleftrightarrow> m \<noteq> n"
| "neutral_op n (OpClear m w) \<longleftrightarrow> True"
| "neutral_op n (OpSuccess m now w) \<longleftrightarrow> m = n"
| "neutral_op n (OpRequest m w) \<longleftrightarrow> m = n"
| "neutral_op n (OpVerified fp ts w) \<longleftrightarrow> True"

definition settled :: "failover_config \<Rightarrow> string \<Rightarrow> transport_file \<Rightarrow> bool" where
  "settled fo n f \<longleftrightarrow> (\<exists>s. load_state f = Inr s \<and> requested s = [] \<and> active s = n \<and> active_usable fo s)"

lemma settled_select: "settled fo n f \<Longrightarrow> select fo now w f = Inr (n, f)"
  by (auto simp: settled_def select_def)

lemma settled_step:
  assumes "selector_step fo op f = Inr f'" "settled fo n f" "neutral_op n op"
  shows "settled fo n f'"
proof (cases op)
  case (OpSelect t w')
  then show ?thesis using assms by (simp add: settled_select)
next
  case (OpQuarantine m r w)
  then show ?thesis
    using assms by (auto simp: quarantine_def res_simps settled_def active_usable_def split: if_splits)
next
  case (OpClear m w)
  then show ?thesis
    using assms by (auto simp: clear_quarantine_def res_simps settled_def active_usable_def split: if_splits)
qed (use assms in \<open>auto simp: record_success_def request_def record_startup_verification_def
       res_simps settled_def active_usable_def split: if_splits\<close>)



text \<open>
  A failure moves the node to another transport: after a failure of a transport is recorded and until
  its cooling period is over, a selection without a pending request returns another transport or says that
  all are cooling or quarantined; it never returns the failed one.
\<close>

theorem failover_after_failure:
  assumes "record_failure fo n r t w f = Inr f'" "contains fo n" "load_state f = Inr s" "requested s = []"
    "now < t + of_int (failure_cooldown_seconds fo)"
  shows "(\<exists>m f''. select fo now w' f' = Inr (m, f'') \<and> m \<noteq> n \<and> eligible fo s now m)
    \<or> select fo now w' f' = Inl AllQuarantined \<or> (\<exists>m k. select fo now w' f' = Inl (AllCooling m k))"
proof -
  define s' where "s' = s\<lparr>failed := (failed s)(n \<mapsto> FailDict (Some t) (take 1000 r)), active := n, updated_at := w\<rparr>"
  have l: "load_state f' = Inr s'"
    using assms(1-3) by (auto simp: record_failure_def s'_def)
  have u: "\<not> active_usable fo s'" "requested s' = []" by (simp_all add: active_usable_def s'_def assms(4))
  have "\<not> eligible fo s' now n"
    using assms(5) by (simp add: eligible_def s'_def available_at_def get_or_def)
  moreover have "eligible fo s now m" if "eligible fo s' now m" "m \<noteq> n" for m
    using that by (simp add: eligible_def s'_def)
  ultimately show ?thesis
    using l u by (auto simp: select_def select_candidate_eq Let_def split: option.splits
        dest!: find_eligible_Some)
qed

theorem failover_after_failure_witness:
  "\<exists>f' m f''. record_failure example_failover ''cifs-primary'' ''io'' 100 100 NoFile = Inr f'
     \<and> select example_failover 101 101 f' = Inr (m, f'') \<and> m \<noteq> ''cifs-primary''"
proof -
  obtain s where s: "load_state NoFile = Inr s" "requested s = []" "quarantined s = Map.empty" "failed s = Map.empty"
    by (simp add: load_state_def state_of_payload_def empty_payload_def get_or_def good_or_def)
  have c: "contains example_failover ''cifs-primary''"
    by (simp add: contains_def example_ordered_names)
  obtain f' where f': "record_failure example_failover ''cifs-primary'' ''io'' 100 100 NoFile = Inr f'"
    using s(1) c by (simp add: record_failure_def)
  have "\<exists>m f''. select example_failover 101 101 f' = Inr (m, f'')"
    using f' s c by (auto simp: record_failure_def select_def active_usable_def select_candidate_eq
        example_ordered_names eligible_def)
  moreover have "(101::rat) < 100 + of_int (failure_cooldown_seconds example_failover)" by simp
  ultimately show ?thesis
    using failover_after_failure[OF f' c s(1,2), of 101 101] f' by fastforce
qed

lemma load_state_not_cooling: "(load_state f = Inl (AllCooling n k)) = False"
  by (auto simp: load_state_def state_of_payload_def split: transport_file.splits field.splits)

definition verified_as :: "string \<Rightarrow> transport_file \<Rightarrow> bool" where
  "verified_as fp f \<longleftrightarrow> (\<exists>s. load_state f = Inr s \<and> verification_fingerprint s = fp)"

lemma verified_as_step:
  assumes "selector_step fo op f = Inr f'" "verified_as fp f"
    "\<forall>m r v fp' ts'. op \<noteq> OpQuarantine m r v \<and> op \<noteq> OpClear m v \<and> op \<noteq> OpVerified fp' ts' v"
  shows "verified_as fp f'"
proof (cases op)
  case (OpSelect now w)
  with assms(1) obtain m where "select fo now w f = Inr (m, f')" by (auto simp: res_simps)
  then show ?thesis
    by (rule select_Inr) (use assms(2) in \<open>auto simp: verified_as_def\<close>)
qed (use assms in \<open>auto simp: op_defs verified_as_def res_simps split: if_splits\<close>)

lemma remaining_seconds_enough: "ta - now \<le> of_int (remaining_seconds ta now) + 1 / 1000"
proof (cases "0 \<le> ta - now + 999 / 1000")
  case True
  have "ta - now + 999 / 1000 < of_int \<lfloor>ta - now + 999 / 1000\<rfloor> + 1" by linarith
  moreover have "of_int \<lfloor>ta - now + 999 / 1000\<rfloor> \<le> (of_int (remaining_seconds ta now) :: rat)"
    using True by (simp add: remaining_seconds_def trunc_rat_def)
  ultimately show ?thesis by linarith
next
  case False
  have "(1::rat) \<le> of_int (remaining_seconds ta now)" by (simp add: remaining_seconds_def)
  with False show ?thesis by linarith
qed

lemma cooling_entries_elem:
  assumes "(ta, n) \<in> set (cooling_entries fo s now ns)"
  shows "n \<in> set ns \<and> (\<forall>t. ta \<le> t \<longrightarrow> eligible fo s t n)"
  using assms by (auto simp: cooling_entries_def eligible_def split: if_splits option.splits fail_entry.splits)

text \<open>
  C24. Cooling always ends: if a selection fails because every transport is cooling and announces a wait of
  \<open>k\<close> seconds, a selection on the unchanged state any time after \<open>k\<close> seconds (and a millisecond) succeeds.
\<close>

theorem cooling_ends:
  assumes "select fo now w f = Inl (AllCooling n k)" "now + of_int k + 1 / 1000 \<le> now'"
  shows "\<exists>m f'. select fo now' w' f = Inr (m, f')"
proof -
  from assms(1) obtain s where s: "load_state f = Inr s" "requested s = []" "\<not> active_usable fo s"
      and e: "select_candidate fo now w s = Inl (AllCooling n k)"
    by (auto simp: select_def res_simps select_requested_def load_state_not_cooling split: if_splits)
  define ks where "ks = cooling_entries fo s now (ordered_names fo)"
  from e have ne: "ks \<noteq> []" and k: "n = snd (Min (set ks))" "k = remaining_seconds (fst (Min (set ks))) now"
    by (auto simp: select_candidate_eq Let_def ks_def split: option.splits if_splits)
  obtain ta m where m: "Min (set ks) = (ta, m)" by (cases "Min (set ks)")
  then have "(ta, m) \<in> set ks" using ne Min_in[of "set ks"] by simp
  then have el: "m \<in> set (ordered_names fo)" "\<forall>t. ta \<le> t \<longrightarrow> eligible fo s t m"
    using cooling_entries_elem unfolding ks_def by blast+
  have "ta \<le> now'" using remaining_seconds_enough[of ta now] assms(2) k m by simp
  with el have "find (eligible fo s now') (ordered_names fo) \<noteq> None"
    by (auto simp: find_None_iff)
  with s show ?thesis by (auto simp: select_def select_candidate_eq split: option.splits)
qed

definition cooling_file :: transport_file where
  "cooling_file = write_state
     \<lparr>active = ''cifs-primary'', requested = [],
      failed = [''cifs-primary'' \<mapsto> FailDict (Some 100) ''io'', ''ssh-a'' \<mapsto> FailDict (Some 120) ''io''],
      quarantined = [''ssh-b'' \<mapsto> \<lparr>mk_at = 90, mk_reason = ''x''\<rparr>], last_success_at = 80,
      verification_fingerprint = ''fp'', startup_verified_at = 10, startup_verified_transports = [],
      updated_at = 100\<rparr>"

lemma cooling_file_select:
  "select example_failover 130 130 cooling_file = Inl (AllCooling ''cifs-primary'' 30)"
  by (simp add: select_def cooling_file_def active_usable_def select_candidate_eq example_ordered_names
      eligible_def available_at_def get_or_def cooling_entries_def remaining_seconds_def trunc_rat_def
      min_def less_eq_prod_def floor_eq_iff)

theorem cooling_ends_witness:
  "select example_failover 130 130 cooling_file = Inl (AllCooling ''cifs-primary'' 30)
   \<and> (\<exists>m f'. select example_failover 161 161 cooling_file = Inr (m, f'))"
  using cooling_ends[OF cooling_file_select, of 161 161] cooling_file_select by simp

text \<open>
  An operator's request decides the next selection: an accepted request for a transport that is not
  active makes the next selection return it at any time, even while it is cooling; if it is quarantined
  in between, selection fails until the quarantine is cleared, and then returns it.
\<close>

theorem request_honoured:
  assumes "load_state f = Inr s" "active s \<noteq> n" "n \<noteq> []" "request fo n w f = Inr f'"
  shows "(\<exists>f''. select fo now w1 f' = Inr (n, f''))
    \<and> (\<exists>fq fc f''. quarantine fo n r w2 f' = Inr fq \<and> select fo now w3 fq = Inl (RequestedQuarantined n)
        \<and> clear_quarantine fo n w4 fq = Inr fc \<and> select fo now w5 fc = Inr (n, f''))"
proof -
  define s' where "s' = s\<lparr>requested := n, updated_at := w\<rparr>"
  have l: "load_state f' = Inr s'" "contains fo n" "quarantined s n = None"
    using assms by (auto simp: request_def res_simps s'_def split: if_splits)
  have "\<exists>f''. select fo now w1 f' = Inr (n, f'')"
    using l assms(3) by (simp add: select_def select_requested_def s'_def)
  then show ?thesis
    using l assms(3)
    by (simp add: quarantine_def clear_quarantine_def select_def select_requested_def s'_def)
qed

theorem request_honoured_witness:
  "\<exists>f' f''. request example_failover ''ssh-b'' 140 example_file = Inr f'
     \<and> select example_failover 141 141 f' = Inr (''ssh-b'', f'')"
proof -
  obtain s where s: "load_state example_file = Inr s" "active s \<noteq> ''ssh-b''" "quarantined s ''ssh-b'' = None"
    by (simp add: example_file_def)
  obtain f' where f': "request example_failover ''ssh-b'' 140 example_file = Inr f'"
    using s by (simp add: request_def contains_def example_ordered_names)
  show ?thesis
    using request_honoured[OF s(1,2) _ f', of 141 141] f' by blast
qed

text \<open>
  Startup verification is remembered exactly as long as it may be trusted: after it is recorded, it is
  not required for the same fingerprint and required for every other one; selections, failures, successes
  and requests do not change that, while quarantining or clearing any transport makes it required again
  for every (non-empty) fingerprint.
\<close>

theorem startup_verification_lifetime:
  assumes "record_startup_verification fp ts w f = Inr f1"
    "\<forall>op\<in>set ops. \<forall>m r v fp' ts'. op \<noteq> OpQuarantine m r v \<and> op \<noteq> OpClear m v \<and> op \<noteq> OpVerified fp' ts' v"
  shows "startup_verification_required fp' (sel.run_ops fo ops f1) = Inr (fp' \<noteq> fp)
    \<and> (quarantine fo m r v (sel.run_ops fo ops f1) = Inr f2 \<longrightarrow> fp' \<noteq> [] \<longrightarrow>
         startup_verification_required fp' f2 = Inr True)
    \<and> (clear_quarantine fo m v (sel.run_ops fo ops f1) = Inr f3 \<longrightarrow> fp' \<noteq> [] \<longrightarrow>
         startup_verification_required fp' f3 = Inr True)"
proof -
  have "verified_as fp (sel.run_ops fo ops f1)"
  proof (rule sel.run_ops_stable[where P = "verified_as fp"])
    show "verified_as fp f1"
      using assms(1) by (auto simp: record_startup_verification_def verified_as_def res_simps)
  next
    fix op g g'
    assume o: "op \<in> set ops" "verified_as fp g" "selector_step fo op g = Inr g'"
    show "verified_as fp g'"
      by (rule verified_as_step[OF o(3,2)]) (use assms(2) o(1) in blast)
  qed
  then show ?thesis
    by (auto simp: verified_as_def startup_verification_required_def quarantine_def clear_quarantine_def
        res_simps split: if_splits)
qed

theorem startup_verification_lifetime_witness:
  "\<exists>f1. record_startup_verification ''abc'' [''ssh-a''] 5 NoFile = Inr f1
     \<and> startup_verification_required ''abc'' (sel.run_ops example_failover [OpSelect 6 6] f1) = Inr False"
proof -
  obtain f1 where f1: "record_startup_verification ''abc'' [''ssh-a''] 5 NoFile = Inr f1"
    by (simp add: record_startup_verification_def load_state_def state_of_payload_def empty_payload_def)
  have o: "\<forall>op\<in>set [OpSelect 6 6]. \<forall>m r v fp' ts'.
      op \<noteq> OpQuarantine m r v \<and> op \<noteq> OpClear m v \<and> op \<noteq> OpVerified fp' ts' v"
    by simp
  show ?thesis
    using startup_verification_lifetime[OF f1 o, of "''abc''" example_failover] f1
    by (intro exI[of _ f1]) simp
qed

end
