(* ===== verification/Index_Bounds.thy ===== *)
theory Index_Bounds
  imports Prelude "HOL-Library.Word"
begin

text \<open>
  The needle index checks of \<open>index_repair_helper.py\<close>: the on-disk size of a needle, the scan of a binary
  index against its volume file, the bounded fingerprint of a file, and the recovery of one incomplete
  final record. Files are byte lists. The hash function is a parameter.
\<close>

type_synonym byte = "8 word"

datatype helper_error =
    UnsupportedSuperblock
  | IndexSizeNotMultiple int
  | PartialEntry
  | NotRegularFile
  | ChangedWhileFingerprinting
  | PastEof int int
  | HelperFailed string

definition FINGERPRINT_REGION_BYTES :: nat where "FINGERPRINT_REGION_BYTES = 1048576"
definition NEEDLE_MAP_ENTRY_BYTES :: nat where "NEEDLE_MAP_ENTRY_BYTES = 16"
definition NEEDLE_HEADER_BYTES :: int where "NEEDLE_HEADER_BYTES = 16"
definition NEEDLE_CHECKSUM_BYTES :: int where "NEEDLE_CHECKSUM_BYTES = 4"
definition NEEDLE_TIMESTAMP_BYTES :: int where "NEEDLE_TIMESTAMP_BYTES = 8"
definition NEEDLE_PADDING_BYTES :: int where "NEEDLE_PADDING_BYTES = 8"

lemmas needle_consts = NEEDLE_MAP_ENTRY_BYTES_def NEEDLE_HEADER_BYTES_def NEEDLE_CHECKSUM_BYTES_def
  NEEDLE_TIMESTAMP_BYTES_def NEEDLE_PADDING_BYTES_def

definition needle_actual_size :: "int \<Rightarrow> int \<Rightarrow> int" where
  "needle_actual_size sz version =
     (let payload_size = (if sz < 0 then 0 else sz);
          trailer_size = NEEDLE_CHECKSUM_BYTES + (if version = 3 then NEEDLE_TIMESTAMP_BYTES else 0);
          unpadded = NEEDLE_HEADER_BYTES + payload_size + trailer_size;
          padding = NEEDLE_PADDING_BYTES - unpadded mod NEEDLE_PADDING_BYTES
      in unpadded + padding)"

section \<open>Scanning an index\<close>

text \<open>\<open>int.from_bytes(..., "big")\<close>, unsigned, and signed for four bytes.\<close>

definition from_bytes_big :: "byte list \<Rightarrow> int" where
  "from_bytes_big bs = foldl (\<lambda>a b. a * 256 + uint b) 0 bs"

definition from_bytes_signed32 :: "byte list \<Rightarrow> int" where
  "from_bytes_signed32 bs = (let v = from_bytes_big bs in if 2 ^ 31 \<le> v then v - 2 ^ 32 else v)"

record needle_entry =
  needle_id :: int
  offset :: int
  needle_size :: int

definition decode_entry :: "byte list \<Rightarrow> needle_entry" where
  "decode_entry r =
     \<lparr>needle_id = from_bytes_big (take 8 r),
      offset = from_bytes_big (take 4 (drop 8 r)) * NEEDLE_PADDING_BYTES,
      needle_size = from_bytes_signed32 (take 4 (drop 12 r))\<rparr>"

record violation =
  v_needle_id :: int
  v_offset :: int
  v_size :: int
  v_end :: int
  v_past_eof :: int

record scan_state =
  entry_count :: int
  max_end :: int
  max_valid_end :: int
  max_entry_offset :: int
  violations :: "violation list"

definition scan_init :: scan_state where
  "scan_init = \<lparr>entry_count = 0, max_end = 0, max_valid_end = 0, max_entry_offset = 0, violations = []\<rparr>"

definition scan_entry :: "int \<Rightarrow> int \<Rightarrow> needle_entry \<Rightarrow> scan_state \<Rightarrow> scan_state" where
  "scan_entry version src_size e st0 =
     (let st = st0\<lparr>entry_count := entry_count st0 + 1\<rparr>
      in if offset e = 0 \<or> needle_size e \<le> 0 then st
         else let end = offset e + needle_actual_size (needle_size e) version;
                  st1 = st\<lparr>max_entry_offset := max (max_entry_offset st) (offset e),
                           max_end := max (max_end st) end\<rparr>
              in if end > src_size
                 then st1\<lparr>violations := violations st1 @
                        [\<lparr>v_needle_id = needle_id e, v_offset = offset e, v_size = needle_size e, v_end = end,
                          v_past_eof = end - src_size\<rparr>]\<rparr>
                 else st1\<lparr>max_valid_end := max (max_valid_end st1) end\<rparr>)"

function scan_index :: "int \<Rightarrow> int \<Rightarrow> byte list \<Rightarrow> scan_state \<Rightarrow> helper_error + scan_state" where
  "scan_index version src_size bs st =
     (let r = take NEEDLE_MAP_ENTRY_BYTES bs
      in if r = [] then Inr st
         else if length r \<noteq> NEEDLE_MAP_ENTRY_BYTES then Inl PartialEntry
         else scan_index version src_size (drop NEEDLE_MAP_ENTRY_BYTES bs)
                (scan_entry version src_size (decode_entry r) st))"
  by pat_completeness auto

termination
  by (relation "measure (\<lambda>(_, _, bs, _). length bs)") (auto simp: NEEDLE_MAP_ENTRY_BYTES_def)

declare scan_index.simps [simp del]

record index_bounds =
  ib_version :: int
  ib_source_size :: int
  ib_index_size :: int
  ib_scan :: scan_state

definition bounds_valid :: "index_bounds \<Rightarrow> bool" where
  "bounds_valid b \<longleftrightarrow> violations (ib_scan b) = []"

definition inspect_index_bounds :: "byte list \<Rightarrow> byte list \<Rightarrow> helper_error + index_bounds" where
  "inspect_index_bounds index source =
     (case source of
        [] \<Rightarrow> Inl UnsupportedSuperblock
      | v # _ \<Rightarrow>
          if v \<notin> {1, 2, 3} then Inl UnsupportedSuperblock
          else if length index mod NEEDLE_MAP_ENTRY_BYTES \<noteq> 0
          then Inl (IndexSizeNotMultiple (int (length index)))
          else bindE (scan_index (uint v) (int (length source)) index scan_init) (\<lambda>st.
            Inr \<lparr>ib_version = uint v, ib_source_size = int (length source),
                 ib_index_size = int (length index), ib_scan = st\<rparr>))"

section \<open>Fingerprints\<close>

record dat_file =
  contents :: "byte list"
  mtime_ns :: int

record file_fingerprint =
  fp_size :: int
  fp_mtime_ns :: int
  fp_head_bytes :: int
  fp_head_sha256 :: string
  fp_tail_offset :: int
  fp_tail_bytes :: int
  fp_tail_sha256 :: string

text \<open>The file as seen by the first \<open>stat\<close>, by the reads, and by the second \<open>stat\<close>.\<close>

definition fingerprint_observed ::
  "(byte list \<Rightarrow> string) \<Rightarrow> nat \<Rightarrow> bool \<Rightarrow> dat_file \<Rightarrow> byte list \<Rightarrow> dat_file \<Rightarrow> helper_error + file_fingerprint" where
  "fingerprint_observed sha region regular before bytes after =
     (if \<not> regular then Inl NotRegularFile
      else let head = take region bytes;
               tail_offset = length (contents before) - region;
               tail = take region (drop tail_offset bytes)
           in if length (contents before) \<noteq> length (contents after) \<or> mtime_ns before \<noteq> mtime_ns after
              then Inl ChangedWhileFingerprinting
              else Inr \<lparr>fp_size = int (length (contents before)), fp_mtime_ns = mtime_ns before,
                        fp_head_bytes = int (length head), fp_head_sha256 = sha head,
                        fp_tail_offset = int tail_offset, fp_tail_bytes = int (length tail),
                        fp_tail_sha256 = sha tail\<rparr>)"

text \<open>The fingerprint of a regular file nobody changes meanwhile.\<close>

definition fingerprint :: "(byte list \<Rightarrow> string) \<Rightarrow> dat_file \<Rightarrow> helper_error + file_fingerprint" where
  "fingerprint sha f = fingerprint_observed sha FINGERPRINT_REGION_BYTES True f (contents f) f"

section \<open>Recovering an incomplete final record\<close>

text \<open>What the candidate reconstruction reported, as far as the recovery reads it.\<close>

record candidate_result =
  cr_success :: bool
  cr_manual :: bool
  cr_bounds :: "index_bounds option"

datatype backup_slot = NoBackup | BackupSymlink | BackupNotRegular | BackupFile "byte list"

record tail_args =
  expected_fingerprint :: "file_fingerprint option"
  maximum_tail_bytes :: int

record tail_recovery =
  rec_offset :: int
  rec_tail_size :: int
  rec_tail_sha256 :: string
  rec_needle_id :: int
  rec_fingerprint_after :: file_fingerprint

definition tail_boundary :: "candidate_result \<Rightarrow> int \<Rightarrow> helper_error + (violation \<times> nat)" where
  "tail_boundary c maximum =
     (if cr_success c \<or> \<not> cr_manual c
      then Inl (HelperFailed ''source does not contain a rejected incomplete-tail candidate'')
      else case cr_bounds c of
        None \<Rightarrow> Inl (HelperFailed ''candidate bounds are unavailable'')
      | Some b \<Rightarrow>
          (case violations (ib_scan b) of
             [v] \<Rightarrow>
               (let tail_size = ib_source_size b - v_offset v
                in if v_offset v \<le> 0 \<or> tail_size \<le> 0 \<or> tail_size > maximum
                      \<or> max_entry_offset (ib_scan b) \<noteq> v_offset v
                      \<or> max_valid_end (ib_scan b) > v_offset v
                   then Inl (HelperFailed ''candidate does not prove a bounded final-record tail'')
                   else Inr (v, nat tail_size))
           | _ \<Rightarrow> Inl (HelperFailed ''candidate does not contain exactly one incomplete record'')))"

definition check_fingerprint ::
  "(byte list \<Rightarrow> string) \<Rightarrow> dat_file \<Rightarrow> file_fingerprint \<Rightarrow> string \<Rightarrow> helper_error + unit" where
  "check_fingerprint sha f expected message =
     bindE (fingerprint sha f) (\<lambda>fp. requireE (fp = expected) (HelperFailed message))"

text \<open>The checks before anything is written. The source is observed several times: \<open>obs 0\<close> while the live
  index is inspected, \<open>obs 1\<close> for the first fingerprint, \<open>obs 2\<close> when the tail is read.\<close>

definition tail_prepare ::
  "(byte list \<Rightarrow> string) \<Rightarrow> tail_args \<Rightarrow> candidate_result \<Rightarrow> byte list \<Rightarrow> (nat \<Rightarrow> dat_file) \<Rightarrow>
     helper_error + (violation \<times> byte list \<times> file_fingerprint)" where
  "tail_prepare sha args c live_index obs =
     (case expected_fingerprint args of
        None \<Rightarrow> Inl (HelperFailed ''expected source fingerprint is not an object'')
      | Some expected \<Rightarrow>
          bindE (tail_boundary c (maximum_tail_bytes args)) (\<lambda>(v, tail_size).
          bindE (inspect_index_bounds live_index (contents (obs 0))) (\<lambda>lb.
          bindE (requireE (bounds_valid lb \<and> max_end (ib_scan lb) \<le> v_offset v)
                   (HelperFailed ''live index is inconsistent with the proven tail boundary'')) (\<lambda>_.
          bindE (check_fingerprint sha (obs 1) expected
                   ''authoritative source fingerprint changed before tail recovery'') (\<lambda>_.
          let tail = take (tail_size + 1) (drop (nat (v_offset v)) (contents (obs 2)))
          in if length tail \<noteq> tail_size
             then Inl (HelperFailed ''could not read the complete incomplete-record tail'')
             else Inr (v, tail, expected))))))"

definition save_backup ::
  "(byte list \<Rightarrow> string) \<Rightarrow> byte list \<Rightarrow> backup_slot \<Rightarrow> helper_error + byte list" where
  "save_backup sha tail slot = (case slot of
       BackupSymlink \<Rightarrow> Inl (HelperFailed ''tail backup may not be a symlink'')
     | BackupNotRegular \<Rightarrow> Inl (HelperFailed ''tail backup is not a regular file'')
     | BackupFile b \<Rightarrow>
         (if length b \<noteq> length tail \<or> sha b \<noteq> sha tail
          then Inl (HelperFailed ''existing tail backup does not match the authoritative tail'')
          else Inr b)
     | NoBackup \<Rightarrow> Inr tail)"

text \<open>\<open>truncate(n)\<close>, which pads with zero bytes when the file is shorter.\<close>

definition truncate_file :: "nat \<Rightarrow> int \<Rightarrow> dat_file \<Rightarrow> dat_file" where
  "truncate_file n now f =
     f\<lparr>contents := take n (contents f @ replicate (n - length (contents f)) 0), mtime_ns := now\<rparr>"

text \<open>Result, source and backup afterwards; \<open>obs 3\<close> is the source at the second fingerprint and \<open>obs 4\<close> when
  it is truncated.\<close>

definition recover_incomplete_tail ::
  "(byte list \<Rightarrow> string) \<Rightarrow> tail_args \<Rightarrow> candidate_result \<Rightarrow> byte list \<Rightarrow> (nat \<Rightarrow> dat_file) \<Rightarrow> int \<Rightarrow> backup_slot \<Rightarrow>
     (helper_error + tail_recovery) \<times> dat_file \<times> backup_slot" where
  "recover_incomplete_tail sha args c live_index obs now slot =
     (case tail_prepare sha args c live_index obs of
        Inl e \<Rightarrow> (Inl e, obs 4, slot)
      | Inr (v, tail, expected) \<Rightarrow>
          (case save_backup sha tail slot of
             Inl e \<Rightarrow> (Inl e, obs 4, slot)
           | Inr b \<Rightarrow>
               if sha b \<noteq> sha tail
               then (Inl (HelperFailed ''tail backup hash verification failed''), obs 4, BackupFile b)
               else case check_fingerprint sha (obs 3) expected
                           ''authoritative source fingerprint changed after tail backup'' of
                 Inl e \<Rightarrow> (Inl e, obs 4, BackupFile b)
               | Inr _ \<Rightarrow>
                   (let f = truncate_file (nat (v_offset v)) now (obs 4)
                    in case fingerprint sha f of
                         Inl e \<Rightarrow> (Inl e, f, BackupFile b)
                       | Inr r \<Rightarrow>
                           if fp_size r \<noteq> v_offset v
                           then (Inl (HelperFailed ''incomplete-tail truncation did not reach the proven boundary''),
                                 f, BackupFile b)
                           else (Inr \<lparr>rec_offset = v_offset v, rec_tail_size = int (length tail),
                                      rec_tail_sha256 = sha tail, rec_needle_id = v_needle_id v,
                                      rec_fingerprint_after = r\<rparr>, f, BackupFile b))))"

section \<open>What a scan computes\<close>

function chunks16 :: "byte list \<Rightarrow> byte list list" where
  "chunks16 bs = (if bs = [] then [] else take 16 bs # chunks16 (drop 16 bs))"
  by pat_completeness auto

termination
  by (relation "measure length") auto

declare chunks16.simps [simp del]

definition entries :: "byte list \<Rightarrow> needle_entry list" where
  "entries bs = map decode_entry (chunks16 bs)"

definition live :: "needle_entry \<Rightarrow> bool" where
  "live e \<longleftrightarrow> offset e \<noteq> 0 \<and> 0 < needle_size e"

definition needle_end :: "int \<Rightarrow> needle_entry \<Rightarrow> int" where
  "needle_end version e = offset e + needle_actual_size (needle_size e) version"

definition violation_of :: "int \<Rightarrow> int \<Rightarrow> needle_entry \<Rightarrow> violation" where
  "violation_of version src_size e =
     \<lparr>v_needle_id = needle_id e, v_offset = offset e, v_size = needle_size e, v_end = needle_end version e,
      v_past_eof = needle_end version e - src_size\<rparr>"

lemma scan_index_fold:
  "length bs mod 16 = 0 \<Longrightarrow>
     scan_index v n bs st = Inr (fold (scan_entry v n) (entries bs) st)"
proof (induction v n bs st rule: scan_index.induct)
  case (1 v n bs st)
  show ?case
  proof (cases "bs = []")
    case True
    then show ?thesis by (simp add: scan_index.simps entries_def chunks16.simps)
  next
    case False
    with "1.prems" have "16 \<le> length bs"
      by (metis length_0_conv mod_less not_le)
    then have "length (take 16 bs) = 16" "length (drop 16 bs) mod 16 = 0"
      using "1.prems" by (simp_all add: le_mod_geq)
    with False "1.IH" show ?thesis
      by (subst scan_index.simps, subst entries_def, subst chunks16.simps)
         (simp add: Let_def NEEDLE_MAP_ENTRY_BYTES_def entries_def)
  qed
qed

lemma scan_entry_eq:
  "scan_entry v n e st =
     (if live e then
        \<lparr>entry_count = entry_count st + 1, max_end = max (max_end st) (needle_end v e),
         max_valid_end = (if needle_end v e \<le> n then max (max_valid_end st) (needle_end v e) else max_valid_end st),
         max_entry_offset = max (max_entry_offset st) (offset e),
         violations = (if needle_end v e \<le> n then violations st else violations st @ [violation_of v n e])\<rparr>
      else st\<lparr>entry_count := entry_count st + 1\<rparr>)"
  by (cases st) (auto simp: scan_entry_def live_def needle_end_def violation_of_def Let_def)

lemma fold_scan:
  "fold (scan_entry v n) es st =
     \<lparr>entry_count = entry_count st + int (length es),
      max_end = foldr max (map (needle_end v) (filter live es)) (max_end st),
      max_valid_end = foldr max (map (needle_end v) (filter (\<lambda>e. live e \<and> needle_end v e \<le> n) es)) (max_valid_end st),
      max_entry_offset = foldr max (map offset (filter live es)) (max_entry_offset st),
      violations = violations st @ map (violation_of v n) (filter (\<lambda>e. live e \<and> n < needle_end v e) es)\<rparr>"
proof (induction es arbitrary: st)
  case (Cons e es)
  have m: "foldr max xs (max a b) = max (b :: int) (foldr max xs a)" for xs a b
    by (induction xs) (auto simp: max.left_commute max.commute)
  show ?case
    unfolding fold_Cons o_apply Cons.IH by (simp add: scan_entry_eq m not_le)
qed simp

lemma foldr_max_bounds:
  fixes xs :: "int list"
  shows "foldr max xs a \<le> c \<longleftrightarrow> a \<le> c \<and> (\<forall>x\<in>set xs. x \<le> c)"
  by (induction xs) auto

lemma foldr_max_in:
  fixes xs :: "int list"
  shows "foldr max xs a \<in> insert a (set xs)"
  by (induction xs) (auto simp: max_def)

lemma uint_version: "(v :: byte) \<in> {1, 2, 3} \<longleftrightarrow> uint v \<in> {1, 2, 3}"
proof -
  have "v = 1 \<longleftrightarrow> uint v = 1" "v = 2 \<longleftrightarrow> uint v = 2" "v = 3 \<longleftrightarrow> uint v = 3"
    by (simp_all add: word_uint_eq_iff)
  then show ?thesis by simp
qed

lemma inspect_Inr_iff:
  "inspect_index_bounds index source = Inr b \<longleftrightarrow>
     source \<noteq> [] \<and> hd source \<in> {1, 2, 3} \<and> length index mod 16 = 0
     \<and> b = \<lparr>ib_version = uint (hd source), ib_source_size = int (length source),
           ib_index_size = int (length index),
           ib_scan = fold (scan_entry (uint (hd source)) (int (length source))) (entries index) scan_init\<rparr>"
  by (cases source) (auto simp: inspect_index_bounds_def NEEDLE_MAP_ENTRY_BYTES_def scan_index_fold)

lemma needle_actual_size_padded:
  "needle_actual_size sz v mod 8 = 0 \<and> max 0 sz + 20 < needle_actual_size sz v
   \<and> needle_actual_size sz v \<le> max 0 sz + 36"
proof -
  define u where "u = 16 + (if sz < 0 then 0 else sz) + (4 + (if v = 3 then 8 else 0))"
  have "needle_actual_size sz v = u + (8 - u mod 8)"
    by (simp add: needle_actual_size_def needle_consts u_def)
  moreover have "0 \<le> u mod 8" "u mod 8 < 8" by simp_all
  moreover have "(u + (8 - u mod 8)) mod 8 = 0" by presburger
  moreover have "max 0 sz + 20 \<le> u" "u \<le> max 0 sz + 28" by (auto simp: u_def)
  ultimately show ?thesis by (intro conjI) (simp, linarith+)
qed

text \<open>The scan of an accepted index, by its entries.\<close>

lemma inspect_scan:
  assumes "inspect_index_bounds index source = Inr b"
  defines "v \<equiv> uint (hd source)" and "n \<equiv> int (length source)"
  shows "violations (ib_scan b) = map (violation_of v n) (filter (\<lambda>e. live e \<and> n < needle_end v e) (entries index))"
    "max_end (ib_scan b) = foldr max (map (needle_end v) (filter live (entries index))) 0"
    "max_valid_end (ib_scan b) =
       foldr max (map (needle_end v) (filter (\<lambda>e. live e \<and> needle_end v e \<le> n) (entries index))) 0"
    "max_entry_offset (ib_scan b) = foldr max (map offset (filter live (entries index))) 0"
    "entry_count (ib_scan b) = int (length (entries index))"
    "ib_source_size b = n" "ib_version b = v"
  using assms by (simp_all add: inspect_Inr_iff fold_scan scan_init_def)

lemma live_within:
  assumes "inspect_index_bounds index source = Inr b" "bounds_valid b" "max_end (ib_scan b) \<le> c"
    "e \<in> set (entries index)" "live e"
  shows "needle_end (uint (hd source)) e \<le> c"
  using assms by (auto simp: inspect_scan(2) foldr_max_bounds)

lemma entries_length: "length bs mod 16 = 0 \<Longrightarrow> length (entries bs) = length bs div 16"
proof (induction bs rule: chunks16.induct)
  case (1 bs)
  show ?case
  proof (cases "bs = []")
    case False
    with "1.prems" have l: "16 \<le> length bs" by (metis length_0_conv mod_less not_le)
    then have "length (drop 16 bs) mod 16 = 0" using "1.prems" by (simp add: le_mod_geq)
    with "1.IH" False have "length (entries (drop 16 bs)) = (length bs - 16) div 16" by simp
    then show ?thesis
      using l False by (simp add: entries_def chunks16.simps[of bs] le_div_geq)
  qed (simp add: entries_def chunks16.simps)
qed

section \<open>Properties\<close>

text \<open>
  C14. An accepted index is physically covered by its volume file: inspection succeeds exactly on a volume
  with a supported superblock and an index of whole entries; it counts all entries, reports exactly the
  live entries that end past the end of the file, in order and with the number of missing bytes, and calls
  the index valid exactly when every live needle, header, checksum and padding included, lies in the file.
\<close>

theorem index_bounds_exact:
  "((\<exists>b. inspect_index_bounds index source = Inr b) \<longleftrightarrow>
      source \<noteq> [] \<and> uint (hd source) \<in> {1, 2, 3} \<and> length index mod 16 = 0)
   \<and> (\<forall>b. inspect_index_bounds index source = Inr b \<longrightarrow>
        entry_count (ib_scan b) = int (length index div 16)
        \<and> violations (ib_scan b) = map (violation_of (uint (hd source)) (int (length source)))
            (filter (\<lambda>e. live e \<and> int (length source) < needle_end (uint (hd source)) e) (entries index))
        \<and> (bounds_valid b \<longleftrightarrow>
             (\<forall>e\<in>set (entries index). live e \<longrightarrow> needle_end (uint (hd source)) e \<le> int (length source))))"
  (is "?A \<and> ?B")
proof
  show ?A unfolding uint_version[symmetric] by (auto simp: inspect_Inr_iff)
  show ?B
  proof (intro allI impI conjI)
    fix b assume b: "inspect_index_bounds index source = Inr b"
    show "entry_count (ib_scan b) = int (length index div 16)"
      using b inspect_scan(5)[OF b] by (simp add: inspect_Inr_iff entries_length)
    show "violations (ib_scan b) = map (violation_of (uint (hd source)) (int (length source)))
        (filter (\<lambda>e. live e \<and> int (length source) < needle_end (uint (hd source)) e) (entries index))"
      by (rule inspect_scan(1)[OF b])
    show "bounds_valid b \<longleftrightarrow>
        (\<forall>e\<in>set (entries index). live e \<longrightarrow> needle_end (uint (hd source)) e \<le> int (length source))"
      by (auto simp: bounds_valid_def inspect_scan(1)[OF b] filter_empty_conv not_less)
  qed
qed

definition example_entry :: "byte list" where
  "example_entry = [0,0,0,0,0,0,0,7, 0,0,0,1, 0,0,0,5]"

definition example_dat :: "byte list" where
  "example_dat = 3 # replicate 47 0"

lemma example_entry_decoded: "entries example_entry = [\<lparr>needle_id = 7, offset = 8, needle_size = 5\<rparr>]"
  by (simp add: entries_def chunks16.simps example_entry_def decode_entry_def from_bytes_big_def
      from_bytes_signed32_def NEEDLE_PADDING_BYTES_def)

theorem index_bounds_exact_witness:
  "\<exists>b. inspect_index_bounds example_entry example_dat = Inr b \<and> bounds_valid b \<and> entry_count (ib_scan b) = 1"
proof -
  have e: "\<exists>b. inspect_index_bounds example_entry example_dat = Inr b"
    using index_bounds_exact[of example_entry example_dat] by (simp add: example_dat_def example_entry_def)
  then obtain b where b: "inspect_index_bounds example_entry example_dat = Inr b" by (elim exE)
  have "\<forall>e\<in>set (entries example_entry).
      live e \<longrightarrow> needle_end (uint (hd example_dat)) e \<le> int (length example_dat)"
    by (simp add: example_entry_decoded example_dat_def needle_end_def needle_actual_size_def needle_consts)
  with index_bounds_exact[of example_entry example_dat] b
  have "bounds_valid b" "entry_count (ib_scan b) = int (length example_entry div 16)" by blast+
  with b show ?thesis by (intro exI[of _ b]) (simp add: example_entry_def)
qed

lemma truncate_fingerprint: "\<exists>r. fingerprint sha (truncate_file n now g) = Inr r \<and> fp_size r = int n"
  by (simp add: fingerprint_def fingerprint_observed_def truncate_file_def Let_def)

lemma tail_prepare_Inr:
  assumes "tail_prepare sha args c live_index obs = Inr (v, tail, expected)"
  obtains b lb where "cr_bounds c = Some b" "violations (ib_scan b) = [v]" "0 < v_offset v"
    "v_offset v < ib_source_size b" "ib_source_size b - v_offset v \<le> maximum_tail_bytes args"
    "max_valid_end (ib_scan b) \<le> v_offset v" "int (length tail) = ib_source_size b - v_offset v"
    "inspect_index_bounds live_index (contents (obs 0)) = Inr lb" "bounds_valid lb"
    "max_end (ib_scan lb) \<le> v_offset v" "fingerprint sha (obs 1) = Inr expected"
    "tail = take (Suc (length tail)) (drop (nat (v_offset v)) (contents (obs 2)))"
  using assms
  by (auto simp: tail_prepare_def tail_boundary_def check_fingerprint_def res_simps Let_def not_le not_less
      split: option.splits if_splits list.splits)

lemma recover_result:
  assumes "recover_incomplete_tail sha args c live_index obs now slot = (res, f, slot')"
  obtains (fail) e where "res = Inl e" "f = obs 4"
    | (ok) r v tail expected b where "res = Inr r"
        "tail_prepare sha args c live_index obs = Inr (v, tail, expected)"
        "save_backup sha tail slot = Inr b" "sha b = sha tail"
        "f = truncate_file (nat (v_offset v)) now (obs 4)" "slot' = BackupFile b" "rec_offset r = v_offset v"
proof (cases "tail_prepare sha args c live_index obs")
  case (Inl e)
  then show ?thesis using assms by (intro fail) (auto simp: recover_incomplete_tail_def)
next
  case (Inr p)
  obtain v tail expected where p: "p = (v, tail, expected)" by (cases p)
  have off: "0 < v_offset v" using Inr unfolding p by (rule tail_prepare_Inr)
  obtain r where r: "fingerprint sha (truncate_file (nat (v_offset v)) now (obs 4)) = Inr r"
      "fp_size r = int (nat (v_offset v))"
    using truncate_fingerprint by blast
  show ?thesis
  proof (cases "save_backup sha tail slot")
    case (Inl e)
    then show ?thesis using assms Inr p by (intro fail) (auto simp: recover_incomplete_tail_def)
  next
    case b: (Inr b)
    show ?thesis
    proof (cases "sha b = sha tail \<and> (\<exists>u. check_fingerprint sha (obs 3) expected
        ''authoritative source fingerprint changed after tail backup'' = Inr u)")
      case True
      then show ?thesis
        using assms Inr b r off
        by (intro ok[OF _ Inr[unfolded p] b]) (auto simp: recover_incomplete_tail_def p Let_def)
    next
      case False
      then have "\<exists>e. res = Inl e \<and> f = obs 4"
        using assms Inr b by (auto simp: recover_incomplete_tail_def p split: if_splits sum.splits)
      then show ?thesis using fail by blast
    qed
  qed
qed

text \<open>
  A failed recovery leaves the volume file alone: whatever the candidate, the live index, the expected
  fingerprint and the backup, and however the file changes meanwhile, a recovery that reports an error has
  not truncated it.
\<close>

theorem tail_failure_preserves_source:
  assumes "recover_incomplete_tail sha args c live_index obs now slot = (Inl e, f, slot')"
  shows "f = obs 4"
  using assms by (rule recover_result) auto

theorem tail_failure_preserves_source_witness:
  "\<exists>e f slot'. recover_incomplete_tail (\<lambda>_. []) \<lparr>expected_fingerprint = None, maximum_tail_bytes = 16\<rparr>
      \<lparr>cr_success = True, cr_manual = False, cr_bounds = None\<rparr> [] (\<lambda>_. \<lparr>contents = example_dat, mtime_ns = 1\<rparr>)
      2 NoBackup = (Inl e, f, slot') \<and> f = \<lparr>contents = example_dat, mtime_ns = 1\<rparr>"
proof -
  obtain e f slot' where r: "recover_incomplete_tail (\<lambda>_. [])
      \<lparr>expected_fingerprint = None, maximum_tail_bytes = 16\<rparr>
      \<lparr>cr_success = True, cr_manual = False, cr_bounds = None\<rparr> [] (\<lambda>_. \<lparr>contents = example_dat, mtime_ns = 1\<rparr>)
      2 NoBackup = (Inl e, f, slot')"
    by (simp add: recover_incomplete_tail_def tail_prepare_def)
  show ?thesis using tail_failure_preserves_source[OF r] r by blast
qed

text \<open>
  C16. A successful recovery loses nothing: when the candidate bounds were computed from the volume file and
  the file is not changed by others, the recovered file is a proper prefix of the original, the cut-off
  tail is at most the configured size and is in the backup (by length and hash, and byte for byte if there
  was no backup before), and every live entry of the live index and every complete live entry of the
  candidate still lies in the file.
\<close>

theorem tail_recovery_lossless:
  assumes "recover_incomplete_tail sha args c live_index (\<lambda>_. f) now slot = (Inr r, f', slot')"
    and "cr_bounds c = Some b" "inspect_index_bounds candidate (contents f) = Inr b"
  shows "\<exists>tail saved. contents f = contents f' @ tail \<and> tail \<noteq> [] \<and> slot' = BackupFile saved
    \<and> length saved = length tail \<and> sha saved = sha tail \<and> (slot = NoBackup \<longrightarrow> saved = tail)
    \<and> int (length tail) \<le> maximum_tail_bytes args
    \<and> (\<forall>e\<in>set (entries live_index). live e \<longrightarrow>
          needle_end (uint (hd (contents f))) e \<le> int (length (contents f')))
    \<and> (\<forall>e\<in>set (entries candidate). live e \<longrightarrow> needle_end (uint (hd (contents f))) e \<le> int (length (contents f)) \<longrightarrow>
          needle_end (uint (hd (contents f))) e \<le> int (length (contents f')))"
  using assms(1)
proof (rule recover_result)
  fix r' v tail expected saved
  assume p: "tail_prepare sha args c live_index (\<lambda>_. f) = Inr (v, tail, expected)"
    and sv: "save_backup sha tail slot = Inr saved" "sha saved = sha tail"
    and f': "f' = truncate_file (nat (v_offset v)) now f" and slot': "slot' = BackupFile saved"
  from p show ?thesis
  proof (rule tail_prepare_Inr)
    fix b' lb
    assume b': "cr_bounds c = Some b'" "0 < v_offset v" "v_offset v < ib_source_size b'"
        "ib_source_size b' - v_offset v \<le> maximum_tail_bytes args"
        "max_valid_end (ib_scan b') \<le> v_offset v" "int (length tail) = ib_source_size b' - v_offset v"
      and lb: "inspect_index_bounds live_index (contents f) = Inr lb" "bounds_valid lb"
        "max_end (ib_scan lb) \<le> v_offset v"
      and t: "tail = take (Suc (length tail)) (drop (nat (v_offset v)) (contents f))"
    have b: "b' = b" "ib_source_size b = int (length (contents f))"
      using b'(1) assms(2) inspect_scan(6)[OF assms(3)] by simp_all
    have len: "length (contents f') = nat (v_offset v)" "contents f' = take (nat (v_offset v)) (contents f)"
      using b'(2,3) b by (simp_all add: f' truncate_file_def)
    have "length (drop (nat (v_offset v)) (contents f)) = length tail"
      using b'(2,3,6) b by simp
    then have "take (Suc (length tail)) (drop (nat (v_offset v)) (contents f)) = drop (nat (v_offset v)) (contents f)"
      by (intro take_all) simp
    with t have tl: "tail = drop (nat (v_offset v)) (contents f)" by (rule trans)
    have "int (length (contents f')) = v_offset v" using len(1) b'(2) by simp
    moreover have "needle_end (uint (hd (contents f))) e \<le> v_offset v"
      if "e \<in> set (entries live_index)" "live e" for e
      using live_within[OF lb that] .
    moreover have "needle_end (uint (hd (contents f))) e \<le> v_offset v"
      if "e \<in> set (entries candidate)" "live e" "needle_end (uint (hd (contents f))) e \<le> int (length (contents f))" for e
      using b'(5) that b(1) by (auto simp: inspect_scan(3)[OF assms(3)] foldr_max_bounds)
    moreover have "length saved = length tail \<and> (slot = NoBackup \<longrightarrow> saved = tail)"
      using sv(1) by (auto simp: save_backup_def split: backup_slot.splits if_splits)
    moreover have "contents f = contents f' @ tail" by (simp add: len(2) tl)
    moreover have "tail \<noteq> []" using b'(3,6) by auto
    ultimately show ?thesis
      using sv(2) slot' b'(4,6) by (intro exI[of _ tail] exI[of _ saved]) simp
  qed
qed simp

text \<open>A volume of 40 bytes whose only record, at offset 8, needs 48.\<close>

definition torn_dat :: dat_file where
  "torn_dat = \<lparr>contents = 3 # replicate 39 0, mtime_ns = 1\<rparr>"

definition torn_fingerprint :: file_fingerprint where
  "torn_fingerprint = \<lparr>fp_size = 40, fp_mtime_ns = 1, fp_head_bytes = 40, fp_head_sha256 = [], fp_tail_offset = 0,
     fp_tail_bytes = 40, fp_tail_sha256 = []\<rparr>"

definition torn_bounds :: index_bounds where
  "torn_bounds = \<lparr>ib_version = 3, ib_source_size = 40, ib_index_size = 16, ib_scan =
     \<lparr>entry_count = 1, max_end = 48, max_valid_end = 0, max_entry_offset = 8,
      violations = [\<lparr>v_needle_id = 7, v_offset = 8, v_size = 5, v_end = 48, v_past_eof = 8\<rparr>]\<rparr>\<rparr>"

lemma torn_inspect: "inspect_index_bounds example_entry (contents torn_dat) = Inr torn_bounds"
  by (simp add: inspect_Inr_iff example_entry_decoded torn_dat_def torn_bounds_def example_entry_def[THEN arg_cong[of _ _ length]]
      scan_entry_def scan_init_def needle_actual_size_def needle_consts Let_def)

lemma torn_live: "inspect_index_bounds [] (contents torn_dat)
    = Inr \<lparr>ib_version = 3, ib_source_size = 40, ib_index_size = 0, ib_scan = scan_init\<rparr>"
  by (simp add: inspect_Inr_iff torn_dat_def entries_def chunks16.simps)

lemma torn_fp: "fingerprint (\<lambda>_. []) torn_dat = Inr torn_fingerprint"
  by (simp add: fingerprint_def fingerprint_observed_def torn_dat_def torn_fingerprint_def Let_def
      FINGERPRINT_REGION_BYTES_def)

definition torn_args :: tail_args where
  "torn_args = \<lparr>expected_fingerprint = Some torn_fingerprint, maximum_tail_bytes = 64\<rparr>"

definition torn_result :: candidate_result where
  "torn_result = \<lparr>cr_success = False, cr_manual = True, cr_bounds = Some torn_bounds\<rparr>"

lemma torn_recovers:
  "\<exists>r f' slot'. recover_incomplete_tail (\<lambda>_. []) torn_args torn_result [] (\<lambda>_. torn_dat) 9 NoBackup = (Inr r, f', slot')"
proof -
  have "\<exists>v tail. tail_prepare (\<lambda>_. []) torn_args torn_result [] (\<lambda>_. torn_dat) = Inr (v, tail, torn_fingerprint)
      \<and> v_offset v = 8"
    by (simp add: tail_prepare_def torn_args_def torn_result_def tail_boundary_def torn_bounds_def torn_live
        torn_fp check_fingerprint_def bounds_valid_def scan_init_def Let_def)
       (simp add: torn_dat_def)
  then obtain v tail where v: "tail_prepare (\<lambda>_. []) torn_args torn_result [] (\<lambda>_. torn_dat)
      = Inr (v, tail, torn_fingerprint)" "v_offset v = 8" by blast
  obtain r where "fingerprint (\<lambda>_. []) (truncate_file 8 9 torn_dat) = Inr r" "fp_size r = 8"
    using truncate_fingerprint[of "\<lambda>_. []" 8 9 torn_dat] by auto
  then show ?thesis
    using v by (simp add: recover_incomplete_tail_def save_backup_def check_fingerprint_def torn_fp)
qed

theorem tail_recovery_lossless_witness:
  "\<exists>r f' slot' tail. recover_incomplete_tail (\<lambda>_. []) torn_args torn_result [] (\<lambda>_. torn_dat) 9 NoBackup
       = (Inr r, f', slot') \<and> contents torn_dat = contents f' @ tail \<and> tail \<noteq> []"
proof -
  obtain r f' slot' where r: "recover_incomplete_tail (\<lambda>_. []) torn_args torn_result [] (\<lambda>_. torn_dat) 9 NoBackup
      = (Inr r, f', slot')" using torn_recovers by (elim exE)
  have "cr_bounds torn_result = Some torn_bounds" by (simp add: torn_result_def)
  from tail_recovery_lossless[OF r this torn_inspect] r show ?thesis by blast
qed

end
