(* ===== verification/Repair_Journal.thy ===== *)
theory Repair_Journal
  imports Index_Bounds Py_Path
begin

text \<open>
  The data of \<open>index_repair.py\<close>: index files, artifacts, repair transactions and their journal, and the
  effects of a repair as a sequence of durable states. An operation yields its result and the list of worlds
  after each of its atomic effects (a file renamed, created or removed, a journal record replaced), so that a
  crash is any prefix of that list. The hash function, the clock and the random names are inputs.
\<close>

section \<open>Files and artifacts\<close>

record index_file =
  if_bytes :: "byte list"
  if_mode :: int

record artifact =
  art_size :: int
  art_sha256 :: string
  art_mode :: "int option"

text \<open>The identity of a volume's data, and the fingerprint that carries it: \<open>None\<close> stands for a fingerprint
  that could not be taken.\<close>

record source_identity =
  dataset_sentinel_id :: string
  active_transport :: string
  sid_collection :: string
  sid_volume_id :: int

type_synonym source_fingerprint = "source_identity \<times> file_fingerprint option"

record transaction =
  tx_id :: string
  tx_volume_id :: int
  tx_collection :: string
  tx_base_name :: string
  phase :: string
  phase_history :: "(string \<times> rat) list"
  tx_updated_at :: rat
  attempt_count :: int
  tx_source_identity :: source_identity
  tx_source_fingerprint :: source_fingerprint
  fingerprint_unavailable :: bool
  live_idx_path :: ppath
  live_sdx_path :: ppath
  old_idx :: "artifact option"
  old_sdx :: "artifact option"
  tx_staging_dir :: ppath
  candidate_path :: ppath
  candidate_idx :: "artifact option"
  install_temp_path :: "ppath option"
  backup_idx_path :: ppath
  backup_sdx_path :: ppath
  failure_reason :: string
  rolled_back :: bool
  tx_success :: bool
  operator_retry_requested_at :: "rat option"
  operator_retry_consumed :: bool

record world =
  files :: "ppath \<rightharpoonup> index_file"
  journal :: "string \<rightharpoonup> transaction"

text \<open>What an operation reads of its surroundings: the hash, the clock, the random part of temporary names,
  how many bytes of a copy are on disk when it is interrupted, and whether hard links are supported.\<close>

record repair_env =
  sha256 :: "byte list \<Rightarrow> string"
  now :: rat
  uuid :: string
  torn :: nat
  link_ok :: bool

datatype repair_error =
    RepairError string
  | ManualIntervention string

definition TERMINAL_PHASES :: "string list" where
  "TERMINAL_PHASES = [''verified'', ''manual_intervention_required'', ''resolved_without_install'', ''tail_recovered'']"

definition PENDING_VALIDATION_PHASES :: "string list" where
  "PENDING_VALIDATION_PHASES = [''candidate_installed'', ''awaiting_upstream_validation'']"

definition PREINSTALL_PHASES :: "string list" where
  "PREINSTALL_PHASES = [''detected'', ''writers_stopped'', ''source_mounted_readonly'', ''candidate_building'',
     ''candidate_built'', ''backup_created'', ''failed_preinstall'']"

definition PREINSTALL_RETRY_LIMIT :: int where
  "PREINSTALL_RETRY_LIMIT = 2"

definition hash_file :: "repair_env \<Rightarrow> index_file \<Rightarrow> artifact" where
  "hash_file env f = \<lparr>art_size = int (length (if_bytes f)), art_sha256 = sha256 env (if_bytes f),
     art_mode = Some (if_mode f)\<rparr>"

definition same_artifact :: "repair_env \<Rightarrow> index_file option \<Rightarrow> artifact option \<Rightarrow> bool" where
  "same_artifact env f expected = (case expected of
       None \<Rightarrow> f = None
     | Some a \<Rightarrow>
         (case f of None \<Rightarrow> False
          | Some f' \<Rightarrow> art_size (hash_file env f') = art_size a \<and> art_sha256 (hash_file env f') = art_sha256 a))"

definition safe_base_name :: "string \<Rightarrow> int \<Rightarrow> repair_error + string" where
  "safe_base_name collection volume_id =
     (let base = (if collection \<noteq> [] then collection @ ''_'' @ show_int volume_id else show_int volume_id)
      in if base = [] \<or> base = ''.'' \<or> base = ''..'' \<or> path_name (path_of_string base) \<noteq> base
            \<or> CHR 0x00 \<in> set base
         then Inl (RepairError (''unsafe collection-derived volume filename for volume '' @ show_int volume_id))
         else Inr base)"

text \<open>\<open>with_name\<close>: the last component replaced.\<close>

definition path_with_name :: "ppath \<Rightarrow> string \<Rightarrow> ppath" where
  "path_with_name p n = PPath (path_root p) (butlast (path_segs p) @ [n])"

section \<open>Operations as sequences of durable states\<close>

type_synonym 'a act = "world \<Rightarrow> (repair_error + 'a) \<times> world list"

definition final :: "world \<Rightarrow> world list \<Rightarrow> world" where
  "final w ws = (if ws = [] then w else last ws)"

definition bindA :: "'a act \<Rightarrow> ('a \<Rightarrow> 'b act) \<Rightarrow> 'b act" where
  "bindA m f w = (case m w of
       (Inl e, ws) \<Rightarrow> (Inl e, ws)
     | (Inr x, ws) \<Rightarrow> (case f x (final w ws) of (r, ws') \<Rightarrow> (r, ws @ ws')))"

definition returnA :: "'a \<Rightarrow> 'a act" where
  "returnA x w = (Inr x, [])"

definition raiseA :: "repair_error \<Rightarrow> 'a act" where
  "raiseA e w = (Inl e, [])"

definition effectA :: "(world \<Rightarrow> world) \<Rightarrow> unit act" where
  "effectA g w = (Inr (), [g w])"

definition readA :: "(world \<Rightarrow> 'a) \<Rightarrow> 'a act" where
  "readA h w = (Inr (h w), [])"

definition whenA :: "bool \<Rightarrow> unit act \<Rightarrow> unit act" where
  "whenA b m = (if b then m else returnA ())"

text \<open>The atomic effects on files.\<close>

definition put_file :: "ppath \<Rightarrow> index_file \<Rightarrow> unit act" where
  "put_file p f = effectA (\<lambda>w. w\<lparr>files := (files w)(p \<mapsto> f)\<rparr>)"

definition unlink :: "ppath \<Rightarrow> unit act" where
  "unlink p = effectA (\<lambda>w. w\<lparr>files := (files w)(p := None)\<rparr>)"

definition replace_file :: "ppath \<Rightarrow> ppath \<Rightarrow> unit act" where
  "replace_file a b = effectA (\<lambda>w. w\<lparr>files := (files w)(b := files w a, a := None)\<rparr>)"

text \<open>A copy is first partly on disk, then complete with its mode.\<close>

definition copy_file :: "repair_env \<Rightarrow> index_file \<Rightarrow> ppath \<Rightarrow> int \<Rightarrow> unit act" where
  "copy_file env f p mode =
     bindA (put_file p \<lparr>if_bytes = take (torn env) (if_bytes f), if_mode = mode\<rparr>) (\<lambda>_.
       put_file p \<lparr>if_bytes = if_bytes f, if_mode = mode\<rparr>)"

section \<open>The journal\<close>

definition save_tx :: "transaction \<Rightarrow> unit act" where
  "save_tx t = effectA (\<lambda>w. w\<lparr>journal := (journal w)(tx_id t \<mapsto> t)\<rparr>)"

definition in_phase :: "repair_env \<Rightarrow> string \<Rightarrow> transaction \<Rightarrow> transaction" where
  "in_phase env ph t = t\<lparr>phase := ph, tx_updated_at := now env, phase_history := phase_history t @ [(ph, now env)]\<rparr>"

text \<open>\<open>transition\<close>: the transaction in memory moves on and is saved.\<close>

definition transition :: "repair_env \<Rightarrow> transaction \<Rightarrow> string \<Rightarrow> transaction act" where
  "transition env t ph = (let t' = in_phase env ph t in bindA (save_tx t') (\<lambda>_. returnA t'))"

definition manual :: "repair_env \<Rightarrow> transaction \<Rightarrow> string \<Rightarrow> transaction act" where
  "manual env t reason =
     transition env (t\<lparr>tx_success := False, failure_reason := reason\<rparr>) ''manual_intervention_required''"

text \<open>\<open>create\<close>: a new record in phase \<open>detected\<close>.\<close>

definition create_tx :: "repair_env \<Rightarrow> transaction \<Rightarrow> transaction act" where
  "create_tx env t0 =
     (let t = t0\<lparr>tx_id := uuid env, phase := ''detected'', phase_history := [(''detected'', now env)],
                 tx_updated_at := now env\<rparr>
      in bindA (save_tx t) (\<lambda>_. returnA t))"

text \<open>\<open>load_all\<close>: the records in the order of their file names.\<close>

definition transactions :: "world \<Rightarrow> transaction list" where
  "transactions w = map (\<lambda>k. the (journal w k)) (sorted_list_of_set (dom (journal w)))"

definition load_all :: "transaction list act" where
  "load_all = readA transactions"

definition awaiting :: "transaction \<Rightarrow> bool" where
  "awaiting t \<longleftrightarrow> phase t \<in> set PENDING_VALIDATION_PHASES"

text \<open>\<open>request_retry\<close> over the records of the journal.\<close>

definition latest :: "transaction list \<Rightarrow> transaction" where
  "latest ts = foldl (\<lambda>a b. if tx_updated_at a < tx_updated_at b then b else a) (hd ts) (tl ts)"

definition request_retry :: "repair_env \<Rightarrow> transaction list \<Rightarrow> int \<Rightarrow> transaction act" where
  "request_retry env ts volume_id =
     (let blocked = filter (\<lambda>t. tx_volume_id t = volume_id \<and> phase t = ''manual_intervention_required'') ts
      in if blocked = []
         then raiseA (RepairError (''volume '' @ show_int volume_id
                @ '' has no repair failure requiring an operator retry''))
         else let t = (latest blocked)\<lparr>operator_retry_requested_at := Some (now env),
                                        operator_retry_consumed := False\<rparr>
              in bindA (save_tx t) (\<lambda>_. returnA t))"

section \<open>Laws\<close>

named_theorems act_simps \<open>running operations\<close>

lemma final_simps [simp]:
  "final w [] = w" "final w (ws @ [x]) = x" "final w (x # ws) = final x ws"
  "final w (ws @ ws') = final (final w ws) ws'"
  by (auto simp: final_def)

lemma act_run [act_simps]:
  "bindA (returnA x) f w = f x w"
  "bindA (raiseA e) f' w = (Inl e, [])"
  "bindA (effectA g) f'' w = (case f'' () (g w) of (r, ws) \<Rightarrow> (r, g w # ws))"
  "bindA (readA h) f3 w = f3 (h w) w"
  "returnA x w = (Inr x, [])" "raiseA e w = (Inl e, [])" "effectA g w = (Inr (), [g w])"
  "readA h w = (Inr (h w), [])" "whenA True m = m" "whenA False m = returnA ()"
  by (simp_all add: bindA_def returnA_def raiseA_def effectA_def readA_def whenA_def)

lemma bindA_assoc [act_simps]: "bindA (bindA m f) g = bindA m (\<lambda>x. bindA (f x) g)"
  by (rule ext) (auto simp: bindA_def split: prod.splits sum.splits)

lemma bindA_if [act_simps]: "bindA (if b then m else m') f = (if b then bindA m f else bindA m' f)"
  by simp

lemmas act_defs = put_file_def unlink_def replace_file_def copy_file_def save_tx_def transition_def manual_def

lemma same_artifact_Some [simp]:
  "same_artifact env (Some f) (Some a) \<longleftrightarrow> int (length (if_bytes f)) = art_size a \<and> sha256 env (if_bytes f) = art_sha256 a"
  "same_artifact env None (Some a) \<longleftrightarrow> False" "same_artifact env g None \<longleftrightarrow> g = None"
  by (auto simp: same_artifact_def hash_file_def)

lemma in_phase_simps [simp]:
  "phase (in_phase env ph t) = ph" "tx_id (in_phase env ph t) = tx_id t"
  "live_idx_path (in_phase env ph t) = live_idx_path t" "live_sdx_path (in_phase env ph t) = live_sdx_path t"
  "old_idx (in_phase env ph t) = old_idx t" "old_sdx (in_phase env ph t) = old_sdx t"
  "candidate_path (in_phase env ph t) = candidate_path t" "candidate_idx (in_phase env ph t) = candidate_idx t"
  "install_temp_path (in_phase env ph t) = install_temp_path t"
  "backup_idx_path (in_phase env ph t) = backup_idx_path t"
  "backup_sdx_path (in_phase env ph t) = backup_sdx_path t"
  "rolled_back (in_phase env ph t) = rolled_back t" "tx_volume_id (in_phase env ph t) = tx_volume_id t"
  by (simp_all add: in_phase_def)

lemma set_transactions: "finite (dom (journal w)) \<Longrightarrow> set (transactions w) = ran (journal w)"
  by (force simp: transactions_def ran_def dom_def)

lemma foldl_latest: "foldl (\<lambda>a b. if tx_updated_at a < tx_updated_at b then b else a) x ts \<in> insert x (set ts)"
proof (induction ts arbitrary: x)
  case (Cons t ts)
  show ?case
    using Cons.IH[of "if tx_updated_at x < tx_updated_at t then t else x"] by (auto split: if_splits)
qed simp

lemma latest_in: "ts \<noteq> [] \<Longrightarrow> latest ts \<in> set ts"
  using foldl_latest[of "hd ts" "tl ts"] by (cases ts) (auto simp: latest_def)

end
