(* ===== verification/Repair_Install.thy ===== *)
theory Repair_Install
  imports Repair_Journal
begin

text \<open>
  Installation of a rebuilt index, its crash recovery, its validation and its rollback, from
  \<open>IndexRepairController\<close> of \<open>index_repair.py\<close>. Each operation is the sequence of its durable effects, in the
  order of the code.
\<close>

section \<open>Backups\<close>

definition copying_name :: "repair_env \<Rightarrow> ppath \<Rightarrow> ppath" where
  "copying_name env p = path_with_name p (''.'' @ path_name p @ ''.'' @ uuid env @ ''.copying'')"

definition backup_one :: "repair_env \<Rightarrow> ppath \<Rightarrow> ppath \<Rightarrow> artifact option \<Rightarrow> unit act" where
  "backup_one env src dst expected w =
     (if files w dst \<noteq> None then
        (if \<not> same_artifact env (files w dst) expected
         then raiseA (RepairError (''existing repair backup has the wrong hash: '' @ string_of_path dst))
         else returnA ()) w
      else case files w src of
        None \<Rightarrow> raiseA (RepairError ''No such file or directory'') w
      | Some f \<Rightarrow>
          bindA (if link_ok env then put_file dst f
                 else bindA (copy_file env f (copying_name env dst) (if_mode f)) (\<lambda>_.
                        replace_file (copying_name env dst) dst)) (\<lambda>_.
          bindA (readA (\<lambda>w. same_artifact env (files w dst) expected)) (\<lambda>ok.
          if ok then returnA ()
          else raiseA (RepairError (''repair backup verification failed: '' @ string_of_path dst)))) w)"

definition backup_path :: "ppath \<Rightarrow> transaction \<Rightarrow> string \<Rightarrow> ppath" where
  "backup_path backup_dir t ext = path_div (path_div backup_dir (tx_id t)) (tx_base_name t @ ext)"

definition create_backups :: "repair_env \<Rightarrow> ppath \<Rightarrow> transaction \<Rightarrow> transaction act" where
  "create_backups env backup_dir t =
     (let idx_backup = backup_path backup_dir t ''.idx''; sdx_backup = backup_path backup_dir t ''.sdx''
      in bindA (backup_one env (live_idx_path t) idx_backup (old_idx t)) (\<lambda>_.
         let t1 = t\<lparr>backup_idx_path := idx_backup\<rparr>
         in bindA (if old_sdx t \<noteq> None
                   then bindA (backup_one env (live_sdx_path t) sdx_backup (old_sdx t)) (\<lambda>_.
                          returnA (t1\<lparr>backup_sdx_path := sdx_backup\<rparr>))
                   else returnA t1) (\<lambda>t2.
            transition env t2 ''backup_created'')))"

section \<open>Installation\<close>

definition remove_stale_sdx :: "transaction \<Rightarrow> unit act" where
  "remove_stale_sdx t = unlink (live_sdx_path t)"

definition installing_name :: "transaction \<Rightarrow> ppath" where
  "installing_name t =
     path_with_name (live_idx_path t) (''.'' @ path_name (live_idx_path t) @ ''.'' @ tx_id t @ ''.installing'')"

definition mode_or :: "artifact option \<Rightarrow> int" where
  "mode_or a = (case a of Some x \<Rightarrow> (case art_mode x of Some m \<Rightarrow> m | None \<Rightarrow> 420) | None \<Rightarrow> 420)"

text \<open>The temporary copy next to the live index: kept if it is the candidate already, else made anew.\<close>

definition stage_candidate :: "repair_env \<Rightarrow> transaction \<Rightarrow> unit act" where
  "stage_candidate env t w =
     (let temporary = installing_name t
      in bindA (whenA (files w temporary \<noteq> None \<and> \<not> same_artifact env (files w temporary) (candidate_idx t))
                  (unlink temporary)) (\<lambda>_.
         bindA (readA (\<lambda>w. files w temporary)) (\<lambda>existing.
         bindA (readA (\<lambda>w. files w (candidate_path t))) (\<lambda>candidate.
         case (existing, candidate) of
           (None, Some f) \<Rightarrow> copy_file env f temporary (mode_or (old_idx t))
         | (None, None) \<Rightarrow> raiseA (RepairError ''No such file or directory'')
         | (Some _, _) \<Rightarrow> returnA ()))) w)"

definition finish_install :: "repair_env \<Rightarrow> transaction \<Rightarrow> transaction act" where
  "finish_install env t =
     bindA (transition env t ''candidate_installed'') (\<lambda>t'. transition env t' ''awaiting_upstream_validation'')"

text \<open>The renaming into place and what follows it.\<close>

definition commit_install :: "repair_env \<Rightarrow> transaction \<Rightarrow> transaction \<Rightarrow> transaction act" where
  "commit_install env t t1 =
     bindA (replace_file (installing_name t) (live_idx_path t)) (\<lambda>_.
     bindA (remove_stale_sdx t) (\<lambda>_.
     bindA (readA (\<lambda>w. same_artifact env (files w (live_idx_path t)) (candidate_idx t))) (\<lambda>ok.
     if ok then finish_install env t1
     else raiseA (RepairError ''live index does not match candidate after atomic installation''))))"

definition install_candidate :: "repair_env \<Rightarrow> transaction \<Rightarrow> transaction act" where
  "install_candidate env t w =
     (if \<not> same_artifact env (files w (candidate_path t)) (candidate_idx t)
      then bindA (manual env t ''candidate artifact no longer matches its journaled hash'') (\<lambda>_.
             raiseA (ManualIntervention ''candidate artifact is missing or changed'')) w
      else
        bindA (stage_candidate env t) (\<lambda>_.
        bindA (transition env (t\<lparr>install_temp_path := Some (installing_name t)\<rparr>) ''installing_candidate'')
          (commit_install env t)) w)"

section \<open>Recovery after a crash\<close>

definition recover_interrupted_install :: "repair_env \<Rightarrow> transaction \<Rightarrow> transaction act" where
  "recover_interrupted_install env t w =
     (if same_artifact env (files w (live_idx_path t)) (candidate_idx t) then
        bindA (remove_stale_sdx t) (\<lambda>_. finish_install env t) w
      else if same_artifact env (files w (live_idx_path t)) (old_idx t) then
        (case install_temp_path t of
           Some temporary \<Rightarrow>
             (if files w temporary \<noteq> None \<and> same_artifact env (files w temporary) (candidate_idx t) then
                bindA (replace_file temporary (live_idx_path t)) (\<lambda>_.
                bindA (remove_stale_sdx t) (\<lambda>_. finish_install env t)) w
              else bindA (unlink temporary) (\<lambda>_. install_candidate env t) w)
         | None \<Rightarrow> raiseA (RepairError ''Is a directory'') w)
      else
        bindA (manual env t ''interrupted install left an unrecognized live index'') (\<lambda>_.
          raiseA (ManualIntervention (''volume '' @ show_int (tx_volume_id t)
            @ '' interrupted install cannot be reconciled safely''))) w)"

definition validate_installed_artifacts :: "repair_env \<Rightarrow> transaction \<Rightarrow> transaction act" where
  "validate_installed_artifacts env t w =
     (if \<not> same_artifact env (files w (live_idx_path t)) (candidate_idx t) then
        bindA (manual env t ''installed live index does not match the journaled candidate'') (\<lambda>_.
          raiseA (ManualIntervention (''volume '' @ show_int (tx_volume_id t)
            @ '' live index is inconsistent with its repair journal''))) w
      else if files w (live_sdx_path t) \<noteq> None then
        bindA (manual env t ''stale .sdx exists after candidate installation'') (\<lambda>_.
          raiseA (ManualIntervention (''volume '' @ show_int (tx_volume_id t)
            @ '' has a stale .sdx after repair installation''))) w
      else if phase t \<noteq> ''awaiting_upstream_validation'' then
        transition env t ''awaiting_upstream_validation'' w
      else returnA t w)"

text \<open>What \<open>prepare_offline\<close> does for one record of the journal.\<close>

definition prepare_transaction :: "repair_env \<Rightarrow> transaction \<Rightarrow> transaction act" where
  "prepare_transaction env t =
     (if phase t = ''installing_candidate'' then recover_interrupted_install env t
      else if phase t \<in> set PENDING_VALIDATION_PHASES then validate_installed_artifacts env t
      else if phase t = ''rolled_back'' then transition env t ''manual_intervention_required''
      else if phase t \<notin> set TERMINAL_PHASES \<and> phase t \<notin> set PREINSTALL_PHASES
      then manual env t (''unknown crash-recovery phase: '' @ phase t)
      else returnA t)"

text \<open>\<open>prepare_offline\<close> over the records the journal holds, in the order of their file names.\<close>

fun prepare_offline :: "repair_env \<Rightarrow> transaction list \<Rightarrow> unit act" where
  "prepare_offline env [] = returnA ()"
| "prepare_offline env (t # ts) = bindA (prepare_transaction env t) (\<lambda>_. prepare_offline env ts)"

section \<open>Validation by upstream and rollback\<close>

definition restoring_name :: "repair_env \<Rightarrow> ppath \<Rightarrow> ppath" where
  "restoring_name env p = path_with_name p (''.'' @ path_name p @ ''.'' @ uuid env @ ''.restoring'')"

definition restore_one :: "repair_env \<Rightarrow> ppath \<Rightarrow> ppath \<Rightarrow> artifact option \<Rightarrow> unit act" where
  "restore_one env backup dst expected w =
     (case files w backup of
        Some f \<Rightarrow>
          (if same_artifact env (Some f) expected
           then bindA (copy_file env f (restoring_name env dst) (mode_or expected)) (\<lambda>_.
                  replace_file (restoring_name env dst) dst) w
           else raiseA (ManualIntervention (''repair backup is missing or changed: '' @ string_of_path backup)) w)
      | None \<Rightarrow>
          (if expected = None then raiseA (RepairError ''No such file or directory'') w
           else raiseA (ManualIntervention (''repair backup is missing or changed: '' @ string_of_path backup)) w))"

definition rollback_sdx :: "repair_env \<Rightarrow> transaction \<Rightarrow> unit act" where
  "rollback_sdx env t =
     (if old_sdx t \<noteq> None then restore_one env (backup_sdx_path t) (live_sdx_path t) (old_sdx t)
      else unlink (live_sdx_path t))"

definition rollback :: "repair_env \<Rightarrow> transaction \<Rightarrow> string \<Rightarrow> transaction act" where
  "rollback env t reason =
     bindA (restore_one env (backup_idx_path t) (live_idx_path t) (old_idx t)) (\<lambda>_.
     bindA (rollback_sdx env t) (\<lambda>_.
     bindA (transition env (t\<lparr>rolled_back := True, failure_reason := reason\<rparr>) ''rolled_back'') (\<lambda>t'.
     manual env t' reason)))"

text \<open>The state of a volume upstream: absent, or read-only or not.\<close>

definition upstream_accepts :: "(int \<rightharpoonup> bool) \<Rightarrow> int \<Rightarrow> bool" where
  "upstream_accepts readonly v \<longleftrightarrow> readonly v = Some False"

fun validate_upstream ::
  "repair_env \<Rightarrow> (int \<rightharpoonup> bool) \<Rightarrow> transaction list \<Rightarrow> (int list \<times> int list) act" where
  "validate_upstream env readonly [] = returnA ([], [])"
| "validate_upstream env readonly (t # ts) =
     (if awaiting t then
        (if upstream_accepts readonly (tx_volume_id t)
         then bindA (transition env (t\<lparr>tx_success := True\<rparr>) ''verified'') (\<lambda>_.
                bindA (validate_upstream env readonly ts) (\<lambda>(v, r). returnA (tx_volume_id t # v, r)))
         else bindA (validate_upstream env readonly ts) (\<lambda>(v, r). returnA (v, tx_volume_id t # r)))
      else validate_upstream env readonly ts)"

fun rollback_rejected :: "repair_env \<Rightarrow> int list \<Rightarrow> string \<Rightarrow> transaction list \<Rightarrow> unit act" where
  "rollback_rejected env ids reason [] = returnA ()"
| "rollback_rejected env ids reason (t # ts) =
     (if awaiting t \<and> tx_volume_id t \<in> set ids
      then bindA (rollback env t reason) (\<lambda>_. rollback_rejected env ids reason ts)
      else rollback_rejected env ids reason ts)"

section \<open>Crash safety of an installation\<close>

text \<open>The paths of a transaction are different files.\<close>

definition paths_ok :: "transaction \<Rightarrow> bool" where
  "paths_ok t \<longleftrightarrow> distinct [live_idx_path t, live_sdx_path t, installing_name t, candidate_path t,
     backup_idx_path t, backup_sdx_path t]"

text \<open>What is true of the world whenever the installation of \<open>t\<close>, or its recovery, may be interrupted: the
  live index is the old one or the candidate, complete; the candidate and the backup are in place; and the
  journal's phase does not claim more than has been done.\<close>

definition same_tx :: "transaction \<Rightarrow> transaction \<Rightarrow> bool" where
  "same_tx t u \<longleftrightarrow> tx_id u = tx_id t \<and> live_idx_path u = live_idx_path t \<and> live_sdx_path u = live_sdx_path t
     \<and> candidate_path u = candidate_path t \<and> candidate_idx u = candidate_idx t \<and> old_idx u = old_idx t
     \<and> old_sdx u = old_sdx t \<and> backup_idx_path u = backup_idx_path t \<and> backup_sdx_path u = backup_sdx_path t"

definition install_inv :: "repair_env \<Rightarrow> transaction \<Rightarrow> world \<Rightarrow> bool" where
  "install_inv env t w \<longleftrightarrow>
     same_artifact env (files w (candidate_path t)) (candidate_idx t)
     \<and> same_artifact env (files w (backup_idx_path t)) (old_idx t)
     \<and> (\<exists>u. journal w (tx_id t) = Some u \<and> same_tx t u \<and>
         (phase u = ''backup_created'' \<and> same_artifact env (files w (live_idx_path t)) (old_idx t)
          \<or> phase u = ''installing_candidate'' \<and> install_temp_path u = Some (installing_name t)
            \<and> (same_artifact env (files w (live_idx_path t)) (old_idx t)
               \<or> same_artifact env (files w (live_idx_path t)) (candidate_idx t))
          \<or> phase u \<in> {''candidate_installed'', ''awaiting_upstream_validation''}
            \<and> same_artifact env (files w (live_idx_path t)) (candidate_idx t)
            \<and> files w (live_sdx_path t) = None))"

lemma bindA_Inr: "m w = (Inr x, ws) \<Longrightarrow> bindA m f w = (case f x (final w ws) of (r, ws') \<Rightarrow> (r, ws @ ws'))"
  by (simp add: bindA_def)

lemma same_tx_refl [simp]: "same_tx t t"
  by (simp add: same_tx_def)

lemma same_tx_in_phase [simp]: "same_tx t (in_phase env ph u) = same_tx t u"
  "same_tx t (u\<lparr>install_temp_path := x\<rparr>) = same_tx t u"
  by (simp_all add: same_tx_def)

lemma installing_name_cong: "same_tx t u \<Longrightarrow> installing_name u = installing_name t"
  by (simp add: same_tx_def installing_name_def)

lemma install_inv_cong: "same_tx t u \<Longrightarrow> install_inv env u w = install_inv env t w"
  using installing_name_cong[of t u] by (auto simp: install_inv_def same_tx_def)

lemma paths_ok_cong: "same_tx t u \<Longrightarrow> paths_ok u = paths_ok t"
  using installing_name_cong[of t u] by (auto simp: paths_ok_def same_tx_def)

abbreviation with_temp :: "transaction \<Rightarrow> world \<Rightarrow> index_file option \<Rightarrow> world" where
  "with_temp t w x \<equiv> w\<lparr>files := (files w)(installing_name t := x)\<rparr>"

lemma install_inv_temp: "paths_ok t \<Longrightarrow> install_inv env t (with_temp t w x) = install_inv env t w"
  by (auto simp: install_inv_def paths_ok_def)

lemma stage_candidate_spec:
  assumes "paths_ok t" "candidate_idx t = Some c" "same_artifact env (files w (candidate_path t)) (Some c)"
  shows "\<exists>ws f. stage_candidate env t w = (Inr (), ws) \<and> (\<forall>w'\<in>set ws. \<exists>x. w' = with_temp t w x)
    \<and> final w ws = with_temp t w (Some f) \<and> same_artifact env (Some f) (Some c)"
proof -
  obtain g where g: "files w (candidate_path t) = Some g" "same_artifact env (Some g) (Some c)"
    using assms(3) by (cases "files w (candidate_path t)") auto
  have ne: "candidate_path t \<noteq> installing_name t" using assms(1) by (auto simp: paths_ok_def)
  show ?thesis
  proof (cases "\<exists>f. files w (installing_name t) = Some f \<and> same_artifact env (Some f) (Some c)")
    case True
    then obtain f where f: "files w (installing_name t) = Some f" "same_artifact env (Some f) (Some c)" by blast
    then have "with_temp t w (Some f) = w" by (simp add: fun_upd_idem)
    with f show ?thesis
      by (intro exI[of _ "[]"] exI[of _ f]) (simp add: stage_candidate_def Let_def act_simps assms(2))
  next
    case False
    then show ?thesis
      using g ne
      by (cases "files w (installing_name t)")
         (auto simp: stage_candidate_def Let_def act_simps act_defs assms(2) intro!: exI)
  qed
qed

definition installed :: "repair_env \<Rightarrow> transaction \<Rightarrow> world \<Rightarrow> bool" where
  "installed env t w \<longleftrightarrow> (\<exists>u. journal w (tx_id t) = Some u \<and> same_tx t u \<and> phase u = ''awaiting_upstream_validation'')
     \<and> same_artifact env (files w (live_idx_path t)) (candidate_idx t) \<and> files w (live_sdx_path t) = None"

text \<open>From a world where the live index is the candidate, removing the sorted index and advancing the journal
  keeps the invariant at each point and completes the installation.\<close>

definition completes :: "repair_env \<Rightarrow> transaction \<Rightarrow> transaction act \<Rightarrow> world \<Rightarrow> bool" where
  "completes env t m w \<longleftrightarrow> (\<exists>t' ws. m w = (Inr t', ws) \<and> (\<forall>w'\<in>set ws. install_inv env t w')
     \<and> installed env t (final w ws))"

lemma completes_effect:
  assumes "install_inv env t (g w)" "completes env t (f ()) (g w)"
  shows "completes env t (bindA (effectA g) f) w"
  using assms by (auto simp: completes_def act_simps)

lemma finish_install_completes:
  assumes "install_inv env t w" "same_tx t u" "files w (live_sdx_path t) = None"
    "same_artifact env (files w (live_idx_path t)) (candidate_idx t)"
  shows "completes env t (finish_install env u) w"
  using assms by (auto simp: completes_def finish_install_def act_defs Let_def act_simps install_inv_def
      installed_def same_tx_def)

lemma journaled_completes:
  assumes "paths_ok t" "journal w (tx_id t) = Some v" "same_tx t v" "phase v = ''installing_candidate''"
    "install_temp_path v = Some (installing_name t)" "install_inv env t w" "same_tx t u"
    "same_artifact env (files w (live_idx_path t)) (candidate_idx t)"
  shows "completes env t (bindA (remove_stale_sdx u) (\<lambda>_. finish_install env u)) w"
proof -
  let ?w = "w\<lparr>files := (files w)(live_sdx_path t := None)\<rparr>"
  have sdx: "live_sdx_path u = live_sdx_path t" using assms(7) by (simp add: same_tx_def)
  have "install_inv env t ?w" "same_artifact env (files ?w (live_idx_path t)) (candidate_idx t)"
    using assms by (auto simp: install_inv_def paths_ok_def)
  then show ?thesis
    unfolding remove_stale_sdx_def unlink_def sdx
    by (intro completes_effect finish_install_completes) (simp_all add: assms(7))
qed

lemma replace_completes:
  assumes "paths_ok t" "journal w (tx_id t) = Some v" "same_tx t v" "phase v = ''installing_candidate''"
    "install_temp_path v = Some (installing_name t)" "install_inv env t w" "same_tx t u"
    "same_artifact env (files w (installing_name t)) (candidate_idx t)"
  shows "completes env t (bindA (replace_file (installing_name t) (live_idx_path t)) (\<lambda>_.
     bindA (remove_stale_sdx u) (\<lambda>_. finish_install env u))) w"
proof -
  let ?w = "w\<lparr>files := (files w)(live_idx_path t := files w (installing_name t), installing_name t := None)\<rparr>"
  have live: "same_artifact env (files ?w (live_idx_path t)) (candidate_idx t)"
    using assms(1,8) by (simp add: paths_ok_def)
  moreover have "install_inv env t ?w"
    using assms(1-6) live by (auto simp: install_inv_def paths_ok_def)
  ultimately show ?thesis
    unfolding replace_file_def
    by (intro completes_effect journaled_completes[OF assms(1) _ assms(3-5) _ assms(7)]) (simp_all add: assms(2))
qed

lemma commit_completes:
  assumes "paths_ok t" "candidate_idx t = Some c" "journal w (tx_id t) = Some t1" "same_tx t t1"
    "phase t1 = ''installing_candidate''" "install_temp_path t1 = Some (installing_name t)"
    "install_inv env t w" "same_artifact env (files w (installing_name t)) (Some c)"
  shows "completes env t (commit_install env t t1) w"
proof -
  have sdx: "live_sdx_path t1 = live_sdx_path t" using assms(4) by (simp add: same_tx_def)
  have "completes env t (bindA (replace_file (installing_name t) (live_idx_path t)) (\<lambda>_.
      bindA (remove_stale_sdx t1) (\<lambda>_. finish_install env t1))) w"
    using assms by (intro replace_completes) simp_all
  then show ?thesis
    using assms(1,2,8)
    by (simp add: commit_install_def replace_file_def remove_stale_sdx_def unlink_def act_simps completes_def
        sdx paths_ok_def)
qed

lemma completes_bind:
  assumes "m w = (Inr x, ws)" "\<forall>w'\<in>set ws. install_inv env t w'" "completes env t (f x) (final w ws)"
  shows "completes env t (bindA m f) w"
  using assms by (auto simp: completes_def bindA_Inr)

lemma install_completes:
  assumes "paths_ok t" "candidate_idx t = Some c" "install_inv env t w"
    "same_artifact env (files w (live_idx_path t)) (old_idx t)"
  shows "completes env t (install_candidate env t) w"
proof -
  have cand: "same_artifact env (files w (candidate_path t)) (Some c)"
    using assms(2,3) by (simp add: install_inv_def)
  obtain ws f where st: "stage_candidate env t w = (Inr (), ws)" "\<forall>w'\<in>set ws. \<exists>x. w' = with_temp t w x"
      "final w ws = with_temp t w (Some f)" "same_artifact env (Some f) (Some c)"
    using stage_candidate_spec[OF assms(1,2) cand] by blast
  define t1 where "t1 = in_phase env ''installing_candidate'' (t\<lparr>install_temp_path := Some (installing_name t)\<rparr>)"
  define w1 where "w1 = (with_temp t w (Some f))\<lparr>journal := (journal w)(tx_id t \<mapsto> t1)\<rparr>"
  have t1: "same_tx t t1" "phase t1 = ''installing_candidate''" "install_temp_path t1 = Some (installing_name t)"
    by (simp_all add: t1_def)
  have inv: "install_inv env t (with_temp t w (Some f))"
    using assms(1,3) by (simp add: install_inv_temp)
  have inv1: "install_inv env t w1"
    using inv t1 assms(1,4) by (auto simp: install_inv_def w1_def paths_ok_def)
  have tr: "transition env (t\<lparr>install_temp_path := Some (installing_name t)\<rparr>) ''installing_candidate'' (final w ws)
      = (Inr t1, [w1])"
    by (simp add: transition_def save_tx_def Let_def act_simps t1_def w1_def st(3))
  have com: "completes env t (commit_install env t t1) w1"
    using assms(1,2) st(4) t1 inv1 by (intro commit_completes) (simp_all add: w1_def)
  have rest: "completes env t (bindA (transition env (t\<lparr>install_temp_path := Some (installing_name t)\<rparr>)
      ''installing_candidate'') (commit_install env t)) (final w ws)"
    by (rule completes_bind, rule tr) (use inv1 com in simp_all)
  have "completes env t (bindA (stage_candidate env t) (\<lambda>_.
      bindA (transition env (t\<lparr>install_temp_path := Some (installing_name t)\<rparr>) ''installing_candidate'')
        (commit_install env t))) w"
    by (rule completes_bind, rule st(1)) (use st(2) assms(1,3) rest in \<open>auto simp: install_inv_temp\<close>)
  then show ?thesis
    using cand assms(2) by (simp add: install_candidate_def completes_def)
qed

lemma install_inv_journal:
  assumes "install_inv env t w"
  obtains u where "journal w (tx_id t) = Some u" "same_tx t u"
    "phase u \<in> {''backup_created'', ''installing_candidate'', ''candidate_installed'', ''awaiting_upstream_validation''}"
  using assms by (auto simp: install_inv_def)

lemma recover_completes:
  assumes "paths_ok t" "candidate_idx t = Some c" "install_inv env t w" "journal w (tx_id t) = Some t"
    "phase t = ''installing_candidate''"
  shows "completes env t (recover_interrupted_install env t) w"
proof -
  have inv: "install_temp_path t = Some (installing_name t)"
    "same_artifact env (files w (live_idx_path t)) (old_idx t) \<or> same_artifact env (files w (live_idx_path t)) (candidate_idx t)"
    using assms(3-5) by (auto simp: install_inv_def)
  consider (cand) "same_artifact env (files w (live_idx_path t)) (candidate_idx t)"
    | (temp) "\<not> same_artifact env (files w (live_idx_path t)) (candidate_idx t)"
        "same_artifact env (files w (live_idx_path t)) (old_idx t)"
        "same_artifact env (files w (installing_name t)) (candidate_idx t)"
    | (again) "\<not> same_artifact env (files w (live_idx_path t)) (candidate_idx t)"
        "same_artifact env (files w (live_idx_path t)) (old_idx t)"
        "\<not> same_artifact env (files w (installing_name t)) (candidate_idx t)"
    using inv(2) by blast
  then show ?thesis
  proof cases
    case cand
    have "completes env t (bindA (remove_stale_sdx t) (\<lambda>_. finish_install env t)) w"
      by (rule journaled_completes[OF assms(1,4) same_tx_refl assms(5) inv(1) assms(3) same_tx_refl cand])
    with cand show ?thesis by (simp add: completes_def recover_interrupted_install_def)
  next
    case temp
    have "completes env t (bindA (replace_file (installing_name t) (live_idx_path t)) (\<lambda>_.
        bindA (remove_stale_sdx t) (\<lambda>_. finish_install env t))) w"
      by (rule replace_completes[OF assms(1,4) same_tx_refl assms(5) inv(1) assms(3) same_tx_refl temp(3)])
    with temp inv(1) assms(2) show ?thesis
      by (cases "files w (installing_name t)") (simp_all add: completes_def recover_interrupted_install_def)
  next
    case again
    let ?w = "with_temp t w None"
    have "install_inv env t ?w" using assms(1,3) by (simp add: install_inv_temp)
    moreover have "same_artifact env (files ?w (live_idx_path t)) (old_idx t)"
      using again(2) assms(1) by (simp add: paths_ok_def)
    ultimately have "completes env t (bindA (unlink (installing_name t)) (\<lambda>_. install_candidate env t)) w"
      unfolding unlink_def by (intro completes_effect install_completes[OF assms(1,2)])
    with again inv(1) assms(2) show ?thesis
      by (cases "files w (installing_name t)") (auto simp: completes_def recover_interrupted_install_def)
  qed
qed

lemma prepare_keeps_inv:
  assumes "paths_ok t" "candidate_idx t = Some c" "install_inv env t w" "journal w (tx_id t) = Some u"
  shows "(\<forall>w'\<in>set (snd (prepare_transaction env u w)). install_inv env t w')
    \<and> (phase u = ''backup_created'' \<and> prepare_transaction env u w = (Inr u, [])
       \<or> phase u \<noteq> ''backup_created'' \<and> (\<exists>t' ws. prepare_transaction env u w = (Inr t', ws) \<and> installed env t (final w ws)))"
proof -
  have u: "same_tx t u" "tx_id u = tx_id t" "candidate_idx u = Some c"
    using assms(2-4) by (auto simp: install_inv_def same_tx_def)
  have ok: "paths_ok u" "install_inv env u w" "installed env u = installed env t"
    using paths_ok_cong[OF u(1)] install_inv_cong[OF u(1)] assms(1,3) u(1)
    by (auto simp: installed_def same_tx_def fun_eq_iff)
  from assms(3,4) consider "phase u = ''backup_created''" | "phase u = ''installing_candidate''"
    | "phase u \<in> {''candidate_installed'', ''awaiting_upstream_validation''}"
      "same_artifact env (files w (live_idx_path t)) (candidate_idx t)" "files w (live_sdx_path t) = None"
    by (auto simp: install_inv_def)
  then show ?thesis
  proof cases
    case 1
    then show ?thesis
      by (simp add: prepare_transaction_def act_simps PENDING_VALIDATION_PHASES_def TERMINAL_PHASES_def
          PREINSTALL_PHASES_def)
  next
    case 2
    have "completes env u (recover_interrupted_install env u) w"
      by (rule recover_completes[OF ok(1) u(3) ok(2)]) (simp_all add: u assms(4) 2)
    with 2 ok(3) install_inv_cong[OF u(1)] show ?thesis
      by (auto simp: completes_def prepare_transaction_def)
  next
    case 3
    then show ?thesis
      using u assms(3,4)
      by (auto simp: prepare_transaction_def PENDING_VALIDATION_PHASES_def validate_installed_artifacts_def
          transition_def save_tx_def Let_def act_simps install_inv_def installed_def same_tx_def)
  qed
qed

section \<open>Crashes and restarts\<close>

text \<open>A restart reads the record from the journal and prepares it; it may itself be interrupted after any of
  its effects. Different runs may see different clocks, random names and torn copies, but the same hash.\<close>

inductive crashes :: "(byte list \<Rightarrow> string) \<Rightarrow> string \<Rightarrow> world \<Rightarrow> world \<Rightarrow> bool" for sha txid where
  crash_here: "crashes sha txid w w"
| crash_later: "crashes sha txid w w1 \<Longrightarrow> journal w1 txid = Some u \<Longrightarrow> sha256 env = sha \<Longrightarrow>
    w2 \<in> set (snd (prepare_transaction env u w1)) \<Longrightarrow> crashes sha txid w w2"

inductive_cases crashesE: "crashes sha txid w w'"

lemma same_artifact_env: "sha256 env' = sha256 env \<Longrightarrow> same_artifact env' f a = same_artifact env f a"
  by (simp add: same_artifact_def hash_file_def split: option.splits)

lemma install_inv_env: "sha256 env' = sha256 env \<Longrightarrow> install_inv env' t w = install_inv env t w"
  by (simp add: install_inv_def same_artifact_env[of env' env])

lemma crashes_keep_inv:
  assumes "crashes (sha256 env) (tx_id t) w w'" "paths_ok t" "candidate_idx t = Some c" "install_inv env t w"
  shows "install_inv env t w'"
  using assms(1,4)
proof (induction rule: crashes.induct)
  case (crash_later w w1 u env' w2)
  then have "install_inv env' t w1" using install_inv_env[of env' env] by simp
  with crash_later prepare_keeps_inv[OF assms(2,3), of env' w1 u] show ?case
    using install_inv_env[of env' env] by simp
qed simp

section \<open>Properties\<close>

text \<open>
  C5. Installing an index is crash safe: start from a transaction with its backup made, its candidate in
  place and the old index live; let the installation be interrupted after any of its durable effects, and
  let any number of restarts be interrupted likewise. Then the live index is always a complete file, the old
  index or the candidate by size and hash, never a torn copy; the backup still holds the old index; and
  the next restart either finds the installation not begun, with the old index live, or completes it: the
  candidate is live, the stale sorted index is gone and the journal awaits validation.
\<close>

theorem install_crash_safe:
  assumes "paths_ok t" "candidate_idx t = Some c" "journal w (tx_id t) = Some t" "phase t = ''backup_created''"
    "same_artifact env (files w (candidate_path t)) (candidate_idx t)"
    "same_artifact env (files w (live_idx_path t)) (old_idx t)"
    "same_artifact env (files w (backup_idx_path t)) (old_idx t)"
    "w1 \<in> set (w # snd (install_candidate env t w))" "crashes (sha256 env) (tx_id t) w1 w2"
  shows "(same_artifact env (files w2 (live_idx_path t)) (old_idx t)
       \<or> same_artifact env (files w2 (live_idx_path t)) (candidate_idx t))
    \<and> same_artifact env (files w2 (backup_idx_path t)) (old_idx t)
    \<and> (\<exists>u. journal w2 (tx_id t) = Some u \<and>
        (phase u = ''backup_created'' \<and> same_artifact env (files w2 (live_idx_path t)) (old_idx t)
         \<or> (\<exists>t' ws. prepare_transaction env u w2 = (Inr t', ws) \<and> installed env t (final w2 ws))))"
proof -
  have inv: "install_inv env t w" using assms(3-7) by (auto simp: install_inv_def)
  have "install_inv env t w1"
    using install_completes[OF assms(1,2) inv assms(6)] inv assms(8) by (auto simp: completes_def)
  then have inv2: "install_inv env t w2"
    by (rule crashes_keep_inv[OF assms(9,1,2)])
  then obtain u where u: "journal w2 (tx_id t) = Some u"
      "phase u = ''backup_created'' \<Longrightarrow> same_artifact env (files w2 (live_idx_path t)) (old_idx t)"
    by (auto simp: install_inv_def)
  have "(same_artifact env (files w2 (live_idx_path t)) (old_idx t)
       \<or> same_artifact env (files w2 (live_idx_path t)) (candidate_idx t))
    \<and> same_artifact env (files w2 (backup_idx_path t)) (old_idx t)"
    using inv2 by (auto simp: install_inv_def)
  with prepare_keeps_inv[OF assms(1,2) inv2 u(1)] u show ?thesis by blast
qed

definition example_identity :: source_identity where
  "example_identity = \<lparr>dataset_sentinel_id = ''ds-1'', active_transport = ''cifs'', sid_collection = [], sid_volume_id = 7\<rparr>"

definition example_tx :: transaction where
  "example_tx =
     \<lparr>tx_id = ''t1'', tx_volume_id = 7, tx_collection = [], tx_base_name = ''7'', phase = ''backup_created'',
      phase_history = [], tx_updated_at = 1, attempt_count = 1, tx_source_identity = example_identity,
      tx_source_fingerprint = (example_identity, None), fingerprint_unavailable = False,
      live_idx_path = PPath ''/'' [''i'', ''7.idx''], live_sdx_path = PPath ''/'' [''i'', ''7.sdx''],
      old_idx = Some \<lparr>art_size = 1, art_sha256 = [], art_mode = Some 420\<rparr>, old_sdx = None,
      tx_staging_dir = PPath ''/'' [''s''], candidate_path = PPath ''/'' [''s'', ''7.idx''],
      candidate_idx = Some \<lparr>art_size = 2, art_sha256 = [], art_mode = None\<rparr>, install_temp_path = None,
      backup_idx_path = PPath ''/'' [''b'', ''7.idx''], backup_sdx_path = PPath ''/'' [''b'', ''7.sdx''],
      failure_reason = [], rolled_back = False, tx_success = False, operator_retry_requested_at = None,
      operator_retry_consumed = False\<rparr>"

definition example_env :: repair_env where
  "example_env = \<lparr>sha256 = \<lambda>_. [], now = 5, uuid = ''u'', torn = 1, link_ok = True\<rparr>"

definition example_world :: world where
  "example_world = \<lparr>files = [PPath ''/'' [''i'', ''7.idx''] \<mapsto> \<lparr>if_bytes = [0], if_mode = 420\<rparr>,
      PPath ''/'' [''s'', ''7.idx''] \<mapsto> \<lparr>if_bytes = [1, 2], if_mode = 384\<rparr>,
      PPath ''/'' [''b'', ''7.idx''] \<mapsto> \<lparr>if_bytes = [0], if_mode = 420\<rparr>],
      journal = [''t1'' \<mapsto> example_tx]\<rparr>"

lemma example_paths: "paths_ok example_tx"
  by (simp add: paths_ok_def example_tx_def installing_name_def path_with_name_def path_name_def)

theorem install_crash_safe_witness:
  "\<exists>w1. w1 \<in> set (snd (install_candidate example_env example_tx example_world))
     \<and> (same_artifact example_env (files w1 (live_idx_path example_tx)) (old_idx example_tx)
        \<or> same_artifact example_env (files w1 (live_idx_path example_tx)) (candidate_idx example_tx))"
proof -
  have pre: "candidate_idx example_tx = Some \<lparr>art_size = 2, art_sha256 = [], art_mode = None\<rparr>"
    "journal example_world (tx_id example_tx) = Some example_tx" "phase example_tx = ''backup_created''"
    "same_artifact example_env (files example_world (candidate_path example_tx)) (candidate_idx example_tx)"
    "same_artifact example_env (files example_world (live_idx_path example_tx)) (old_idx example_tx)"
    "same_artifact example_env (files example_world (backup_idx_path example_tx)) (old_idx example_tx)"
    by (simp_all add: example_tx_def example_world_def example_env_def)
  have "snd (install_candidate example_env example_tx example_world) \<noteq> []"
    using install_completes[OF example_paths pre(1) _ pre(5)] pre
    by (auto simp: completes_def installed_def install_inv_def)
  then obtain w1 where w1: "w1 \<in> set (snd (install_candidate example_env example_tx example_world))"
    by (meson list.set_sel(1))
  then have "w1 \<in> set (example_world # snd (install_candidate example_env example_tx example_world))" by simp
  from install_crash_safe[OF example_paths pre this crash_here] w1 show ?thesis by blast
qed

lemma restore_one_spec:
  assumes "files w backup = Some f" "same_artifact env (Some f) expected" "restoring_name env dst \<noteq> dst"
  shows "\<exists>ws. restore_one env backup dst expected w = (Inr (), ws)
    \<and> (\<forall>w'\<in>set ws. journal w' = journal w \<and> (\<forall>p. p \<noteq> dst \<longrightarrow> p \<noteq> restoring_name env dst \<longrightarrow> files w' p = files w p)
          \<and> (files w' dst = files w dst \<or> (\<exists>g. files w' dst = Some g \<and> if_bytes g = if_bytes f)))
    \<and> (\<exists>g. files (final w ws) dst = Some g \<and> if_bytes g = if_bytes f)
    \<and> journal (final w ws) = journal w
    \<and> (\<forall>p. p \<noteq> dst \<longrightarrow> p \<noteq> restoring_name env dst \<longrightarrow> files (final w ws) p = files w p)"
  using assms by (simp add: restore_one_def copy_file_def put_file_def replace_file_def act_simps)

lemma transition_run: "transition env t ph w
    = (Inr (in_phase env ph t), [w\<lparr>journal := (journal w)(tx_id t \<mapsto> in_phase env ph t)\<rparr>])"
  by (simp add: transition_def save_tx_def Let_def act_simps)

definition rollback_ready :: "repair_env \<Rightarrow> transaction \<Rightarrow> world \<Rightarrow> bool" where
  "rollback_ready env t w \<longleftrightarrow>
     (\<exists>f. files w (backup_idx_path t) = Some f \<and> same_artifact env (Some f) (old_idx t))
     \<and> (old_sdx t \<noteq> None \<longrightarrow> (\<exists>f. files w (backup_sdx_path t) = Some f \<and> same_artifact env (Some f) (old_sdx t)))
     \<and> distinct [live_idx_path t, live_sdx_path t, backup_idx_path t, backup_sdx_path t,
          restoring_name env (live_idx_path t), restoring_name env (live_sdx_path t)]"

lemma same_bytes: "if_bytes g = if_bytes f \<Longrightarrow> same_artifact env (Some g) a = same_artifact env (Some f) a"
  by (cases a) simp_all

lemma rollback_paths:
  assumes "rollback_ready env t w"
  shows "restoring_name env (live_idx_path t) \<noteq> live_idx_path t" "restoring_name env (live_sdx_path t) \<noteq> live_sdx_path t"
    "live_idx_path t \<noteq> live_sdx_path t" "live_idx_path t \<noteq> restoring_name env (live_sdx_path t)"
    "backup_idx_path t \<noteq> live_sdx_path t" "backup_idx_path t \<noteq> restoring_name env (live_sdx_path t)"
    "backup_idx_path t \<noteq> live_idx_path t" "backup_idx_path t \<noteq> restoring_name env (live_idx_path t)"
    "backup_sdx_path t \<noteq> live_idx_path t" "backup_sdx_path t \<noteq> restoring_name env (live_idx_path t)"
  using assms by (auto simp: rollback_ready_def)

lemma rollback_sdx_spec:
  assumes "rollback_ready env t w" "files v (backup_sdx_path t) = files w (backup_sdx_path t)"
  shows "\<exists>ws. rollback_sdx env t v = (Inr (), ws)
    \<and> (\<forall>w'\<in>set ws. files w' (live_idx_path t) = files v (live_idx_path t))
    \<and> same_artifact env (files (final v ws) (live_sdx_path t)) (old_sdx t)
    \<and> files (final v ws) (live_idx_path t) = files v (live_idx_path t)
    \<and> files (final v ws) (backup_idx_path t) = files v (backup_idx_path t)"
proof (cases "old_sdx t")
  case None
  then show ?thesis
    using rollback_paths[OF assms(1)] by (simp add: rollback_sdx_def unlink_def act_simps)
next
  case (Some a)
  then obtain h where h: "files v (backup_sdx_path t) = Some h" "same_artifact env (Some h) (old_sdx t)"
    using assms by (auto simp: rollback_ready_def)
  from restore_one_spec[OF h rollback_paths(2)[OF assms(1)]] obtain ws g where
    "restore_one env (backup_sdx_path t) (live_sdx_path t) (old_sdx t) v = (Inr (), ws)"
    "\<forall>w'\<in>set ws. \<forall>p. p \<noteq> live_sdx_path t \<longrightarrow> p \<noteq> restoring_name env (live_sdx_path t) \<longrightarrow> files w' p = files v p"
    "files (final v ws) (live_sdx_path t) = Some g" "if_bytes g = if_bytes h"
    "\<forall>p. p \<noteq> live_sdx_path t \<longrightarrow> p \<noteq> restoring_name env (live_sdx_path t) \<longrightarrow> files (final v ws) p = files v p"
    by blast
  then show ?thesis
    using rollback_paths[OF assms(1)] h(2) same_bytes[of g h] Some
    by (intro exI[of _ ws]) (simp add: rollback_sdx_def)
qed

text \<open>
  C6. A rejected index is taken back: if the backups are intact, rolling back succeeds; afterwards the live
  index is the old one by size and hash, the sorted index is the old one or absent as it was, the backup is
  unchanged, and the journal demands manual intervention and says it was rolled back. An interruption after
  any effect leaves the live index complete: as it was before the rollback, or the old one.
\<close>

theorem rollback_restores:
  assumes "rollback_ready env t w"
  shows "\<exists>t' ws u. rollback env t reason w = (Inr t', ws)
    \<and> same_artifact env (files (final w ws) (live_idx_path t)) (old_idx t)
    \<and> same_artifact env (files (final w ws) (live_sdx_path t)) (old_sdx t)
    \<and> files (final w ws) (backup_idx_path t) = files w (backup_idx_path t)
    \<and> journal (final w ws) (tx_id t) = Some u \<and> phase u = ''manual_intervention_required'' \<and> rolled_back u
    \<and> (\<forall>w'\<in>set ws. files w' (live_idx_path t) = files w (live_idx_path t)
          \<or> same_artifact env (files w' (live_idx_path t)) (old_idx t))"
proof -
  note paths = rollback_paths[OF assms]
  obtain f where f: "files w (backup_idx_path t) = Some f" "same_artifact env (Some f) (old_idx t)"
    using assms by (auto simp: rollback_ready_def)
  obtain ws1 g1 where w1: "restore_one env (backup_idx_path t) (live_idx_path t) (old_idx t) w = (Inr (), ws1)"
      "files (final w ws1) (live_idx_path t) = Some g1" "if_bytes g1 = if_bytes f"
      "\<forall>w'\<in>set ws1. files w' (live_idx_path t) = files w (live_idx_path t)
         \<or> (\<exists>g. files w' (live_idx_path t) = Some g \<and> if_bytes g = if_bytes f)"
      "\<forall>p. p \<noteq> live_idx_path t \<longrightarrow> p \<noteq> restoring_name env (live_idx_path t) \<longrightarrow> files (final w ws1) p = files w p"
    using restore_one_spec[OF f paths(1)] by blast
  have bk: "files (final w ws1) (backup_idx_path t) = files w (backup_idx_path t)"
      "files (final w ws1) (backup_sdx_path t) = files w (backup_sdx_path t)"
    using w1(5) paths by simp_all
  obtain ws2 where w2: "rollback_sdx env t (final w ws1) = (Inr (), ws2)"
      "\<forall>w'\<in>set ws2. files w' (live_idx_path t) = files (final w ws1) (live_idx_path t)"
      "same_artifact env (files (final (final w ws1) ws2) (live_sdx_path t)) (old_sdx t)"
      "files (final (final w ws1) ws2) (live_idx_path t) = files (final w ws1) (live_idx_path t)"
      "files (final (final w ws1) ws2) (backup_idx_path t) = files (final w ws1) (backup_idx_path t)"
    using rollback_sdx_spec[OF assms bk(2)] by blast
  define t1 where "t1 = in_phase env ''rolled_back'' (t\<lparr>rolled_back := True, failure_reason := reason\<rparr>)"
  define t2 where "t2 = in_phase env ''manual_intervention_required'' (t1\<lparr>tx_success := False, failure_reason := reason\<rparr>)"
  define v where "v = final (final w ws1) ws2"
  define x1 where "x1 = v\<lparr>journal := (journal v)(tx_id t \<mapsto> t1)\<rparr>"
  define x2 where "x2 = x1\<lparr>journal := (journal x1)(tx_id t \<mapsto> t2)\<rparr>"
  have run: "rollback env t reason w = (Inr t2, ws1 @ ws2 @ [x1, x2])"
    by (simp add: rollback_def bindA_def w1(1) w2(1) transition_run manual_def t1_def t2_def x1_def x2_def v_def)
  have live: "same_artifact env (files v (live_idx_path t)) (old_idx t)"
    using w1(2,3) w2(4) f(2) same_bytes[of g1 f] by (simp add: v_def)
  have fin: "final w (ws1 @ ws2 @ [x1, x2]) = x2" by simp
  have pts: "files w' (live_idx_path t) = files w (live_idx_path t) \<or> same_artifact env (files w' (live_idx_path t)) (old_idx t)"
    if "w' \<in> set (ws1 @ ws2 @ [x1, x2])" for w'
  proof -
    from that consider "w' \<in> set ws1" | "w' \<in> set ws2" | "w' = x1" | "w' = x2" by auto
    then show ?thesis
    proof cases
      case 1
      then show ?thesis using w1(4) f(2) same_bytes by metis
    next
      case 2
      then show ?thesis using w2(2,4) live by (simp add: v_def)
    qed (use live in \<open>simp_all add: x1_def x2_def\<close>)
  qed
  show ?thesis
    by (intro exI[of _ t2] exI[of _ "ws1 @ ws2 @ [x1, x2]"])
       (use run fin pts live w2(3,5) bk(1) in \<open>simp add: x1_def x2_def v_def t1_def t2_def\<close>)
qed

theorem rollback_restores_witness:
  "\<exists>t' ws. rollback example_env example_tx ''rejected'' example_world = (Inr t', ws)
     \<and> same_artifact example_env (files (final example_world ws) (live_idx_path example_tx)) (old_idx example_tx)"
proof -
  have "rollback_ready example_env example_tx example_world"
    by (simp add: rollback_ready_def example_tx_def example_env_def example_world_def restoring_name_def
        path_with_name_def path_name_def)
  from rollback_restores[OF this, of "''rejected''"] show ?thesis by blast
qed

text \<open>
  C8. Upstream decides which repairs stand: validation returns each awaiting transaction's volume once, as
  verified exactly if upstream reports the volume writable and as rejected otherwise (a missing volume is
  rejected), and marks exactly the verified transactions so in the journal.
\<close>

theorem validate_upstream_partition:
  assumes "distinct (map tx_id ts)"
  shows "\<exists>v r ws. validate_upstream env readonly ts w = (Inr (v, r), ws)
    \<and> v = map tx_volume_id (filter (\<lambda>t. awaiting t \<and> upstream_accepts readonly (tx_volume_id t)) ts)
    \<and> r = map tx_volume_id (filter (\<lambda>t. awaiting t \<and> \<not> upstream_accepts readonly (tx_volume_id t)) ts)
    \<and> files (final w ws) = files w
    \<and> (\<forall>t\<in>set ts. if awaiting t \<and> upstream_accepts readonly (tx_volume_id t)
          then \<exists>u. journal (final w ws) (tx_id t) = Some u \<and> phase u = ''verified''
          else journal (final w ws) (tx_id t) = journal w (tx_id t))
    \<and> (\<forall>k. k \<notin> tx_id ` set ts \<longrightarrow> journal (final w ws) k = journal w k)"
  using assms
proof (induction ts arbitrary: w)
  case (Cons t ts)
  show ?case
  proof (cases "awaiting t \<and> upstream_accepts readonly (tx_volume_id t)")
    case True
    let ?w = "w\<lparr>journal := (journal w)(tx_id t \<mapsto> in_phase env ''verified'' (t\<lparr>tx_success := True\<rparr>))\<rparr>"
    have ne: "tx_id t \<notin> tx_id ` set ts" "\<And>u. u \<in> set ts \<Longrightarrow> tx_id u \<noteq> tx_id t"
      using Cons.prems by (auto simp: image_iff)
    obtain v r ws where "validate_upstream env readonly ts ?w = (Inr (v, r), ws)"
      and "v = map tx_volume_id (filter (\<lambda>t. awaiting t \<and> upstream_accepts readonly (tx_volume_id t)) ts)"
      and "r = map tx_volume_id (filter (\<lambda>t. awaiting t \<and> \<not> upstream_accepts readonly (tx_volume_id t)) ts)"
      and "files (final ?w ws) = files w"
      and "\<And>u. u \<in> set ts \<Longrightarrow> if awaiting u \<and> upstream_accepts readonly (tx_volume_id u)
          then \<exists>u'. journal (final ?w ws) (tx_id u) = Some u' \<and> phase u' = ''verified''
          else journal (final ?w ws) (tx_id u) = journal ?w (tx_id u)"
      and "\<And>k. k \<notin> tx_id ` set ts \<Longrightarrow> journal (final ?w ws) k = journal ?w k"
      using Cons.IH[of ?w] Cons.prems by auto
    then show ?thesis
      using True ne
      by (simp add: bindA_def transition_run returnA_def del: if_split)
  next
    case False
    then show ?thesis
      using Cons.IH[of w] Cons.prems by (auto simp: bindA_def act_simps)
  qed
qed (simp add: act_simps)

theorem validate_upstream_partition_witness:
  "\<exists>v r ws. validate_upstream example_env [7 \<mapsto> False] [example_tx\<lparr>phase := ''candidate_installed''\<rparr>] example_world
     = (Inr (v, r), ws) \<and> v = [7] \<and> r = []"
proof -
  have d: "distinct (map tx_id [example_tx\<lparr>phase := ''candidate_installed''\<rparr>])" by simp
  have f: "filter (\<lambda>t. awaiting t \<and> upstream_accepts [7 \<mapsto> False] (tx_volume_id t))
      [example_tx\<lparr>phase := ''candidate_installed''\<rparr>] = [example_tx\<lparr>phase := ''candidate_installed''\<rparr>]"
    "filter (\<lambda>t. awaiting t \<and> \<not> upstream_accepts [7 \<mapsto> False] (tx_volume_id t))
      [example_tx\<lparr>phase := ''candidate_installed''\<rparr>] = []"
    by (simp_all add: awaiting_def upstream_accepts_def PENDING_VALIDATION_PHASES_def example_tx_def)
  have v: "tx_volume_id example_tx = 7" by (simp add: example_tx_def)
  from validate_upstream_partition[OF d, of example_env "[7 \<mapsto> False]" example_world] show ?thesis
    unfolding f by (elim exE conjE) (simp add: v)
qed

end
