(* ===== verification/Seaweed_Health.thy ===== *)
theory Seaweed_Health
  imports Prelude "HOL-Library.Multiset" "HOL-Library.AList"
begin

text \<open>
  The reading of SeaweedFS's volume status in \<open>seaweed_health.py\<close>: the validating loop of
  \<open>parse_volume_status\<close> with its counters, the classification \<open>all_volumes_readonly\<close>, and
  \<open>inspect_volume_status\<close> over the HTTP reply, which is an input. The loop is shown equal to a
  declarative summary of the volumes it read.
\<close>

datatype seaweed_error =
    NoVolumesArray
  | InvalidVolumeEntry
  | InvalidVolumeId
  | NoBooleanReadOnly int
  | BadHttpStatus int
  | StatusUnreadable

record volume =
  vol_id :: int
  vol_collection :: string
  vol_readonly :: bool
  vol_expected_readonly :: bool

record collection_counts =
  cc_total :: int
  cc_readonly :: int
  cc_writable :: int

record volume_status =
  total :: int
  readonly :: int
  writable :: int
  expected_readonly :: int
  unexpected_readonly :: int
  readonly_volume_ids :: "int list"
  unexpected_readonly_volume_ids :: "int list"
  volume_details :: "volume list"
  collections :: "(string \<times> collection_counts) list"

definition all_volumes_readonly :: "volume_status \<Rightarrow> bool" where
  "all_volumes_readonly s \<longleftrightarrow>
     total s > 0 \<and> readonly s = total s \<and> writable s = 0 \<and> unexpected_readonly s > 0"

text \<open>One entry of the \<open>Volumes\<close> array.\<close>

definition parse_volume :: "int set \<Rightarrow> json \<Rightarrow> seaweed_error + volume" where
  "parse_volume expected raw = (case raw of
       JObj d \<Rightarrow>
         (case (case json_get d ''Id'' of None \<Rightarrow> Inl KeyError | Some v \<Rightarrow> py_int v) of
            Inl _ \<Rightarrow> Inl InvalidVolumeId
          | Inr vid \<Rightarrow>
              (case json_get d ''ReadOnly'' of
                 Some (JBool ro) \<Rightarrow>
                   Inr \<lparr>vol_id = vid,
                        vol_collection = (case json_get d ''Collection'' of
                            None \<Rightarrow> []
                          | Some v \<Rightarrow> if py_truthy v then py_str v else []),
                        vol_readonly = ro,
                        vol_expected_readonly = (ro \<and> vid \<in> expected)\<rparr>
               | _ \<Rightarrow> Inl (NoBooleanReadOnly vid)))
     | _ \<Rightarrow> Inl InvalidVolumeEntry)"

definition collection_label :: "volume \<Rightarrow> string" where
  "collection_label v = (if vol_collection v = [] then ''<default>'' else vol_collection v)"

definition no_counts :: collection_counts where
  "no_counts = \<lparr>cc_total = 0, cc_readonly = 0, cc_writable = 0\<rparr>"

definition count_volume :: "volume \<Rightarrow> collection_counts \<Rightarrow> collection_counts" where
  "count_volume v c = c\<lparr>cc_total := cc_total c + 1,
     cc_readonly := cc_readonly c + (if vol_readonly v then 1 else 0),
     cc_writable := cc_writable c + (if vol_readonly v then 0 else 1)\<rparr>"

text \<open>The loop's variables.\<close>

record parse_state =
  ps_readonly_ids :: "int list"
  ps_unexpected_ids :: "int list"
  ps_details :: "volume list"
  ps_collections :: "(string \<times> collection_counts) list"
  ps_total :: int
  ps_writable :: int

definition parse_init :: parse_state where
  "parse_init = \<lparr>ps_readonly_ids = [], ps_unexpected_ids = [], ps_details = [], ps_collections = [],
     ps_total = 0, ps_writable = 0\<rparr>"

definition add_volume :: "int set \<Rightarrow> volume \<Rightarrow> parse_state \<Rightarrow> parse_state" where
  "add_volume expected v s =
     (let l = collection_label v;
          counts = (case map_of (ps_collections s) l of None \<Rightarrow> no_counts | Some c \<Rightarrow> c)
      in s\<lparr>ps_collections := AList.update l (count_volume v counts) (ps_collections s),
           ps_total := ps_total s + 1,
           ps_readonly_ids := ps_readonly_ids s @ (if vol_readonly v then [vol_id v] else []),
           ps_unexpected_ids := ps_unexpected_ids s
             @ (if vol_readonly v \<and> vol_id v \<notin> expected then [vol_id v] else []),
           ps_writable := ps_writable s + (if vol_readonly v then 0 else 1),
           ps_details := ps_details s @ [v]\<rparr>)"

definition parse_step :: "int set \<Rightarrow> json \<Rightarrow> parse_state \<Rightarrow> seaweed_error + parse_state" where
  "parse_step expected raw s = bindE (parse_volume expected raw) (\<lambda>v. Inr (add_volume expected v s))"

definition status_of_state :: "parse_state \<Rightarrow> volume_status" where
  "status_of_state s =
     \<lparr>total = ps_total s,
      readonly = int (length (ps_readonly_ids s)),
      writable = ps_writable s,
      expected_readonly = int (length (ps_readonly_ids s)) - int (length (ps_unexpected_ids s)),
      unexpected_readonly = int (length (ps_unexpected_ids s)),
      readonly_volume_ids = sort (ps_readonly_ids s),
      unexpected_readonly_volume_ids = sort (ps_unexpected_ids s),
      volume_details = sort_key vol_id (ps_details s),
      collections = ps_collections s\<rparr>"

definition parse_volume_status :: "json \<Rightarrow> int set \<Rightarrow> seaweed_error + volume_status" where
  "parse_volume_status payload expected = (case payload of
       JObj d \<Rightarrow>
         (case json_get d ''Volumes'' of
            Some (JList raws) \<Rightarrow>
              bindE (foldE (parse_step expected) raws parse_init) (\<lambda>s. Inr (status_of_state s))
          | Some JNull \<Rightarrow> Inr (status_of_state parse_init)
          | _ \<Rightarrow> Inl NoVolumesArray)
     | _ \<Rightarrow> Inl NoVolumesArray)"

text \<open>The reply to the status request: a status code with the decoded body, or a failure to connect or to
  decode.\<close>

datatype http_reply = HttpReply int "json option" | HttpFailed

definition inspect_volume_status :: "http_reply \<Rightarrow> int set \<Rightarrow> seaweed_error + volume_status" where
  "inspect_volume_status r expected = (case r of
       HttpFailed \<Rightarrow> Inl StatusUnreadable
     | HttpReply code body \<Rightarrow>
         (if code \<noteq> 200 then Inl (BadHttpStatus code)
          else case body of None \<Rightarrow> Inl StatusUnreadable | Some p \<Rightarrow> parse_volume_status p expected))"

section \<open>The loop computes a summary of the volumes\<close>

fun parse_volumes :: "int set \<Rightarrow> json list \<Rightarrow> seaweed_error + volume list" where
  "parse_volumes expected [] = Inr []"
| "parse_volumes expected (r # rs) =
     bindE (parse_volume expected r) (\<lambda>v. bindE (parse_volumes expected rs) (\<lambda>vs. Inr (v # vs)))"

lemma foldE_parse_step:
  "foldE (parse_step expected) raws s =
     bindE (parse_volumes expected raws) (\<lambda>vs. Inr (fold (add_volume expected) vs s))"
proof (induction raws arbitrary: s)
  case (Cons r rs)
  then show ?case
    by (cases "parse_volume expected r"; cases "parse_volumes expected rs")
      (simp_all add: parse_step_def)
qed simp

lemma parse_volume_expected:
  "parse_volume expected r = Inr v \<Longrightarrow>
     vol_expected_readonly v \<longleftrightarrow> vol_readonly v \<and> vol_id v \<in> expected"
  by (auto simp: parse_volume_def split: json.splits sum.splits option.splits)

lemma parse_volumes_expected:
  "parse_volumes expected raws = Inr vs \<Longrightarrow> v \<in> set vs \<Longrightarrow>
     vol_expected_readonly v \<longleftrightarrow> vol_readonly v \<and> vol_id v \<in> expected"
  by (induction raws arbitrary: vs) (auto simp: res_simps dest: parse_volume_expected)

lemma fold_add_volume:
  "ps_readonly_ids (fold (add_volume E) vs s)
     = ps_readonly_ids s @ map vol_id (filter vol_readonly vs)"
  "ps_unexpected_ids (fold (add_volume E) vs s)
     = ps_unexpected_ids s @ map vol_id (filter (\<lambda>v. vol_readonly v \<and> vol_id v \<notin> E) vs)"
  "ps_details (fold (add_volume E) vs s) = ps_details s @ vs"
  "ps_total (fold (add_volume E) vs s) = ps_total s + int (length vs)"
  "ps_writable (fold (add_volume E) vs s)
     = ps_writable s + int (length (filter (\<lambda>v. \<not> vol_readonly v) vs))"
  by (induction vs arbitrary: s) (auto simp: add_volume_def Let_def)

lemma collections_add_volume:
  "map_of (ps_collections (add_volume E v s)) l =
     (if l = collection_label v
      then Some (count_volume v (case map_of (ps_collections s) l of None \<Rightarrow> no_counts | Some c \<Rightarrow> c))
      else map_of (ps_collections s) l)"
  by (simp add: add_volume_def Let_def update_conv')

text \<open>Counting a list of volumes one by one gives the lengths of its filters.\<close>

lemma fold_count_volume:
  "fold count_volume vs c = c\<lparr>cc_total := cc_total c + int (length vs),
     cc_readonly := cc_readonly c + int (length (filter vol_readonly vs)),
     cc_writable := cc_writable c + int (length (filter (\<lambda>v. \<not> vol_readonly v) vs))\<rparr>"
  by (induction vs arbitrary: c) (auto simp: count_volume_def)

lemma collections_fold:
  "map_of (ps_collections (fold (add_volume E) vs s)) l =
     (let mine = filter (\<lambda>v. collection_label v = l) vs
      in if mine = [] then map_of (ps_collections s) l
         else Some (fold count_volume mine
           (case map_of (ps_collections s) l of None \<Rightarrow> no_counts | Some c \<Rightarrow> c)))"
proof (induction vs arbitrary: s)
  case (Cons v vs)
  show ?case
    by (auto simp: Cons.IH Let_def collections_add_volume)
qed simp

lemma parse_volume_status_Inr:
  "parse_volume_status p E = Inr st \<longleftrightarrow>
     (\<exists>d raws vs. p = JObj d
        \<and> (json_get d ''Volumes'' = Some (JList raws) \<or> json_get d ''Volumes'' = Some JNull \<and> raws = [])
        \<and> parse_volumes E raws = Inr vs
        \<and> st = status_of_state (fold (add_volume E) vs parse_init))"
  by (auto simp: parse_volume_status_def foldE_parse_step res_simps split: json.splits option.splits)

section \<open>Properties\<close>

text \<open>
  The volume summary is exact: when a status document is accepted, every entry of its array was read
  into a volume, and the published counters, sorted id lists, sorted details and per-collection counts are
  those of the list of volumes: nothing is lost, invented or counted twice.
\<close>

theorem volume_status_exact:
  assumes "parse_volume_status p E = Inr st"
  shows "\<exists>d raws vs. p = JObj d \<and> json_get d ''Volumes'' \<in> {Some (JList raws), Some JNull}
    \<and> parse_volumes E (if json_get d ''Volumes'' = Some JNull then [] else raws) = Inr vs
    \<and> total st = int (length vs)
    \<and> readonly st + writable st = total st
    \<and> expected_readonly st + unexpected_readonly st = readonly st
    \<and> sorted (readonly_volume_ids st)
    \<and> mset (readonly_volume_ids st) = image_mset vol_id (filter_mset vol_readonly (mset vs))
    \<and> sorted (unexpected_readonly_volume_ids st)
    \<and> mset (unexpected_readonly_volume_ids st)
        = image_mset vol_id (filter_mset (\<lambda>v. vol_readonly v \<and> vol_id v \<notin> E) (mset vs))
    \<and> sorted (map vol_id (volume_details st)) \<and> mset (volume_details st) = mset vs
    \<and> (\<forall>l. map_of (collections st) l =
        (let mine = filter (\<lambda>v. collection_label v = l) vs
         in if mine = [] then None
            else Some \<lparr>cc_total = int (length mine),
                       cc_readonly = int (length (filter vol_readonly mine)),
                       cc_writable = int (length (filter (\<lambda>v. \<not> vol_readonly v) mine))\<rparr>))"
proof -
  from assms obtain d raws vs where p: "p = JObj d"
    and raws: "json_get d ''Volumes'' = Some (JList raws) \<or> json_get d ''Volumes'' = Some JNull \<and> raws = []"
    and vs: "parse_volumes E raws = Inr vs"
    and st: "st = status_of_state (fold (add_volume E) vs parse_init)"
    by (auto simp: parse_volume_status_Inr)
  have split: "int (length (filter vol_readonly vs)) + int (length (filter (\<lambda>v. \<not> vol_readonly v) vs))
      = int (length vs)"
    using sum_length_filter_compl[of vol_readonly vs] by linarith
  have col: "map_of (collections st) l =
        (let mine = filter (\<lambda>v. collection_label v = l) vs
         in if mine = [] then None
            else Some \<lparr>cc_total = int (length mine),
                       cc_readonly = int (length (filter vol_readonly mine)),
                       cc_writable = int (length (filter (\<lambda>v. \<not> vol_readonly v) mine))\<rparr>)" for l
    by (simp add: st status_of_state_def collections_fold parse_init_def Let_def no_counts_def
        fold_count_volume)
  have arr: "json_get d ''Volumes'' \<in> {Some (JList raws), Some JNull}"
    "parse_volumes E (if json_get d ''Volumes'' = Some JNull then [] else raws) = Inr vs"
    using raws vs by auto
  have "total st = int (length vs)" "readonly st + writable st = total st"
    "expected_readonly st + unexpected_readonly st = readonly st"
    using split by (simp_all add: st status_of_state_def fold_add_volume parse_init_def)
  moreover have "sorted (readonly_volume_ids st)" "sorted (unexpected_readonly_volume_ids st)"
    "sorted (map vol_id (volume_details st))" "mset (volume_details st) = mset vs"
    by (simp_all add: st status_of_state_def fold_add_volume parse_init_def)
  moreover have
    "mset (readonly_volume_ids st) = image_mset vol_id (filter_mset vol_readonly (mset vs))"
    "mset (unexpected_readonly_volume_ids st)
        = image_mset vol_id (filter_mset (\<lambda>v. vol_readonly v \<and> vol_id v \<notin> E) (mset vs))"
    by (simp_all add: st status_of_state_def fold_add_volume parse_init_def flip: mset_filter mset_map)
  ultimately show ?thesis
    using p arr col by blast
qed

definition example_status :: json where
  "example_status = JObj [(''Volumes'', JList
     [JObj [(''Id'', JInt 7), (''ReadOnly'', JBool True), (''Collection'', JStr ''logs'')],
      JObj [(''Id'', JInt 3), (''ReadOnly'', JBool False)]])]"

lemma example_status_parses:
  "parse_volume_status example_status {9} = Inr
     \<lparr>total = 2, readonly = 1, writable = 1, expected_readonly = 0, unexpected_readonly = 1,
      readonly_volume_ids = [7], unexpected_readonly_volume_ids = [7],
      volume_details = [\<lparr>vol_id = 3, vol_collection = [], vol_readonly = False, vol_expected_readonly = False\<rparr>,
        \<lparr>vol_id = 7, vol_collection = ''logs'', vol_readonly = True, vol_expected_readonly = False\<rparr>],
      collections = [(''logs'', \<lparr>cc_total = 1, cc_readonly = 1, cc_writable = 0\<rparr>),
        (''<default>'', \<lparr>cc_total = 1, cc_readonly = 0, cc_writable = 1\<rparr>)]\<rparr>"
  by (simp add: example_status_def parse_volume_status_def parse_step_def parse_volume_def json_get_def
      py_int_def py_str_def add_volume_def parse_init_def status_of_state_def collection_label_def
      count_volume_def no_counts_def)

theorem volume_status_exact_witness:
  "\<exists>st vs. parse_volume_status example_status {9} = Inr st \<and> total st = 2 \<and> total st = int (length vs)
     \<and> mset (volume_details st) = mset vs"
proof -
  obtain vs where "2 = int (length (vs :: volume list))"
    "mset [\<lparr>vol_id = 3, vol_collection = [], vol_readonly = False, vol_expected_readonly = False\<rparr>,
        \<lparr>vol_id = 7, vol_collection = ''logs'', vol_readonly = True, vol_expected_readonly = False\<rparr>] = mset vs"
    using volume_status_exact [OF example_status_parses] by (elim exE conjE) simp
  then show ?thesis
    using example_status_parses by (intro exI conjI) (assumption | simp)+
qed

text \<open>
  The blast-radius guard: for an accepted status, \<open>all_volumes_readonly\<close> holds exactly when there is a
  volume, every volume is read-only, and at least one of them is not certified read-only by the operator.
\<close>

theorem all_volumes_readonly_exact:
  assumes "parse_volume_status p E = Inr st"
  shows "all_volumes_readonly st \<longleftrightarrow>
    (\<forall>v\<in>set (volume_details st). vol_readonly v) \<and> (\<exists>v\<in>set (volume_details st). vol_id v \<notin> E)"
proof -
  from assms obtain raws vs where vs: "parse_volumes E raws = Inr vs"
    and st: "st = status_of_state (fold (add_volume E) vs parse_init)"
    by (auto simp: parse_volume_status_Inr)
  have ro: "length (filter vol_readonly vs) = length vs \<longleftrightarrow> (\<forall>v\<in>set vs. vol_readonly v)"
    by (auto simp: filter_True dest: length_filter_less[of _ vs vol_readonly])
  have rw: "(filter (\<lambda>v. \<not> vol_readonly v) vs = []) \<longleftrightarrow> (\<forall>v\<in>set vs. vol_readonly v)"
    by (auto simp: filter_empty_conv)
  have un: "(0 < length (filter (\<lambda>v. vol_readonly v \<and> vol_id v \<notin> E) vs))
      \<longleftrightarrow> (\<exists>v\<in>set vs. vol_readonly v \<and> vol_id v \<notin> E)"
    by (auto simp: filter_empty_conv)
  have "all_volumes_readonly st \<longleftrightarrow> 0 < length vs \<and> length (filter vol_readonly vs) = length vs
      \<and> filter (\<lambda>v. \<not> vol_readonly v) vs = []
      \<and> 0 < length (filter (\<lambda>v. vol_readonly v \<and> vol_id v \<notin> E) vs)"
    by (simp add: all_volumes_readonly_def st status_of_state_def fold_add_volume parse_init_def)
  then have "all_volumes_readonly st \<longleftrightarrow> vs \<noteq> []
      \<and> (\<forall>v\<in>set vs. vol_readonly v) \<and> (\<exists>v\<in>set vs. vol_readonly v \<and> vol_id v \<notin> E)"
    unfolding ro rw un by simp
  moreover have "set (volume_details st) = set vs"
    by (simp add: st status_of_state_def fold_add_volume parse_init_def)
  ultimately show ?thesis
    by (metis empty_iff empty_set)
qed

theorem all_volumes_readonly_exact_witness:
  "\<not> (\<forall>st. parse_volume_status example_status {9} = Inr st \<longrightarrow> all_volumes_readonly st)"
  using all_volumes_readonly_exact [OF example_status_parses] example_status_parses by simp

text \<open>The repair metadata is never ambiguous for an accepted status: the details flagged for repair and
  the unexpected read-only ids name the same volumes.\<close>

lemma repair_metadata_unambiguous:
  assumes "parse_volume_status p E = Inr st"
  shows "vol_id ` {v \<in> set (volume_details st). vol_readonly v \<and> \<not> vol_expected_readonly v}
    = set (unexpected_readonly_volume_ids st)"
proof -
  from assms obtain raws vs where vs: "parse_volumes E raws = Inr vs"
    and st: "st = status_of_state (fold (add_volume E) vs parse_init)"
    by (auto simp: parse_volume_status_Inr)
  show ?thesis
    using parse_volumes_expected[OF vs]
    by (auto simp: st status_of_state_def fold_add_volume parse_init_def image_iff)
qed

end
