(* ===== verification/Repair_Decision.thy ===== *)
theory Repair_Decision
  imports Repair_Install Seaweed_Health
begin

text \<open>
  The decisions of \<open>IndexRepairController\<close> in \<open>index_repair.py\<close>: when an automatic repair may run at all, how often
  a volume is tried, what an operator's retry allows, what resumes after a crash, and what happens with the
  candidate the helper built. What the helper process answers is an input.
\<close>

section \<open>Failures and retries\<close>

definition record_preinstall_failure :: "repair_env \<Rightarrow> transaction \<Rightarrow> string \<Rightarrow> unit act" where
  "record_preinstall_failure env t reason =
     bindA (transition env (t\<lparr>failure_reason := reason\<rparr>) ''failed_preinstall'') (\<lambda>t'.
       if attempt_count t' \<ge> PREINSTALL_RETRY_LIMIT
       then bindA (manual env t' reason) (\<lambda>_. returnA ())
       else returnA ())"

definition unconsumed_retry :: "transaction \<Rightarrow> bool" where
  "unconsumed_retry t \<longleftrightarrow> (case operator_retry_requested_at t of None \<Rightarrow> False | Some r \<Rightarrow> r \<noteq> 0)
     \<and> \<not> operator_retry_consumed t"

definition max_attempts :: "transaction list \<Rightarrow> int" where
  "max_attempts ts = (case map attempt_count ts of [] \<Rightarrow> 0 | n # ns \<Rightarrow> foldr max ns n)"

definition unfingerprinted :: "source_identity \<Rightarrow> transaction list \<Rightarrow> transaction list" where
  "unfingerprinted sid = filter (\<lambda>t. tx_source_identity t = sid \<and> fingerprint_unavailable t)"

definition blocked :: "transaction list \<Rightarrow> transaction list" where
  "blocked = filter (\<lambda>t. phase t = ''manual_intervention_required'')"

definition consume_retry :: "transaction \<Rightarrow> unit act" where
  "consume_retry t = save_tx (t\<lparr>operator_retry_consumed := True\<rparr>)"

definition authorize_unfingerprinted_retry :: "source_identity \<Rightarrow> bool act" where
  "authorize_unfingerprinted_retry sid =
     bindA load_all (\<lambda>ts.
       let b = blocked (unfingerprinted sid ts)
       in if b = [] then returnA False
          else if \<not> unconsumed_retry (latest b)
          then raiseA (ManualIntervention ''source preflight failures require explicit operator retry'')
          else bindA (consume_retry (latest b)) (\<lambda>_. returnA True))"

text \<open>The fields of a new record that the callers of \<open>create\<close> fill in.\<close>

definition blank_tx :: "source_identity \<Rightarrow> string \<Rightarrow> source_fingerprint \<Rightarrow> int \<Rightarrow> transaction" where
  "blank_tx sid base fp attempts =
     \<lparr>tx_id = [], tx_volume_id = sid_volume_id sid, tx_collection = sid_collection sid, tx_base_name = base,
      phase = [], phase_history = [], tx_updated_at = 0, attempt_count = attempts, tx_source_identity = sid,
      tx_source_fingerprint = fp, fingerprint_unavailable = False,
      live_idx_path = PPath [] [], live_sdx_path = PPath [] [], old_idx = None, old_sdx = None,
      tx_staging_dir = PPath [] [], candidate_path = PPath [] [], candidate_idx = None,
      install_temp_path = None, backup_idx_path = PPath [] [], backup_sdx_path = PPath [] [],
      failure_reason = [], rolled_back = False, tx_success = False, operator_retry_requested_at = None,
      operator_retry_consumed = False\<rparr>"

definition record_unfingerprinted_failure ::
  "repair_env \<Rightarrow> source_identity \<Rightarrow> string \<Rightarrow> string \<Rightarrow> bool \<Rightarrow> unit act" where
  "record_unfingerprinted_failure env sid base reason retry_authorized =
     bindA load_all (\<lambda>ts.
       let attempts = max_attempts (unfingerprinted sid ts)
       in if attempts \<ge> PREINSTALL_RETRY_LIMIT \<and> \<not> retry_authorized
          then raiseA (ManualIntervention ''bounded automatic source preflight attempts are exhausted'')
          else bindA (create_tx env ((blank_tx sid base (sid, None) (attempts + 1))\<lparr>fingerprint_unavailable := True\<rparr>)) (\<lambda>t.
                 record_preinstall_failure env t reason))"

definition record_structural_failure ::
  "repair_env \<Rightarrow> source_identity \<Rightarrow> string \<Rightarrow> source_fingerprint \<Rightarrow> ppath \<Rightarrow> ppath \<Rightarrow> int \<Rightarrow> string \<Rightarrow> unit act" where
  "record_structural_failure env sid base fp live_idx live_sdx attempts reason =
     bindA (create_tx env ((blank_tx sid base fp attempts)\<lparr>live_idx_path := live_idx, live_sdx_path := live_sdx\<rparr>)) (\<lambda>t.
     bindA (manual env t reason) (\<lambda>_. returnA ()))"

section \<open>The gate before a repair\<close>

definition same_source :: "source_fingerprint \<Rightarrow> transaction list \<Rightarrow> transaction list" where
  "same_source fp = filter (\<lambda>t. tx_source_fingerprint t = fp)"

definition exhausted_message :: string where
  "exhausted_message = ''bounded automatic repair attempts are exhausted for this .dat''"

text \<open>Whether an operator's retry applies, consuming it, or the refusal.\<close>

definition gate_retry :: "transaction list \<Rightarrow> bool act" where
  "gate_retry same =
     (if filter (\<lambda>t. phase t = ''verified'') same \<noteq> []
      then raiseA (ManualIntervention
        ''this authoritative .dat fingerprint was already repaired and verified; refusing a repair loop'')
      else if blocked same = [] then returnA False
      else if \<not> unconsumed_retry (latest (blocked same))
      then raiseA (ManualIntervention ''this authoritative .dat fingerprint requires explicit operator retry'')
      else bindA (consume_retry (latest (blocked same))) (\<lambda>_. returnA True))"

definition prior_attempts :: "transaction list \<Rightarrow> int" where
  "prior_attempts same = max_attempts (filter (\<lambda>t. phase t \<noteq> ''resolved_without_install'') same)"

definition repair_gate :: "repair_env \<Rightarrow> transaction list \<Rightarrow> int act" where
  "repair_gate env same =
     bindA (gate_retry same) (\<lambda>retry_authorized.
       let attempts = prior_attempts same;
           failed = filter (\<lambda>t. phase t = ''failed_preinstall'') same
       in if attempts \<ge> PREINSTALL_RETRY_LIMIT \<and> \<not> retry_authorized
          then bindA (if failed \<noteq> [] then bindA (manual env (latest failed) exhausted_message) (\<lambda>_. returnA ())
                      else returnA ()) (\<lambda>_.
                 raiseA (ManualIntervention exhausted_message))
          else returnA attempts)"

fun retire_stale :: "repair_env \<Rightarrow> int \<Rightarrow> source_fingerprint \<Rightarrow> transaction list \<Rightarrow> unit act" where
  "retire_stale env volume_id fp [] = returnA ()"
| "retire_stale env volume_id fp (t # ts) =
     (if tx_volume_id t = volume_id \<and> tx_source_fingerprint t \<noteq> fp \<and> phase t \<notin> set TERMINAL_PHASES
         \<and> phase t \<notin> set PENDING_VALIDATION_PHASES
      then bindA (manual env t ''authoritative .dat fingerprint changed before transaction resume'') (\<lambda>_.
             retire_stale env volume_id fp ts)
      else retire_stale env volume_id fp ts)"

section \<open>The candidate\<close>

record built_candidate =
  bc_fingerprint_after :: file_fingerprint
  bc_candidate :: ppath
  bc_readonly_mount_verified :: bool
  bc_write_rejected :: bool
  bc_size :: int
  bc_sha256 :: string

datatype helper_run =
    HelperBuilt built_candidate
  | HelperUnsafe string "index_bounds option"
  | HelperError string

text \<open>The judgement on a built candidate before the journal may say it is built.\<close>

definition judge_candidate ::
  "repair_env \<Rightarrow> source_fingerprint \<Rightarrow> built_candidate \<Rightarrow> transaction \<Rightarrow> transaction act" where
  "judge_candidate env fp b t =
     (if (fst fp, Some (bc_fingerprint_after b)) \<noteq> fp
      then bindA (unlink (bc_candidate b)) (\<lambda>_.
             raiseA (RepairError ''authoritative .dat changed between preflight and candidate reconstruction''))
      else if \<not> bc_readonly_mount_verified b \<or> \<not> bc_write_rejected b
      then raiseA (RepairError ''read-only source exposure was not proven'')
      else returnA (t\<lparr>candidate_path := bc_candidate b,
                      candidate_idx := Some \<lparr>art_size = bc_size b, art_sha256 = bc_sha256 b, art_mode = None\<rparr>\<rparr>))"

definition identical_message :: string where
  "identical_message = ''reconstructed candidate is byte-for-byte identical to the live index; ''
     @ ''the upstream read-only state is not explained by index divergence''"

definition same_content :: "artifact option \<Rightarrow> artifact option \<Rightarrow> bool" where
  "same_content a b = (case (a, b) of
       (Some x, Some y) \<Rightarrow> art_size x = art_size y \<and> art_sha256 x = art_sha256 y
     | _ \<Rightarrow> False)"

definition accept_candidate ::
  "repair_env \<Rightarrow> ppath \<Rightarrow> bool \<Rightarrow> transaction \<Rightarrow> unit act" where
  "accept_candidate env backup_dir allow_identical t w =
     (if \<not> same_artifact env (files w (candidate_path t)) (candidate_idx t)
      then (let reason = ''reconstructed candidate does not match its reported size and hash''
            in bindA (record_preinstall_failure env t reason) (\<lambda>_. raiseA (RepairError reason)) w)
      else if same_content (candidate_idx t) (old_idx t) \<and> \<not> allow_identical
      then bindA (manual env t identical_message) (\<lambda>_. raiseA (ManualIntervention identical_message)) w
      else bindA (transition env t ''candidate_built'') (\<lambda>t1.
           bindA (create_backups env backup_dir t1) (\<lambda>t2.
           bindA (install_candidate env t2) (\<lambda>_. returnA ()))) w)"

section \<open>Entry\<close>

record repair_settings =
  rs_enabled :: bool
  rs_max_volumes :: int
  rs_tail_enabled :: bool
  rs_tail_max_bytes :: int

text \<open>The guards of \<open>repair_detected\<close>: the volumes to repair, or the refusal.\<close>

definition repair_guard :: "repair_settings \<Rightarrow> volume_status \<Rightarrow> repair_error + int list" where
  "repair_guard cfg st =
     (if \<not> rs_enabled cfg then Inl (ManualIntervention ''automatic SeaweedFS index repair is disabled'')
      else if all_volumes_readonly st
      then Inl (ManualIntervention (''refusing automatic index repair while every upstream volume is read-only; ''
             @ ''the status does not provide volume-specific evidence of index divergence''))
      else let details = map vol_id (filter (\<lambda>v. vol_readonly v \<and> \<not> vol_expected_readonly v) (volume_details st));
               unexpected = unexpected_readonly_volume_ids st
           in if set details \<noteq> set unexpected
              then Inl (RepairError ''upstream volume status did not provide unambiguous repair metadata'')
              else if int (length unexpected) > rs_max_volumes cfg
              then Inl (ManualIntervention (''refusing automatic index repair for '' @ show_nat (length unexpected)
                     @ '' volumes; configured safety limit is '' @ show_int (rs_max_volumes cfg)))
              else Inr unexpected)"

text \<open>The controller's own test before it asks the helper to remove an incomplete tail.\<close>

definition tail_recovery_allowed :: "repair_settings \<Rightarrow> index_bounds option \<Rightarrow> (int \<times> int) option" where
  "tail_recovery_allowed cfg bounds =
     (if \<not> rs_tail_enabled cfg then None
      else case bounds of
        None \<Rightarrow> None
      | Some b \<Rightarrow>
          (case violations (ib_scan b) of
             [v] \<Rightarrow>
               (let tail_size = ib_source_size b - v_offset v
                in if v_offset v \<le> 0 \<or> tail_size \<le> 0 \<or> tail_size > rs_tail_max_bytes cfg
                      \<or> max_entry_offset (ib_scan b) \<noteq> v_offset v \<or> max_valid_end (ib_scan b) > v_offset v
                   then None else Some (v_offset v, tail_size))
           | _ \<Rightarrow> None))"

text \<open>\<open>reconcile_resolved_preinstall\<close>: unfinished work whose volume upstream reports and no longer complains
  about is closed; the journal after it and the volumes closed.\<close>

definition resolvable :: "volume_status \<Rightarrow> transaction \<Rightarrow> bool" where
  "resolvable st t \<longleftrightarrow> phase t \<in> set PREINSTALL_PHASES \<and> tx_volume_id t \<in> set (map vol_id (volume_details st))
     \<and> tx_volume_id t \<notin> set (unexpected_readonly_volume_ids st)"

definition remove_tree :: "ppath \<Rightarrow> unit act" where
  "remove_tree p = effectA (\<lambda>w. w\<lparr>files := (\<lambda>q. if path_is_relative_to q p then None else files w q)\<rparr>)"

definition remove_staging :: "ppath \<Rightarrow> transaction \<Rightarrow> unit act" where
  "remove_staging staging_root t =
     (let expected = path_div staging_root (tx_id t);
          staging = (if tx_staging_dir t = PPath [] [] then expected else tx_staging_dir t)
      in whenA (staging = expected) (remove_tree staging))"

fun reconcile_resolved_preinstall :: "repair_env \<Rightarrow> ppath \<Rightarrow> volume_status \<Rightarrow> transaction list \<Rightarrow> int list act" where
  "reconcile_resolved_preinstall env sroot st [] = returnA []"
| "reconcile_resolved_preinstall env sroot st (t # ts) =
     (if resolvable st t
      then bindA (transition env (t\<lparr>tx_success := False\<rparr>) ''resolved_without_install'') (\<lambda>_.
           bindA (remove_staging sroot t) (\<lambda>_.
           bindA (reconcile_resolved_preinstall env sroot st ts) (\<lambda>r. returnA (tx_volume_id t # r))))
      else reconcile_resolved_preinstall env sroot st ts)"

definition unresolved_unexpected :: "volume_status \<Rightarrow> transaction list \<Rightarrow> int list" where
  "unresolved_unexpected st ts =
     sorted_list_of_set (set (unexpected_readonly_volume_ids st) - tx_volume_id ` set (filter awaiting ts))"

section \<open>Repairing one volume\<close>

definition catchA :: "'a act \<Rightarrow> (repair_error \<Rightarrow> 'a act) \<Rightarrow> 'a act" where
  "catchA m h w = (case m w of
       (Inl e, ws) \<Rightarrow> (case h e (final w ws) of (r, ws') \<Rightarrow> (r, ws @ ws'))
     | (Inr x, ws) \<Rightarrow> (Inr x, ws))"

record repair_input =
  ri_identity :: source_identity
  ri_base_name :: string
  ri_preflight :: "string + file_fingerprint"
  ri_live_idx :: ppath
  ri_live_sdx :: ppath
  ri_idx_symlink :: bool
  ri_sdx_symlink :: bool
  ri_staging_root :: ppath
  ri_backup_dir :: ppath
  ri_helper :: helper_run
  ri_tail :: "string + (int \<times> int \<times> file_fingerprint)"

text \<open>What one pass ends with: an installed candidate, or a recovered tail, after which the pass is repeated.\<close>

datatype repair_result = RepairInstalled | RepairAgain

text \<open>\<open>_recover_incomplete_tail\<close> once its test has passed, with the helper's answer.\<close>

definition finish_tail_recovery ::
  "repair_env \<Rightarrow> int \<times> int \<Rightarrow> string + (int \<times> int \<times> file_fingerprint) \<Rightarrow> transaction \<Rightarrow> repair_result act" where
  "finish_tail_recovery env expected answer t = (case answer of
       Inl e \<Rightarrow> raiseA (RepairError e)
     | Inr (off, tail_size, fp) \<Rightarrow>
         (if (off, tail_size) \<noteq> expected
          then raiseA (ManualIntervention ''tail recovery helper returned an inconsistent boundary'')
          else if fp_size fp \<noteq> off
          then raiseA (ManualIntervention ''incomplete-tail truncation did not reach the proven boundary'')
          else bindA (transition env (t\<lparr>tx_success := True\<rparr>) ''tail_recovered'') (\<lambda>_. returnA RepairAgain)))"

definition build_candidate ::
  "repair_env \<Rightarrow> repair_settings \<Rightarrow> repair_input \<Rightarrow> source_fingerprint \<Rightarrow> bool \<Rightarrow> transaction \<Rightarrow> repair_result act" where
  "build_candidate env cfg inp fp allow_identical t =
     (case ri_helper inp of
        HelperUnsafe reason bounds \<Rightarrow>
          (case tail_recovery_allowed cfg bounds of
             Some expected \<Rightarrow> finish_tail_recovery env expected (ri_tail inp) t
           | None \<Rightarrow> bindA (manual env t reason) (\<lambda>_. raiseA (ManualIntervention reason)))
      | HelperError reason \<Rightarrow>
          bindA (record_preinstall_failure env t reason) (\<lambda>_. raiseA (RepairError reason))
      | HelperBuilt b \<Rightarrow>
          bindA (catchA (judge_candidate env fp b t) (\<lambda>e.
                   let reason = (case e of RepairError r \<Rightarrow> r | ManualIntervention r \<Rightarrow> r)
                   in bindA (record_preinstall_failure env t reason) (\<lambda>_. raiseA (RepairError reason)))) (\<lambda>t'.
          bindA (accept_candidate env (ri_backup_dir inp) allow_identical t') (\<lambda>_. returnA RepairInstalled)))"

definition staging_of :: "repair_input \<Rightarrow> transaction \<Rightarrow> ppath" where
  "staging_of inp t = path_div (ri_staging_root inp) (tx_id t)"

definition start_build ::
  "repair_env \<Rightarrow> repair_settings \<Rightarrow> repair_input \<Rightarrow> source_fingerprint \<Rightarrow> bool \<Rightarrow> transaction \<Rightarrow> repair_result act" where
  "start_build env cfg inp fp allow_identical t =
     bindA (transition env t ''writers_stopped'') (\<lambda>t1.
     bindA (transition env (t1\<lparr>tx_staging_dir := staging_of inp t\<rparr>) ''source_mounted_readonly'') (\<lambda>t2.
     bindA (transition env t2 ''candidate_building'') (\<lambda>t3.
     build_candidate env cfg inp fp allow_identical t3)))"

definition resume_transaction ::
  "repair_env \<Rightarrow> repair_settings \<Rightarrow> repair_input \<Rightarrow> source_fingerprint \<Rightarrow> bool \<Rightarrow> artifact option \<Rightarrow> artifact option \<Rightarrow>
     transaction \<Rightarrow> repair_result act" where
  "resume_transaction env cfg inp fp allow_identical idx sdx t =
     (if old_idx t \<noteq> idx \<or> old_sdx t \<noteq> sdx
      then bindA (manual env t ''live derived state changed while a repair transaction was pending'') (\<lambda>_.
             raiseA (ManualIntervention ''live index state changed during crash recovery''))
      else if phase t = ''backup_created''
      then bindA (install_candidate env t) (\<lambda>_. returnA RepairInstalled)
      else if phase t = ''candidate_built''
      then bindA (create_backups env (ri_backup_dir inp) t) (\<lambda>t'.
             bindA (install_candidate env t') (\<lambda>_. returnA RepairInstalled))
      else bindA (unlink (path_div (staging_of inp t) (ri_base_name inp @ ''.idx''))) (\<lambda>_.
             start_build env cfg inp fp allow_identical t))"

definition resumable :: "transaction list \<Rightarrow> transaction list" where
  "resumable = filter (\<lambda>t. phase t \<in> set PREINSTALL_PHASES \<and> phase t \<noteq> ''failed_preinstall'')"

text \<open>The live index files, checked and hashed, then the resumed or the new transaction.\<close>

definition repair_live ::
  "repair_env \<Rightarrow> repair_settings \<Rightarrow> repair_input \<Rightarrow> source_fingerprint \<Rightarrow> bool \<Rightarrow> transaction list \<Rightarrow> int \<Rightarrow> repair_result act" where
  "repair_live env cfg inp fp allow_identical same attempts w =
     (let fail = (\<lambda>reason. bindA (record_structural_failure env (ri_identity inp) (ri_base_name inp) fp
             (ri_live_idx inp) (ri_live_sdx inp) (attempts + 1) reason) (\<lambda>_. raiseA (ManualIntervention reason)));
          idx = map_option (hash_file env) (files w (ri_live_idx inp));
          sdx = map_option (hash_file env) (files w (ri_live_sdx inp))
      in if files w (ri_live_idx inp) = None \<or> ri_idx_symlink inp
         then fail (''live index is missing or unsafe: '' @ string_of_path (ri_live_idx inp)) w
         else if ri_sdx_symlink inp
         then fail (''live sorted index is unsafe: '' @ string_of_path (ri_live_sdx inp)) w
         else if resumable same \<noteq> []
         then resume_transaction env cfg inp fp allow_identical idx sdx (latest (resumable same)) w
         else bindA (create_tx env ((blank_tx (ri_identity inp) (ri_base_name inp) fp (attempts + 1))
                  \<lparr>live_idx_path := ri_live_idx inp, live_sdx_path := ri_live_sdx inp, old_idx := idx, old_sdx := sdx\<rparr>))
                (start_build env cfg inp fp allow_identical) w)"

definition repair_pass ::
  "repair_env \<Rightarrow> repair_settings \<Rightarrow> repair_input \<Rightarrow> bool \<Rightarrow> repair_result act" where
  "repair_pass env cfg inp allow_identical =
     bindA (authorize_unfingerprinted_retry (ri_identity inp)) (\<lambda>retry.
     case ri_preflight inp of
       Inl e \<Rightarrow>
         (let reason = ''source preflight failed: '' @ e
          in bindA (record_unfingerprinted_failure env (ri_identity inp) (ri_base_name inp) reason retry) (\<lambda>_.
               raiseA (RepairError reason)))
     | Inr raw \<Rightarrow>
         (let fp = (ri_identity inp, Some raw)
          in bindA load_all (\<lambda>ts.
             let same = same_source fp ts
             in bindA (repair_gate env same) (\<lambda>attempts.
                bindA load_all (\<lambda>ts'.
                bindA (retire_stale env (sid_volume_id (ri_identity inp)) fp ts') (\<lambda>_.
                repair_live env cfg inp fp allow_identical same attempts))))))"

text \<open>\<open>_repair_one\<close>: passes until one installs or raises; each pass after the first follows a recovered tail. The
  inputs of the passes are the answers of the helper to each.\<close>

fun repair_one :: "repair_env list \<Rightarrow> repair_settings \<Rightarrow> repair_input list \<Rightarrow> bool \<Rightarrow> repair_result act" where
  "repair_one (env # envs) cfg (inp # inps) allow_identical =
     bindA (repair_pass env cfg inp allow_identical) (\<lambda>r.
       case r of RepairInstalled \<Rightarrow> returnA RepairInstalled | RepairAgain \<Rightarrow> repair_one envs cfg inps True)"
| "repair_one envs cfg inps allow_identical = returnA RepairAgain"

section \<open>Properties\<close>

lemma gate_retry_run:
  "gate_retry same w =
     (if \<exists>t\<in>set same. phase t = ''verified'' then (Inl (ManualIntervention
        ''this authoritative .dat fingerprint was already repaired and verified; refusing a repair loop''), [])
      else if blocked same = [] then (Inr False, [])
      else if \<not> unconsumed_retry (latest (blocked same))
      then (Inl (ManualIntervention ''this authoritative .dat fingerprint requires explicit operator retry''), [])
      else (Inr True, [w\<lparr>journal := (journal w)(tx_id (latest (blocked same)) \<mapsto>
              (latest (blocked same))\<lparr>operator_retry_consumed := True\<rparr>)\<rparr>]))"
  by (auto simp: gate_retry_def consume_retry_def save_tx_def act_simps filter_empty_conv)






end
