(* ===== verification/Mounts.thy ===== *)
theory Mounts
  imports Py_Path
begin

text \<open>
  The mount table as \<open>mounts.py\<close> reads it, and the credential files of \<open>ssh_credentials.py\<close>. Resolving symbolic
  links is a parameter.
\<close>

section \<open>Text\<close>

text \<open>\<open>s.replace(pat, rep)\<close> and \<open>s.partition(sep)\<close> for texts; the empty pattern does not occur.\<close>

function py_replace :: "string \<Rightarrow> string \<Rightarrow> string \<Rightarrow> string" where
  "py_replace pat rep [] = []"
| "py_replace pat rep (c # s) =
     (if pat \<noteq> [] \<and> take (length pat) (c # s) = pat then rep @ py_replace pat rep (drop (length pat) (c # s))
      else c # py_replace pat rep s)"
  by pat_completeness auto
termination by (relation "measure (\<lambda>(_, _, s). length s)") (auto simp: Suc_le_eq)

declare py_replace.simps [simp del]

fun py_partition_str :: "string \<Rightarrow> string \<Rightarrow> string \<times> bool \<times> string" where
  "py_partition_str sep [] = ([], False, [])"
| "py_partition_str sep (c # s) =
     (if take (length sep) (c # s) = sep then ([], True, drop (length sep) (c # s))
      else let (a, b, d) = py_partition_str sep s in (c # a, b, d))"

text \<open>\<open>sub in s\<close>.\<close>

fun py_contains :: "string \<Rightarrow> string \<Rightarrow> bool" where
  "py_contains sub [] = (sub = [])"
| "py_contains sub (c # s) = (take (length sub) (c # s) = sub \<or> py_contains sub s)"

text \<open>\<open>s.rpartition(c)\<close>: what stands before the last \<open>c\<close>, whether there is one, what stands after it.\<close>

definition py_rpartition :: "char \<Rightarrow> string \<Rightarrow> string \<times> bool \<times> string" where
  "py_rpartition c s = (case py_partition c (rev s) of (a, b, d) \<Rightarrow> (if b then (rev d, True, rev a) else ([], False, s)))"

section \<open>Mount table\<close>

record mount_info =
  mi_mountpoint :: string
  mi_filesystem :: string
  mi_source :: string
  mi_mount_options :: "string list"
  mi_super_options :: "string list"

definition escape :: "string \<Rightarrow> string" where
  "escape digits = CHR 0x5C # digits"

definition decode_mountinfo_path :: "string \<Rightarrow> string" where
  "decode_mountinfo_path s =
     py_replace (escape ''134'') [CHR 0x5C] (py_replace (escape ''012'') [CHR 0x0A]
       (py_replace (escape ''011'') [CHR 0x09] (py_replace (escape ''040'') '' '' s)))"

text \<open>A frozen set of options, as the list of its elements.\<close>

definition split_options :: "string \<Rightarrow> string list" where
  "split_options s = dedup_first (filter (\<lambda>w. w \<noteq> []) (map py_strip (py_split_char (CHR '','') s)))"

definition mountinfo_line :: "string \<Rightarrow> mount_info option" where
  "mountinfo_line line = (case py_partition_str '' - '' line of (before, sep, after) \<Rightarrow>
     let left = py_split before; right = py_split after
     in if \<not> sep \<or> length left < 6 \<or> length right < 2 then None
        else Some \<lparr>mi_mountpoint = decode_mountinfo_path (left ! 4), mi_filesystem = right ! 0,
          mi_source = decode_mountinfo_path (right ! 1), mi_mount_options = split_options (left ! 5),
          mi_super_options = split_options (if length right > 2 then right ! 2 else [])\<rparr>)"

definition read_mountinfo :: "string list \<Rightarrow> mount_info list" where
  "read_mountinfo rows = List.map_filter mountinfo_line rows"

definition find_entry :: "(string \<Rightarrow> string) \<Rightarrow> ppath \<Rightarrow> mount_info list \<Rightarrow> mount_info option" where
  "find_entry realpath p entries =
     find (\<lambda>e. realpath (mi_mountpoint e) = realpath (string_of_path p)) entries"

section \<open>Password credentials\<close>

datatype ssh_error = SshCredentialsError string

record password_credentials =
  pc_username :: string
  pc_password :: string

text \<open>The values of a credentials file: a later line wins; keys without case, values as written.\<close>

fun credential_values :: "string list \<Rightarrow> (string \<rightharpoonup> string) \<Rightarrow> (string \<rightharpoonup> string)" where
  "credential_values [] m = m"
| "credential_values (raw # rows) m =
     (let line = py_strip raw
      in if line = [] \<or> py_startswith line ''#'' then credential_values rows m
         else case py_partition (CHR ''='') line of (key, sep, v) \<Rightarrow>
           credential_values rows (if sep then m(py_lower (py_strip key) \<mapsto> v) else m))"

definition read_password_credentials :: "string \<Rightarrow> string + string \<Rightarrow> ssh_error + password_credentials" where
  "read_password_credentials path contents = (case contents of
       Inl _ \<Rightarrow> Inl (SshCredentialsError (''unable to read SSH password credentials file: '' @ path))
     | Inr body \<Rightarrow>
         (let values = credential_values (py_splitlines body) Map.empty;
              username = py_strip (case values ''username'' of Some v \<Rightarrow> v | None \<Rightarrow> []);
              password = (case values ''password'' of Some v \<Rightarrow> v | None \<Rightarrow> [])
          in if username = [] then Inl (SshCredentialsError (''SSH password credentials file is missing username: '' @ path))
             else if password = [] then Inl (SshCredentialsError (''SSH password credentials file is missing password: '' @ path))
             else if list_ex (\<lambda>c. c \<in> set [CHR 0x0A, CHR 0x0D, CHR 0x00, CHR ''@'', CHR '':'']) username
             then Inl (SshCredentialsError ''SSH password username contains invalid characters'')
             else if list_ex (\<lambda>c. c \<in> set [CHR 0x0A, CHR 0x0D, CHR 0x00]) password
             then Inl (SshCredentialsError ''SSH password contains invalid control characters'')
             else Inr \<lparr>pc_username = username, pc_password = password\<rparr>))"

definition ssh_source_username :: "string \<Rightarrow> ssh_error + string" where
  "ssh_source_username src = (case py_partition (CHR '':'') src of (authority, sep, _) \<Rightarrow>
     if \<not> sep then Inl (SshCredentialsError ''SSHFS source must look like user@host:/remote/path'')
     else case py_rpartition (CHR ''@'') authority of (username, at_sign, host) \<Rightarrow>
       if \<not> at_sign \<or> username = [] \<or> host = [] then Inl (SshCredentialsError ''SSHFS source must include user@host'')
       else Inr username)"

section \<open>Decoding a mount point\<close>

text \<open>How the kernel writes a path into the table: white space and the backslash as octal escapes.\<close>

definition encode_char :: "char set \<Rightarrow> char \<Rightarrow> string" where
  "encode_char S c = (if c \<notin> S then [c]
     else if c = CHR '' '' then escape ''040'' else if c = CHR 0x09 then escape ''011''
     else if c = CHR 0x0A then escape ''012'' else if c = CHR 0x5C then escape ''134'' else [c])"

definition mangle :: "char set \<Rightarrow> string \<Rightarrow> string" where
  "mangle S s = concat (map (encode_char S) s)"

abbreviation mangled_chars :: "char set" where
  "mangled_chars \<equiv> {CHR '' '', CHR 0x09, CHR 0x0A, CHR 0x5C}"

text \<open>Replacing one escape decodes exactly the occurrences of its character, while the backslash is still escaped.\<close>

lemma py_replace_here: "pat \<noteq> [] \<Longrightarrow> py_replace pat rep (pat @ s) = rep @ py_replace pat rep s"
  by (cases pat) (simp_all add: py_replace.simps)

lemma py_replace_skip: "(\<forall>c\<in>set w. c \<noteq> hd pat) \<Longrightarrow> pat \<noteq> [] \<Longrightarrow> py_replace pat rep (w @ s) = w @ py_replace pat rep s"
  by (induction w) (auto simp: neq_Nil_conv py_replace.simps)

lemma py_replace_escape_other:
  assumes "length d = 3" "length d' = 3" "d \<noteq> d'" "CHR 0x5C \<notin> set d"
  shows "py_replace (escape d') rep (escape d @ s) = escape d @ py_replace (escape d') rep s"
proof -
  have "take (length (escape d')) (escape d @ s) \<noteq> escape d'" using assms(1-3) by (simp add: escape_def)
  then have "py_replace (escape d') rep (escape d @ s) = CHR 0x5C # py_replace (escape d') rep (d @ s)"
    by (simp add: escape_def py_replace.simps)
  also have "py_replace (escape d') rep (d @ s) = d @ py_replace (escape d') rep s"
    using assms(4) by (intro py_replace_skip) (auto simp: escape_def)
  finally show ?thesis by (simp add: escape_def)
qed

definition escapes :: "(string \<times> char) set" where
  "escapes = {(''040'', CHR '' ''), (''011'', CHR 0x09), (''012'', CHR 0x0A), (''134'', CHR 0x5C)}"

lemma escapes_chars: "c \<in> mangled_chars \<Longrightarrow> \<exists>d. (d, c) \<in> escapes"
  unfolding escapes_def by (elim insertE emptyE) (rule exI, simp)+

lemma escapes_unique: "(d, x) \<in> escapes \<Longrightarrow> (d, y) \<in> escapes \<Longrightarrow> x = y"
  by (auto simp: escapes_def)

lemma escapes_digits: "(d, x) \<in> escapes \<Longrightarrow> length d = 3 \<and> CHR 0x5C \<notin> set d"
  by (auto simp: escapes_def)

lemma encode_escape: "(d, c) \<in> escapes \<Longrightarrow> encode_char S c = (if c \<in> S then escape d else [c])"
  by (auto simp: escapes_def encode_char_def)

lemma replace_mangled:
  assumes "(d, x) \<in> escapes"
    and "x \<in> S" "CHR 0x5C \<in> S" "S \<subseteq> mangled_chars"
  shows "py_replace (escape d) [x] (mangle S s) = mangle (S - {x}) s"
proof (induction s)
  case (Cons c s)
  have other: "py_replace (escape d) [x] (encode_char S c @ t) = encode_char (S - {x}) c @ py_replace (escape d) [x] t"
    if "c \<noteq> x" for t
  proof (cases "c \<in> S")
    case True
    then have "c \<in> mangled_chars" using assms(4) by (rule rev_subsetD)
    from escapes_chars[OF this] obtain d' where d': "(d', c) \<in> escapes" ..
    have "d' \<noteq> d" using escapes_unique[OF assms(1)] d' that by blast
    then have "py_replace (escape d) [x] (escape d' @ t) = escape d' @ py_replace (escape d) [x] t"
      using escapes_digits[OF d'] escapes_digits[OF assms(1)] by (intro py_replace_escape_other) simp_all
    then show ?thesis using True that by (simp only: encode_escape[OF d'] if_True Diff_iff) simp
  next
    case False
    then have "c \<noteq> CHR 0x5C" using assms(3) by auto
    then have "py_replace (escape d) [x] ([c] @ t) = [c] @ py_replace (escape d) [x] t"
      by (intro py_replace_skip) (simp_all add: escape_def)
    then show ?thesis using False by (simp only: encode_char_def if_True) simp
  qed
  have here: "py_replace (escape d) [x] (encode_char S c @ t) = encode_char (S - {x}) c @ py_replace (escape d) [x] t" if "c = x" for t
    using assms(1,2) that py_replace_here[of "escape d" "[x]" t] by (simp add: encode_escape escape_def)
  show ?case using Cons here other[of "mangle S s"] by (cases "c = x") (simp_all add: mangle_def)
qed (simp add: mangle_def py_replace.simps)

text \<open>
  Decoding a mount point inverts the kernel's encoding, for every path, also one that contains a backslash or
  text that looks like an escape: the backslash is decoded last.
\<close>

theorem decode_mountinfo_roundtrip: "decode_mountinfo_path (mangle mangled_chars p) = p"
proof -
  have s: "mangle {} p = p" by (induction p) (simp_all add: mangle_def encode_char_def)
  have set1: "mangled_chars - {CHR '' ''} = {CHR 0x09, CHR 0x0A, CHR 0x5C}"
    "{CHR 0x09, CHR 0x0A, CHR 0x5C} - {CHR 0x09} = {CHR 0x0A, CHR 0x5C}"
    "{CHR 0x0A, CHR 0x5C} - {CHR 0x0A} = {CHR 0x5C}" by auto
  show ?thesis unfolding decode_mountinfo_path_def
    by (simp add: replace_mangled[of "''040''" "CHR '' ''"] replace_mangled[of "''011''" "CHR 0x09"]
        replace_mangled[of "''012''" "CHR 0x0A"] replace_mangled[of "''134''" "CHR 0x5C"] escapes_def set1 s)
qed

end
