(* ===== verification/Storage.thy ===== *)
theory Storage
  imports Cifs_Transport Sentinel Mounts Processes "HOL-Library.Word"
begin

text \<open>
  Mounting, enrolling, probing and detaching a storage target (\<open>storage.py\<close>) and the durability probes
  (\<open>durability.py\<close>). The mount table, the answers of commands, processes and clocks are functions of the trace of
  interactions; the sentinel, the pid file of an SSHFS process and the probe file are state.
\<close>

section \<open>State\<close>

text \<open>
  Every error the code turns into a \<open>StorageError\<close> with the text of the error of another module keeps that error
  here; the last three are not \<open>StorageError\<close>: a command that does not end in time, a sentinel that is not UTF-8,
  and an operating system error that escapes.
\<close>

datatype storage_error =
    StorageError string
  | CifsFailure cifs_error
  | SentinelFailure sentinel_error
  | CredentialsFailure ssh_error
  | CommandTimeout "string list"
  | SentinelUnicodeError
  | StorageOSError string

text \<open>The sentinel file: missing, unreadable or not JSON, not UTF-8, or a document.\<close>

datatype sentinel_store = SentinelMissing | SentinelBroken string | SentinelUndecodable | SentinelDoc json

type_synonym bytes = "8 word list"

record storage_state = os_state +
  root_exists :: bool
  sentinel_store :: sentinel_store
  pid_file :: "string option"
  probe_file :: bytes
  probe_temps :: nat

record storage_env = os_env +
  mount_rows :: "os_event list \<Rightarrow> string list"
  realpath :: "string \<Rightarrow> string"
  cmdline :: "os_event list \<Rightarrow> int \<Rightarrow> string list option"
  pid_present :: "os_event list \<Rightarrow> int \<Rightarrow> bool"
  debug_of :: "os_event list \<Rightarrow> debug_data option"
  stats_of :: "os_event list \<Rightarrow> (int \<times> int) option"
  credentials_text :: "string + string"
  ssh_stderr :: "os_event list \<Rightarrow> string"
  statvfs :: "os_event list \<Rightarrow> int \<times> int \<times> int"
  urandom :: "os_event list \<Rightarrow> bytes"
  sha256_digest :: "bytes \<Rightarrow> bytes"
  appended :: "os_event list \<Rightarrow> nat"
  read_back :: "os_event list \<Rightarrow> bytes \<Rightarrow> bytes"

type_synonym 'a storage = "(storage_state, storage_error, 'a) eff"

section \<open>Commands and mounts\<close>

text \<open>\<open>_run\<close>: the timeout is an exception of its own.\<close>

definition run_message :: "int \<Rightarrow> string \<Rightarrow> string \<Rightarrow> string" where
  "run_message code err out = (if py_strip err \<noteq> [] then py_strip err else if py_strip out \<noteq> [] then py_strip out
     else ''exit code '' @ show_int code)"

definition storage_run :: "storage_env \<Rightarrow> string list \<Rightarrow> string storage" where
  "storage_run env cmd = bindS (askS (ERun cmd) (\<lambda>tr. run_result env tr cmd)) (\<lambda>r. case r of
     RunTimeout \<Rightarrow> raiseS (CommandTimeout cmd)
   | Completed code err out \<Rightarrow>
       (if code \<noteq> 0 then raiseS (StorageError (''command failed: '' @ py_join '' '' cmd @ '': '' @ run_message code err out))
        else returnS out))"

definition mount_at :: "storage_env \<Rightarrow> ppath \<Rightarrow> os_event list \<Rightarrow> mount_info option" where
  "mount_at env p tr = find_entry (realpath env) p (read_mountinfo (mount_rows env tr))"

definition find_mount :: "storage_env \<Rightarrow> ppath \<Rightarrow> mount_info option storage" where
  "find_mount env p = askS (EAsk ''mountinfo'') (mount_at env p)"

text \<open>The mount point under a mount belongs to root and admits nobody.\<close>

definition barrier_event :: "target_config \<Rightarrow> os_event" where
  "barrier_event t = ENote (''chown 0:0 chmod 0 '' @ string_of_path (mountpoint t))"

definition prepare_barrier :: "target_config \<Rightarrow> unit storage" where
  "prepare_barrier t = (if tgt_type t = ''path'' then returnS () else askS (barrier_event t) (\<lambda>_. ()))"

fun blkid_values :: "string list \<Rightarrow> (string \<rightharpoonup> string) \<Rightarrow> (string \<rightharpoonup> string)" where
  "blkid_values [] m = m"
| "blkid_values (line # rows) m = (case py_partition (CHR ''='') line of (key, sep, v) \<Rightarrow>
     blkid_values rows (if sep then m(key \<mapsto> v) else m))"

definition or_none :: "string option \<Rightarrow> string" where
  "or_none v = (case v of None \<Rightarrow> ''<none>'' | Some s \<Rightarrow> s)"

definition verify_block_identity :: "storage_env \<Rightarrow> target_config \<Rightarrow> unit storage" where
  "verify_block_identity env t =
     bindS (storage_run env [''blkid'', ''-o'', ''export'', device t]) (\<lambda>out.
     let values = blkid_values (py_splitlines out) Map.empty
     in if values ''UUID'' \<noteq> Some (expected_uuid t)
        then raiseS (StorageError (''device UUID mismatch for '' @ tgt_name t @ '': expected '' @ expected_uuid t
               @ '', got '' @ or_none (values ''UUID'')))
        else if values ''TYPE'' \<noteq> Some (expected_filesystem t)
        then raiseS (StorageError (''filesystem mismatch for '' @ tgt_name t @ '': expected '' @ expected_filesystem t
               @ '', got '' @ or_none (values ''TYPE'')))
        else returnS ())"

section \<open>CIFS\<close>

definition CAPABILITY_FAILURE_MARKERS :: "string list" where
  "CAPABILITY_FAILURE_MARKERS = [''invalid argument'', ''operation not supported'', ''not supported'',
     ''unknown mount option'', ''unrecognized mount option'']"

definition is_capability_failure :: "string \<Rightarrow> bool" where
  "is_capability_failure message = list_ex (\<lambda>m. py_contains m (py_lower message)) CAPABILITY_FAILURE_MARKERS"

definition cifs_command :: "target_config \<Rightarrow> string list \<Rightarrow> string list" where
  "cifs_command t opts = [''mount'', ''-t'', ''cifs'', source t, string_of_path (mountpoint t), ''-o'',
     py_join '','' ((''credentials='' @ credentials_file t) # opts)]"

text \<open>The profiles in turn: the next one only after a failure that says the server lacks a capability.\<close>

fun try_profiles :: "storage_env \<Rightarrow> target_config \<Rightarrow> string list list \<Rightarrow> unit storage" where
  "try_profiles env t [] = raiseS (StorageError [])"
| "try_profiles env t (p # ps) =
     catchS (bindS (storage_run env (cifs_command t p)) (\<lambda>_. returnS ()))
       (\<lambda>e. case e of
          StorageError message \<Rightarrow>
            (if ps = [] \<or> \<not> is_capability_failure message then raiseS e else try_profiles env t ps)
        | _ \<Rightarrow> raiseS e)"

definition mount_cifs :: "storage_env \<Rightarrow> target_config \<Rightarrow> unit storage" where
  "mount_cifs env t = (case cifs_mount_profiles t of
     Inl e \<Rightarrow> raiseS (CifsFailure e)
   | Inr profiles \<Rightarrow> try_profiles env t profiles)"

section \<open>SSHFS processes\<close>

definition unlink_pid :: "unit storage" where
  "unlink_pid = modS (\<lambda>s. s\<lparr>pid_file := None\<rparr>)"

definition present :: "storage_env \<Rightarrow> int \<Rightarrow> bool storage" where
  "present env pid = askS (EAsk ''proc'') (\<lambda>tr. pid_present env tr pid)"

text \<open>Waiting for three seconds in steps of a twentieth: at most sixty-one rounds.\<close>

primrec await_gone :: "nat \<Rightarrow> storage_env \<Rightarrow> int \<Rightarrow> rat \<Rightarrow> unit storage" where
  "await_gone 0 env pid deadline = returnS ()"
| "await_gone (Suc n) env pid deadline =
     bindS (askS EClock (clock env)) (\<lambda>t.
     if t < deadline then
       bindS (present env pid) (\<lambda>here.
       if here then bindS (askS (ESleep (1 / 20)) (\<lambda>_. ())) (\<lambda>_. await_gone n env pid deadline) else returnS ())
     else returnS ())"

definition GONE_ROUNDS :: nat where "GONE_ROUNDS = 61"

definition await_sshfs :: "storage_env \<Rightarrow> int \<Rightarrow> unit storage" where
  "await_sshfs env pid = bindS (askS EClock (clock env)) (\<lambda>t. await_gone GONE_ROUNDS env pid (t + 3))"

text \<open>Whether a command line is the SSHFS process of this mount point.\<close>

definition is_sshfs_of :: "target_config \<Rightarrow> string list \<Rightarrow> bool" where
  "is_sshfs_of t args = (case args of
     [] \<Rightarrow> False
   | exe # rest \<Rightarrow> exe \<noteq> [] \<and> path_name (path_of_string exe) = ''sshfs''
       \<and> string_of_path (mountpoint t) \<in> set (filter (\<lambda>a. a \<noteq> []) rest))"

definition sshfs_gone :: "storage_env \<Rightarrow> int \<Rightarrow> unit storage" where
  "sshfs_gone env pid = bindS (present env pid) (\<lambda>here.
     if here then raiseS (StorageError (''SSHFS process '' @ show_int pid
            @ '' remained after SIGKILL; preserving its PID file and refusing replacement''))
     else unlink_pid)"

text \<open>The two signals: first to end, and if the process is then still there, to be killed.\<close>

definition kill_sshfs :: "storage_env \<Rightarrow> int \<Rightarrow> unit storage" where
  "kill_sshfs env pid = bindS (askS (EKill pid SIGKILL) (\<lambda>tr. kill_found env tr pid)) (\<lambda>found.
     if \<not> found then unlink_pid else bindS (await_sshfs env pid) (\<lambda>_. sshfs_gone env pid))"

definition terminate_sshfs :: "storage_env \<Rightarrow> int \<Rightarrow> unit storage" where
  "terminate_sshfs env pid = bindS (askS (EKill pid SIGTERM) (\<lambda>tr. kill_found env tr pid)) (\<lambda>found.
     if \<not> found then unlink_pid
     else bindS (await_sshfs env pid) (\<lambda>_.
       bindS (present env pid) (\<lambda>here. if here then kill_sshfs env pid else sshfs_gone env pid)))"

definition stop_sshfs_process :: "storage_env \<Rightarrow> target_config \<Rightarrow> unit storage" where
  "stop_sshfs_process env t =
     (if ssh_runtime_pid_file t = [] then returnS ()
      else bindS (getS pid_file) (\<lambda>text.
        case (case text of None \<Rightarrow> None | Some s \<Rightarrow> int_of_string s) of
          None \<Rightarrow> unlink_pid
        | Some pid \<Rightarrow>
            bindS (askS (EAsk ''cmdline'') (\<lambda>tr. cmdline env tr pid)) (\<lambda>args.
            if \<not> (case args of None \<Rightarrow> False | Some a \<Rightarrow> is_sshfs_of t a) then unlink_pid
            else terminate_sshfs env pid)))"

definition transport_label :: "target_config \<Rightarrow> string" where
  "transport_label t = (if transport_name t \<noteq> [] then transport_name t else tgt_name t)"

definition sshfs_error_suffix :: "string \<Rightarrow> string \<Rightarrow> string" where
  "sshfs_error_suffix detail password =
     (let d = py_strip detail;
          redacted = (if password \<noteq> [] then py_replace password ''<redacted>'' d else d);
          shown = last_n 2000 redacted
      in if shown \<noteq> [] then '': '' @ shown else [])"

text \<open>The private copy of the identity, made when the transport names another place for it.\<close>

definition install_identity :: "target_config \<Rightarrow> unit storage" where
  "install_identity t =
     (let identity = path_of_string (ssh_identity_file t);
          copy = path_of_string (if ssh_runtime_identity_file t \<noteq> [] then ssh_runtime_identity_file t else ssh_identity_file t)
      in whenS (copy \<noteq> identity) (askS (ENote (''install 0600 '' @ string_of_path copy)) (\<lambda>_. ())))"

text \<open>The credentials of the transport, checked before anything is started.\<close>

definition sshfs_credentials :: "storage_env \<Rightarrow> target_config \<Rightarrow> string storage" where
  "sshfs_credentials env t =
     (if ssh_auth_mode t = ''key'' then
        (if ssh_identity_file t = []
         then raiseS (StorageError (''SSHFS transport '' @ transport_label t @ '' is missing identity configuration''))
         else bindS (askS (EAsk ''identity'') (\<lambda>tr. asked env tr ''identity'')) (\<lambda>there.
           if \<not> there then raiseS (StorageError (''SSHFS identity file does not exist: ''
                  @ string_of_path (path_of_string (ssh_identity_file t))))
           else bindS (install_identity t) (\<lambda>_. returnS [])))
      else if ssh_auth_mode t = ''password'' then
        (if ssh_credentials_file t = []
         then raiseS (StorageError (''SSHFS transport '' @ transport_label t @ '' is missing password credentials configuration''))
         else
           case read_password_credentials (ssh_credentials_file t) (credentials_text env) of
             Inl e \<Rightarrow> raiseS (CredentialsFailure e)
           | Inr c \<Rightarrow> (case ssh_source_username (source t) of
                Inl e \<Rightarrow> raiseS (CredentialsFailure e)
              | Inr u \<Rightarrow>
                  (if pc_username c \<noteq> u
                   then raiseS (StorageError (''SSHFS source username '' @ py_repr_string u
                          @ '' does not match credentials username '' @ py_repr_string (pc_username c)))
                   else returnS (pc_password c))))
      else raiseS (StorageError (''unsupported SSHFS authentication mode: '' @ ssh_auth_mode t)))"

definition mount_sshfs_command :: "target_config \<Rightarrow> string list" where
  "mount_sshfs_command t = [''sshfs'', ''-f'', source t, string_of_path (mountpoint t)]
     @ (if mount_options t \<noteq> [] then [''-o'', py_join '','' (mount_options t)] else [])"

text \<open>Twenty-five seconds in steps of a tenth: at most two hundred and fifty-one rounds.\<close>

primrec await_sshfs_mount :: "nat \<Rightarrow> storage_env \<Rightarrow> target_config \<Rightarrow> string \<Rightarrow> int \<Rightarrow> rat \<Rightarrow> unit storage" where
  "await_sshfs_mount 0 env t password pid deadline =
     bindS (getS (\<lambda>s. ssh_stderr env (trace s))) (\<lambda>err.
     raiseS (StorageError (''timed out waiting for SSHFS transport '' @ transport_label t @ sshfs_error_suffix err password)))"
| "await_sshfs_mount (Suc n) env t password pid deadline =
     bindS (askS EClock (clock env)) (\<lambda>now.
     if now < deadline then
       bindS (askS (EPoll pid) (\<lambda>tr. poll_code env tr pid)) (\<lambda>c. case c of
         Some code \<Rightarrow>
           bindS (getS (\<lambda>s. ssh_stderr env (trace s))) (\<lambda>err.
           raiseS (StorageError (''SSHFS transport '' @ transport_label t @ '' exited with code '' @ show_int code
             @ sshfs_error_suffix err password)))
       | None \<Rightarrow>
           bindS (find_mount env (mountpoint t)) (\<lambda>m.
           if m \<noteq> None
           then whenS (ssh_runtime_pid_file t \<noteq> []) (modS (\<lambda>s. s\<lparr>pid_file := Some (show_int pid @ [CHR 0x0A])\<rparr>))
           else bindS (askS (ESleep (1 / 10)) (\<lambda>_. ())) (\<lambda>_. await_sshfs_mount n env t password pid deadline)))
     else bindS (getS (\<lambda>s. ssh_stderr env (trace s))) (\<lambda>err.
       raiseS (StorageError (''timed out waiting for SSHFS transport '' @ transport_label t @ sshfs_error_suffix err password))))"

definition SSHFS_ROUNDS :: nat where "SSHFS_ROUNDS = 251"

definition abandon_sshfs :: "storage_env \<Rightarrow> int \<Rightarrow> storage_error \<Rightarrow> unit storage" where
  "abandon_sshfs env pid e =
     bindS (askS (EPoll pid) (\<lambda>tr. poll_code env tr pid)) (\<lambda>c.
     bindS (whenS (c = None)
       (bindS (askS (EKill pid SIGTERM) (\<lambda>_. ())) (\<lambda>_.
        bindS (askS (EWait pid) (\<lambda>tr. wait_ends env tr pid)) (\<lambda>ended.
        whenS (\<not> ended) (askS (EKill pid SIGKILL) (\<lambda>_. ())))))) (\<lambda>_. raiseS e))"

definition mount_sshfs :: "storage_env \<Rightarrow> target_config \<Rightarrow> unit storage" where
  "mount_sshfs env t =
     bindS (stop_sshfs_process env t) (\<lambda>_.
     if ssh_known_hosts_file t = []
     then raiseS (StorageError (''SSHFS transport '' @ transport_label t @ '' is missing known-hosts configuration''))
     else bindS (askS (EAsk ''known_hosts'') (\<lambda>tr. asked env tr ''known_hosts'')) (\<lambda>there.
       if \<not> there then raiseS (StorageError (''SSHFS known-hosts file does not exist: ''
              @ string_of_path (path_of_string (ssh_known_hosts_file t))))
       else bindS (sshfs_credentials env t) (\<lambda>password.
         bindS (popen (os_env.truncate env) StorageOSError (mount_sshfs_command t)) (\<lambda>pid.
         bindS (whenS (ssh_auth_mode t = ''password'') (askS (ENote ''write password to stdin'') (\<lambda>_. ()))) (\<lambda>_.
         bindS (askS EClock (clock env)) (\<lambda>now.
         catchS (await_sshfs_mount SSHFS_ROUNDS env t password pid (now + 25)) (abandon_sshfs env pid)))))))"

section \<open>Mounting and detaching\<close>

definition mount_target :: "storage_env \<Rightarrow> target_config \<Rightarrow> unit storage" where
  "mount_target env t =
     (if tgt_type t = ''path'' then
        bindS (askS (EAsk ''mountpoint'') (\<lambda>tr. asked env tr ''mountpoint'')) (\<lambda>there.
        if \<not> there then raiseS (StorageError (''path target does not exist: '' @ string_of_path (mountpoint t)))
        else returnS ())
      else bindS (find_mount env (mountpoint t)) (\<lambda>m.
        if m \<noteq> None then returnS ()
        else bindS (prepare_barrier t) (\<lambda>_.
          if tgt_type t = ''cifs'' then mount_cifs env t
          else if tgt_type t = ''sshfs'' then mount_sshfs env t
          else if tgt_type t = ''block'' then
            bindS (verify_block_identity env t) (\<lambda>_.
            bindS (storage_run env ([''mount'', ''-t'', expected_filesystem t]
                @ (if mount_options t \<noteq> [] then [''-o'', py_join '','' (mount_options t)] else [])
                @ [device t, string_of_path (mountpoint t)])) (\<lambda>_. returnS ()))
          else raiseS (StorageError (''unsupported storage type: '' @ tgt_type t)))))"

text \<open>Three seconds in steps of a twentieth, and one last look.\<close>

primrec wait_unmounted_rounds :: "nat \<Rightarrow> storage_env \<Rightarrow> ppath \<Rightarrow> rat \<Rightarrow> bool storage" where
  "wait_unmounted_rounds 0 env p deadline = bindS (find_mount env p) (\<lambda>m. returnS (m = None))"
| "wait_unmounted_rounds (Suc n) env p deadline =
     bindS (askS EClock (clock env)) (\<lambda>now.
     if now < deadline then
       bindS (find_mount env p) (\<lambda>m.
       if m = None then returnS True
       else bindS (askS (ESleep (1 / 20)) (\<lambda>_. ())) (\<lambda>_. wait_unmounted_rounds n env p deadline))
     else bindS (find_mount env p) (\<lambda>m. returnS (m = None)))"

definition wait_unmounted :: "storage_env \<Rightarrow> ppath \<Rightarrow> bool storage" where
  "wait_unmounted env p = bindS (askS EClock (clock env)) (\<lambda>now. wait_unmounted_rounds GONE_ROUNDS env p (now + 3))"

definition unmount_command :: "storage_env \<Rightarrow> string list \<Rightarrow> (bool \<times> string) storage" where
  "unmount_command env cmd = bindS (askS (ERun cmd) (\<lambda>tr. run_result env tr cmd)) (\<lambda>r. case r of
     RunTimeout \<Rightarrow> returnS (False, ''timed out running '' @ py_join '' '' cmd)
   | Completed code err out \<Rightarrow> returnS (code = 0, (if py_strip err \<noteq> [] then py_strip err else py_strip out)))"

definition finish_unmount :: "storage_env \<Rightarrow> target_config \<Rightarrow> unit storage" where
  "finish_unmount env t =
     bindS (whenS (tgt_type t = ''sshfs'') (stop_sshfs_process env t)) (\<lambda>_. prepare_barrier t)"

text \<open>A command and, if it succeeds, the wait for the mount to be gone; the detail of a failure.\<close>

definition try_unmount :: "storage_env \<Rightarrow> target_config \<Rightarrow> string list \<Rightarrow> (bool \<times> string) storage" where
  "try_unmount env t cmd = bindS (unmount_command env cmd) (\<lambda>(ok, detail).
     if ok then bindS (wait_unmounted env (mountpoint t)) (\<lambda>gone. returnS (gone, detail))
     else returnS (False, detail))"

fun try_lazy :: "storage_env \<Rightarrow> target_config \<Rightarrow> string list list \<Rightarrow> string list \<Rightarrow> (bool \<times> string list) storage" where
  "try_lazy env t [] errors = returnS (False, errors)"
| "try_lazy env t (cmd # cmds) errors = bindS (try_unmount env t cmd) (\<lambda>(gone, detail).
     if gone then returnS (True, errors)
     else try_lazy env t cmds (if detail \<noteq> [] then errors @ [detail] else errors))"

definition clean_command :: "target_config \<Rightarrow> string list" where
  "clean_command t = (if tgt_type t = ''sshfs'' then [''fusermount3'', ''-u'', string_of_path (mountpoint t)]
     else [''umount'', string_of_path (mountpoint t)])"

definition lazy_commands :: "target_config \<Rightarrow> string list list" where
  "lazy_commands t = (if tgt_type t = ''sshfs'' then [[''fusermount3'', ''-u'', ''-z'', string_of_path (mountpoint t)]] else [])
     @ [[''umount'', ''-l'', string_of_path (mountpoint t)]]"

definition unmount_target :: "storage_env \<Rightarrow> target_config \<Rightarrow> unit storage" where
  "unmount_target env t =
     (if tgt_type t = ''path'' then returnS ()
      else bindS (find_mount env (mountpoint t)) (\<lambda>m.
        if m = None then finish_unmount env t
        else bindS (try_unmount env t (clean_command t)) (\<lambda>(gone, detail).
          if gone then finish_unmount env t
          else bindS (try_lazy env t (lazy_commands t) (if detail \<noteq> [] then [detail] else [])) (\<lambda>(detached, errors).
            if \<not> detached
            then raiseS (StorageError (if py_join ''; '' errors \<noteq> [] then py_join ''; '' errors
                   else ''failed to unmount '' @ string_of_path (mountpoint t)))
            else finish_unmount env t))))"

section \<open>Identity\<close>

definition rstrip_slashes :: "string \<Rightarrow> string" where
  "rstrip_slashes s = rev (dropWhile (\<lambda>c. c = CHR ''/'') (rev s))"

text \<open>What the mount table must say about the mount of a target.\<close>

definition mount_matches :: "target_config \<Rightarrow> mount_info \<Rightarrow> storage_error + unit" where
  "mount_matches t m =
     (if tgt_type t = ''cifs'' then
        (if mi_filesystem m \<notin> {''cifs'', ''smb3''}
         then Inl (StorageError (tgt_name t @ '' mounted with unexpected filesystem '' @ mi_filesystem m))
         else if rstrip_slashes (mi_source m) \<noteq> rstrip_slashes (source t)
         then Inl (StorageError (tgt_name t @ '' source mismatch: expected '' @ rstrip_slashes (source t) @ '', got '' @ mi_source m))
         else Inr ())
      else if tgt_type t = ''sshfs'' then
        (if mi_filesystem m \<notin> {''fuse.sshfs'', ''fuse''}
         then Inl (StorageError (tgt_name t @ '' mounted with unexpected filesystem '' @ mi_filesystem m))
         else if rstrip_slashes (mi_source m) \<noteq> rstrip_slashes (source t)
         then Inl (StorageError (tgt_name t @ '' source mismatch: expected '' @ source t @ '', got '' @ mi_source m))
         else Inr ())
      else if tgt_type t = ''block'' \<and> mi_filesystem m \<noteq> expected_filesystem t
      then Inl (StorageError (tgt_name t @ '' filesystem mismatch: expected '' @ expected_filesystem t @ '', got '' @ mi_filesystem m))
      else Inr ())"

definition verify_mount_identity :: "storage_env \<Rightarrow> target_config \<Rightarrow> unit storage" where
  "verify_mount_identity env t =
     (if tgt_type t = ''path'' then returnS ()
      else bindS (find_mount env (mountpoint t)) (\<lambda>m. case m of
        None \<Rightarrow> raiseS (StorageError (tgt_name t @ '' is not mounted''))
      | Some mi \<Rightarrow> liftS (mount_matches t mi)))"

definition load_and_validate_sentinel :: "target_config \<Rightarrow> sentinel_identity storage" where
  "load_and_validate_sentinel t = bindS (getS sentinel_store) (\<lambda>st. case st of
     SentinelDoc payload \<Rightarrow> (case validate_sentinel_payload t payload of
         Inl e \<Rightarrow> raiseS (SentinelFailure e)
       | Inr i \<Rightarrow> returnS i)
   | SentinelUndecodable \<Rightarrow> raiseS SentinelUnicodeError
   | SentinelBroken e \<Rightarrow> raiseS (StorageError (''invalid sentinel on '' @ tgt_name t @ '': '' @ e))
   | SentinelMissing \<Rightarrow> raiseS (StorageError (''invalid sentinel on '' @ tgt_name t)))"

definition certify :: "storage_env \<Rightarrow> target_config \<Rightarrow> certification option storage" where
  "certify env t = bindS (find_mount env (mountpoint t)) (\<lambda>m.
     bindS (getS trace) (\<lambda>tr.
     case certify_cifs_transport t (map_option (\<lambda>mi. dedup_first (mi_mount_options mi @ mi_super_options mi)) m)
            (debug_of env tr) (stats_of env tr) of
       Inl e \<Rightarrow> raiseS (CifsFailure e)
     | Inr c \<Rightarrow> returnS c))"

text \<open>The document is written beside the sentinel, synced and put in place; a failure leaves no sentinel.\<close>

definition write_sentinel :: "storage_env \<Rightarrow> target_config \<Rightarrow> unit storage" where
  "write_sentinel env t = bindS (askS (EAsk ''write sentinel'') (\<lambda>tr. asked env tr ''write sentinel'')) (\<lambda>ok.
     if ok then modS (\<lambda>s. s\<lparr>sentinel_store := SentinelDoc (sentinel_v2_payload t)\<rparr>)
     else raiseS (StorageOSError ''write sentinel''))"

definition ensure_root :: "target_config \<Rightarrow> unit storage" where
  "ensure_root t = bindS (getS root_exists) (\<lambda>there.
     if there then returnS ()
     else if \<not> allow_initialize t
     then raiseS (StorageError (''storage root missing for '' @ tgt_name t
            @ ''; set allow_initialize=true only for the first intentional enrollment''))
     else modS (\<lambda>s. s\<lparr>root_exists := True\<rparr>))"

definition check_or_write_sentinel :: "storage_env \<Rightarrow> target_config \<Rightarrow> unit storage" where
  "check_or_write_sentinel env t = bindS (getS sentinel_store) (\<lambda>st.
     if st \<noteq> SentinelMissing then bindS (load_and_validate_sentinel t) (\<lambda>_. returnS ())
     else if allow_initialize t then write_sentinel env t
     else raiseS (StorageError (''sentinel missing for '' @ tgt_name t
            @ ''; set allow_initialize=true only for the first intentional enrollment'')))"

definition verify_or_initialize_sentinel :: "storage_env \<Rightarrow> target_config \<Rightarrow> unit storage" where
  "verify_or_initialize_sentinel env t =
     bindS (verify_mount_identity env t) (\<lambda>_.
     bindS (whenS (tgt_type t = ''cifs'') (bindS (certify env t) (\<lambda>_. returnS ()))) (\<lambda>_.
     bindS (ensure_root t) (\<lambda>_.
     bindS (check_or_write_sentinel env t) (\<lambda>_.
     askS (ENote ''chown chmod storage root'') (\<lambda>_. ())))))"

fun prepare_role_paths :: "ppath list \<Rightarrow> unit storage" where
  "prepare_role_paths [] = returnS ()"
| "prepare_role_paths (p # ps) =
     bindS (askS (ENote (''mkdir '' @ string_of_path p)) (\<lambda>_. ())) (\<lambda>_. prepare_role_paths ps)"

section \<open>Durability probes\<close>

definition DURABILITY_MAGIC :: bytes where
  "DURABILITY_MAGIC = map of_char ''S3SNPRB1''"

definition DURABILITY_PROBE_MAX_BYTES :: nat where
  "DURABILITY_PROBE_MAX_BYTES = 1048576"

text \<open>\<open>struct.pack(">8sI32s", ...)\<close>: magic, big-endian length, digest; the digest is padded or cut to its width.\<close>

definition pack_u32 :: "nat \<Rightarrow> bytes" where
  "pack_u32 n = map (\<lambda>i. of_nat (n div 256 ^ i mod 256)) [3, 2, 1, 0]"

definition fit :: "nat \<Rightarrow> bytes \<Rightarrow> bytes" where
  "fit n b = take n (b @ replicate (n - length b) 0)"

definition probe_record :: "storage_env \<Rightarrow> bytes \<Rightarrow> bytes" where
  "probe_record env payload =
     fit 8 DURABILITY_MAGIC @ pack_u32 (length payload) @ fit 32 (sha256_digest env payload) @ payload"

text \<open>
  How much of a record reaches the file, and what is read back after the write, are answers of the storage. The
  compaction writes a new file and puts it in place, or fails and leaves the old one.
\<close>

definition append_record :: "storage_env \<Rightarrow> bytes \<Rightarrow> unit storage" where
  "append_record env record =
     bindS (askS (EAsk ''append'') (\<lambda>tr. appended env tr)) (\<lambda>n.
     bindS (modS (\<lambda>s. s\<lparr>probe_file := probe_file s @ take n record\<rparr>)) (\<lambda>_.
     if n < length record then raiseS (StorageOSError ''append'') else returnS ()))"

definition compact_probe :: "storage_env \<Rightarrow> bytes \<Rightarrow> unit storage" where
  "compact_probe env record =
     bindS (askS (EAsk ''compact'') (\<lambda>tr. asked env tr ''compact'')) (\<lambda>ok.
     if ok then modS (\<lambda>s. s\<lparr>probe_file := record\<rparr>) else raiseS (StorageOSError ''compact''))"

definition append_durability_probe :: "storage_env \<Rightarrow> (nat \<times> nat) storage" where
  "append_durability_probe env =
     bindS (askS (EAsk ''urandom'') (\<lambda>tr. urandom env tr)) (\<lambda>payload.
     let record = probe_record env payload
     in bindS (append_record env record) (\<lambda>_.
        bindS (getS (\<lambda>s. last_n (length record) (probe_file s))) (\<lambda>tail.
        bindS (askS (EAsk ''read'') (\<lambda>tr. read_back env tr tail)) (\<lambda>observed.
        if observed \<noteq> record then raiseS (StorageOSError ''persistent append read-back mismatch'')
        else bindS (getS (\<lambda>s. length (probe_file s))) (\<lambda>len.
          bindS (whenS (len > DURABILITY_PROBE_MAX_BYTES) (compact_probe env record)) (\<lambda>_.
          bindS (getS (\<lambda>s. length (probe_file s))) (\<lambda>len'. returnS (length payload, len'))))))))"

text \<open>The scratch file of the temporary probe is removed however the probe ends.\<close>

definition temporary_durability_probe :: "storage_env \<Rightarrow> unit storage" where
  "temporary_durability_probe env =
     bindS (askS (EAsk ''mkstemp'') (\<lambda>tr. asked env tr ''mkstemp'')) (\<lambda>ok.
     if \<not> ok then raiseS (StorageOSError ''mkstemp'')
     else bindS (modS (\<lambda>s. s\<lparr>probe_temps := Suc (probe_temps s)\<rparr>)) (\<lambda>_.
       bindS (askS (EAsk ''urandom'') (\<lambda>tr. urandom env tr)) (\<lambda>data.
       finallyS
         (bindS (askS (EAsk ''write'') (\<lambda>tr. asked env tr ''write'')) (\<lambda>written.
          if \<not> written then raiseS (StorageOSError ''write'')
          else bindS (askS (EAsk ''read'') (\<lambda>tr. read_back env tr data)) (\<lambda>observed.
            if observed \<noteq> data then raiseS (StorageOSError ''read-back mismatch'') else returnS ())))
         (modS (\<lambda>s. s\<lparr>probe_temps := probe_temps s - 1\<rparr>)))))"

section \<open>Probing\<close>

record probe_result =
  pr_free :: int
  pr_total :: int
  pr_path :: string
  pr_transport_type :: string
  pr_transport_name :: string
  pr_identity :: sentinel_identity
  pr_certification :: "certification option"
  pr_sshfs :: "(bool \<times> string) option"
  pr_durability :: "(nat \<times> nat) option"

definition certify_cifs :: "storage_env \<Rightarrow> target_config \<Rightarrow> certification option storage" where
  "certify_cifs env t = (if tgt_type t = ''cifs'' then certify env t else returnS None)"

definition os_to_storage :: "storage_error \<Rightarrow> storage_error" where
  "os_to_storage e = (case e of StorageOSError m \<Rightarrow> StorageError m | _ \<Rightarrow> e)"

definition durability_checks :: "storage_env \<Rightarrow> bool \<Rightarrow> (nat \<times> nat) option storage" where
  "durability_checks env full =
     (if full then
        catchS (bindS (append_durability_probe env) (\<lambda>d.
            bindS (temporary_durability_probe env) (\<lambda>_. returnS (Some d))))
          (\<lambda>e. raiseS (os_to_storage e))
      else returnS None)"

definition probe_fields ::
  "target_config \<Rightarrow> sentinel_identity \<Rightarrow> int \<Rightarrow> int \<Rightarrow> certification option \<Rightarrow> (nat \<times> nat) option \<Rightarrow> probe_result" where
  "probe_fields t identity free whole cert dur =
     \<lparr>pr_free = free, pr_total = whole, pr_path = string_of_path (storage_root t), pr_transport_type = tgt_type t,
      pr_transport_name = (if transport_name t \<noteq> [] then transport_name t else tgt_type t),
      pr_identity = identity, pr_certification = cert,
      pr_sshfs = (if tgt_type t = ''sshfs'' then Some (''sshfs_sync'' \<in> set (mount_options t), ssh_auth_mode t) else None),
      pr_durability = dur\<rparr>"

definition free_space :: "storage_env \<Rightarrow> target_config \<Rightarrow> (int \<times> int) storage" where
  "free_space env t = bindS (askS (EAsk ''statvfs'') (\<lambda>tr. statvfs env tr)) (\<lambda>(bavail, frsize, blocks).
     if bavail * frsize < min_free_bytes t
     then raiseS (StorageError (tgt_name t @ '' free space below floor: '' @ show_int (bavail * frsize) @ '' < ''
            @ show_int (min_free_bytes t)))
     else returnS (bavail * frsize, blocks * frsize))"

definition probe_target :: "storage_env \<Rightarrow> target_config \<Rightarrow> bool \<Rightarrow> probe_result storage" where
  "probe_target env t full =
     bindS (verify_mount_identity env t) (\<lambda>_.
     bindS (load_and_validate_sentinel t) (\<lambda>identity.
     bindS (free_space env t) (\<lambda>(free, whole).
     bindS (certify_cifs env t) (\<lambda>cert.
     bindS (durability_checks env full) (\<lambda>dur.
     returnS (probe_fields t identity free whole cert dur))))))"

section \<open>The trace\<close>

text \<open>The trace only grows; \<open>grows P\<close> says that it grew by events of a kind.\<close>

definition grows :: "(os_event \<Rightarrow> bool) \<Rightarrow> storage_state \<Rightarrow> storage_state \<Rightarrow> bool" where
  "grows P s s' \<longleftrightarrow> (\<exists>evs. trace s' = trace s @ evs \<and> (\<forall>e \<in> set evs. P e))"

definition same_store :: "storage_state \<Rightarrow> storage_state \<Rightarrow> bool" where
  "same_store s s' \<longleftrightarrow> root_exists s' = root_exists s \<and> sentinel_store s' = sentinel_store s \<and> pid_file s' = pid_file s
     \<and> probe_file s' = probe_file s \<and> probe_temps s' = probe_temps s"

fun is_kill :: "os_event \<Rightarrow> bool" where
  "is_kill (EKill _ _) = True"
| "is_kill _ = False"

fun is_run :: "os_event \<Rightarrow> bool" where
  "is_run (ERun _) = True"
| "is_run (ESpawn _) = True"
| "is_run _ = False"

definition watching :: "os_event \<Rightarrow> bool" where
  "watching e \<longleftrightarrow> \<not> is_kill e \<and> \<not> is_run e \<and> (\<forall>n. e \<noteq> ENote n)"

definition watched :: "storage_state \<Rightarrow> storage_state \<Rightarrow> bool" where
  "watched s s' \<longleftrightarrow> grows watching s s' \<and> same_store s s'"

lemma same_store_refl [simp]: "same_store s s"
  by (simp add: same_store_def)

lemma same_store_trans: "same_store s s' \<Longrightarrow> same_store s' s'' \<Longrightarrow> same_store s s''"
  by (simp add: same_store_def)

lemma same_store_trace [simp]: "same_store s (s'\<lparr>trace := tr\<rparr>) = same_store s s'"
  by (simp add: same_store_def)

lemma same_store_trace_left [simp]: "same_store (s\<lparr>trace := tr\<rparr>) s' = same_store s s'"
  by (simp add: same_store_def)

lemma grows_refl [simp]: "grows P s s"
  by (simp add: grows_def)

lemma grows_trans: "grows P s s' \<Longrightarrow> grows P s' s'' \<Longrightarrow> grows P s s''"
  by (fastforce simp: grows_def)

lemma grows_step: "grows P s s' \<Longrightarrow> \<forall>e\<in>set evs. P e \<Longrightarrow> grows P s (s'\<lparr>trace := trace s' @ evs\<rparr>)"
  by (fastforce simp: grows_def)

lemma grows_mono: "grows P s s' \<Longrightarrow> (\<And>e. P e \<Longrightarrow> Q e) \<Longrightarrow> grows Q s s'"
  by (fastforce simp: grows_def)

lemma grows_trace_only: "trace s'' = trace s' \<Longrightarrow> grows P s s'' = grows P s s'"
  by (simp add: grows_def)

lemma watching_events [simp]: "watching EClock" "watching (ESleep d)" "watching (EAsk q)" "watching (EPoll n)"
  by (simp_all add: watching_def)

lemma watched_refl [simp]: "watched s s"
  by (simp add: watched_def)

lemma watched_trans: "watched s s' \<Longrightarrow> watched s' s'' \<Longrightarrow> watched s s''"
  by (auto simp: watched_def intro: grows_trans same_store_trans)

lemma watched_step [simp]: "watched s s' \<Longrightarrow> \<forall>e\<in>set evs. watching e \<Longrightarrow> watched s (s'\<lparr>trace := trace s' @ evs\<rparr>)"
  by (simp add: watched_def grows_step)

section \<open>Waiting loops\<close>

lemma keeps_watched_ask: "watching ev \<Longrightarrow> keeps (watched s0) (askS ev f)"
  by (simp add: keeps_def wp_simps)

lemma keeps_await_gone: "keeps (watched s0) (await_gone n env pid deadline)"
  by (induction n) (auto simp: present_def intro!: keeps_intros keeps_watched_ask)

lemma keeps_await_sshfs: "keeps (watched s0) (await_sshfs env pid)"
  unfolding await_sshfs_def by (intro keeps_intros keeps_watched_ask keeps_await_gone) simp

lemma await_sshfs_run: "wp (await_sshfs env pid) (\<lambda>_ s'. watched s s') (\<lambda>_ _. False) s"
proof -
  have rounds: "wp (await_gone n env pid deadline) (\<lambda>_ _. True) (\<lambda>_ _. False) s1" for n deadline s1
    by (induction n arbitrary: s1) (simp_all add: wp_simps present_def)
  have "wp (await_sshfs env pid) (\<lambda>_ _. True) (\<lambda>_ _. False) s" by (simp add: await_sshfs_def wp_simps rounds)
  then show ?thesis using keepsD[OF keeps_await_sshfs, of s s env pid]
    by (auto simp: wp_run)
qed

text \<open>A wait for the mount to be gone that says so has seen it gone last.\<close>

definition seen_gone :: "storage_env \<Rightarrow> ppath \<Rightarrow> storage_state \<Rightarrow> bool" where
  "seen_gone env p s \<longleftrightarrow> (\<exists>tr. trace s = tr @ [EAsk ''mountinfo''] \<and> mount_at env p tr = None)"

lemma wait_rounds_run:
  "watched s0 s \<Longrightarrow> wp (wait_unmounted_rounds n env p deadline) (\<lambda>gone s'. watched s0 s' \<and> (gone \<longrightarrow> seen_gone env p s')) (\<lambda>_ _. False) s"
  by (induction n arbitrary: s) (auto simp: wp_simps find_mount_def seen_gone_def)

lemma wait_unmounted_run:
  "wp (wait_unmounted env p) (\<lambda>gone s'. watched s s' \<and> (gone \<longrightarrow> seen_gone env p s')) (\<lambda>_ _. False) s"
  by (simp add: wait_unmounted_def wp_simps wait_rounds_run)

section \<open>Stopping an SSHFS process\<close>

definition kills :: "os_event list \<Rightarrow> os_event list" where
  "kills evs = filter is_kill evs"

text \<open>The process the pid file names, and whether it is the SSHFS process of this mount point.\<close>

definition sshfs_owner :: "storage_env \<Rightarrow> target_config \<Rightarrow> storage_state \<Rightarrow> int \<Rightarrow> bool" where
  "sshfs_owner env t s pid \<longleftrightarrow> (\<exists>text args. pid_file s = Some text \<and> int_of_string text = Some pid
     \<and> cmdline env (trace s) pid = Some args \<and> is_sshfs_of t args)"

definition signals_ok :: "storage_env \<Rightarrow> target_config \<Rightarrow> storage_state \<Rightarrow> os_event list \<Rightarrow> bool" where
  "signals_ok env t s evs \<longleftrightarrow> kills evs = [] \<or> (\<exists>pid. sshfs_owner env t s pid
     \<and> (kills evs = [EKill pid SIGTERM] \<or> kills evs = [EKill pid SIGTERM, EKill pid SIGKILL]))"

definition still_present :: "storage_env \<Rightarrow> storage_state \<Rightarrow> storage_state \<Rightarrow> bool" where
  "still_present env s s' \<longleftrightarrow> (\<exists>text pid tr. pid_file s = Some text \<and> int_of_string text = Some pid
     \<and> trace s' = tr @ [EAsk ''proc''] \<and> pid_present env tr pid)"

text \<open>What stopping does: signals to the owner only, no command; the pid file goes exactly if the process went.\<close>

definition stop_effect :: "storage_env \<Rightarrow> target_config \<Rightarrow> storage_state \<Rightarrow> storage_state \<Rightarrow> bool" where
  "stop_effect env t s s' \<longleftrightarrow> (\<exists>evs. trace s' = trace s @ evs \<and> signals_ok env t s evs \<and> (\<forall>e\<in>set evs. watching e \<or> is_kill e))
     \<and> root_exists s' = root_exists s \<and> sentinel_store s' = sentinel_store s
     \<and> probe_file s' = probe_file s \<and> probe_temps s' = probe_temps s"

definition signalled :: "int \<Rightarrow> sig list \<Rightarrow> storage_state \<Rightarrow> storage_state \<Rightarrow> bool" where
  "signalled pid sgs s s' \<longleftrightarrow> same_store s s' \<and> (\<exists>evs. trace s' = trace s @ evs \<and> kills evs = map (EKill pid) sgs
     \<and> (\<forall>e\<in>set evs. watching e \<or> is_kill e))"

lemma kills_watching: "\<forall>e\<in>set evs. watching e \<Longrightarrow> kills evs = []"
  by (auto simp: kills_def watching_def filter_empty_conv)

lemma kills_append [simp]: "kills (a @ b) = kills a @ kills b"
  by (simp add: kills_def)

lemma signalled_append:
  assumes "signalled pid sgs s s'" "same_store s' s''" "trace s'' = trace s' @ evs"
    and "kills evs = map (EKill pid) sgs'" "\<forall>e\<in>set evs. watching e \<or> is_kill e"
  shows "signalled pid (sgs @ sgs') s s''"
proof -
  from assms(1) obtain evs0 where "trace s' = trace s @ evs0" "kills evs0 = map (EKill pid) sgs" "same_store s s'"
    and all: "\<forall>e\<in>set evs0. watching e \<or> is_kill e" by (auto simp: signalled_def)
  then have "trace s'' = trace s @ (evs0 @ evs)" "kills (evs0 @ evs) = map (EKill pid) (sgs @ sgs')" "same_store s s''"
    using assms by (auto intro: same_store_trans)
  moreover have "\<forall>e\<in>set (evs0 @ evs). watching e \<or> is_kill e" using all assms(5) by (simp add: ball_Un)
  ultimately show ?thesis unfolding signalled_def by blast
qed

lemma signalled_watched: "signalled pid sgs s s' \<Longrightarrow> watched s' s'' \<Longrightarrow> signalled pid sgs s s''"
  unfolding watched_def grows_def using signalled_append[of pid sgs s s' s'' _ "[]"] by (auto simp: kills_watching)

lemma signalled_kill: "signalled pid sgs s s' \<Longrightarrow> signalled pid (sgs @ [sg]) s (s'\<lparr>trace := trace s' @ [EKill pid sg]\<rparr>)"
  by (rule signalled_append[where evs = "[EKill pid sg]"]) (auto simp: kills_def)

lemma signalled_ask: "signalled pid sgs s s' \<Longrightarrow> signalled pid sgs s (s'\<lparr>trace := trace s' @ [EAsk q]\<rparr>)"
  by (erule signalled_watched) simp

lemma signalled_effect:
  assumes "signalled pid sgs s s'" "sshfs_owner env t s pid" "sgs \<in> {[], [SIGTERM], [SIGTERM, SIGKILL]}"
  shows "stop_effect env t s s'" "stop_effect env t s (s'\<lparr>pid_file := None\<rparr>)"
  using assms by (auto simp: signalled_def stop_effect_def same_store_def signals_ok_def)

lemma sshfs_gone_run:
  assumes "signalled pid sgs s s1" "sgs \<in> {[SIGTERM], [SIGTERM, SIGKILL]}" "sshfs_owner env t s pid"
  shows "wp (sshfs_gone env pid) (\<lambda>_ s'. stop_effect env t s s' \<and> pid_file s' = None)
     (\<lambda>_ s'. stop_effect env t s s' \<and> pid_file s' = pid_file s \<and> still_present env s s') s1"
proof -
  let ?s2 = "s1\<lparr>trace := trace s1 @ [EAsk ''proc'']\<rparr>"
  have s2: "signalled pid sgs s ?s2" by (rule signalled_ask[OF assms(1)])
  then have "stop_effect env t s ?s2" "stop_effect env t s (?s2\<lparr>pid_file := None\<rparr>)" "pid_file ?s2 = pid_file s"
    using signalled_effect[OF s2 assms(3)] assms(2) by (auto simp: signalled_def same_store_def)
  moreover have "pid_present env (trace s1) pid \<Longrightarrow> still_present env s ?s2"
    using assms(3) by (auto simp: still_present_def sshfs_owner_def)
  ultimately show ?thesis by (simp add: sshfs_gone_def present_def unlink_pid_def wp_simps)
qed

lemma stop_effect_refl [simp]: "stop_effect env t s s"
  by (auto simp: stop_effect_def signals_ok_def kills_def)

lemma stop_effect_quiet: "watched s s' \<Longrightarrow> stop_effect env t s s' \<and> stop_effect env t s (s'\<lparr>pid_file := None\<rparr>)"
  by (auto simp: stop_effect_def signals_ok_def watched_def grows_def same_store_def kills_watching)

text \<open>How stopping may end once signals were sent to the owner.\<close>

lemma unlink_run:
  assumes "signalled pid sgs s s1" "sgs \<in> {[], [SIGTERM], [SIGTERM, SIGKILL]}" "sshfs_owner env t s pid"
  shows "wp unlink_pid (\<lambda>_ s'. stop_effect env t s s' \<and> pid_file s' = None) E s1"
  using signalled_effect[OF assms(1,3,2)] by (simp add: unlink_pid_def wp_simps)

lemma kill_sshfs_run:
  assumes "signalled pid [SIGTERM] s s1" "sshfs_owner env t s pid"
  shows "wp (kill_sshfs env pid) (\<lambda>_ s'. stop_effect env t s s' \<and> pid_file s' = None)
     (\<lambda>_ s'. stop_effect env t s s' \<and> pid_file s' = pid_file s \<and> still_present env s s') s1"
    (is "wp _ ?Q ?E _")
proof -
  let ?s2 = "s1\<lparr>trace := trace s1 @ [EKill pid SIGKILL]\<rparr>"
  have s2: "signalled pid [SIGTERM, SIGKILL] s ?s2" using signalled_kill[OF assms(1), of SIGKILL] by simp
  have "wp (await_sshfs env pid) (\<lambda>_. wp (sshfs_gone env pid) ?Q ?E) ?E ?s2"
    by (rule wp_mono[OF await_sshfs_run], rule sshfs_gone_run[OF signalled_watched[OF s2]]) (use assms(2) in auto)
  then show ?thesis using unlink_run[OF s2 _ assms(2)] by (simp add: kill_sshfs_def wp_simps)
qed

lemma terminate_sshfs_run:
  assumes "watched s s1" "sshfs_owner env t s pid"
  shows "wp (terminate_sshfs env pid) (\<lambda>_ s'. stop_effect env t s s' \<and> pid_file s' = None)
     (\<lambda>_ s'. stop_effect env t s s' \<and> pid_file s' = pid_file s \<and> still_present env s s') s1"
    (is "wp _ ?Q ?E _")
proof -
  let ?s2 = "s1\<lparr>trace := trace s1 @ [EKill pid SIGTERM]\<rparr>"
  have "signalled pid [] s s" by (simp add: signalled_def kills_def)
  then have s2: "signalled pid [SIGTERM] s ?s2" using signalled_kill[OF signalled_watched[OF _ assms(1)], where sgs = "[]" and sg = SIGTERM] by simp
  have here: "wp (bindS (present env pid) (\<lambda>here. if here then kill_sshfs env pid else sshfs_gone env pid)) ?Q ?E s'"
    if s': "signalled pid [SIGTERM] s s'" for s'
    using kill_sshfs_run[OF signalled_ask[OF s'] assms(2)] sshfs_gone_run[OF signalled_ask[OF s'] _ assms(2)]
    by (simp add: present_def wp_bind wp_ask)
  have "wp (await_sshfs env pid) (\<lambda>_. wp (bindS (present env pid) (\<lambda>here. if here then kill_sshfs env pid else sshfs_gone env pid)) ?Q ?E) ?E ?s2"
    by (rule wp_mono[OF await_sshfs_run], rule here[OF signalled_watched[OF s2]]) auto
  then show ?thesis using unlink_run[OF s2 _ assms(2)] by (simp add: terminate_sshfs_def wp_bind[of "await_sshfs env pid"] wp_bind[of "askS _ _"] wp_ask)
qed

lemma stop_sshfs_run:
  assumes "ssh_runtime_pid_file t \<noteq> []"
  shows "wp (stop_sshfs_process env t) (\<lambda>_ s'. stop_effect env t s s' \<and> pid_file s' = None)
     (\<lambda>_ s'. stop_effect env t s s' \<and> pid_file s' = pid_file s \<and> still_present env s s') s"
proof (cases "\<exists>pid. sshfs_owner env t s pid")
  case False
  then show ?thesis
    using assms stop_effect_quiet[of s s env t] stop_effect_quiet[of s "s\<lparr>trace := trace s @ [EAsk ''cmdline'']\<rparr>" env t]
    by (auto simp: stop_sshfs_process_def wp_simps unlink_pid_def sshfs_owner_def split: option.split)
next
  case True
  then obtain pid where own: "sshfs_owner env t s pid" ..
  have "watched s (s\<lparr>trace := trace s @ [EAsk ''cmdline'']\<rparr>)" by simp
  from terminate_sshfs_run[OF this own] show ?thesis using assms own
    by (auto simp: stop_sshfs_process_def sshfs_owner_def wp_simps)
qed

section \<open>Detaching\<close>

text \<open>After the mount was seen gone no command runs any more: what follows only stops the SSHFS process and closes the
  mount point.\<close>

definition detached_run :: "storage_env \<Rightarrow> target_config \<Rightarrow> storage_state \<Rightarrow> bool" where
  "detached_run env t s \<longleftrightarrow> (\<exists>tr evs. trace s = tr @ EAsk ''mountinfo'' # evs @ [barrier_event t]
     \<and> mount_at env (mountpoint t) tr = None \<and> (\<forall>e\<in>set evs. watching e \<or> is_kill e))"

definition sshfs_stopped :: "target_config \<Rightarrow> storage_state \<Rightarrow> bool" where
  "sshfs_stopped t s \<longleftrightarrow> (tgt_type t = ''sshfs'' \<and> ssh_runtime_pid_file t \<noteq> [] \<longrightarrow> pid_file s = None)"

definition unbarred :: "target_config \<Rightarrow> storage_state \<Rightarrow> storage_state \<Rightarrow> bool" where
  "unbarred t s s' \<longleftrightarrow> (\<exists>evs. trace s' = trace s @ evs \<and> barrier_event t \<notin> set evs)"

lemma not_barrier: "watching e \<or> is_kill e \<Longrightarrow> e \<noteq> barrier_event t" "e = ERun c \<Longrightarrow> e \<noteq> barrier_event t"
  "e = EAsk q \<Longrightarrow> e \<noteq> barrier_event t"
  by (auto simp: barrier_event_def watching_def)

lemma unbarred_refl [simp]: "unbarred t s s"
  by (simp add: unbarred_def)

lemma unbarred_trans: "unbarred t s s' \<Longrightarrow> unbarred t s' s'' \<Longrightarrow> unbarred t s s''"
  by (fastforce simp: unbarred_def)

lemma unbarred_watched: "watched s s' \<Longrightarrow> unbarred t s s'"
  unfolding watched_def grows_def unbarred_def using not_barrier(1) by blast

lemma unbarred_step: "unbarred t s s' \<Longrightarrow> e \<noteq> barrier_event t \<Longrightarrow> unbarred t s (s'\<lparr>trace := trace s' @ [e]\<rparr>)"
  by (fastforce simp: unbarred_def)

lemma unbarred_stop: "stop_effect env t s s' \<Longrightarrow> unbarred t s s'"
  unfolding stop_effect_def unbarred_def using not_barrier(1) by blast

lemma finish_unmount_run:
  assumes "tgt_type t \<noteq> ''path''" "seen_gone env (mountpoint t) s" "unbarred t s0 s"
  shows "wp (finish_unmount env t) (\<lambda>_ s'. detached_run env t s' \<and> sshfs_stopped t s') (\<lambda>_ s'. unbarred t s0 s') s"
proof -
  from assms(2) obtain tr where tr: "trace s = tr @ [EAsk ''mountinfo'']" "mount_at env (mountpoint t) tr = None"
    by (auto simp: seen_gone_def)
  have barrier: "wp (prepare_barrier t) (\<lambda>_ s'. detached_run env t s' \<and> sshfs_stopped t s') E s'"
    if "stop_effect env t s s'" "sshfs_stopped t s'" for s' E
  proof -
    from that(1) tr(1) obtain evs where "trace s' = tr @ EAsk ''mountinfo'' # evs" "\<forall>e\<in>set evs. watching e \<or> is_kill e"
      by (auto simp: stop_effect_def)
    then have "detached_run env t (s'\<lparr>trace := trace s' @ [barrier_event t]\<rparr>)"
      using tr(2) unfolding detached_run_def by (intro exI[of _ tr] exI[of _ evs]) simp
    then show ?thesis using assms(1) that(2) by (simp add: prepare_barrier_def wp_simps sshfs_stopped_def)
  qed
  show ?thesis
  proof (cases "tgt_type t = ''sshfs'' \<and> ssh_runtime_pid_file t \<noteq> []")
    case True
    have "wp (stop_sshfs_process env t) (\<lambda>_. wp (prepare_barrier t) (\<lambda>_ s'. detached_run env t s' \<and> sshfs_stopped t s')
       (\<lambda>_ s'. unbarred t s0 s')) (\<lambda>_ s'. unbarred t s0 s') s"
      by (rule wp_mono[OF stop_sshfs_run], use True in simp, rule barrier)
        (auto simp: sshfs_stopped_def intro: unbarred_trans[OF assms(3)] unbarred_stop)
    then show ?thesis using True by (simp add: finish_unmount_def wp_simps)
  next
    case False
    then show ?thesis using barrier[of s]
      by (auto simp: finish_unmount_def wp_simps sshfs_stopped_def stop_sshfs_process_def)
  qed
qed

lemma try_unmount_run:
  assumes "unbarred t s0 s"
  shows "wp (try_unmount env t cmd) (\<lambda>(gone, _) s'. unbarred t s0 s' \<and> (gone \<longrightarrow> seen_gone env (mountpoint t) s')) (\<lambda>_ _. False) s"
proof -
  let ?s1 = "s\<lparr>trace := trace s @ [ERun cmd]\<rparr>"
  have "unbarred t s0 ?s1" by (rule unbarred_step[OF assms]) (simp add: barrier_event_def)
  then have "wp (wait_unmounted env (mountpoint t)) (\<lambda>gone s'. unbarred t s0 s' \<and> (gone \<longrightarrow> seen_gone env (mountpoint t) s'))
      (\<lambda>_ _. False) ?s1"
    by (intro wp_mono[OF wait_unmounted_run]) (auto intro: unbarred_trans unbarred_watched)
  then show ?thesis using \<open>unbarred t s0 ?s1\<close>
    by (auto simp: try_unmount_def unmount_command_def wp_simps split: run_result.split)
qed

lemma try_lazy_run:
  "unbarred t s0 s \<Longrightarrow> wp (try_lazy env t cmds errors) (\<lambda>(gone, _) s'. unbarred t s0 s' \<and> (gone \<longrightarrow> seen_gone env (mountpoint t) s')) (\<lambda>_ _. False) s"
proof (induction cmds arbitrary: s errors)
  case (Cons cmd cmds)
  show ?case unfolding try_lazy.simps wp_bind
    by (rule wp_mono[OF try_unmount_run[OF Cons.prems]]) (auto simp: wp_simps Cons.IH)
qed (simp add: wp_simps)

lemma unmount_run:
  assumes "tgt_type t \<noteq> ''path''"
  shows "wp (unmount_target env t) (\<lambda>_ s'. detached_run env t s' \<and> sshfs_stopped t s') (\<lambda>_ s'. unbarred t s s') s"
proof -
  let ?Q = "\<lambda>_ s'. detached_run env t s' \<and> sshfs_stopped t s'" and ?E = "\<lambda>_ s'. unbarred t s s'"
  let ?s1 = "s\<lparr>trace := trace s @ [EAsk ''mountinfo'']\<rparr>"
  have s1: "unbarred t s ?s1" by (rule unbarred_step) (simp_all add: barrier_event_def)
  note finish = finish_unmount_run[OF assms]
  have lazy: "wp (bindS (try_lazy env t (lazy_commands t) errors) (\<lambda>(detached, errors).
      if \<not> detached then raiseS (err errors) else finish_unmount env t)) ?Q ?E s'" if "unbarred t s s'" for errors err s'
    unfolding wp_bind
    by (rule wp_mono[OF try_lazy_run[OF that]]) (auto simp: wp_raise intro: finish)
  show ?thesis
  proof (cases "mount_at env (mountpoint t) (trace s)")
    case None
    then have "seen_gone env (mountpoint t) ?s1" by (simp add: seen_gone_def)
    from finish[OF this s1] None show ?thesis using assms by (simp add: unmount_target_def find_mount_def wp_bind wp_ask)
  next
    case (Some m)
    have "wp (try_unmount env t (clean_command t)) (\<lambda>(gone, detail). wp (if gone then finish_unmount env t
        else bindS (try_lazy env t (lazy_commands t) (if detail \<noteq> [] then [detail] else [])) (\<lambda>(detached, errors).
            if \<not> detached
            then raiseS (StorageError (if py_join ''; '' errors \<noteq> [] then py_join ''; '' errors
                   else ''failed to unmount '' @ string_of_path (mountpoint t)))
            else finish_unmount env t)) ?Q ?E) ?E ?s1"
      by (rule wp_mono[OF try_unmount_run[OF s1]]) (auto intro: finish simp del: wp_bind intro!: lazy)
    then show ?thesis using assms Some
      by (simp add: unmount_target_def find_mount_def wp_bind[of "askS _ _"] wp_bind[of "try_unmount _ _ _"] wp_ask case_prod_unfold)
  qed
qed

section \<open>Trying the CIFS profiles\<close>

text \<open>How a single attempt ended: it mounted, the server lacks a capability, or it failed otherwise.\<close>

datatype attempt = Mounted | Lacking | Refused

definition attempt :: "storage_env \<Rightarrow> target_config \<Rightarrow> os_event list \<Rightarrow> string list \<Rightarrow> attempt" where
  "attempt env t tr p = (case run_result env tr (cifs_command t p) of
     RunTimeout \<Rightarrow> Refused
   | Completed code err out \<Rightarrow> (if code = 0 then Mounted
       else if is_capability_failure (''command failed: '' @ py_join '' '' (cifs_command t p) @ '': '' @ run_message code err out)
       then Lacking else Refused))"

definition attempts :: "target_config \<Rightarrow> string list list \<Rightarrow> os_event list" where
  "attempts t ps = map (\<lambda>p. ERun (cifs_command t p)) ps"

definition attempt_at :: "storage_env \<Rightarrow> target_config \<Rightarrow> os_event list \<Rightarrow> string list list \<Rightarrow> nat \<Rightarrow> attempt" where
  "attempt_at env t tr ps i = attempt env t (tr @ attempts t (take i ps)) (ps ! i)"

text \<open>The first profiles were tried in order, each but the last one failing for a lacking capability.\<close>

definition tried_run :: "storage_env \<Rightarrow> target_config \<Rightarrow> string list list \<Rightarrow> storage_state \<Rightarrow> bool \<Rightarrow> storage_state \<Rightarrow> bool" where
  "tried_run env t ps s mounted s' \<longleftrightarrow> same_store s s' \<and> (\<exists>n < length ps. trace s' = trace s @ attempts t (take (Suc n) ps)
     \<and> (\<forall>i<n. attempt_at env t (trace s) ps i = Lacking)
     \<and> (mounted \<longleftrightarrow> attempt_at env t (trace s) ps n = Mounted)
     \<and> (Suc n < length ps \<longrightarrow> attempt_at env t (trace s) ps n \<noteq> Lacking))"

lemma wp_try_profiles_Cons:
  assumes "\<And>e. attempt env t (trace s) p = Refused \<or> ps = [] \<Longrightarrow> attempt env t (trace s) p \<noteq> Mounted
      \<Longrightarrow> E e (s\<lparr>trace := trace s @ [ERun (cifs_command t p)]\<rparr>)"
    and "attempt env t (trace s) p = Mounted \<Longrightarrow> Q () (s\<lparr>trace := trace s @ [ERun (cifs_command t p)]\<rparr>)"
    and "attempt env t (trace s) p = Lacking \<Longrightarrow> ps \<noteq> []
      \<Longrightarrow> wp (try_profiles env t ps) Q E (s\<lparr>trace := trace s @ [ERun (cifs_command t p)]\<rparr>)"
  shows "wp (try_profiles env t (p # ps)) Q E s"
  using assms by (auto simp: wp_simps storage_run_def attempt_def split: run_result.split if_splits)

lemma attempt_at_Cons [simp]:
  "attempt_at env t tr (p # ps) 0 = attempt env t tr p"
  "attempt_at env t tr (p # ps) (Suc i) = attempt_at env t (tr @ [ERun (cifs_command t p)]) ps i"
  by (simp_all add: attempt_at_def attempts_def)

lemma tried_run_first:
  "attempt env t (trace s) p \<noteq> Lacking \<or> ps = [] \<Longrightarrow> mounted = (attempt env t (trace s) p = Mounted) \<Longrightarrow>
   tried_run env t (p # ps) s mounted (s\<lparr>trace := trace s @ [ERun (cifs_command t p)]\<rparr>)"
  unfolding tried_run_def by (intro conjI exI[of _ 0]) (auto simp: attempts_def)

lemma tried_run_Lacking:
  assumes "attempt env t (trace s) p = Lacking"
    and "tried_run env t ps (s\<lparr>trace := trace s @ [ERun (cifs_command t p)]\<rparr>) b s'"
  shows "tried_run env t (p # ps) s b s'"
proof -
  from assms(2) obtain n where "n < length ps" "trace s' = trace s @ ERun (cifs_command t p) # attempts t (take (Suc n) ps)"
    "\<forall>i<n. attempt_at env t (trace s @ [ERun (cifs_command t p)]) ps i = Lacking"
    "b \<longleftrightarrow> attempt_at env t (trace s @ [ERun (cifs_command t p)]) ps n = Mounted"
    "Suc n < length ps \<longrightarrow> attempt_at env t (trace s @ [ERun (cifs_command t p)]) ps n \<noteq> Lacking" "same_store s s'"
    by (auto simp: tried_run_def)
  then show ?thesis unfolding tried_run_def using assms(1)
    by (intro conjI exI[of _ "Suc n"]) (auto simp: attempts_def less_Suc_eq_0_disj)
qed

lemma try_profiles_run:
  "ps \<noteq> [] \<Longrightarrow> wp (try_profiles env t ps) (\<lambda>_. tried_run env t ps s True) (\<lambda>_. tried_run env t ps s False) s"
proof (induction ps arbitrary: s)
  case (Cons p ps)
  show ?case
  proof (rule wp_try_profiles_Cons, goal_cases)
    case 3
    show ?case by (rule wp_mono[OF Cons.IH[OF 3(2)]]) (rule tried_run_Lacking[OF 3(1)]; assumption)+
  qed (auto intro!: tried_run_first)
qed simp

section \<open>Sentinels\<close>

definition mount_accepted :: "storage_env \<Rightarrow> target_config \<Rightarrow> os_event list \<Rightarrow> bool" where
  "mount_accepted env t tr \<longleftrightarrow> tgt_type t = ''path''
     \<or> (\<exists>m. mount_at env (mountpoint t) tr = Some m \<and> mount_matches t m = Inr ())"

definition certified_at :: "storage_env \<Rightarrow> target_config \<Rightarrow> os_event list \<Rightarrow> certification option \<Rightarrow> bool" where
  "certified_at env t tr c \<longleftrightarrow> certify_cifs_transport t
     (map_option (\<lambda>mi. dedup_first (mi_mount_options mi @ mi_super_options mi)) (mount_at env (mountpoint t) tr))
     (debug_of env (tr @ [EAsk ''mountinfo''])) (stats_of env (tr @ [EAsk ''mountinfo''])) = Inr c"

lemma verify_mount_run:
  "wp (verify_mount_identity env t) (\<lambda>_ s'. same_store s s' \<and> mount_accepted env t (trace s))
     (\<lambda>_ s'. same_store s s' \<and> \<not> mount_accepted env t (trace s)) s"
  by (auto simp: verify_mount_identity_def find_mount_def mount_accepted_def wp_simps split: option.split sum.split)

lemma certify_run:
  "wp (certify env t) (\<lambda>c s'. same_store s s' \<and> certified_at env t (trace s) c) (\<lambda>_ s'. same_store s s') s"
  by (auto simp: certify_def find_mount_def certified_at_def wp_simps split: sum.split)

lemma load_sentinel_run:
  "wp (load_and_validate_sentinel t) (\<lambda>i s'. s' = s \<and> (\<exists>d. sentinel_store s = SentinelDoc d \<and> validate_sentinel_payload t d = Inr i))
     (\<lambda>_ s'. s' = s) s"
  by (auto simp: load_and_validate_sentinel_def wp_simps split: sentinel_store.split sum.split)

definition sentinel_valid :: "target_config \<Rightarrow> sentinel_store \<Rightarrow> bool" where
  "sentinel_valid t st \<longleftrightarrow> (\<exists>d i. st = SentinelDoc d \<and> validate_sentinel_payload t d = Inr i)"

text \<open>Enrolment leaves a sentinel that was there, if it is valid, or writes the first one.\<close>

definition enrolled :: "target_config \<Rightarrow> sentinel_store \<Rightarrow> sentinel_store \<Rightarrow> bool" where
  "enrolled t st st' \<longleftrightarrow> (st' = st \<and> sentinel_valid t st)
     \<or> (st = SentinelMissing \<and> allow_initialize t \<and> st' = SentinelDoc (sentinel_v2_payload t))"

lemma check_or_write_run:
  "wp (check_or_write_sentinel env t) (\<lambda>_ s'. enrolled t (sentinel_store s) (sentinel_store s') \<and> root_exists s' = root_exists s)
     (\<lambda>_ s'. sentinel_store s' = sentinel_store s) s"
proof (cases "sentinel_store s = SentinelMissing")
  case True
  then show ?thesis by (simp add: check_or_write_sentinel_def write_sentinel_def enrolled_def wp_simps)
next
  case False
  have "wp (load_and_validate_sentinel t) (\<lambda>_ s'. enrolled t (sentinel_store s) (sentinel_store s') \<and> root_exists s' = root_exists s)
     (\<lambda>_ s'. sentinel_store s' = sentinel_store s) s"
    by (rule wp_mono[OF load_sentinel_run]) (auto simp: enrolled_def sentinel_valid_def)
  with False show ?thesis by (simp add: check_or_write_sentinel_def wp_simps)
qed

lemma enrol_run:
  "wp (verify_or_initialize_sentinel env t)
     (\<lambda>_ s'. mount_accepted env t (trace s) \<and> enrolled t (sentinel_store s) (sentinel_store s') \<and> root_exists s')
     (\<lambda>_ s'. sentinel_store s' = sentinel_store s) s"
proof -
  let ?Q = "\<lambda>_ s'. enrolled t (sentinel_store s) (sentinel_store s') \<and> root_exists s'"
  let ?E = "\<lambda>_ s'. sentinel_store s' = sentinel_store s"
  let ?last = "bindS (check_or_write_sentinel env t) (\<lambda>_. askS (ENote ''chown chmod storage root'') (\<lambda>_. ()))"
  let ?rest = "bindS (ensure_root t) (\<lambda>_. ?last)"
  have lst: "wp ?last ?Q ?E s'" if "sentinel_store s' = sentinel_store s" "root_exists s'" for s'
    unfolding wp_bind by (rule wp_mono[OF check_or_write_run]) (use that in \<open>auto simp: wp_ask\<close>)
  have rest: "wp ?rest ?Q ?E s'" if "same_store s s'" for s'
    using that unfolding wp_bind[of "ensure_root t"]
    by (auto simp: ensure_root_def wp_bind[of "getS _"] wp_get wp_mod wp_return wp_raise same_store_def intro!: lst)
  have cert: "wp (whenS (tgt_type t = ''cifs'') (bindS (certify env t) (\<lambda>_. returnS ()))) (\<lambda>_. wp ?rest ?Q ?E) ?E s'"
    if s': "same_store s s'" for s'
  proof -
    have "wp (certify env t) (\<lambda>_. wp ?rest ?Q ?E) ?E s'"
      by (rule wp_mono[OF certify_run], rule rest) (use s' in \<open>auto simp: same_store_def\<close>)
    then show ?thesis using rest[OF s'] by (simp add: wp_when wp_bind[of "certify _ _"] wp_return)
  qed
  have "wp (verify_or_initialize_sentinel env t) ?Q ?E s"
    unfolding verify_or_initialize_sentinel_def wp_bind[of "verify_mount_identity _ _"] wp_bind[of "whenS _ _"]
    by (rule wp_mono[OF verify_mount_run]) (auto intro: cert simp: same_store_def)
  moreover have "wp (verify_or_initialize_sentinel env t) (\<lambda>_ _. mount_accepted env t (trace s)) (\<lambda>_ _. True) s"
    unfolding verify_or_initialize_sentinel_def wp_bind[of "verify_mount_identity _ _"]
    by (rule wp_mono[OF verify_mount_run]) (auto simp: wp_run)
  ultimately show ?thesis by (auto simp: wp_run)
qed

section \<open>Durability and probes\<close>

definition verified_record :: "storage_env \<Rightarrow> bytes \<Rightarrow> bool" where
  "verified_record env payload \<longleftrightarrow> (\<exists>tr. read_back env tr (probe_record env payload) = probe_record env payload)"

text \<open>After an append that succeeds the file ends with a record that was read back and is within its bound.\<close>

definition durable :: "storage_env \<Rightarrow> bytes \<Rightarrow> bytes \<Rightarrow> nat \<times> nat \<Rightarrow> bool" where
  "durable env f f' d \<longleftrightarrow> (\<exists>payload. payload \<in> range (urandom env) \<and> verified_record env payload \<and> d = (length payload, length f')
     \<and> (f' = f @ probe_record env payload \<and> length f' \<le> DURABILITY_PROBE_MAX_BYTES \<or> f' = probe_record env payload))"

definition torn :: "storage_env \<Rightarrow> bytes \<Rightarrow> bytes \<Rightarrow> bool" where
  "torn env f f' \<longleftrightarrow> (\<exists>payload n. f' = f @ take n (probe_record env payload))"

definition same_but_probe :: "storage_state \<Rightarrow> storage_state \<Rightarrow> bool" where
  "same_but_probe s s' \<longleftrightarrow> root_exists s' = root_exists s \<and> sentinel_store s' = sentinel_store s \<and> pid_file s' = pid_file s
     \<and> probe_temps s' = probe_temps s"

lemma same_but_probe_upd [simp]:
  "same_but_probe s (s'\<lparr>trace := tr\<rparr>) = same_but_probe s s'" "same_but_probe s (s'\<lparr>probe_file := f\<rparr>) = same_but_probe s s'"
  "same_but_probe s s"
  by (simp_all add: same_but_probe_def)

lemma last_n_append: "last_n (length b) (a @ b) = b"
  by (simp add: last_n_def)

lemma torn_whole: "torn env f (f @ probe_record env payload)"
  unfolding torn_def by (intro exI[of _ payload] exI[of _ "length (probe_record env payload)"]) simp

lemma append_probe_run:
  "wp (append_durability_probe env) (\<lambda>d s'. same_but_probe s s' \<and> durable env (probe_file s) (probe_file s') d)
     (\<lambda>_ s'. same_but_probe s s' \<and> torn env (probe_file s) (probe_file s')) s"
proof -
  let ?p = "urandom env (trace s)" let ?r = "probe_record env ?p"
  let ?n = "appended env (trace s @ [EAsk ''urandom''])"
  have cut: "torn env (probe_file s) (probe_file s @ take ?n ?r)" by (auto simp: torn_def)
  show ?thesis
  proof (cases "?n < length ?r")
    case True
    with cut show ?thesis by (simp add: append_durability_probe_def append_record_def wp_simps Let_def)
  next
    case False
    then have all: "take ?n ?r = ?r" by simp
    show ?thesis using False torn_whole[of env "probe_file s" ?p]
      by (auto simp: append_durability_probe_def append_record_def compact_probe_def wp_simps Let_def all last_n_append durable_def verified_record_def
          simp del: length_append)
  qed
qed

lemma probe_temps_run:
  "wp (temporary_durability_probe env) (\<lambda>_ s'. same_store s s') (\<lambda>_ s'. same_store s s') s"
  by (simp add: temporary_durability_probe_def wp_simps same_store_def)

text \<open>The durability part of a full probe.\<close>

definition full_checked :: "storage_env \<Rightarrow> bool \<Rightarrow> storage_state \<Rightarrow> storage_state \<Rightarrow> (nat \<times> nat) option \<Rightarrow> bool" where
  "full_checked env full s s' d \<longleftrightarrow> (if full then \<exists>x. d = Some x \<and> durable env (probe_file s) (probe_file s') x
     else d = None \<and> probe_file s' = probe_file s)"

lemma durability_run:
  assumes "same_store s s1"
  shows "wp (durability_checks env full) (\<lambda>d s'. same_but_probe s s' \<and> full_checked env full s s' d) (\<lambda>_ s'. same_but_probe s s') s1"
proof -
  have "wp (append_durability_probe env) (\<lambda>d. wp (temporary_durability_probe env)
        (\<lambda>_ s'. same_but_probe s s' \<and> full_checked env True s s' (Some d)) (\<lambda>_ s'. same_but_probe s s'))
      (\<lambda>_ s'. same_but_probe s s') s1"
    by (rule wp_mono[OF append_probe_run], rule wp_mono[OF probe_temps_run])
      (use assms in \<open>auto simp: full_checked_def same_store_def same_but_probe_def\<close>)
  moreover have "same_but_probe s s1" "full_checked env False s s1 None"
    using assms by (simp_all add: same_store_def same_but_probe_def full_checked_def)
  ultimately show ?thesis by (cases full) (simp_all add: durability_checks_def wp_bind wp_catch wp_return wp_raise)
qed

text \<open>What a successful probe has established.\<close>

definition probe_ok :: "storage_env \<Rightarrow> target_config \<Rightarrow> bool \<Rightarrow> storage_state \<Rightarrow> probe_result \<Rightarrow> storage_state \<Rightarrow> bool" where
  "probe_ok env t full s res s' \<longleftrightarrow> mount_accepted env t (trace s)
     \<and> (\<exists>d. sentinel_store s = SentinelDoc d \<and> validate_sentinel_payload t d = Inr (pr_identity res))
     \<and> min_free_bytes t \<le> pr_free res
     \<and> (tgt_type t = ''cifs'' \<longrightarrow> (\<exists>tr. certified_at env t tr (pr_certification res)))
     \<and> full_checked env full s s' (pr_durability res)"

lemma same_store_but: "same_store s s' \<Longrightarrow> same_but_probe s s'"
  by (simp add: same_store_def same_but_probe_def)

lemma free_space_run:
  "same_store s s1 \<Longrightarrow> wp (free_space env t) (\<lambda>(free, _) s'. same_store s s' \<and> min_free_bytes t \<le> free) (\<lambda>_ s'. same_but_probe s s') s1"
  by (auto simp: free_space_def wp_simps same_store_but split: prod.split)

lemma certify_cifs_run:
  "same_store s s1 \<Longrightarrow> wp (certify_cifs env t)
     (\<lambda>c s'. same_store s s' \<and> (tgt_type t = ''cifs'' \<longrightarrow> (\<exists>tr. certified_at env t tr c))) (\<lambda>_ s'. same_but_probe s s') s1"
  unfolding certify_cifs_def
  by (auto simp: wp_return intro!: wp_mono[OF certify_run] intro: same_store_trans same_store_but)

lemma probe_run:
  "wp (probe_target env t full) (\<lambda>res s'. same_but_probe s s' \<and> probe_ok env t full s res s') (\<lambda>_ s'. same_but_probe s s') s"
proof -
  let ?E = "\<lambda>_ s'. same_but_probe s s'"
  have tail: "wp (bindS (free_space env t) (\<lambda>(free, whole). bindS (certify_cifs env t) (\<lambda>cert.
       bindS (durability_checks env full) (\<lambda>dur. returnS (probe_fields t i free whole cert dur)))))
      (\<lambda>res s'. same_but_probe s s' \<and> pr_identity res = i \<and> min_free_bytes t \<le> pr_free res
        \<and> (tgt_type t = ''cifs'' \<longrightarrow> (\<exists>tr. certified_at env t tr (pr_certification res)))
        \<and> full_checked env full s s' (pr_durability res)) ?E s'" if "same_store s s'" for i s'
    unfolding wp_bind[of "free_space _ _"]
    apply (rule wp_mono[OF free_space_run[OF that]]; clarsimp simp: wp_bind[of "certify_cifs _ _"])
    apply (rule wp_mono[OF certify_cifs_run], assumption; clarsimp simp: wp_bind wp_return)
    apply (rule wp_mono[OF durability_run], assumption; clarsimp simp: probe_fields_def)
    done
  show ?thesis
    unfolding probe_target_def wp_bind[of "verify_mount_identity _ _"] wp_bind[of "load_and_validate_sentinel _"]
    apply (rule wp_mono[OF verify_mount_run])
     apply (rule wp_mono[OF load_sentinel_run])
      apply (rule wp_mono[OF tail]; force simp: probe_ok_def same_store_def)
     apply (auto intro: same_store_but)
    done
qed

section \<open>Properties\<close>


text \<open>
  Stopping the SSHFS process a pid file names. Signals go only to the process of the pid file, only after its
  command line was read as that of an SSHFS process of this mount point, first to end and then at most once to kill.
  The pid file is removed if the stop returns; if it raises, the file is kept and the process was seen present last.
\<close>

theorem stop_sshfs_safe:
  assumes "ssh_runtime_pid_file t \<noteq> []" "stop_sshfs_process env t s = (r, s')"
  shows "(\<exists>evs. trace s' = trace s @ evs \<and> (kills evs = [] \<or> (\<exists>pid. sshfs_owner env t s pid
          \<and> (kills evs = [EKill pid SIGTERM] \<or> kills evs = [EKill pid SIGTERM, EKill pid SIGKILL]))))
      \<and> (case r of
           Inr _ \<Rightarrow> pid_file s' = None
         | Inl _ \<Rightarrow> pid_file s' = pid_file s \<and> still_present env s s')"
  using stop_sshfs_run[OF assms(1), of env s] assms(2)
  by (auto simp: wp_run stop_effect_def signals_ok_def split: sum.split)

text \<open>
  Mounting a CIFS share tries the profiles in their order. A later profile is tried only after the earlier ones
  failed because the server lacks a capability; the mount succeeds exactly if the last one tried did, and a failure
  of another kind ends the attempts.
\<close>

theorem mount_cifs_in_order:
  assumes "cifs_mount_profiles t = Inr ps" "ps \<noteq> []" "mount_cifs env t s = (r, s')"
  shows "\<exists>n < length ps. trace s' = trace s @ map (\<lambda>p. ERun (cifs_command t p)) (take (Suc n) ps)
      \<and> (\<forall>i<n. attempt_at env t (trace s) ps i = Lacking)
      \<and> ((\<exists>u. r = Inr u) \<longleftrightarrow> attempt_at env t (trace s) ps n = Mounted)
      \<and> (Suc n < length ps \<longrightarrow> attempt_at env t (trace s) ps n \<noteq> Lacking)"
proof -
  have "tried_run env t ps s (\<exists>u. r = Inr u) s'"
    using try_profiles_run[OF assms(2), of env t s] assms(1,3) by (cases r) (auto simp: mount_cifs_def wp_run)
  then show ?thesis by (auto simp: tried_run_def attempts_def)
qed


text \<open>
  What a probe that returns has established, and what no probe changes: the mount has the identity of the target,
  the sentinel is valid, the free space reaches the floor, a CIFS mount is certified, and with a full probe a record
  was appended and read back. Sentinel, pid file and scratch files are as before, however the probe ends.
\<close>

theorem probe_establishes:
  assumes "probe_target env t full s = (r, s')"
  shows "sentinel_store s' = sentinel_store s \<and> pid_file s' = pid_file s \<and> probe_temps s' = probe_temps s
      \<and> (case r of Inl _ \<Rightarrow> True
         | Inr res \<Rightarrow> mount_accepted env t (trace s)
             \<and> (\<exists>d. sentinel_store s = SentinelDoc d \<and> validate_sentinel_payload t d = Inr (pr_identity res))
             \<and> min_free_bytes t \<le> pr_free res
             \<and> (tgt_type t = ''cifs'' \<longrightarrow> (\<exists>tr. certified_at env t tr (pr_certification res)))
             \<and> (full \<longrightarrow> (\<exists>d. pr_durability res = Some d \<and> durable env (probe_file s) (probe_file s') d))
             \<and> (\<not> full \<longrightarrow> probe_file s' = probe_file s))"
  using probe_run[of env t full s] assms
  by (auto simp: wp_run same_but_probe_def probe_ok_def full_checked_def split: sum.split)

lemma length_probe_record: "length (probe_record env payload) = 44 + length payload"
  by (simp add: probe_record_def fit_def pack_u32_def)

text \<open>
  The probe file is bounded and append-only. With payloads of 4096 bytes a probe that returns leaves at most
  1048576 bytes, ending with a record that was read back, and reports the size of the file; a probe that fails has
  at most added a part of one record to what was there.
\<close>

theorem durability_file_bounded:
  assumes "\<forall>tr. length (urandom env tr) = 4096" "append_durability_probe env s = (r, s')"
  shows "case r of
      Inr d \<Rightarrow> length (probe_file s') \<le> 1048576 \<and> snd d = length (probe_file s')
        \<and> (\<exists>payload before. verified_record env payload \<and> probe_file s' = before @ probe_record env payload
              \<and> (before = probe_file s \<or> before = []))
    | Inl _ \<Rightarrow> (\<exists>payload n. probe_file s' = probe_file s @ take n (probe_record env payload))"
proof (cases r)
  case (Inl e)
  then show ?thesis using append_probe_run[of env s] assms(2) by (auto simp: wp_run torn_def)
next
  case (Inr d)
  then have "durable env (probe_file s) (probe_file s') d" using append_probe_run[of env s] assms(2) by (auto simp: wp_run)
  then obtain payload where p: "payload \<in> range (urandom env)" "verified_record env payload" "d = (length payload, length (probe_file s'))"
    and f: "probe_file s' = probe_file s @ probe_record env payload \<and> length (probe_file s') \<le> 1048576
      \<or> probe_file s' = probe_record env payload"
    unfolding durable_def DURABILITY_PROBE_MAX_BYTES_def by blast
  from p(1) assms(1) have "length (probe_record env payload) \<le> 1048576" by (auto simp: length_probe_record)
  with f have "length (probe_file s') \<le> 1048576" "\<exists>before. probe_file s' = before @ probe_record env payload \<and> (before = probe_file s \<or> before = [])"
    by auto
  then show ?thesis using Inr p(2,3) by auto
qed

section \<open>Examples\<close>

text \<open>A CIFS share mounted at \<open>/mnt\<close> until an \<open>umount\<close> was run, with a valid sentinel.\<close>

definition example_row :: string where
  "example_row = ''36 25 0:32 / /mnt rw,relatime shared:1 - cifs //NAS/share/ rw,vers=3.1.1,persistenthandles,max_channels=2''"

definition example_storage_env :: storage_env where
  "example_storage_env = \<lparr>run_result = \<lambda>tr cmd. if length tr = 0 then Completed 32 ''Operation not supported'' [] else Completed 0 [] [],
     spawn = \<lambda>tr cmd. Inr 7, poll_code = \<lambda>tr pid. None, kill_found = \<lambda>tr pid. True, wait_ends = \<lambda>tr pid. True,
     clock = \<lambda>tr. of_nat (length tr), asked = \<lambda>tr q. True,
     mount_rows = \<lambda>tr. if list_ex is_run tr then [] else [example_row], realpath = id,
     cmdline = \<lambda>tr pid. Some [''/usr/bin/sshfs'', ''-f'', ''/mnt''], pid_present = \<lambda>tr pid. length tr < 4,
     debug_of = \<lambda>tr. Some example_debug, stats_of = \<lambda>tr. None, credentials_text = Inl [],
     ssh_stderr = \<lambda>tr. [], statvfs = \<lambda>tr. (1000000, 4096, 2000000), urandom = \<lambda>tr. replicate 4096 0,
     sha256_digest = \<lambda>b. replicate 32 1, appended = \<lambda>tr. 5000, read_back = \<lambda>tr b. b\<rparr>"

definition example_storage :: storage_state where
  "example_storage = \<lparr>trace = [], root_exists = True, sentinel_store = SentinelDoc (sentinel_v2_payload example_cifs),
     pid_file = Some ''42'', probe_file = [], probe_temps = 0\<rparr>"

definition example_sshfs :: target_config where
  "example_sshfs = example_cifs\<lparr>tgt_type := ''sshfs'', source := ''u@h:/d'', ssh_runtime_pid_file := ''/run/pid''\<rparr>"

lemmas example_storage_defs = example_storage_env_def example_storage_def example_sshfs_def example_cifs_def default_target_def


theorem stop_sshfs_safe_witness:
  "\<exists>s'. stop_sshfs_process example_storage_env example_sshfs example_storage = (Inr (), s') \<and> pid_file s' = None"
proof -
  obtain r s' where run: "stop_sshfs_process example_storage_env example_sshfs example_storage = (r, s')"
    by (cases "stop_sshfs_process example_storage_env example_sshfs example_storage")
  have pid: "ssh_runtime_pid_file example_sshfs \<noteq> []" by (simp add: example_sshfs_def)
  have "fst (stop_sshfs_process example_storage_env example_sshfs example_storage) = Inr ()" by code_simp
  with run have "r = Inr ()" by simp
  with stop_sshfs_safe[OF pid run] run show ?thesis by auto
qed

definition example_auto :: target_config where
  "example_auto = example_cifs\<lparr>handle_reconnect_policy := ''auto''\<rparr>"

definition example_profiles :: "string list list" where
  "example_profiles = map (\<lambda>h. [''hard''] @ h @ [''multichannel'', ''max_channels=4'']) [[''persistenthandles''], [''resilienthandles''], []]"

theorem mount_cifs_in_order_witness:
  "\<exists>s'. mount_cifs example_storage_env example_auto example_storage = (Inr (), s')
     \<and> trace s' = map (\<lambda>p. ERun (cifs_command example_auto p)) (take 2 example_profiles)"
proof -
  obtain r s' where run: "mount_cifs example_storage_env example_auto example_storage = (r, s')"
    by (cases "mount_cifs example_storage_env example_auto example_storage")
  have ps: "cifs_mount_profiles example_auto = Inr example_profiles" by code_simp
  have ne: "example_profiles \<noteq> []" and len: "length example_profiles = 3" by (simp_all add: example_profiles_def)
  have tr: "trace example_storage = []" by (simp add: example_storage_def)
  have "attempt_at example_storage_env example_auto [] example_profiles 0 = Lacking"
    "attempt_at example_storage_env example_auto [] example_profiles 1 = Mounted" by code_simp+
  moreover from mount_cifs_in_order[OF ps ne run] tr obtain n where n: "n < 3"
    "trace s' = map (\<lambda>p. ERun (cifs_command example_auto p)) (take (Suc n) example_profiles)"
    "\<forall>i<n. attempt_at example_storage_env example_auto [] example_profiles i = Lacking"
    "(\<exists>u. r = Inr u) \<longleftrightarrow> attempt_at example_storage_env example_auto [] example_profiles n = Mounted"
    "Suc n < 3 \<longrightarrow> attempt_at example_storage_env example_auto [] example_profiles n \<noteq> Lacking"
    by (auto simp: len)
  ultimately have "n = 1"
    using n(3)[rule_format, of 1] n(5) by (cases "n = 0"; cases "n = 1") (auto simp: less_Suc_eq numeral_3_eq_3)
  with n run \<open>attempt_at _ _ _ _ 1 = Mounted\<close> show ?thesis by (auto simp: numeral_2_eq_2)
qed


theorem probe_establishes_witness:
  "\<exists>res s'. probe_target example_storage_env example_cifs False example_storage = (Inr res, s')
     \<and> (\<exists>tr. certified_at example_storage_env example_cifs tr (pr_certification res))"
proof -
  obtain r s' where run: "probe_target example_storage_env example_cifs False example_storage = (r, s')"
    by (cases "probe_target example_storage_env example_cifs False example_storage")
  have "\<not> (case fst (probe_target example_storage_env example_cifs False example_storage) of Inl _ \<Rightarrow> True | Inr _ \<Rightarrow> False)"
    by code_simp
  with run obtain res where "r = Inr res" by (auto split: sum.splits)
  moreover have "tgt_type example_cifs = ''cifs''" by (simp add: example_cifs_def default_target_def)
  ultimately show ?thesis using probe_establishes[OF run] run by auto
qed

theorem durability_file_bounded_witness:
  "\<exists>d s'. append_durability_probe example_storage_env example_storage = (Inr d, s') \<and> length (probe_file s') = snd d \<and> snd d \<le> 1048576"
proof -
  have rnd: "\<forall>tr. length (urandom example_storage_env tr) = 4096" by (simp add: example_storage_env_def)
  obtain r s' where run: "append_durability_probe example_storage_env example_storage = (r, s')"
    by (cases "append_durability_probe example_storage_env example_storage")
  have "\<exists>d s'. append_durability_probe example_storage_env example_storage = (Inr d, s')"
    by (simp add: append_durability_probe_def append_record_def bindS_def askS_def modS_def getS_def returnS_def whenS_def
        Let_def length_probe_record last_n_def example_storage_env_def example_storage_def DURABILITY_PROBE_MAX_BYTES_def)
  with run obtain d where "r = Inr d" by auto
  with durability_file_bounded[OF rnd run] run show ?thesis by auto
qed

end
