(* ===== verification/Guardian_Core.thy ===== *)
theory Guardian_Core
  imports Worker_Generation Generation_History Transport_Selector Repair_Decision Storage
begin

text \<open>
  The guardian of \<open>guardian.py\<close>, \<open>generation_guardian.py\<close> and \<open>transport_guardian.py\<close>: its state, the storage
  helpers it runs, the stopping of its processes and the detaching of its targets. The three classes are one object,
  the one \<open>main.py\<close> starts; a method that a subclass overrides and calls has the suffix of its class. The state is
  that of the worker generation, the selector file, the generation history, the repair journal and the processes.
\<close>

section \<open>State\<close>

datatype guard_error =
    KeyboardInterrupt
  | GStorage string
  | GProcess process_error
  | GGeneration gen_error
  | GTransport transport_error
  | GSwitch string
  | GSeaweed seaweed_error
  | GUnstable string
  | GReadonly volume_status
  | GValidation volume_status
  | GRepair repair_error
  | GCanary string
  | GRuntime string
  | GValue string
  | GKey
  | Unfinished

text \<open>\<open>Unfinished\<close> is no exception of the program: the model gives it when a loop is cut off after the number of rounds
  it was given. No handler catches it.\<close>

definition is_exception :: "guard_error \<Rightarrow> bool" where
  "is_exception e \<longleftrightarrow> e \<noteq> KeyboardInterrupt \<and> e \<noteq> Unfinished"

text \<open>\<open>type(exc).__name__\<close>.\<close>

definition class_name :: "guard_error \<Rightarrow> string" where
  "class_name e = (case e of
     KeyboardInterrupt \<Rightarrow> ''KeyboardInterrupt''
   | GStorage _ \<Rightarrow> ''StorageError''
   | GProcess (ProcessError _) \<Rightarrow> ''ProcessError''
   | GProcess (SpawnError _) \<Rightarrow> ''OSError''
   | GGeneration (GenerationError _) \<Rightarrow> ''GenerationError''
   | GGeneration _ \<Rightarrow> ''OSError''
   | GTransport _ \<Rightarrow> ''TransportFailoverError''
   | GSwitch _ \<Rightarrow> ''TransportSwitchRequested''
   | GSeaweed _ \<Rightarrow> ''SeaweedHealthError''
   | GUnstable _ \<Rightarrow> ''SeaweedHealthError''
   | GReadonly _ \<Rightarrow> ''UnexpectedReadonlyVolumes''
   | GValidation _ \<Rightarrow> ''IndexValidationRequired''
   | GRepair (RepairError _) \<Rightarrow> ''IndexRepairError''
   | GRepair (ManualIntervention _) \<Rightarrow> ''IndexRepairManualIntervention''
   | GCanary _ \<Rightarrow> ''S3CheckError''
   | GRuntime _ \<Rightarrow> ''RuntimeError''
   | GValue _ \<Rightarrow> ''ValueError''
   | GKey \<Rightarrow> ''KeyError''
   | Unfinished \<Rightarrow> [])"

record guard_state = os_state +
  g_stopping :: bool
  g_health :: string
  g_ready :: bool
  g_failures :: int
  g_recoveries :: int
  g_probes :: nat
  g_processes :: "managed_process list"
  g_haproxy :: "managed_process option"
  g_lingering :: "managed_process list"
  g_helpers :: "int list"
  g_worker :: "gen_state option"
  g_factory :: factory
  g_history :: generation_history
  g_fatal :: bool
  g_selector :: transport_file
  g_store :: storage_state
  g_repair :: bool
  g_journal :: world
  g_transport :: string
  g_environ :: "string option"
  g_switch :: bool
  g_detached :: bool
  g_transport_failure :: bool
  g_failure_name :: string
  g_watch :: bool
  g_pending :: bool
  g_verifying :: string
  g_fingerprint :: string

type_synonym 'a guard = "(guard_state, guard_error, 'a) eff"

text \<open>
  What the guardian reads and does not compute here: the configuration and the answers of the operating system, of
  the helpers and of SeaweedFS. \<open>describe\<close> is the text of an exception, \<open>json_ok\<close> whether a text is JSON, \<open>signal\<close>
  whether a stop signal has arrived since the last look, \<open>wall\<close> the time of day.
\<close>

record guard_env = gen_env +
  cfg :: config
  config_file :: string
  failover :: "failover_config option"
  store_env :: storage_env
  describe :: "guard_error \<Rightarrow> string"
  json_ok :: "string \<Rightarrow> bool"
  signal :: "os_event list \<Rightarrow> bool"
  wall :: "os_event list \<Rightarrow> rat"
  helper_result :: "os_event list \<Rightarrow> int \<Rightarrow> run_result"
  fresh_token :: "os_event list \<Rightarrow> string"
  volume_reply :: "os_event list \<Rightarrow> http_reply"
  canary_error :: "os_event list \<Rightarrow> string option"
  repair_env_at :: "os_event list \<Rightarrow> repair_env"
  repair_inputs :: "os_event list \<Rightarrow> int \<Rightarrow> repair_env list \<times> repair_input list"
  haproxy_path :: string
  filer_toml :: "ppath option"
  s3_config_path :: "ppath option"
  verification_fingerprint_of :: string

definition os_of :: "guard_env \<Rightarrow> os_env" where
  "os_of env = os_env.truncate env"

definition gen_of :: "guard_env \<Rightarrow> gen_env" where
  "gen_of env = gen_env.truncate env"

definition appl :: "guard_env \<Rightarrow> appliance_config" where
  "appl env = appliance (cfg env)"

section \<open>Health, signals, clocks\<close>

definition set_health :: "string \<Rightarrow> bool \<Rightarrow> unit guard" where
  "set_health st rdy = modS (\<lambda>s. s\<lparr>g_health := st, g_ready := rdy\<rparr>)"

text \<open>The signal handler runs when \<open>self.stopping\<close> is read next.\<close>

definition stop_requested :: "guard_env \<Rightarrow> bool guard" where
  "stop_requested env = bindS (askS (EAsk ''signal'') (signal env)) (\<lambda>arrived.
     bindS (whenS arrived (modS (\<lambda>s. s\<lparr>g_stopping := True, g_health := ''STOPPING'', g_ready := False\<rparr>))) (\<lambda>_.
     getS g_stopping))"

definition monotime :: "guard_env \<Rightarrow> rat guard" where
  "monotime env = askS EClock (clock env)"

definition time_of_day :: "guard_env \<Rightarrow> rat guard" where
  "time_of_day env = askS EClock (wall env)"

text \<open>\<open>time.sleep\<close> raises on a negative length.\<close>

definition time_sleep :: "rat \<Rightarrow> unit guard" where
  "time_sleep d = (if d < 0 then raiseS (GValue ''sleep length must be non-negative'') else askS (ESleep d) (\<lambda>_. ()))"

text \<open>\<open>_interruptible_sleep\<close> of \<open>guardian.py\<close>. The clock is read again for the length of each nap. \<open>n\<close> bounds the naps;
  a sleep of \<open>seconds\<close> needs at most four a second.\<close>

primrec sleep_rounds :: "nat \<Rightarrow> guard_env \<Rightarrow> rat \<Rightarrow> unit guard" where
  "sleep_rounds 0 env deadline = raiseS Unfinished"
| "sleep_rounds (Suc n) env deadline =
     bindS (stop_requested env) (\<lambda>stop.
     if stop then returnS ()
     else bindS (monotime env) (\<lambda>t.
       if t < deadline then
         bindS (monotime env) (\<lambda>t2.
         bindS (time_sleep (min (1 / 4) (deadline - t2))) (\<lambda>_. sleep_rounds n env deadline))
       else returnS ()))"

definition sleep_base :: "nat \<Rightarrow> guard_env \<Rightarrow> rat \<Rightarrow> unit guard" where
  "sleep_base n env seconds = bindS (monotime env) (\<lambda>t. sleep_rounds n env (t + seconds))"

definition selectorS :: "guard_env \<Rightarrow> (failover_config \<Rightarrow> transport_file \<Rightarrow> transport_error + 'a) \<Rightarrow> failover_config \<Rightarrow> 'a guard" where
  "selectorS env f fo = bindS (getS g_selector) (\<lambda>file. case f fo file of Inl e \<Rightarrow> raiseS (GTransport e) | Inr x \<Rightarrow> returnS x)"

text \<open>\<open>_interruptible_sleep\<close> of \<open>transport_guardian.py\<close>: while the node is online an operator's request ends the sleep.\<close>

primrec watch_rounds :: "nat \<Rightarrow> guard_env \<Rightarrow> failover_config \<Rightarrow> rat \<Rightarrow> unit guard" where
  "watch_rounds 0 env fo deadline = raiseS Unfinished"
| "watch_rounds (Suc n) env fo deadline =
     bindS (stop_requested env) (\<lambda>stop.
     if stop then returnS ()
     else bindS (selectorS env pending_request fo) (\<lambda>wanted.
       bindS (getS g_transport) (\<lambda>current.
       if wanted \<noteq> [] \<and> wanted \<noteq> current then
         bindS (modS (\<lambda>s. s\<lparr>g_switch := True\<rparr>)) (\<lambda>_.
         bindS (set_health ''SUSPECT'' False) (\<lambda>_.
         raiseS (GSwitch (''operator requested transport switch to '' @ wanted))))
       else bindS (monotime env) (\<lambda>t.
         if deadline - t \<le> 0 then returnS ()
         else bindS (time_sleep (min (1 / 2) (deadline - t))) (\<lambda>_. watch_rounds n env fo deadline)))))"

definition interruptible_sleep :: "nat \<Rightarrow> guard_env \<Rightarrow> rat \<Rightarrow> unit guard" where
  "interruptible_sleep n env seconds = bindS (getS g_watch) (\<lambda>watch.
     case failover env of
       Some fo \<Rightarrow> (if watch then bindS (monotime env) (\<lambda>t. watch_rounds n env fo (t + seconds)) else sleep_base n env seconds)
     | None \<Rightarrow> sleep_base n env seconds)"

section \<open>Processes of earlier generations\<close>

primrec filterS :: "('x \<Rightarrow> ('s, 'e, bool) eff) \<Rightarrow> 'x list \<Rightarrow> ('s, 'e, 'x list) eff" where
  "filterS f [] = returnS []"
| "filterS f (x # xs) = bindS (f x) (\<lambda>b. bindS (filterS f xs) (\<lambda>ys. returnS (if b then x # ys else ys)))"

definition still_running :: "guard_env \<Rightarrow> managed_process list \<Rightarrow> managed_process list guard" where
  "still_running env ps = filterS (running (os_of env)) ps"

definition helper_alive :: "guard_env \<Rightarrow> int \<Rightarrow> bool guard" where
  "helper_alive env pid = bindS (poll (os_of env) pid) (\<lambda>c. returnS (c = None))"

definition ensure_no_lingering :: "guard_env \<Rightarrow> unit guard" where
  "ensure_no_lingering env = bindS (getS g_lingering) (\<lambda>ps.
     bindS (still_running env ps) (\<lambda>alive.
     bindS (modS (\<lambda>s. s\<lparr>g_lingering := alive\<rparr>)) (\<lambda>_.
     if alive \<noteq> [] then raiseS (GProcess (ProcessError
       (''previous SeaweedFS processes are still blocked: '' @ py_join '', '' (map mp_name alive))))
     else returnS ())))"

definition reap_helpers :: "guard_env \<Rightarrow> unit guard" where
  "reap_helpers env = bindS (getS g_helpers) (\<lambda>hs.
     bindS (filterS (helper_alive env) hs) (\<lambda>alive. modS (\<lambda>s. s\<lparr>g_helpers := alive\<rparr>)))"

section \<open>Storage helpers\<close>

text \<open>An operation on the worker generation, which shares the trace.\<close>

definition workerS :: "'a gen \<Rightarrow> 'a guard" where
  "workerS m = zoomS (\<lambda>s. (the (g_worker s))\<lparr>trace := trace s\<rparr>) (\<lambda>g s. s\<lparr>g_worker := Some g, trace := trace g\<rparr>) GGeneration m"

definition generation_command :: "guard_env \<Rightarrow> string list \<Rightarrow> bool \<Rightarrow> string list guard" where
  "generation_command env command as_worker = bindS (getS g_worker) (\<lambda>w. case w of
     None \<Rightarrow> (if worker_fencing_mode (appl env) = ''disabled'' then returnS command
              else raiseS (GGeneration (GenerationError ''no active worker generation'')))
   | Some _ \<Rightarrow> workerS (enter_command (gen_of env) command
        (if as_worker then Some (uid (appl env)) else None) (if as_worker then Some (gid (appl env)) else None)))"

definition helper_command :: "guard_env \<Rightarrow> string \<Rightarrow> string option \<Rightarrow> bool \<Rightarrow> string list" where
  "helper_command env op target full =
     [executable env, ''-m'', ''s3_storage_node.main'', op, ''--config'', config_file env]
     @ (case target of Some n \<Rightarrow> [''--target'', n] | None \<Rightarrow> []) @ (if full then [''--full''] else [])"

definition helper_timeout :: "string \<Rightarrow> string option \<Rightarrow> string" where
  "helper_timeout op target = ''storage '' @ op @ '' timed out''
     @ (case target of Some n \<Rightarrow> if n \<noteq> [] then '' for '' @ n else [] | None \<Rightarrow> [])"

definition helper_failed :: "string \<Rightarrow> string option \<Rightarrow> string \<Rightarrow> string \<Rightarrow> string" where
  "helper_failed op target err out = (if py_strip err \<noteq> [] then py_strip err else if py_strip out \<noteq> [] then py_strip out
     else op @ '' failed for '' @ (case target of Some n \<Rightarrow> if n \<noteq> [] then n else ''layout'' | None \<Rightarrow> ''layout''))"

text \<open>A helper that does not end in time is killed and remembered; no other is started while it is there, save one that
  detaches.\<close>

definition run_helper_generation :: "guard_env \<Rightarrow> string \<Rightarrow> string option \<Rightarrow> bool \<Rightarrow> string guard" where
  "run_helper_generation env op target full =
     bindS (reap_helpers env) (\<lambda>_.
     bindS (getS g_helpers) (\<lambda>hs.
     if op \<noteq> ''unmount'' \<and> hs \<noteq> []
     then raiseS (GStorage ''a previous storage helper is still blocked; refusing to start another'')
     else
       bindS (generation_command env (helper_command env op target full) False) (\<lambda>command.
       bindS (popen (os_of env) (\<lambda>e. GProcess (SpawnError e)) command) (\<lambda>pid.
       bindS (askS (EWait pid) (\<lambda>tr. helper_result env tr pid)) (\<lambda>r. case r of
         RunTimeout \<Rightarrow>
           bindS (killpg (os_of env) pid SIGKILL) (\<lambda>_.
           bindS (modS (\<lambda>s. s\<lparr>g_helpers := g_helpers s @ [pid]\<rparr>)) (\<lambda>_.
           raiseS (GStorage (helper_timeout op target))))
       | Completed code err out \<Rightarrow>
           (if code \<noteq> 0 then raiseS (GStorage (helper_failed op target err out))
            else if py_strip out = [] then returnS []
            else if json_ok env out then returnS out else raiseS (GValue ''JSONDecodeError'')))))))"

definition is_failover_target :: "guard_env \<Rightarrow> string option \<Rightarrow> bool" where
  "is_failover_target env target = (case failover env of None \<Rightarrow> False | Some fo \<Rightarrow> target = Some (fo_target fo))"

definition run_helper :: "guard_env \<Rightarrow> string \<Rightarrow> string option \<Rightarrow> bool \<Rightarrow> string guard" where
  "run_helper env op target full =
     catchS (run_helper_generation env op target full) (\<lambda>e.
       bindS (whenS (is_exception e \<and> is_failover_target env target
                \<and> op \<in> set [''mount'', ''prepare'', ''probe''])
         (modS (\<lambda>s. s\<lparr>g_transport_failure := True,
            g_failure_name := (if g_verifying s \<noteq> [] then g_verifying s else g_transport s)\<rparr>))) (\<lambda>_. raiseS e))"

definition targets_of :: "guard_env \<Rightarrow> target_config list guard" where
  "targets_of env = (case active_targets (cfg env) of Inl _ \<Rightarrow> raiseS GKey | Inr ts \<Rightarrow> returnS ts)"

text \<open>\<open>_probe_targets\<close>; \<open>consecutive_probe_successes\<close> is the count of probes that passed since the last failure.\<close>

definition probe_targets :: "guard_env \<Rightarrow> bool \<Rightarrow> unit guard" where
  "probe_targets env full =
     bindS (monotime env) (\<lambda>_.
     bindS (catchS
       (bindS (targets_of env) (forS (\<lambda>t. bindS (run_helper env ''probe'' (Some (tgt_name t)) full) (\<lambda>_. returnS ()))))
       (\<lambda>e. bindS (whenS (is_exception e) (bindS (monotime env) (\<lambda>_. modS (\<lambda>s. s\<lparr>g_probes := 0\<rparr>)))) (\<lambda>_. raiseS e))) (\<lambda>_.
     bindS (monotime env) (\<lambda>_. modS (\<lambda>s. s\<lparr>g_probes := Suc (g_probes s)\<rparr>))))"

section \<open>Stopping and detaching\<close>

text \<open>The processes are stopped in the reverse order of their start; one that stays is remembered.\<close>

primrec stop_all :: "guard_env \<Rightarrow> managed_process list \<Rightarrow> bool guard" where
  "stop_all env [] = returnS True"
| "stop_all env (p # ps) =
     bindS (stop_until (os_of env) p) (\<lambda>stopped.
     bindS (whenS (\<not> stopped) (modS (\<lambda>s. s\<lparr>g_lingering := (if p \<in> set (g_lingering s) then g_lingering s
         else g_lingering s @ [p])\<rparr>))) (\<lambda>_.
     bindS (stop_all env ps) (\<lambda>rest. returnS (stopped \<and> rest))))"

definition stop_seaweed :: "guard_env \<Rightarrow> bool guard" where
  "stop_seaweed env =
     bindS (set_health ''DRAINING'' False) (\<lambda>_.
     bindS (getS g_processes) (\<lambda>ps.
     bindS (stop_all env (rev ps)) (\<lambda>stopped.
     bindS (modS (\<lambda>s. s\<lparr>g_processes := []\<rparr>)) (\<lambda>_. returnS stopped))))"

text \<open>One target: detached in time, not in time, or not to be detached at all. The deadline, if there is one, is shared
  by all targets.\<close>

definition detach_one :: "guard_env \<Rightarrow> bool \<Rightarrow> rat option \<Rightarrow> target_config \<Rightarrow> bool guard" where
  "detach_one env unmount_all deadline t =
     (if tgt_type t = ''path'' \<and> \<not> unmount_all then returnS True
      else bindS (case deadline of
            None \<Rightarrow> returnS (of_int (startup_timeout_seconds (appl env)))
          | Some d \<Rightarrow> bindS (monotime env) (\<lambda>now. returnS (max 0 (d - now)))) (\<lambda>timeout.
        if timeout \<le> 0 then returnS False
        else catchS (bindS (run_helper env ''unmount'' (Some (tgt_name t)) False) (\<lambda>_. returnS True))
               (\<lambda>e. if is_exception e then returnS False else raiseS e)))"

primrec detach_all :: "guard_env \<Rightarrow> bool \<Rightarrow> rat option \<Rightarrow> target_config list \<Rightarrow> bool guard" where
  "detach_all env unmount_all deadline [] = returnS True"
| "detach_all env unmount_all deadline (t # ts) =
     bindS (detach_one env unmount_all deadline t) (\<lambda>ok.
     bindS (detach_all env unmount_all deadline ts) (\<lambda>rest. returnS (ok \<and> rest)))"

definition repair_targets_base :: "guard_env \<Rightarrow> bool \<Rightarrow> rat option \<Rightarrow> bool guard" where
  "repair_targets_base env unmount_all timeout =
     bindS (set_health ''RECOVERING'' False) (\<lambda>_.
     bindS (case timeout of None \<Rightarrow> returnS None | Some d \<Rightarrow> bindS (monotime env) (\<lambda>t. returnS (Some (t + d)))) (\<lambda>deadline.
     bindS (targets_of env) (\<lambda>ts. detach_all env unmount_all deadline (rev ts))))"

text \<open>\<open>_repair_targets\<close> of \<open>transport_guardian.py\<close>: the helpers see the transport that failed, or the active one, and the
  environment is put back.\<close>

definition repair_targets :: "guard_env \<Rightarrow> bool \<Rightarrow> rat option \<Rightarrow> bool guard" where
  "repair_targets env unmount_all timeout =
     bindS (getS g_detached) (\<lambda>detached.
     if detached \<and> \<not> unmount_all
     then bindS (modS (\<lambda>s. s\<lparr>g_detached := False\<rparr>)) (\<lambda>_. returnS True)
     else
       bindS (getS g_environ) (\<lambda>previous.
       bindS (modS (\<lambda>s. let t = (if g_failure_name s \<noteq> [] then g_failure_name s else g_transport s)
                        in s\<lparr>g_environ := (if t \<noteq> [] then Some t else g_environ s)\<rparr>)) (\<lambda>_.
       finallyS (repair_targets_base env unmount_all timeout) (modS (\<lambda>s. s\<lparr>g_environ := previous\<rparr>)))))"

end
