(* ===== verification/Guardian_Seaweed.thy ===== *)
theory Guardian_Seaweed
  imports Guardian_Core
begin

text \<open>
  The SeaweedFS processes of the guardian: their command lines, their start, the reading of the volume status until it
  is stable, the repair of indexes it leads to, the wait before the node goes online and the supervision while it is.
  The repair journal is that of the repair controller, whose operations run on it.
\<close>

section \<open>Command lines\<close>

definition arg :: "string \<Rightarrow> string \<Rightarrow> string" where
  "arg name v = ''-'' @ name @ ''='' @ v"

definition opt_arg :: "string \<Rightarrow> string \<Rightarrow> string list" where
  "opt_arg name v = (if v \<noteq> [] then [arg name v] else [])"

definition opt_path :: "string \<Rightarrow> ppath option \<Rightarrow> string list" where
  "opt_path name p = (case p of None \<Rightarrow> [] | Some q \<Rightarrow> [arg name (string_of_path q)])"

definition local_master :: "config \<Rightarrow> string" where
  "local_master c = arg ''master'' (''127.0.0.1:'' @ show_int (master_port (seaweed c)))"

definition master_command :: "config \<Rightarrow> string list" where
  "master_command c = [binary (seaweed c), ''master'', arg ''ip'' ''127.0.0.1'', arg ''ip.bind'' ''127.0.0.1'',
     arg ''port'' (show_int (master_port (seaweed c))),
     arg ''mdir'' (string_of_path (path_div (state_dir (appliance c)) ''master'')),
     arg ''volumeSizeLimitMB'' (show_int (volume_size_limit_mb (seaweed c))),
     arg ''defaultReplication'' (default_replication (seaweed c))] @ master_extra_args (seaweed c)"

definition volume_command :: "config \<Rightarrow> ppath \<Rightarrow> ppath \<Rightarrow> string list" where
  "volume_command c vdir idir = [binary (seaweed c), ''volume'', arg ''ip'' ''127.0.0.1'', arg ''ip.bind'' ''127.0.0.1'',
     arg ''port'' (show_int (volume_port (seaweed c))), local_master c,
     arg ''dir'' (string_of_path vdir), arg ''dir.idx'' (string_of_path idir),
     arg ''max'' (show_int (volume_max (seaweed c))), arg ''index'' ''memory'',
     arg ''concurrentUploadLimitMB'' (show_int (concurrent_upload_limit_mb (seaweed c))),
     arg ''inflightUploadDataTimeout'' (show_int (inflight_upload_timeout_seconds (seaweed c)) @ ''s'')]
     @ opt_arg ''dataCenter'' (data_center (seaweed c)) @ opt_arg ''rack'' (rack (seaweed c))
     @ opt_arg ''disk'' (disk_type (seaweed c)) @ volume_extra_args (seaweed c)"

definition filer_command :: "config \<Rightarrow> string list" where
  "filer_command c = [binary (seaweed c), ''filer'', arg ''ip'' ''127.0.0.1'', arg ''ip.bind'' ''127.0.0.1'',
     arg ''port'' (show_int (filer_port (seaweed c))), local_master c,
     arg ''maxMB'' (show_int (filer_max_mb (seaweed c))),
     arg ''defaultReplicaPlacement'' (default_replication (seaweed c))] @ filer_extra_args (seaweed c)"

definition s3_command :: "config \<Rightarrow> ppath option \<Rightarrow> string list" where
  "s3_command c s3cfg = [binary (seaweed c), ''s3'', arg ''ip.bind'' ''127.0.0.1'',
     arg ''port'' (show_int (s3_internal_port (seaweed c))), arg ''port.iceberg'' ''0'',
     arg ''filer'' (''127.0.0.1:'' @ show_int (filer_port (seaweed c))),
     arg ''allowedOrigins'' (allowed_origins (s3 c))]
     @ opt_arg ''domainName'' (domain_name (s3 c)) @ opt_arg ''externalUrl'' (external_url (s3 c))
     @ opt_path ''config'' s3cfg @ opt_arg ''iam.config'' (iam_config_file (s3 c))
     @ opt_arg ''auditLogConfig'' (audit_log_config_file (s3 c))
     @ (if encrypt_volume_data (seaweed c) then [arg ''encryptVolumeData'' ''true''] else [])
     @ s3_extra_args (seaweed c)"

definition path_parent :: "ppath \<Rightarrow> ppath" where
  "path_parent p = PPath (path_root p) (butlast (path_segs p))"

definition role :: "guard_env \<Rightarrow> string \<Rightarrow> string list \<Rightarrow> string option \<Rightarrow> managed_process" where
  "role env name command dir = \<lparr>mp_name = name, mp_command = command, mp_uid = Some (uid (appl env)),
     mp_gid = Some (gid (appl env)), mp_cwd = dir, mp_process = None\<rparr>"

definition base_processes :: "guard_env \<Rightarrow> py_error + managed_process list" where
  "base_processes env =
     bindE (volume_path (cfg env)) (\<lambda>vdir.
     bindE (index_path (cfg env)) (\<lambda>idir.
     Inr [role env ''master'' (master_command (cfg env)) None,
          role env ''volume'' (volume_command (cfg env) vdir idir) None,
          role env ''filer'' (filer_command (cfg env)) (map_option (\<lambda>p. string_of_path (path_parent p)) (filer_toml env)),
          role env ''s3'' (s3_command (cfg env) (s3_config_path env)) None]))"

text \<open>\<open>namespace_cwd_command\<close>: the directory is entered after the namespace.\<close>

definition namespace_cwd_command :: "string \<Rightarrow> string list \<Rightarrow> string option \<Rightarrow> string list" where
  "namespace_cwd_command exe command dir = (case dir of
     Some d \<Rightarrow> (if d = [] then command else [exe, ''-m'', ''s3_storage_node.process_exec'', ''--cwd'', d, ''--''] @ command)
   | None \<Rightarrow> command)"

primrec confine_all :: "guard_env \<Rightarrow> managed_process list \<Rightarrow> managed_process list guard" where
  "confine_all env [] = returnS []"
| "confine_all env (p # ps) =
     bindS (generation_command env (namespace_cwd_command (executable env) (mp_command p) (mp_cwd p)) True) (\<lambda>command.
     bindS (confine_all env ps) (\<lambda>rest.
     returnS (p\<lparr>mp_command := command, mp_uid := None, mp_gid := None, mp_cwd := None\<rparr> # rest)))"

definition build_processes :: "guard_env \<Rightarrow> managed_process list guard" where
  "build_processes env = (case base_processes env of
     Inl _ \<Rightarrow> raiseS GKey
   | Inr ps \<Rightarrow> (if worker_fencing_mode (appl env) \<noteq> ''namespace'' then returnS ps else confine_all env ps))"

section \<open>The volume status\<close>

definition lift_repair :: "'a act \<Rightarrow> 'a guard" where
  "lift_repair m = (\<lambda>s. case m (g_journal s) of (r, ws) \<Rightarrow>
     (case r of Inl e \<Rightarrow> Inl (GRepair e) | Inr x \<Rightarrow> Inr x, s\<lparr>g_journal := final (g_journal s) ws\<rparr>))"

text \<open>\<open>worker_endpoint_host\<close> of the configuration parses the worker's address.\<close>

definition worker_endpoint_host :: "guard_env \<Rightarrow> string guard" where
  "worker_endpoint_host env =
     (if worker_fencing_mode (appl env) \<noteq> ''namespace'' then returnS ''127.0.0.1''
      else case ip_interface env (worker_address (appl env)) of
        None \<Rightarrow> raiseS (GValue ''ip_interface'') | Some (a, _) \<Rightarrow> returnS a)"

definition run_canary :: "guard_env \<Rightarrow> unit guard" where
  "run_canary env = bindS (worker_endpoint_host env) (\<lambda>_.
     bindS (askS (EAsk ''canary'') (canary_error env)) (\<lambda>r. case r of
       Some e \<Rightarrow> raiseS (GCanary e) | None \<Rightarrow> returnS ()))"

definition canary_if_enabled :: "guard_env \<Rightarrow> unit guard" where
  "canary_if_enabled env = whenS (s3_canary_enabled (appl env)) (run_canary env)"

definition inspect_seaweed_volumes :: "guard_env \<Rightarrow> volume_status option guard" where
  "inspect_seaweed_volumes env =
     (if \<not> volume_health_enabled (seaweed (cfg env)) then returnS None
      else bindS (worker_endpoint_host env) (\<lambda>_. bindS (askS (EAsk ''volume status'') (volume_reply env)) (\<lambda>reply.
        case inspect_volume_status reply (set (expected_readonly_volume_ids (seaweed (cfg env)))) of
          Inl e \<Rightarrow> raiseS (GSeaweed e)
        | Inr st \<Rightarrow> returnS (Some st))))"

definition awaiting_validation :: "bool guard" where
  "awaiting_validation = getS (\<lambda>s. g_repair s \<and> list_ex awaiting (transactions (g_journal s)))"

definition certify_indexes_from_result :: "guard_env \<Rightarrow> unit guard" where
  "certify_indexes_from_result env =
     bindS (getS (\<lambda>s. hs_certified (history_snapshot_of (g_history s)))) (\<lambda>certified.
     whenS (\<not> certified) (bindS (time_of_day env) (\<lambda>clk.
       modS (\<lambda>s. s\<lparr>g_history := certify_indexes clk
         ''SeaweedFS loaded every volume without an unexpected upstream ReadOnly state'' (g_history s)\<rparr>))))"

definition repair_staging :: "guard_env \<Rightarrow> ppath" where
  "repair_staging env = (case index_repair_path (cfg env) of Inr p \<Rightarrow> path_div p ''staging'' | Inl _ \<Rightarrow> PPath [] [])"

text \<open>\<open>_accept_seaweed_volume_status\<close>: \<open>None\<close> is the empty result when the check is disabled.\<close>

definition accept_status :: "guard_env \<Rightarrow> volume_status option \<Rightarrow> unit guard" where
  "accept_status env result = (case result of
     None \<Rightarrow> returnS ()
   | Some st \<Rightarrow>
       bindS awaiting_validation (\<lambda>pending.
       if unexpected_readonly_volume_ids st \<noteq> []
       then raiseS (if pending then GValidation st else GReadonly st)
       else
         bindS (getS g_repair) (\<lambda>controller.
         bindS (whenS controller (bindS (getS trace) (\<lambda>tr.
             bindS (lift_repair (bindA load_all (reconcile_resolved_preinstall (repair_env_at env tr) (repair_staging env) st))) (\<lambda>_.
             returnS ())))) (\<lambda>_.
         bindS awaiting_validation (\<lambda>pending2.
         if pending2 then raiseS (GValidation st)
         else certify_indexes_from_result env)))))"

definition check_seaweed_volumes :: "guard_env \<Rightarrow> unit guard" where
  "check_seaweed_volumes env = bindS (inspect_seaweed_volumes env) (accept_status env)"

text \<open>What of a status must stay the same: the volumes with their flags; a status always lists its volumes.\<close>

definition status_signature :: "volume_status \<Rightarrow> volume list + (int \<times> int list \<times> int list)" where
  "status_signature st = (if volume_details st \<noteq> [] \<or> total st = 0 then Inl (volume_details st)
     else Inr (total st, readonly_volume_ids st, unexpected_readonly_volume_ids st))"

record stable_state =
  ss_signature :: "(volume list + (int \<times> int list \<times> int list)) option"
  ss_since :: rat
  ss_successes :: int

definition unstable :: stable_state where
  "unstable = \<lparr>ss_signature = None, ss_since = 0, ss_successes = 0\<rparr>"

definition next_stable :: "rat \<Rightarrow> volume_status \<Rightarrow> stable_state \<Rightarrow> stable_state" where
  "next_stable clk st ss =
     (if ss_signature ss \<noteq> Some (status_signature st)
      then \<lparr>ss_signature = Some (status_signature st), ss_since = clk, ss_successes = 1\<rparr>
      else ss\<lparr>ss_successes := ss_successes ss + 1\<rparr>)"

definition required_stability :: "guard_env \<Rightarrow> volume_status \<Rightarrow> int" where
  "required_stability env st = (if all_volumes_readonly st then all_readonly_wait_seconds (seaweed (cfg env))
     else recovery_stability_seconds (appl env))"

definition settled_status :: "guard_env \<Rightarrow> rat \<Rightarrow> volume_status \<Rightarrow> stable_state \<Rightarrow> bool" where
  "settled_status env clk st ss \<longleftrightarrow> recovery_successes_required (appl env) \<le> ss_successes ss
     \<and> of_int (required_stability env st) \<le> clk - ss_since ss"

definition stable_timeout :: "guard_env \<Rightarrow> int" where
  "stable_timeout env = max (startup_timeout_seconds (appl env))
     (all_readonly_wait_seconds (seaweed (cfg env)) + recovery_stability_seconds (appl env)
      + recovery_probe_interval_seconds (appl env) * recovery_successes_required (appl env))"

text \<open>A status that is settled: accepted, or refused when every volume is read-only.\<close>

definition settle :: "guard_env \<Rightarrow> volume_status \<Rightarrow> unit guard" where
  "settle env st = (if all_volumes_readonly st
     then raiseS (GUnstable (''SeaweedFS continued to report every volume read-only after ''
            @ show_int (required_stability env st) @ '' seconds; refusing broad automatic index repair ''
            @ ''without volume-specific evidence''))
     else accept_status env (Some st))"

definition sample_status :: "guard_env \<Rightarrow> stable_state \<Rightarrow> (stable_state \<times> volume_status option) guard" where
  "sample_status env ss = catchS
     (bindS (inspect_seaweed_volumes env) (\<lambda>r. case r of
        Some st \<Rightarrow> bindS (monotime env) (\<lambda>clk. let ss' = next_stable clk st ss
          in returnS (ss', if settled_status env clk st ss' then Some st else None))
      | None \<Rightarrow> returnS (ss, None)))
     (\<lambda>e. case e of GSeaweed _ \<Rightarrow> returnS (unstable, None) | _ \<Rightarrow> raiseS e)"

primrec stable_rounds :: "nat \<Rightarrow> nat \<Rightarrow> guard_env \<Rightarrow> rat \<Rightarrow> stable_state \<Rightarrow> unit guard" where
  "stable_rounds 0 n env deadline ss = raiseS Unfinished"
| "stable_rounds (Suc k) n env deadline ss =
     bindS (stop_requested env) (\<lambda>stop.
     if stop then raiseS KeyboardInterrupt
     else bindS (sample_status env ss) (\<lambda>(ss', final_status). case final_status of
       Some st \<Rightarrow> settle env st
     | None \<Rightarrow>
         bindS (monotime env) (\<lambda>clk.
         if deadline - clk \<le> 0
         then raiseS (GUnstable (''SeaweedFS volume status did not stabilize within '' @ show_int (stable_timeout env) @ '' seconds''))
         else bindS (interruptible_sleep n env (min (of_int (recovery_probe_interval_seconds (appl env))) (deadline - clk))) (\<lambda>_.
           stable_rounds k n env deadline ss'))))"

definition wait_for_stable_volumes :: "nat \<Rightarrow> guard_env \<Rightarrow> unit guard" where
  "wait_for_stable_volumes n env =
     (if \<not> volume_health_enabled (seaweed (cfg env)) then returnS ()
      else bindS (monotime env) (\<lambda>clk.
        bindS (set_health ''VERIFYING_SEAWEED_STATUS'' False) (\<lambda>_.
        stable_rounds n n env (clk + of_int (stable_timeout env)) unstable)))"

section \<open>Starting SeaweedFS\<close>

definition role_ports :: "config \<Rightarrow> int list" where
  "role_ports c = [master_port (seaweed c), volume_port (seaweed c), filer_port (seaweed c), s3_internal_port (seaweed c)]"

text \<open>Each role is started when the one before listens; the object of a started process replaces the old one.\<close>

primrec start_roles :: "guard_env \<Rightarrow> (managed_process \<times> int) list \<Rightarrow> unit guard" where
  "start_roles env [] = returnS ()"
| "start_roles env (pp # rest) =
     bindS (start_process (os_of env) (\<lambda>e. GProcess (SpawnError e)) (fst pp)) (\<lambda>p.
     bindS (modS (\<lambda>s. s\<lparr>g_processes := map (\<lambda>q. if mp_name q = mp_name p then p else q) (g_processes s)\<rparr>)) (\<lambda>_.
     bindS (worker_endpoint_host env) (\<lambda>host.
     bindS (wait_for_tcp (os_of env) GProcess host (snd pp) (startup_timeout_seconds (appl env)) p) (\<lambda>_.
     start_roles env rest))))"

definition start_seaweed :: "nat \<Rightarrow> guard_env \<Rightarrow> unit guard" where
  "start_seaweed n env =
     bindS (set_health ''STARTING_SEAWEED'' False) (\<lambda>_.
     bindS (build_processes env) (\<lambda>ps.
     bindS (modS (\<lambda>s. s\<lparr>g_processes := ps\<rparr>)) (\<lambda>_.
     bindS (start_roles env (zip ps (role_ports (cfg env)))) (\<lambda>_.
     bindS (wait_for_stable_volumes n env) (\<lambda>_.
     canary_if_enabled env)))))"

section \<open>Index repair\<close>

definition repair_cfg :: "guard_env \<Rightarrow> repair_settings" where
  "repair_cfg env = \<lparr>rs_enabled = auto_index_repair_enabled (seaweed (cfg env)),
     rs_max_volumes = index_repair_max_volumes (seaweed (cfg env)),
     rs_tail_enabled = auto_tail_recovery_enabled (seaweed (cfg env)),
     rs_tail_max_bytes = auto_tail_recovery_max_bytes (seaweed (cfg env))\<rparr>"

definition prepare_index_repair_offline :: "guard_env \<Rightarrow> unit guard" where
  "prepare_index_repair_offline env =
     bindS (modS (\<lambda>s. s\<lparr>g_repair := True\<rparr>)) (\<lambda>_.
     bindS (getS trace) (\<lambda>tr.
     lift_repair (bindA load_all (prepare_offline (repair_env_at env tr)))))"

text \<open>The volumes one after the other; the failures are collected.\<close>

primrec repair_volumes :: "guard_env \<Rightarrow> int list \<Rightarrow> string list guard" where
  "repair_volumes env [] = returnS []"
| "repair_volumes env (v # vs) =
     bindS (getS trace) (\<lambda>tr.
     bindS (case repair_inputs env tr v of (envs, inps) \<Rightarrow>
        catchS (bindS (lift_repair (repair_one envs (repair_cfg env) inps False)) (\<lambda>_. returnS []))
          (\<lambda>e. case e of
             GRepair _ \<Rightarrow> returnS [''volume '' @ show_int v @ '': '' @ describe env e]
           | _ \<Rightarrow> raiseS e)) (\<lambda>failed_here.
     bindS (repair_volumes env vs) (\<lambda>rest. returnS (failed_here @ rest))))"

definition repair_detected :: "guard_env \<Rightarrow> volume_status \<Rightarrow> unit guard" where
  "repair_detected env st =
     bindS (whenS (rs_enabled (repair_cfg env) \<and> \<not> all_volumes_readonly st) (set_health ''REPAIRING_INDEXES'' False)) (\<lambda>_.
     case repair_guard (repair_cfg env) st of
       Inl e \<Rightarrow> raiseS (GRepair e)
     | Inr vs \<Rightarrow>
         bindS (repair_volumes env vs) (\<lambda>failures.
         bindS awaiting_validation (\<lambda>pending.
         if failures \<noteq> [] \<and> \<not> pending then raiseS (GRepair (ManualIntervention (py_join ''; '' failures)))
         else returnS ())))"

definition validation_reason :: "int list \<Rightarrow> int list \<Rightarrow> string" where
  "validation_reason rejected unresolved = py_join ''; ''
     ((if rejected \<noteq> [] then [''candidate rejected for volume(s) '' @ py_join '','' (map show_int rejected)] else [])
      @ (if unresolved \<noteq> [] then [''unrepaired volume(s) '' @ py_join '','' (map show_int unresolved)] else []))"

definition readonly_of :: "volume_status \<Rightarrow> int \<Rightarrow> bool option" where
  "readonly_of st v = map_option vol_readonly (find (\<lambda>x. vol_id x = v) (rev (volume_details st)))"

text \<open>The writers are stopped before a rejected index is rolled back; then an operator is needed.\<close>

definition reject_validation :: "guard_env \<Rightarrow> int list \<Rightarrow> string \<Rightarrow> unit guard" where
  "reject_validation env rejected reason =
     bindS (monotime env) (\<lambda>_.
     bindS (stop_seaweed env) (\<lambda>stopped.
     if \<not> stopped then raiseS (GRepair (RepairError ''SeaweedFS writers did not stop before index rollback''))
     else bindS (ensure_no_lingering env) (\<lambda>_.
       bindS (whenS (rejected \<noteq> []) (bindS (getS trace) (\<lambda>tr.
          lift_repair (bindA load_all (rollback_rejected (repair_env_at env tr) rejected reason))))) (\<lambda>_.
       raiseS (GRepair (ManualIntervention reason))))))"

definition finish_index_validation :: "guard_env \<Rightarrow> volume_status \<Rightarrow> unit guard" where
  "finish_index_validation env st =
     bindS (getS trace) (\<lambda>tr.
     bindS (lift_repair (bindA load_all (validate_upstream (repair_env_at env tr) (readonly_of st)))) (\<lambda>(_, rejected).
     bindS (getS (\<lambda>s. unresolved_unexpected st (transactions (g_journal s)))) (\<lambda>unresolved.
     if rejected \<noteq> [] \<or> unresolved \<noteq> [] then reject_validation env rejected (validation_reason rejected unresolved)
     else bindS (certify_indexes_from_result env) (\<lambda>_. canary_if_enabled env))))"

text \<open>After a repair the second start must end in the validation of the candidates.\<close>

definition restart_after_repair :: "nat \<Rightarrow> guard_env \<Rightarrow> unit guard" where
  "restart_after_repair n env =
     bindS (catchS (bindS (start_seaweed n env) (\<lambda>_. returnS False)) (\<lambda>e. case e of
          GValidation st \<Rightarrow> bindS (finish_index_validation env st) (\<lambda>_. returnS True)
        | GReadonly st \<Rightarrow> raiseS (GRepair (ManualIntervention (describe env e)))
        | _ \<Rightarrow> raiseS e)) (\<lambda>validated.
     if validated then returnS ()
     else raiseS (GRepair (RepairError ''repair candidates were installed without entering upstream validation'')))"

definition repair_then_restart :: "nat \<Rightarrow> guard_env \<Rightarrow> volume_status \<Rightarrow> unit guard" where
  "repair_then_restart n env st =
     bindS (getS g_repair) (\<lambda>controller.
     if \<not> controller \<or> \<not> rs_enabled (repair_cfg env) then raiseS (GReadonly st)
     else
       bindS (set_health ''REPAIRING_INDEXES'' False) (\<lambda>_.
       bindS (monotime env) (\<lambda>_.
       bindS (stop_seaweed env) (\<lambda>stopped.
       if \<not> stopped then raiseS (GRepair (RepairError ''SeaweedFS writers did not stop before the repair deadline''))
       else bindS (ensure_no_lingering env) (\<lambda>_.
         bindS (repair_detected env st) (\<lambda>_. restart_after_repair n env))))))"

definition start_seaweed_with_index_recovery :: "nat \<Rightarrow> guard_env \<Rightarrow> unit guard" where
  "start_seaweed_with_index_recovery n env =
     catchS (start_seaweed n env) (\<lambda>e. case e of
        GValidation st \<Rightarrow> finish_index_validation env st
      | GReadonly st \<Rightarrow> repair_then_restart n env st
      | _ \<Rightarrow> raiseS e)"

section \<open>Going online and staying there\<close>

primrec recovery_rounds :: "nat \<Rightarrow> nat \<Rightarrow> guard_env \<Rightarrow> rat \<Rightarrow> int \<Rightarrow> unit guard" where
  "recovery_rounds 0 n env since successes = raiseS Unfinished"
| "recovery_rounds (Suc k) n env since successes =
     bindS (stop_requested env) (\<lambda>stop.
     if stop then raiseS KeyboardInterrupt
     else bindS (probe_targets env True) (\<lambda>_.
       bindS (check_seaweed_volumes env) (\<lambda>_.
       bindS (canary_if_enabled env) (\<lambda>_.
       bindS (monotime env) (\<lambda>clk.
       if recovery_successes_required (appl env) \<le> successes + 1
          \<and> of_int (recovery_stability_seconds (appl env)) \<le> clk - since
       then returnS ()
       else bindS (interruptible_sleep n env (of_int (recovery_probe_interval_seconds (appl env)))) (\<lambda>_.
         recovery_rounds k n env since (successes + 1)))))))"

definition stabilize_recovery_base :: "nat \<Rightarrow> guard_env \<Rightarrow> unit guard" where
  "stabilize_recovery_base n env =
     bindS (monotime env) (\<lambda>since.
     bindS (set_health ''VERIFYING_RECOVERY'' False) (\<lambda>_. recovery_rounds n n env since 0))"

definition require_running :: "guard_env \<Rightarrow> string \<Rightarrow> managed_process \<Rightarrow> unit guard" where
  "require_running env name p =
     bindS (running (os_of env) p) (\<lambda>alive.
     if alive then returnS ()
     else bindS (exit_code (os_of env) p) (\<lambda>c. raiseS (GProcess (ProcessError (name @ '' exited with code '' @ code_text c)))))"

text \<open>One round of \<open>_online_loop\<close>, and the time of the next full probe.\<close>

definition online_check :: "guard_env \<Rightarrow> rat \<Rightarrow> rat guard" where
  "online_check env next_full =
     bindS (getS g_haproxy) (\<lambda>h.
     bindS (case h of None \<Rightarrow> returnS () | Some p \<Rightarrow> require_running env ''HAProxy'' p) (\<lambda>_.
     bindS (getS g_processes) (\<lambda>ps.
     bindS (forS (\<lambda>p. require_running env (mp_name p) p) ps) (\<lambda>_.
     bindS (monotime env) (\<lambda>clk.
     bindS (probe_targets env (next_full \<le> clk)) (\<lambda>_.
     if next_full \<le> clk then
       bindS (check_seaweed_volumes env) (\<lambda>_.
       bindS (canary_if_enabled env) (\<lambda>_.
       bindS (monotime env) (\<lambda>clk2. returnS (clk2 + of_int (full_probe_interval_seconds (appl env))))))
     else returnS next_full))))))"

definition suspect :: "'a guard \<Rightarrow> 'a guard" where
  "suspect m = catchS m (\<lambda>e. bindS (whenS (is_exception e) (set_health ''SUSPECT'' False)) (\<lambda>_. raiseS e))"

primrec online_rounds :: "nat \<Rightarrow> nat \<Rightarrow> guard_env \<Rightarrow> rat \<Rightarrow> unit guard" where
  "online_rounds 0 n env next_full = raiseS Unfinished"
| "online_rounds (Suc k) n env next_full =
     bindS (stop_requested env) (\<lambda>stop.
     if stop then returnS ()
     else bindS (suspect (online_check env next_full)) (\<lambda>next_full'.
       bindS (interruptible_sleep n env (of_int (app_probe_interval_seconds (appl env)))) (\<lambda>_.
       online_rounds k n env next_full')))"

definition online_loop :: "nat \<Rightarrow> guard_env \<Rightarrow> unit guard" where
  "online_loop n env =
     bindS (modS (\<lambda>s. s\<lparr>g_watch := True\<rparr>)) (\<lambda>_.
     finallyS
       (bindS (monotime env) (\<lambda>clk. online_rounds n n env (clk + of_int (full_probe_interval_seconds (appl env)))))
       (modS (\<lambda>s. s\<lparr>g_watch := False\<rparr>)))"

end
