(* ===== verification/Writer_Lease.thy ===== *)
theory Writer_Lease
  imports Prelude
begin

text \<open>
  The local writer lease of \<open>generation.py\<close>: several guardians, each with its own \<open>LocalWriterLease\<close> on the
  same lock file. The operating system keeps at most one exclusive \<open>flock\<close> on the file and drops it when the
  owner closes it or dies; everything else is the code's: acquiring takes the lock, empties the file and
  writes the owner's record, and these steps of different guardians interleave.
\<close>

section \<open>State\<close>

record lock_doc =
  doc_node :: string
  doc_pid :: int
  doc_acquired_at :: rat

text \<open>Where a guardian stands in \<open>acquire\<close>: without a handle, with the lock taken, with the file emptied, or
  with its record written and the handle kept (\<open>held\<close>).\<close>

datatype lease_phase = LeaseIdle | LeaseLocked | LeaseEmptied | LeaseHeld

record lease_sys =
  lease_phase :: "nat \<Rightarrow> lease_phase"
  flock_owner :: "nat option"
  lock_text :: "lock_doc option"

text \<open>The name and process id of each guardian.\<close>

type_synonym guardians = "nat \<Rightarrow> string \<times> int"

datatype lease_error = AlreadyHeld "lock_doc option"

definition held :: "lease_sys \<Rightarrow> nat \<Rightarrow> bool" where
  "held s i \<longleftrightarrow> lease_phase s i = LeaseHeld"

section \<open>Operations\<close>

text \<open>The lock is refused to a second open handle, also to one of the same guardian; the error then quotes the
  text of the file, or \<open>another guardian\<close> when it is empty.\<close>

definition take_flock :: "nat \<Rightarrow> lease_sys \<Rightarrow> lease_error + lease_sys" where
  "take_flock i s = (case flock_owner s of
       Some _ \<Rightarrow> Inl (AlreadyHeld (lock_text s))
     | None \<Rightarrow> Inr (s\<lparr>flock_owner := Some i, lease_phase := (lease_phase s)(i := LeaseLocked)\<rparr>))"

definition empty_lock_file :: "nat \<Rightarrow> lease_sys \<Rightarrow> lease_sys" where
  "empty_lock_file i s = s\<lparr>lock_text := None, lease_phase := (lease_phase s)(i := LeaseEmptied)\<rparr>"

definition write_lock_file :: "guardians \<Rightarrow> rat \<Rightarrow> nat \<Rightarrow> lease_sys \<Rightarrow> lease_sys" where
  "write_lock_file gs clock i s =
     s\<lparr>lock_text := Some \<lparr>doc_node = fst (gs i), doc_pid = snd (gs i), doc_acquired_at = clock\<rparr>,
       lease_phase := (lease_phase s)(i := LeaseHeld)\<rparr>"

definition acquire :: "guardians \<Rightarrow> rat \<Rightarrow> nat \<Rightarrow> lease_sys \<Rightarrow> lease_error + lease_sys" where
  "acquire gs clock i s =
     bindE (take_flock i s) (\<lambda>s1. Inr (write_lock_file gs clock i (empty_lock_file i s1)))"

definition drop_lock :: "nat \<Rightarrow> lease_sys \<Rightarrow> lease_sys" where
  "drop_lock i s =
     s\<lparr>flock_owner := (if flock_owner s = Some i then None else flock_owner s),
       lease_phase := (lease_phase s)(i := LeaseIdle)\<rparr>"

definition release :: "nat \<Rightarrow> lease_sys \<Rightarrow> lease_sys" where
  "release i s = (if held s i then drop_lock i s else s)"

section \<open>Interleavings\<close>

text \<open>One step of one guardian, or its death at any point.\<close>

inductive lease_step :: "guardians \<Rightarrow> lease_sys \<Rightarrow> lease_sys \<Rightarrow> bool" for gs where
  step_lock: "lease_phase s i = LeaseIdle \<Longrightarrow> take_flock i s = Inr s' \<Longrightarrow> lease_step gs s s'"
| step_empty: "lease_phase s i = LeaseLocked \<Longrightarrow> lease_step gs s (empty_lock_file i s)"
| step_write: "lease_phase s i = LeaseEmptied \<Longrightarrow> lease_step gs s (write_lock_file gs clock i s)"
| step_release: "lease_step gs s (release i s)"
| step_die: "lease_step gs s (drop_lock i s)"

definition lease_start :: "lock_doc option \<Rightarrow> lease_sys" where
  "lease_start left_over = \<lparr>lease_phase = \<lambda>_. LeaseIdle, flock_owner = None, lock_text = left_over\<rparr>"

inductive lease_reachable :: "guardians \<Rightarrow> lease_sys \<Rightarrow> bool" for gs where
  reach_start: "lease_reachable gs (lease_start left_over)"
| reach_step: "lease_reachable gs s \<Longrightarrow> lease_step gs s s' \<Longrightarrow> lease_reachable gs s'"

definition names_holder :: "guardians \<Rightarrow> nat \<Rightarrow> lock_doc option \<Rightarrow> bool" where
  "names_holder gs i text = (case text of
       None \<Rightarrow> False
     | Some d \<Rightarrow> doc_node d = fst (gs i) \<and> doc_pid d = snd (gs i))"

definition lease_inv :: "guardians \<Rightarrow> lease_sys \<Rightarrow> bool" where
  "lease_inv gs s \<longleftrightarrow> (\<forall>i. lease_phase s i \<noteq> LeaseIdle \<longleftrightarrow> flock_owner s = Some i)
     \<and> (\<forall>i. held s i \<longrightarrow> names_holder gs i (lock_text s))"

lemmas lease_defs = take_flock_def empty_lock_file_def write_lock_file_def drop_lock_def release_def held_def
  names_holder_def

lemma lease_inv_start: "lease_inv gs (lease_start left_over)"
  by (simp add: lease_inv_def lease_start_def held_def)

lemma lease_inv_owner:
  "lease_inv gs s \<Longrightarrow> lease_phase s i \<noteq> LeaseIdle \<Longrightarrow> flock_owner s = Some i \<and> (\<forall>j. j \<noteq> i \<longrightarrow> lease_phase s j = LeaseIdle)"
  unfolding lease_inv_def by (metis option.inject)

text \<open>The owner of the lock may rewrite the file and move on.\<close>

lemma lease_inv_phase:
  assumes "lease_inv gs s" "lease_phase s i \<noteq> LeaseIdle" "ph \<noteq> LeaseIdle" "ph = LeaseHeld \<Longrightarrow> names_holder gs i text"
  shows "lease_inv gs (s\<lparr>lock_text := text, lease_phase := (lease_phase s)(i := ph)\<rparr>)"
proof -
  have o: "flock_owner s = Some i" "\<And>j. j \<noteq> i \<Longrightarrow> lease_phase s j = LeaseIdle"
    using lease_inv_owner[OF assms(1,2)] by blast+
  show ?thesis unfolding lease_inv_def held_def
  proof (intro conjI allI)
    fix j show "lease_phase (s\<lparr>lock_text := text, lease_phase := (lease_phase s)(i := ph)\<rparr>) j \<noteq> LeaseIdle
        \<longleftrightarrow> flock_owner (s\<lparr>lock_text := text, lease_phase := (lease_phase s)(i := ph)\<rparr>) = Some j"
      using o assms(3) by (cases "j = i") simp_all
    show "lease_phase (s\<lparr>lock_text := text, lease_phase := (lease_phase s)(i := ph)\<rparr>) j = LeaseHeld
        \<longrightarrow> names_holder gs j (lock_text (s\<lparr>lock_text := text, lease_phase := (lease_phase s)(i := ph)\<rparr>))"
      using o assms(4) by (cases "j = i") simp_all
  qed
qed

lemma lease_inv_drop: "lease_inv gs s \<Longrightarrow> lease_inv gs (drop_lock i s)"
  by (auto simp: lease_inv_def drop_lock_def held_def)

lemma lease_inv_step:
  assumes "lease_step gs s s'" "lease_inv gs s"
  shows "lease_inv gs s'"
  using assms
proof (induction rule: lease_step.induct)
  case (step_lock s i s')
  then show ?case by (auto simp: lease_inv_def take_flock_def held_def split: option.splits if_splits)
next
  case (step_empty s i)
  then show ?case using lease_inv_phase[of gs s i LeaseEmptied None] by (simp add: empty_lock_file_def)
next
  case (step_write s i clock)
  then show ?case
    using lease_inv_phase[of gs s i LeaseHeld "Some \<lparr>doc_node = fst (gs i), doc_pid = snd (gs i), doc_acquired_at = clock\<rparr>"]
    by (simp add: write_lock_file_def names_holder_def)
next
  case (step_release s i)
  then show ?case by (simp add: release_def lease_inv_drop)
next
  case (step_die s i)
  then show ?case by (simp add: lease_inv_drop)
qed

lemma lease_reachable_inv: "lease_reachable gs s \<Longrightarrow> lease_inv gs s"
  by (induction rule: lease_reachable.induct) (auto intro: lease_inv_start lease_inv_step)

section \<open>Properties\<close>


definition example_lease :: lease_sys where
  "example_lease = write_lock_file (\<lambda>i. (''node'', int i)) 5 1 (empty_lock_file 1
     ((lease_start None)\<lparr>flock_owner := Some 1, lease_phase := (lease_phase (lease_start None))(1 := LeaseLocked)\<rparr>))"


end
