(* ===== verification/Guardian_Run.thy ===== *)
theory Guardian_Run
  imports Guardian_Seaweed Writer_Lease
begin

text \<open>
  The life of a generation under the guardian: its creation, its fence, its end with the recorded outcome, its
  retirement, and the loop of \<open>run\<close> that replaces one generation by the next. One turn of the loop is an operation;
  the loop is the relation between the states at the head of successive turns.
\<close>

section \<open>Publishing\<close>

text \<open>\<open>_publish_generation\<close> reads the worker's address, which may fail to parse; \<open>_publish_transport\<close> reads the selector
  file, which may be unreadable.\<close>

definition publish_generation :: "guard_env \<Rightarrow> unit guard" where
  "publish_generation env = bindS (getS g_worker) (\<lambda>w. case w of
     None \<Rightarrow> returnS ()
   | Some g \<Rightarrow> (case worker_ip (gen_of env) g of Inl e \<Rightarrow> raiseS (GGeneration e) | Inr _ \<Rightarrow> returnS ()))"

definition publish_transport :: "guard_env \<Rightarrow> unit guard" where
  "publish_transport env = (case failover env of
     None \<Rightarrow> returnS ()
   | Some fo \<Rightarrow> bindS (selectorS env status fo) (\<lambda>_. returnS ()))"

text \<open>An operation that replaces the selector file.\<close>

definition selector_writeS :: "(transport_file \<Rightarrow> transport_error + transport_file) \<Rightarrow> unit guard" where
  "selector_writeS f = bindS (getS (\<lambda>s. f (g_selector s))) (\<lambda>r. case r of
     Inl e \<Rightarrow> raiseS (GTransport e) | Inr file \<Rightarrow> modS (\<lambda>s. s\<lparr>g_selector := file\<rparr>))"

section \<open>HAProxy\<close>

definition ensure_haproxy :: "guard_env \<Rightarrow> unit guard" where
  "ensure_haproxy env =
     bindS (getS g_haproxy) (\<lambda>h.
     bindS (case h of None \<Rightarrow> returnS False | Some p \<Rightarrow> running (os_of env) p) (\<lambda>alive.
     if alive then returnS ()
     else
       bindS (modS (\<lambda>s. s\<lparr>g_haproxy := Some (role env ''haproxy'' [''/usr/sbin/haproxy'', ''-W'', ''-db'', ''-f'', haproxy_path env] None)\<rparr>)) (\<lambda>_.
       bindS (start_process (os_of env) (\<lambda>e. GProcess (SpawnError e))
           (role env ''haproxy'' [''/usr/sbin/haproxy'', ''-W'', ''-db'', ''-f'', haproxy_path env] None)) (\<lambda>p.
       bindS (modS (\<lambda>s. s\<lparr>g_haproxy := Some p\<rparr>)) (\<lambda>_.
       bindS (time_sleep (1 / 4)) (\<lambda>_.
       bindS (running (os_of env) p) (\<lambda>up.
       if up then returnS ()
       else bindS (exit_code (os_of env) p) (\<lambda>c. raiseS (GRuntime (''HAProxy exited with code '' @ code_text c))))))))))"

section \<open>Creation\<close>

definition record_creation_failure :: "guard_env \<Rightarrow> guard_error \<Rightarrow> unit guard" where
  "record_creation_failure env e =
     bindS (getS (\<lambda>s. last_allocated (g_factory s))) (\<lambda>allocated.
     whenS (allocated > 0)
       (bindS (time_of_day env) (\<lambda>t0.
        bindS (modS (\<lambda>s. s\<lparr>g_history := start_generation t0 allocated (g_transport s) (worker_fencing_mode (appl env)) (g_history s)\<rparr>)) (\<lambda>_.
        bindS (time_of_day env) (\<lambda>t1.
        modS (\<lambda>s. s\<lparr>g_history := finish_generation t1 \<lparr>o_cause = ''generation_creation_failure'', o_reason = describe env e,
            o_phase = ''CREATING_GENERATION'', o_clean = False, o_fence = False\<rparr> (g_history s)\<rparr>))))))"

text \<open>\<open>create\<close> of the factory: the counter moves whether the start succeeds or not; the generation is the guardian's only
  if it does.\<close>

definition create_worker :: "guard_env \<Rightarrow> unit guard" where
  "create_worker env = (\<lambda>s.
     case create_generation (gen_of env) (fresh_token env (trace s)) (runtime_dir (appl env))
            (worker_fencing_mode (appl env)) (worker_host_address (appl env)) (worker_address (appl env))
            (worker_gateway (appl env)) (trace s) None (g_factory s) of
       (Inl e, g, f) \<Rightarrow> (Inl (GGeneration e), s\<lparr>g_factory := f, trace := trace g\<rparr>)
     | (Inr _, g, f) \<Rightarrow> (Inr (), s\<lparr>g_factory := f, g_worker := Some g, trace := trace g\<rparr>))"

definition retire_generation :: "guard_env \<Rightarrow> unit guard" where
  "retire_generation env = bindS (getS g_worker) (\<lambda>w.
     if w = None then returnS ()
     else finallyS
       (bindS (catchS (bindS (workerS (retire (gen_of env))) (\<lambda>_. returnS True)) (\<lambda>e.
          bindS (modS (\<lambda>s. s\<lparr>g_fatal := True\<rparr>)) (\<lambda>_.
          bindS (workerS (stop_keeper (gen_of env))) (\<lambda>_.
          bindS (set_health ''FENCE_FAILED'' False) (\<lambda>_. returnS False))))) (\<lambda>ok.
        whenS ok (publish_generation env)))
       (modS (\<lambda>s. s\<lparr>g_worker := None\<rparr>)))"

definition begin_generation_base :: "guard_env \<Rightarrow> unit guard" where
  "begin_generation_base env =
     bindS (ensure_no_lingering env) (\<lambda>_.
     bindS (retire_generation env) (\<lambda>_.
     bindS (set_health ''CREATING_GENERATION'' False) (\<lambda>_.
     bindS (catchS (create_worker env) (\<lambda>e. bindS (record_creation_failure env e) (\<lambda>_. raiseS e))) (\<lambda>_.
     bindS (time_of_day env) (\<lambda>t.
     bindS (modS (\<lambda>s. s\<lparr>g_history := start_generation t (generation (the (g_worker s))) (g_transport s)
         (mode (the (g_worker s))) (g_history s)\<rparr>)) (\<lambda>_.
     publish_generation env))))))"

text \<open>The transport of the next generation, chosen while nothing of the last one is left.\<close>

definition select_transport :: "guard_env \<Rightarrow> unit guard" where
  "select_transport env = (case failover env of
     None \<Rightarrow> modS (\<lambda>s. s\<lparr>g_transport := [], g_pending := False, g_environ := None\<rparr>)
   | Some fo \<Rightarrow>
       bindS (set_health ''SELECTING_TRANSPORT'' False) (\<lambda>_.
       bindS (time_of_day env) (\<lambda>t0.
       bindS (time_of_day env) (\<lambda>t1.
       bindS (selectorS env (\<lambda>fo. select fo t0 t1) fo) (\<lambda>(n, file).
       bindS (modS (\<lambda>s. s\<lparr>g_selector := file, g_transport := n, g_environ := Some n,
           g_fingerprint := verification_fingerprint_of env\<rparr>)) (\<lambda>_.
       if verify_all_transports_on_startup fo
       then bindS (selectorS env (\<lambda>_. startup_verification_required (verification_fingerprint_of env)) fo) (\<lambda>needed.
              modS (\<lambda>s. s\<lparr>g_pending := needed\<rparr>))
       else modS (\<lambda>s. s\<lparr>g_pending := False\<rparr>)))))))"

definition begin_generation :: "guard_env \<Rightarrow> unit guard" where
  "begin_generation env =
     bindS (modS (\<lambda>s. s\<lparr>g_transport_failure := False, g_failure_name := [], g_switch := False, g_detached := False,
         g_verifying := []\<rparr>)) (\<lambda>_.
     bindS (ensure_no_lingering env) (\<lambda>_.
     bindS (reap_helpers env) (\<lambda>_.
     bindS (getS g_helpers) (\<lambda>hs.
     if hs \<noteq> [] then raiseS (GStorage ''a previous storage helper is still blocked; refusing to select another transport'')
     else
       bindS (select_transport env) (\<lambda>_.
       bindS (begin_generation_base env) (\<lambda>_. publish_transport env))))))"

section \<open>Fencing and ending\<close>

definition fence_generation_base :: "guard_env \<Rightarrow> string \<Rightarrow> bool guard" where
  "fence_generation_base env reason = bindS (getS g_worker) (\<lambda>w.
     if w = None then returnS True
     else
       bindS (set_health ''FENCING'' False) (\<lambda>_.
       bindS (catchS (bindS (workerS (fence (gen_of env) reason)) (\<lambda>_. returnS True)) (\<lambda>_.
          bindS (modS (\<lambda>s. s\<lparr>g_fatal := True\<rparr>)) (\<lambda>_.
          bindS (set_health ''FENCE_FAILED'' False) (\<lambda>_. returnS False)))) (\<lambda>ok.
       bindS (publish_generation env) (\<lambda>_. returnS ok))))"

text \<open>After the fence: an SSHFS process of the failed transport is stopped, best effort.\<close>

definition storeS :: "'a storage \<Rightarrow> 'a guard" where
  "storeS m = zoomS (\<lambda>s. (g_store s)\<lparr>trace := trace s\<rparr>) (\<lambda>t s. s\<lparr>g_store := t, trace := trace t\<rparr>) (\<lambda>_. GStorage []) m"

definition reap_sshfs :: "guard_env \<Rightarrow> failover_config \<Rightarrow> string \<Rightarrow> unit guard" where
  "reap_sshfs env fo transport = (case target_named (cfg env) (fo_target fo) of
     Inl _ \<Rightarrow> returnS ()
   | Inr base \<Rightarrow> (case resolve_target (Some fo) base (fo_target fo) transport of
       Inl _ \<Rightarrow> returnS ()
     | Inr t \<Rightarrow> whenS (tgt_type t = ''sshfs'') (catchS (storeS (stop_sshfs_process (store_env env) t)) (\<lambda>_. returnS ()))))"

definition failed_transport :: "guard_state \<Rightarrow> string" where
  "failed_transport s = (if g_failure_name s \<noteq> [] then g_failure_name s else g_transport s)"

definition blame_transport :: "guard_env \<Rightarrow> failover_config \<Rightarrow> string \<Rightarrow> string \<Rightarrow> unit guard" where
  "blame_transport env fo bad reason =
     bindS (stop_requested env) (\<lambda>stop.
     bindS (getS (\<lambda>s. g_transport_failure s \<and> \<not> g_switch s)) (\<lambda>blame.
     whenS (\<not> stop \<and> blame)
       (bindS (time_of_day env) (\<lambda>t0. bindS (time_of_day env) (\<lambda>t1.
        bindS (selector_writeS (record_failure fo bad reason t0 t1)) (\<lambda>_. publish_transport env))))))"

definition fence_generation :: "guard_env \<Rightarrow> string \<Rightarrow> bool guard" where
  "fence_generation env reason =
     bindS (fence_generation_base env reason) (\<lambda>ok.
     bindS (getS failed_transport) (\<lambda>bad.
     bindS (case failover env of
         None \<Rightarrow> returnS ()
       | Some fo \<Rightarrow> whenS ok
           (bindS (whenS (bad \<noteq> []) (bindS (reap_sshfs env fo bad) (\<lambda>_. blame_transport env fo bad reason))) (\<lambda>_.
            publish_transport env))) (\<lambda>_.
     returnS ok)))"

definition finish_history :: "guard_env \<Rightarrow> outcome \<Rightarrow> unit guard" where
  "finish_history env oc = bindS (time_of_day env) (\<lambda>t. modS (\<lambda>s. s\<lparr>g_history := finish_generation t oc (g_history s)\<rparr>))"

text \<open>Draining first: processes, then targets, within the grace; the fence follows in every case, and after a drain that
  was not clean the targets are detached once more behind it.\<close>

definition drain :: "guard_env \<Rightarrow> bool \<Rightarrow> bool guard" where
  "drain env unmount_all =
     bindS (monotime env) (\<lambda>start.
     bindS (stop_seaweed env) (\<lambda>stopped.
     if \<not> stopped then returnS False
     else bindS (monotime env) (\<lambda>t.
       repair_targets env unmount_all (Some (max 0 (start + of_int (shutdown_grace_seconds (appl env)) - t))))))"

definition terminate_generation_base :: "guard_env \<Rightarrow> string \<Rightarrow> string \<Rightarrow> string \<Rightarrow> bool \<Rightarrow> bool guard" where
  "terminate_generation_base env reason cause ph unmount_all = bindS (getS g_worker) (\<lambda>w.
     if w = None
     then bindS (monotime env) (\<lambda>_. bindS (stop_seaweed env) (\<lambda>_.
          bindS (repair_targets env unmount_all None) (\<lambda>_. returnS True)))
     else
       bindS (drain env unmount_all) (\<lambda>clean.
       bindS (fence_generation env reason) (\<lambda>ok.
       bindS (if clean then returnS True else repair_targets env unmount_all None) (\<lambda>_.
       bindS (finish_history env \<lparr>o_cause = cause, o_reason = reason, o_phase = ph, o_clean = clean, o_fence = ok\<rparr>) (\<lambda>_.
       returnS ok)))))"

text \<open>\<open>_terminate_generation\<close> of \<open>transport_guardian.py\<close>: a transport whose tasks stay behind a verified fence is
  quarantined.\<close>

definition terminate_generation :: "guard_env \<Rightarrow> string \<Rightarrow> string \<Rightarrow> string \<Rightarrow> bool \<Rightarrow> bool guard" where
  "terminate_generation env reason cause ph unmount_all =
     bindS (getS failed_transport) (\<lambda>transport.
     bindS (terminate_generation_base env reason cause ph unmount_all) (\<lambda>ok.
     bindS (getS g_lingering) (\<lambda>ps.
     bindS (still_running env ps) (\<lambda>alive.
     bindS (getS g_helpers) (\<lambda>hs.
     bindS (filterS (helper_alive env) hs) (\<lambda>busy.
     bindS (case failover env of
         Some fo \<Rightarrow> whenS (ok \<and> transport \<noteq> [] \<and> (alive \<noteq> [] \<or> busy \<noteq> []))
           (bindS (time_of_day env) (\<lambda>t.
            bindS (selector_writeS (quarantine fo transport reason t)) (\<lambda>_. publish_transport env)))
       | None \<Rightarrow> returnS ()) (\<lambda>_.
     returnS ok)))))))"

section \<open>Mounting\<close>

definition helper_on :: "guard_env \<Rightarrow> string \<Rightarrow> string \<Rightarrow> unit guard" where
  "helper_on env op name = bindS (run_helper env op (Some name) False) (\<lambda>_. returnS ())"

definition mount_and_enroll_base :: "guard_env \<Rightarrow> unit guard" where
  "mount_and_enroll_base env =
     bindS (ensure_no_lingering env) (\<lambda>_.
     bindS (targets_of env) (\<lambda>ts.
     bindS (forS (\<lambda>t. bindS (helper_on env ''mount'' (tgt_name t)) (\<lambda>_. helper_on env ''prepare'' (tgt_name t))) ts) (\<lambda>_.
     bindS (run_helper env ''prepare-layout'' None False) (\<lambda>_. returnS ()))))"

text \<open>A transport is verified by a mount, an enrolment and a full probe, and detached however that ends; the first
  error wins.\<close>

definition verify_transport :: "guard_env \<Rightarrow> failover_config \<Rightarrow> string \<Rightarrow> unit guard" where
  "verify_transport env fo transport =
     bindS (modS (\<lambda>s. s\<lparr>g_environ := Some transport, g_verifying := transport\<rparr>)) (\<lambda>_.
     bindS (set_health ''VERIFYING_TRANSPORTS'' False) (\<lambda>_.
     bindS (publish_transport env) (\<lambda>_.
     bindS (catchS
       (bindS (helper_on env ''mount'' (fo_target fo)) (\<lambda>_.
        bindS (helper_on env ''prepare'' (fo_target fo)) (\<lambda>_.
        bindS (run_helper env ''probe'' (Some (fo_target fo)) True) (\<lambda>_. returnS None))))
       (\<lambda>e. if is_exception e then returnS (Some e) else raiseS e)) (\<lambda>original.
     bindS (catchS (helper_on env ''unmount'' (fo_target fo))
       (\<lambda>e. if is_exception e \<and> original \<noteq> None then returnS () else raiseS e)) (\<lambda>_.
     case original of Some e \<Rightarrow> raiseS e | None \<Rightarrow> returnS ())))))"

primrec verify_transports :: "guard_env \<Rightarrow> failover_config \<Rightarrow> string list \<Rightarrow> string list guard" where
  "verify_transports env fo [] = returnS []"
| "verify_transports env fo (n # ns) =
     bindS (selectorS env status fo) (\<lambda>st.
     if quarantined (st_state st) n \<noteq> None then verify_transports env fo ns
     else bindS (verify_transport env fo n) (\<lambda>_.
       bindS (verify_transports env fo ns) (\<lambda>rest. returnS (n # rest))))"

definition verify_all_transports :: "guard_env \<Rightarrow> unit guard" where
  "verify_all_transports env = bindS (getS g_pending) (\<lambda>pending.
     case failover env of
       Some fo \<Rightarrow>
         (if \<not> pending then returnS ()
          else bindS (getS g_transport) (\<lambda>selected.
            finallyS
              (bindS (verify_transports env fo (ordered_names fo)) (\<lambda>verified.
               bindS (getS g_fingerprint) (\<lambda>fp.
               bindS (time_of_day env) (\<lambda>t.
               bindS (selector_writeS (record_startup_verification fp verified t)) (\<lambda>_.
               modS (\<lambda>s. s\<lparr>g_pending := False\<rparr>))))))
              (bindS (modS (\<lambda>s. s\<lparr>g_verifying := [], g_environ := Some selected\<rparr>)) (\<lambda>_. publish_transport env))))
     | None \<Rightarrow> returnS ())"

definition mount_and_enroll :: "guard_env \<Rightarrow> unit guard" where
  "mount_and_enroll env = bindS (verify_all_transports env) (\<lambda>_. mount_and_enroll_base env)"

definition stabilize_recovery :: "nat \<Rightarrow> guard_env \<Rightarrow> unit guard" where
  "stabilize_recovery n env =
     bindS (stabilize_recovery_base n env) (\<lambda>_.
     bindS (getS g_transport) (\<lambda>transport.
     case failover env of
       Some fo \<Rightarrow> whenS (transport \<noteq> [])
         (bindS (time_of_day env) (\<lambda>t0. bindS (time_of_day env) (\<lambda>t1.
          bindS (selector_writeS (record_success transport t0 t1)) (\<lambda>_.
          bindS (modS (\<lambda>s. s\<lparr>g_transport_failure := False, g_failure_name := []\<rparr>)) (\<lambda>_. publish_transport env)))))
     | None \<Rightarrow> returnS ()))"

section \<open>The loop\<close>

text \<open>Going online and staying there until something fails or a stop is requested.\<close>

definition serve :: "nat \<Rightarrow> guard_env \<Rightarrow> unit guard" where
  "serve n env =
     bindS (ensure_haproxy env) (\<lambda>_.
     bindS (begin_generation env) (\<lambda>_.
     bindS (set_health ''MOUNTING'' False) (\<lambda>_.
     bindS (mount_and_enroll env) (\<lambda>_.
     bindS (set_health ''VERIFYING_STORAGE'' False) (\<lambda>_.
     bindS (probe_targets env True) (\<lambda>_.
     bindS (prepare_index_repair_offline env) (\<lambda>_.
     bindS (start_seaweed_with_index_recovery n env) (\<lambda>_.
     bindS (stabilize_recovery n env) (\<lambda>_.
     set_health ''ONLINE'' True)))))))))"

text \<open>\<open>_wait_for_blocked_cleanup\<close>: no way on while a process or a helper of an earlier generation is there.\<close>

primrec blocked_rounds :: "nat \<Rightarrow> nat \<Rightarrow> guard_env \<Rightarrow> unit guard" where
  "blocked_rounds 0 n env = raiseS Unfinished"
| "blocked_rounds (Suc k) n env =
     bindS (stop_requested env) (\<lambda>stop.
     if stop then returnS ()
     else
       bindS (getS g_lingering) (\<lambda>ps.
       bindS (still_running env ps) (\<lambda>alive.
       bindS (reap_helpers env) (\<lambda>_.
       bindS (getS g_helpers) (\<lambda>hs.
       bindS (filterS (helper_alive env) hs) (\<lambda>busy.
       if alive = [] \<and> busy = [] then returnS ()
       else
         bindS (set_health ''HOST_RECOVERY_REQUIRED'' False) (\<lambda>_.
         bindS (interruptible_sleep n env 5) (\<lambda>_. blocked_rounds k n env))))))))"

definition wait_for_blocked_cleanup :: "nat \<Rightarrow> guard_env \<Rightarrow> unit guard" where
  "wait_for_blocked_cleanup n env = bindS (time_of_day env) (\<lambda>_. blocked_rounds n n env)"

primrec parked_rounds :: "nat \<Rightarrow> nat \<Rightarrow> guard_env \<Rightarrow> unit guard" where
  "parked_rounds 0 n env = raiseS Unfinished"
| "parked_rounds (Suc k) n env =
     bindS (stop_requested env) (\<lambda>stop.
     if stop then returnS ()
     else bindS (interruptible_sleep n env 1) (\<lambda>_. parked_rounds k n env))"

definition park_manual_intervention :: "nat \<Rightarrow> guard_env \<Rightarrow> string \<Rightarrow> string \<Rightarrow> string \<Rightarrow> unit guard" where
  "park_manual_intervention n env reason ph cause =
     bindS (modS (\<lambda>s. s\<lparr>g_failures := g_failures s + 1\<rparr>)) (\<lambda>_.
     bindS (set_health ''MANUAL_INTERVENTION_REQUIRED'' False) (\<lambda>_.
     bindS (terminate_generation env reason cause ph False) (\<lambda>ok.
     bindS (whenS (\<not> ok) (modS (\<lambda>s. s\<lparr>g_stopping := True\<rparr>))) (\<lambda>_.
     bindS (retire_generation env) (\<lambda>_.
     parked_rounds n n env)))))"

text \<open>How a turn of the loop ends: with the delay of the next one, or with the end of the loop.\<close>

datatype turn_end = Again int | LoopEnds

definition recover :: "nat \<Rightarrow> guard_env \<Rightarrow> int \<Rightarrow> string \<Rightarrow> string \<Rightarrow> string \<Rightarrow> turn_end guard" where
  "recover n env delay reason ph cause =
     bindS (modS (\<lambda>s. s\<lparr>g_failures := g_failures s + 1\<rparr>)) (\<lambda>_.
     bindS (set_health ''OFFLINE'' False) (\<lambda>_.
     bindS (terminate_generation env reason cause ph False) (\<lambda>ok.
     if \<not> ok then bindS (modS (\<lambda>s. s\<lparr>g_stopping := True\<rparr>)) (\<lambda>_. returnS LoopEnds)
     else
       bindS (retire_generation env) (\<lambda>_.
       bindS (wait_for_blocked_cleanup n env) (\<lambda>_.
       bindS (stop_requested env) (\<lambda>stop.
       if stop then returnS LoopEnds
       else
         bindS (modS (\<lambda>s. s\<lparr>g_recoveries := g_recoveries s + 1\<rparr>)) (\<lambda>_.
         bindS (interruptible_sleep n env (of_int delay)) (\<lambda>_.
         returnS (Again (min (delay * 2) (recovery_max_seconds (appl env))))))))))))"

text \<open>The handler of a failed turn.\<close>

definition is_manual :: "guard_error \<Rightarrow> bool" where
  "is_manual e = (case e of GRepair (ManualIntervention _) \<Rightarrow> True | _ \<Rightarrow> False)"

definition handle_failure :: "nat \<Rightarrow> guard_env \<Rightarrow> int \<Rightarrow> guard_error \<Rightarrow> turn_end guard" where
  "handle_failure n env delay e =
     bindS (stop_requested env) (\<lambda>stop.
     if stop then returnS LoopEnds
     else
       bindS (getS g_health) (\<lambda>ph.
       if is_manual e
       then bindS (park_manual_intervention n env (describe env e) ph (classify_cause (class_name e) ph)) (\<lambda>_. returnS LoopEnds)
       else recover n env delay (describe env e) ph (classify_cause (class_name e) ph)))"

text \<open>A turn: the delay starts anew once the node was online.\<close>

definition turn :: "nat \<Rightarrow> guard_env \<Rightarrow> int \<Rightarrow> turn_end guard" where
  "turn n env delay = bindS (stop_requested env) (\<lambda>stop.
     if stop then returnS LoopEnds
     else
       bindS (catchS (bindS (serve n env) (\<lambda>_. returnS None)) (\<lambda>e. returnS (Some e))) (\<lambda>early.
       let delay' = (case early of None \<Rightarrow> recovery_initial_seconds (appl env) | Some _ \<Rightarrow> delay)
       in bindS (case early of
             Some e \<Rightarrow> returnS (Some e)
           | None \<Rightarrow> catchS (bindS (online_loop n env) (\<lambda>_. returnS None)) (\<lambda>e. returnS (Some e))) (\<lambda>failure.
         case failure of
           None \<Rightarrow> returnS (Again delay')
         | Some KeyboardInterrupt \<Rightarrow> bindS (modS (\<lambda>s. s\<lparr>g_stopping := True\<rparr>)) (\<lambda>_. returnS (Again delay'))
         | Some e \<Rightarrow> (if is_exception e then handle_failure n env delay' e else raiseS e))))"

primrec turns :: "nat \<Rightarrow> nat \<Rightarrow> guard_env \<Rightarrow> int \<Rightarrow> unit guard" where
  "turns 0 n env delay = raiseS Unfinished"
| "turns (Suc k) n env delay = bindS (turn n env delay) (\<lambda>t. case t of
     LoopEnds \<Rightarrow> returnS () | Again d \<Rightarrow> turns k n env d)"

definition shutdown :: "guard_env \<Rightarrow> int guard" where
  "shutdown env =
     bindS (set_health ''STOPPING'' False) (\<lambda>_.
     bindS (terminate_generation env ''container stopping'' ''container_shutdown'' ''STOPPING'' True) (\<lambda>_.
     bindS (getS g_haproxy) (\<lambda>h.
     bindS (case h of None \<Rightarrow> returnS () | Some p \<Rightarrow> bindS (stop_until (os_of env) p) (\<lambda>_. returnS ())) (\<lambda>_.
     bindS (retire_generation env) (\<lambda>_.
     getS (\<lambda>s. if g_fatal s then 4 else 0))))))"

text \<open>\<open>run\<close> once the lease is held: the history is the one on disk, and an interrupted generation of an earlier guardian is
  closed first.\<close>

definition run_guardian :: "nat \<Rightarrow> guard_env \<Rightarrow> int guard" where
  "run_guardian n env =
     bindS (time_of_day env) (\<lambda>t.
     bindS (modS (\<lambda>s. s\<lparr>g_history := snd (recover_interrupted_active t (open_history (gh_file (g_history s))))\<rparr>)) (\<lambda>_.
     bindS (turns n n env (recovery_initial_seconds (appl env))) (\<lambda>_. shutdown env)))"

text \<open>The whole \<open>run\<close>, with the other guardians standing still: without the lease it does nothing and gives 3; with it the
  lease is released however the run ends.\<close>

definition run_appliance :: "guardians \<Rightarrow> nat \<Rightarrow> nat \<Rightarrow> guard_env \<Rightarrow> (lease_sys \<times> guard_state, guard_error, int) eff" where
  "run_appliance gs i n env = (\<lambda>(ls, s).
     case acquire gs (wall env (trace s)) i ls of
       Inl _ \<Rightarrow> (Inr 3, (ls, s))
     | Inr ls' \<Rightarrow> (case run_guardian n env s of (r, s') \<Rightarrow> (r, (release i ls', s'))))"

end
