(* ===== verification/Guardian_Spec.thy ===== *)
theory Guardian_Spec
  imports Guardian_Run
begin

text \<open>
  What the guardian promises, as an abstract machine, and the proof that the guardian implements it. The machine has at
  most one generation, which is live or fenced; it creates one only when there is none and nothing of an earlier one is
  left; it drops one only if it is fenced or the run is marked as failed for good. Its history and its selector file
  change only by the operations of those components, the selector never by a clearance or a request, and it is ready
  only when online.
\<close>

section \<open>The abstract machine\<close>

datatype lifecycle = NoGeneration | Live int | Fenced int

record spec =
  sp_life :: lifecycle
  sp_clear :: bool
  sp_fatal :: bool
  sp_stopping :: bool
  sp_health :: string
  sp_ready :: bool
  sp_history :: generation_history
  sp_selector :: transport_file

text \<open>The selector operations of the guardian itself; clearing a quarantine and requesting a transport are the operator's.\<close>

fun automatic_op :: "selector_op \<Rightarrow> bool" where
  "automatic_op (OpClear _ _) = False"
| "automatic_op (OpRequest _ _) = False"
| "automatic_op _ = True"

inductive spec_step :: "bool \<Rightarrow> failover_config option \<Rightarrow> spec \<Rightarrow> spec \<Rightarrow> bool" for serving fo where
  Create: "sp_life a = NoGeneration \<Longrightarrow> sp_clear a \<Longrightarrow> serving \<Longrightarrow> spec_step serving fo a (a\<lparr>sp_life := Live n\<rparr>)"
| Fence: "sp_life a = Live n \<Longrightarrow> spec_step serving fo a (a\<lparr>sp_life := Fenced n\<rparr>)"
| Retire: "sp_life a = Fenced n \<Longrightarrow> spec_step serving fo a (a\<lparr>sp_life := NoGeneration\<rparr>)"
| Abandon: "sp_fatal a \<Longrightarrow> spec_step serving fo a (a\<lparr>sp_life := NoGeneration\<rparr>)"
| Leftovers: "spec_step serving fo a (a\<lparr>sp_clear := b\<rparr>)"
| Fatal: "spec_step serving fo a (a\<lparr>sp_fatal := True\<rparr>)"
| Stop: "spec_step serving fo a (a\<lparr>sp_stopping := True\<rparr>)"
| Offline: "spec_step serving fo a (a\<lparr>sp_health := st, sp_ready := False\<rparr>)"
| Online: "serving \<Longrightarrow> spec_step serving fo a (a\<lparr>sp_health := ''ONLINE'', sp_ready := True\<rparr>)"
| History: "history_step op (sp_history a) = Inr h \<Longrightarrow> spec_step serving fo a (a\<lparr>sp_history := h\<rparr>)"
| Selector: "fo = Some c \<Longrightarrow> automatic_op op \<Longrightarrow> selector_step c op (sp_selector a) = Inr f \<Longrightarrow> spec_step serving fo a (a\<lparr>sp_selector := f\<rparr>)"

definition life_of :: "gen_state option \<Rightarrow> lifecycle" where
  "life_of w = (case w of None \<Rightarrow> NoGeneration | Some g \<Rightarrow> if fenced g then Fenced (generation g) else Live (generation g))"

definition abs_guard :: "guard_state \<Rightarrow> spec" where
  "abs_guard s = \<lparr>sp_life = life_of (g_worker s), sp_clear = (g_lingering s = [] \<and> g_helpers s = []),
     sp_fatal = g_fatal s, sp_stopping = g_stopping s, sp_health = g_health s, sp_ready = g_ready s,
     sp_history = g_history s, sp_selector = g_selector s\<rparr>"

text \<open>The states the machine gets to from the image of a state.\<close>

definition reaches :: "guard_env \<Rightarrow> bool \<times> guard_state \<Rightarrow> guard_state \<Rightarrow> bool" where
  "reaches env s0 s \<longleftrightarrow> (spec_step (fst s0) (failover env))\<^sup>*\<^sup>* (abs_guard (snd s0)) (abs_guard s)"

lemma reaches_refl [simp]: "reaches env (b, s) s"
  by (simp add: reaches_def)

lemma reaches_trans: "reaches env s0 s \<Longrightarrow> reaches env (fst s0, s) s' \<Longrightarrow> reaches env s0 s'"
  by (simp add: reaches_def)

lemma reaches_same: "reaches env s0 s \<Longrightarrow> abs_guard s' = abs_guard s \<Longrightarrow> reaches env s0 s'"
  by (simp add: reaches_def)

lemma reaches_step: "reaches env s0 s \<Longrightarrow> spec_step (fst s0) (failover env) (abs_guard s) (abs_guard s') \<Longrightarrow> reaches env s0 s'"
  unfolding reaches_def by (rule rtranclp.rtrancl_into_rtrancl)

text \<open>Fields the machine does not have, and the images of the other updates.\<close>

lemma abs_hidden [simp]:
  "abs_guard (s\<lparr>trace := tr\<rparr>) = abs_guard s" "abs_guard (s\<lparr>g_failures := i\<rparr>) = abs_guard s"
  "abs_guard (s\<lparr>g_recoveries := i\<rparr>) = abs_guard s" "abs_guard (s\<lparr>g_probes := k\<rparr>) = abs_guard s"
  "abs_guard (s\<lparr>g_processes := ps\<rparr>) = abs_guard s" "abs_guard (s\<lparr>g_haproxy := h\<rparr>) = abs_guard s"
  "abs_guard (s\<lparr>g_factory := f\<rparr>) = abs_guard s" "abs_guard (s\<lparr>g_store := st\<rparr>) = abs_guard s"
  "abs_guard (s\<lparr>g_repair := b\<rparr>) = abs_guard s" "abs_guard (s\<lparr>g_journal := w\<rparr>) = abs_guard s"
  "abs_guard (s\<lparr>g_transport := t\<rparr>) = abs_guard s" "abs_guard (s\<lparr>g_environ := e\<rparr>) = abs_guard s"
  "abs_guard (s\<lparr>g_switch := b\<rparr>) = abs_guard s" "abs_guard (s\<lparr>g_detached := b\<rparr>) = abs_guard s"
  "abs_guard (s\<lparr>g_transport_failure := b\<rparr>) = abs_guard s" "abs_guard (s\<lparr>g_failure_name := t\<rparr>) = abs_guard s"
  "abs_guard (s\<lparr>g_watch := b\<rparr>) = abs_guard s" "abs_guard (s\<lparr>g_pending := b\<rparr>) = abs_guard s"
  "abs_guard (s\<lparr>g_verifying := t\<rparr>) = abs_guard s" "abs_guard (s\<lparr>g_fingerprint := t\<rparr>) = abs_guard s"
  by (simp_all add: abs_guard_def)

lemma abs_visible [simp]:
  "abs_guard (s\<lparr>g_stopping := b\<rparr>) = (abs_guard s)\<lparr>sp_stopping := b\<rparr>"
  "abs_guard (s\<lparr>g_fatal := b\<rparr>) = (abs_guard s)\<lparr>sp_fatal := b\<rparr>"
  "abs_guard (s\<lparr>g_health := st\<rparr>) = (abs_guard s)\<lparr>sp_health := st\<rparr>"
  "abs_guard (s\<lparr>g_ready := b\<rparr>) = (abs_guard s)\<lparr>sp_ready := b\<rparr>"
  "abs_guard (s\<lparr>g_history := h\<rparr>) = (abs_guard s)\<lparr>sp_history := h\<rparr>"
  "abs_guard (s\<lparr>g_selector := f\<rparr>) = (abs_guard s)\<lparr>sp_selector := f\<rparr>"
  "abs_guard (s\<lparr>g_worker := w\<rparr>) = (abs_guard s)\<lparr>sp_life := life_of w\<rparr>"
  by (simp_all add: abs_guard_def)

lemma abs_leftovers: "abs_guard (s\<lparr>g_lingering := ps\<rparr>) = (abs_guard s)\<lparr>sp_clear := (ps = [] \<and> g_helpers s = [])\<rparr>"
  "abs_guard (s\<lparr>g_helpers := hs\<rparr>) = (abs_guard s)\<lparr>sp_clear := (g_lingering s = [] \<and> hs = [])\<rparr>"
  by (simp_all add: abs_guard_def)

lemma abs_sel [simp]: "sp_history (abs_guard s) = g_history s" "sp_selector (abs_guard s) = g_selector s"
  "sp_life (abs_guard s) = life_of (g_worker s)" "sp_fatal (abs_guard s) = g_fatal s" "sp_ready (abs_guard s) = g_ready s"
  "sp_health (abs_guard s) = g_health s" "sp_stopping (abs_guard s) = g_stopping s"
  "sp_clear (abs_guard s) = (g_lingering s = [] \<and> g_helpers s = [])"
  by (simp_all add: abs_guard_def)

section \<open>Operations that take steps of the machine\<close>

lemma keeps_hidden: "(\<And>s. abs_guard (g s) = abs_guard s) \<Longrightarrow> keeps (reaches env s0) (modS g)"
  by (rule keeps_mod) (auto intro: reaches_same)

lemma keeps_step: "(\<And>s. spec_step (fst s0) (failover env) (abs_guard s) (abs_guard (g s))) \<Longrightarrow> keeps (reaches env s0) (modS g)"
  by (rule keeps_mod) (auto intro: reaches_step)

lemma keeps_reach_ask [keeps_intros]: "keeps (reaches env s0) (askS ev f)"
  by (simp add: keeps_def wp_simps reaches_def)

lemma keeps_reach_popen [keeps_intros]: "keeps (reaches env s0) (popen oenv err cmd)"
  unfolding popen_def by (intro keeps_intros)

lemma keeps_reach_os [keeps_intros]:
  "keeps (reaches env s0) (poll oenv pid)" "keeps (reaches env s0) (monotonic oenv)"
  "keeps (reaches env s0) (killpg oenv pid sg)" "keeps (reaches env s0) (wait_exit oenv pid)"
  "keeps (reaches env s0) (ask oenv q)"
  unfolding os_defs by (intro keeps_intros)+

lemma keeps_reach_process [keeps_intros]:
  "keeps (reaches env s0) (running oenv p)" "keeps (reaches env s0) (exit_code oenv p)"
  "keeps (reaches env s0) (start_process oenv err p)" "keeps (reaches env s0) (stop_until oenv p)"
  unfolding running_def exit_code_def start_process_def stop_until_def by (intro keeps_intros)+

lemma keeps_reach_tcp [keeps_intros]: "keeps (reaches env s0) (wait_for_tcp oenv err host pn timeout p)"
proof -
  have "keeps (reaches env s0) (wait_for_tcp_rounds n oenv err endpoint deadline p)" for n endpoint deadline
    by (induction n) (auto simp: exited_error_def intro!: keeps_intros)
  then show ?thesis unfolding wait_for_tcp_def by (intro keeps_intros)
qed

lemma keeps_filterS [keeps_intros]: "(\<And>x. keeps I (f x)) \<Longrightarrow> keeps I (filterS f xs)"
  by (induction xs) (auto intro!: keeps_intros)

lemma keeps_reach_clock [keeps_intros]: "keeps (reaches env s0) (monotime e)" "keeps (reaches env s0) (time_of_day e)"
  "keeps (reaches env s0) (time_sleep d)"
  unfolding monotime_def time_of_day_def time_sleep_def by (intro keeps_intros)+

lemma keeps_reach_health [keeps_intros]: "keeps (reaches env s0) (set_health st False)"
  unfolding set_health_def by (rule keeps_step) (auto intro: spec_step.intros)

lemma keeps_reach_stop [keeps_intros]: "keeps (reaches env s0) (stop_requested env)"
proof -
  have "reaches env s0 (s\<lparr>g_stopping := True, g_health := ''STOPPING'', g_ready := False\<rparr>)" if "reaches env s0 s" for s
  proof (rule reaches_step[OF reaches_step[OF that]])
    show "spec_step (fst s0) (failover env) (abs_guard s) (abs_guard (s\<lparr>g_stopping := True\<rparr>))" by (simp add: spec_step.Stop)
    show "spec_step (fst s0) (failover env) (abs_guard (s\<lparr>g_stopping := True\<rparr>))
        (abs_guard (s\<lparr>g_stopping := True, g_health := ''STOPPING'', g_ready := False\<rparr>))" by (simp add: spec_step.Offline)
  qed
  then show ?thesis unfolding stop_requested_def by (intro keeps_intros keeps_mod)
qed

lemma keeps_reach_stopping [keeps_intros]: "keeps (reaches env s0) (modS (\<lambda>s. s\<lparr>g_stopping := True\<rparr>))"
  by (rule keeps_step) (simp add: spec_step.Stop)

lemma keeps_reach_fatal [keeps_intros]: "keeps (reaches env s0) (modS (\<lambda>s. s\<lparr>g_fatal := True\<rparr>))"
  by (rule keeps_step) (simp add: spec_step.Fatal)

lemma keeps_reach_sleep [keeps_intros]: "keeps (reaches env s0) (sleep_rounds n env d)" "keeps (reaches env s0) (watch_rounds n env fo d)"
  by (induction n) (auto simp: selectorS_def intro!: keeps_intros keeps_hidden)

lemma keeps_reach_interruptible [keeps_intros]: "keeps (reaches env s0) (interruptible_sleep n env d)"
  unfolding interruptible_sleep_def sleep_base_def by (intro keeps_intros)

lemma keeps_reach_leftovers [keeps_intros]:
  "keeps (reaches env s0) (ensure_no_lingering env)" "keeps (reaches env s0) (reap_helpers env)"
  "keeps (reaches env s0) (still_running env ps)" "keeps (reaches env s0) (helper_alive env pid)"
  unfolding ensure_no_lingering_def reap_helpers_def still_running_def helper_alive_def
  by (intro keeps_intros keeps_step; (simp add: abs_leftovers spec_step.Leftovers)?)+

section \<open>The worker generation\<close>

text \<open>An operation on the generation that keeps its number and never lifts a fence.\<close>

definition fence_mono :: "int \<Rightarrow> bool \<Rightarrow> gen_state \<Rightarrow> bool" where
  "fence_mono n f g \<longleftrightarrow> generation g = n \<and> (f \<longrightarrow> fenced g)"

lemma keeps_mono_ask [keeps_intros]: "keeps (fence_mono n f) (askS ev a)"
  by (simp add: keeps_def wp_simps fence_mono_def)

lemma keeps_mono_run [keeps_intros]: "keeps (fence_mono n f) (gen_run genv cmd)"
  unfolding gen_run_def by (intro keeps_intros)

lemma keeps_mono_stop [keeps_intros]:
  "keeps (fence_mono n f) (stop_keeper genv)" "keeps (fence_mono n f) (stop_dns_proxy genv)"
  unfolding keeps_def by (intro allI impI wp_stop_keeper wp_stop_dns_proxy; simp add: fence_mono_def)+

lemma keeps_mono_persist [keeps_intros]: "keeps (fence_mono n f) (persist_doc genv st)"
  unfolding persist_doc_def by (intro keeps_intros keeps_mod) (simp add: fence_mono_def)

lemma keeps_mono_fence [keeps_intros]: "keeps (fence_mono n f) (fence genv reason)"
  unfolding fence_def by (intro keeps_intros keeps_mod) (simp add: fence_mono_def)

lemma keeps_mono_retire [keeps_intros]: "keeps (fence_mono n f) (retire genv)"
  unfolding retire_def stop_helpers_def by (intro keeps_intros)

lemma keeps_mono_enter [keeps_intros]: "keeps (fence_mono n f) (enter_command genv cmd u g)"
  unfolding enter_command_def by (intro keeps_intros)

lemma life_step:
  assumes "fence_mono (generation g) (fenced g) g'" "sp_life a = life_of (Some g)"
  shows "(spec_step serving fo)\<^sup>*\<^sup>* a (a\<lparr>sp_life := life_of (Some g')\<rparr>)"
proof (cases "\<not> fenced g \<and> fenced g'")
  case True
  then have "spec_step serving fo a (a\<lparr>sp_life := Fenced (generation g)\<rparr>)" using assms(2) by (intro spec_step.Fence) (simp add: life_of_def)
  then show ?thesis using True assms(1) by (simp add: life_of_def fence_mono_def r_into_rtranclp)
next
  case False
  then have "life_of (Some g') = sp_life a" using assms by (auto simp: life_of_def fence_mono_def)
  then show ?thesis by (cases a) simp
qed

lemma keeps_workerS:
  assumes "\<And>n f. keeps (fence_mono n f) m"
  shows "g_worker s \<noteq> None \<Longrightarrow> reaches env s0 s \<Longrightarrow> wp (workerS m) (\<lambda>_. reaches env s0) (\<lambda>_. reaches env s0) s"
proof -
  assume s: "g_worker s \<noteq> None" "reaches env s0 s"
  then obtain g where g: "g_worker s = Some g" by auto
  have put: "reaches env s0 (s\<lparr>g_worker := Some g', trace := tr\<rparr>)" if "fence_mono (generation g) (fenced g) g'" for g' tr
    using s(2) life_step[OF that, of "abs_guard s" "fst s0" "failover env"] g by (simp add: reaches_def)
  show ?thesis unfolding workerS_def wp_zoom
    by (rule wp_mono[OF keepsD[OF assms[of "generation g" "fenced g"]]]) (use g put in \<open>auto simp: fence_mono_def\<close>)
qed

lemma keeps_reach_command [keeps_intros]: "keeps (reaches env s0) (generation_command env cmd b)"
  unfolding keeps_def generation_command_def
  by (auto simp: wp_bind wp_get wp_return wp_raise intro!: keeps_workerS keeps_intros split: option.split)

section \<open>Helpers, processes and targets\<close>

lemma keeps_case_run [keeps_intros]:
  "(\<And>c e x. keeps I (f c e x)) \<Longrightarrow> keeps I m \<Longrightarrow> keeps I (case r of Completed c e x \<Rightarrow> f c e x | RunTimeout \<Rightarrow> m)"
  by (cases r) auto

lemma keeps_reach_helpers_add [keeps_intros]: "keeps (reaches env s0) (modS (\<lambda>s. s\<lparr>g_helpers := g_helpers s @ [pid]\<rparr>))"
  by (rule keeps_step) (simp add: abs_leftovers spec_step.Leftovers)

lemma keeps_reach_run_helper [keeps_intros]: "keeps (reaches env s0) (run_helper env op target full)"
  unfolding run_helper_def run_helper_generation_def by (intro keeps_intros keeps_hidden) simp

lemma keeps_reach_targets [keeps_intros]: "keeps (reaches env s0) (targets_of env)"
  unfolding targets_of_def by (intro keeps_intros)

lemma keeps_reach_probe [keeps_intros]: "keeps (reaches env s0) (probe_targets env full)"
  unfolding probe_targets_def by (intro keeps_intros keeps_hidden) simp_all

lemma keeps_reach_stop_all [keeps_intros]: "keeps (reaches env s0) (stop_all env ps)"
  by (induction ps) (auto intro!: keeps_intros keeps_step simp: abs_leftovers spec_step.Leftovers)

lemma keeps_reach_stop_seaweed [keeps_intros]: "keeps (reaches env s0) (stop_seaweed env)"
  unfolding stop_seaweed_def by (intro keeps_intros keeps_hidden) simp

lemma keeps_reach_detach [keeps_intros]: "keeps (reaches env s0) (detach_all env b d ts)"
  by (induction ts) (auto simp: detach_one_def intro!: keeps_intros)

lemma keeps_reach_repair_targets [keeps_intros]: "keeps (reaches env s0) (repair_targets env b d)"
  unfolding repair_targets_def repair_targets_base_def by (intro keeps_intros keeps_hidden) (simp_all add: Let_def)

section \<open>SeaweedFS\<close>

lemma keeps_reach_repair [keeps_intros]: "keeps (reaches env s0) (lift_repair m)"
  by (auto simp: keeps_def wp_def lift_repair_def reaches_def split: prod.split sum.split)

lemma keeps_reach_history:
  "(\<And>h. \<exists>op. history_step op h = Inr (f h)) \<Longrightarrow> keeps (reaches env s0) (modS (\<lambda>s. s\<lparr>g_history := f (g_history s)\<rparr>))"
  by (rule keeps_step) (metis abs_sel(1) abs_visible(5) spec_step.History)

lemma keeps_reach_canary [keeps_intros]: "keeps (reaches env s0) (worker_endpoint_host env)"
  "keeps (reaches env s0) (run_canary env)" "keeps (reaches env s0) (canary_if_enabled env)"
  unfolding canary_if_enabled_def run_canary_def worker_endpoint_host_def by (intro keeps_intros)+

lemma keeps_reach_inspect [keeps_intros]: "keeps (reaches env s0) (inspect_seaweed_volumes env)"
  unfolding inspect_seaweed_volumes_def by (intro keeps_intros)

lemma keeps_reach_certify [keeps_intros]: "keeps (reaches env s0) (certify_indexes_from_result env)"
  unfolding certify_indexes_from_result_def
  by (intro keeps_intros keeps_reach_history exI[of _ "HCertify _ _"]) simp

lemma keeps_reach_awaiting [keeps_intros]: "keeps (reaches env s0) awaiting_validation"
  unfolding awaiting_validation_def by (intro keeps_intros)

lemma keeps_reach_accept [keeps_intros]: "keeps (reaches env s0) (accept_status env r)"
  unfolding accept_status_def by (intro keeps_intros)

lemma keeps_reach_check [keeps_intros]: "keeps (reaches env s0) (check_seaweed_volumes env)"
  unfolding check_seaweed_volumes_def by (intro keeps_intros)

lemma keeps_case_error [keeps_intros]:
  assumes "\<And>x. keeps I (f x)" "\<And>x. keeps I (g x)" "keeps I m"
  shows "keeps I (case e of GValidation x \<Rightarrow> f x | GReadonly x \<Rightarrow> g x | _ \<Rightarrow> m)"
  using assms by (cases e) simp_all

lemma keeps_reach_sample [keeps_intros]: "keeps (reaches env s0) (sample_status env ss)"
  unfolding sample_status_def
  by (intro keeps_intros) (auto intro!: keeps_intros split: guard_error.split)

lemma keeps_reach_stable [keeps_intros]: "keeps (reaches env s0) (stable_rounds k n env d ss)"
  by (induction k arbitrary: ss) (auto simp: settle_def intro!: keeps_intros)

lemma keeps_reach_wait_stable [keeps_intros]: "keeps (reaches env s0) (wait_for_stable_volumes n env)"
  unfolding wait_for_stable_volumes_def by (intro keeps_intros)

lemma keeps_reach_confine [keeps_intros]: "keeps (reaches env s0) (confine_all env ps)"
  by (induction ps) (auto intro!: keeps_intros)

lemma keeps_reach_build [keeps_intros]: "keeps (reaches env s0) (build_processes env)"
  unfolding build_processes_def by (intro keeps_intros)

lemma keeps_reach_roles [keeps_intros]: "keeps (reaches env s0) (start_roles env ps)"
  by (induction ps) (auto intro!: keeps_intros keeps_hidden)

lemma keeps_reach_start [keeps_intros]: "keeps (reaches env s0) (start_seaweed n env)"
  unfolding start_seaweed_def by (intro keeps_intros keeps_hidden) simp

lemma keeps_reach_repair_volumes [keeps_intros]: "keeps (reaches env s0) (repair_volumes env vs)"
  by (induction vs) (auto intro!: keeps_intros split: guard_error.split)

lemma keeps_reach_detected [keeps_intros]: "keeps (reaches env s0) (repair_detected env st)"
  unfolding repair_detected_def by (intro keeps_intros)

lemma keeps_reach_validation [keeps_intros]: "keeps (reaches env s0) (finish_index_validation env st)"
  unfolding finish_index_validation_def reject_validation_def by (intro keeps_intros)

lemma keeps_reach_restart [keeps_intros]: "keeps (reaches env s0) (restart_after_repair n env)"
  unfolding restart_after_repair_def by (intro keeps_intros)

lemma keeps_reach_index_recovery [keeps_intros]: "keeps (reaches env s0) (start_seaweed_with_index_recovery n env)"
  unfolding start_seaweed_with_index_recovery_def repair_then_restart_def by (intro keeps_intros)

lemma keeps_reach_offline [keeps_intros]: "keeps (reaches env s0) (prepare_index_repair_offline env)"
  unfolding prepare_index_repair_offline_def by (intro keeps_intros keeps_hidden) simp

lemma keeps_reach_recovery [keeps_intros]: "keeps (reaches env s0) (recovery_rounds k n env d i)"
  by (induction k arbitrary: i) (auto intro!: keeps_intros)

lemma keeps_reach_stabilize_base [keeps_intros]: "keeps (reaches env s0) (stabilize_recovery_base n env)"
  unfolding stabilize_recovery_base_def by (intro keeps_intros)

lemma keeps_reach_require [keeps_intros]: "keeps (reaches env s0) (require_running env name p)"
  unfolding require_running_def by (intro keeps_intros)

lemma keeps_reach_online [keeps_intros]: "keeps (reaches env s0) (online_rounds k n env d)"
  by (induction k arbitrary: d) (auto simp: suspect_def online_check_def intro!: keeps_intros)

lemma keeps_reach_online_loop [keeps_intros]: "keeps (reaches env s0) (online_loop n env)"
  unfolding online_loop_def by (intro keeps_intros keeps_hidden) simp_all

section \<open>Generations\<close>

lemma keeps_reach_selector [keeps_intros]: "keeps (reaches env s0) (selectorS env f fo)"
  unfolding selectorS_def by (intro keeps_intros)

lemma keeps_reach_publish [keeps_intros]: "keeps (reaches env s0) (publish_transport env)" "keeps (reaches env s0) (publish_generation env)"
  unfolding publish_transport_def publish_generation_def by (intro keeps_intros)+

lemma selector_write_run:
  assumes "failover env = Some fo" "automatic_op op" "op_fun = selector_step fo op"
  shows "keeps (reaches env s0) (selector_writeS op_fun)"
  unfolding keeps_def selector_writeS_def
proof (intro allI impI)
  fix s assume s: "reaches env s0 s"
  have "reaches env s0 (s\<lparr>g_selector := f\<rparr>)" if f: "op_fun (g_selector s) = Inr f" for f
    by (rule reaches_step[OF s]) (use assms f in \<open>auto intro!: spec_step.Selector\<close>)
  then show "wp (bindS (getS (\<lambda>s. op_fun (g_selector s))) (\<lambda>r. case r of
     Inl e \<Rightarrow> raiseS (GTransport e) | Inr file \<Rightarrow> modS (\<lambda>s. s\<lparr>g_selector := file\<rparr>))) (\<lambda>_. reaches env s0) (\<lambda>_. reaches env s0) s"
    using s by (auto simp: wp_simps split: sum.split)
qed

lemma keeps_reach_selector_ops [keeps_intros]:
  assumes "failover env = Some fo"
  shows "keeps (reaches env s0) (selector_writeS (record_failure fo n r t0 t1))"
    "keeps (reaches env s0) (selector_writeS (quarantine fo n r t0))"
    "keeps (reaches env s0) (selector_writeS (record_success n t0 t1))"
    "keeps (reaches env s0) (selector_writeS (record_startup_verification fp ns t0))"
  using selector_write_run[OF assms, of "OpFailure n r t0 t1"] selector_write_run[OF assms, of "OpQuarantine n r t0"]
    selector_write_run[OF assms, of "OpSuccess n t0 t1"] selector_write_run[OF assms, of "OpVerified fp ns t0"]
  by (simp_all add: fun_eq_iff)

text \<open>Retiring: the generation is gone afterwards, fenced or with the run marked as failed.\<close>

lemma fence_fences: "wp (fence genv r) (\<lambda>_. fenced) (\<lambda>_ _. True) g"
proof (cases "fenced g")
  case False
  show ?thesis by (rule wp_mono[OF fence_run[OF False]]) (auto simp: fenced_by_def)
qed (simp add: wp_def)

lemma retire_fences: "wp (retire genv) (\<lambda>_ g'. fenced g') (\<lambda>_ _. True) g"
proof -
  have h: "wp (stop_helpers genv) (\<lambda>_. fenced) (\<lambda>_ _. True) g1" if "fenced g1" for g1
    by (rule wp_mono[OF stop_helpers_run]) (use that in auto)
  have p: "wp (persist_doc genv st) (\<lambda>_. fenced) (\<lambda>_ _. True) g1" if "fenced g1" for g1 st
    using that by (simp add: persist_doc_def wp_simps split: sum.split)
  show ?thesis unfolding retire_def wp_bind wp_get wp_finally
    apply (rule wp_mono[OF fence_fences])
     apply (rule wp_mono[OF h], assumption, erule p, simp)
    apply (rule wp_mono[of _ "\<lambda>_ _. True" "\<lambda>_ _. True"])
      apply (simp_all add: wp_def split: sum.split prod.split)
    done
qed

lemma workerS_frame: "wp m Q E ((the (g_worker s))\<lparr>trace := trace s\<rparr>) \<Longrightarrow>
   wp (workerS m) (\<lambda>x s'. \<exists>g. s' = s\<lparr>g_worker := Some g, trace := trace g\<rparr> \<and> Q x g)
     (\<lambda>e s'. \<exists>g. s' = s\<lparr>g_worker := Some g, trace := trace g\<rparr>) s"
  unfolding workerS_def wp_zoom by (erule wp_mono) auto

text \<open>A generation may be dropped when it is fenced, or when the run is marked as failed for good.\<close>

definition disposable :: "guard_state \<Rightarrow> bool" where
  "disposable s \<longleftrightarrow> g_fatal s \<or> (\<exists>g. g_worker s = Some g \<and> fenced g)"

lemma drop_worker:
  assumes "reaches env s0 s" "disposable s"
  shows "reaches env s0 (s\<lparr>g_worker := None\<rparr>)"
proof (rule reaches_step[OF assms(1)])
  show "spec_step (fst s0) (failover env) (abs_guard s) (abs_guard (s\<lparr>g_worker := None\<rparr>))"
  proof (cases "g_fatal s")
    case True
    then show ?thesis using spec_step.Abandon[of "abs_guard s" "fst s0" "failover env"] by (simp add: life_of_def)
  next
    case False
    with assms(2) obtain g where "g_worker s = Some g" "fenced g" by (auto simp: disposable_def)
    then show ?thesis using spec_step.Retire[of "abs_guard s" "generation g" "fst s0" "failover env"] by (simp add: life_of_def)
  qed
qed

lemma retire_failed_run:
  assumes "reaches env s0 s" "g_worker s \<noteq> None"
  shows "wp (bindS (modS (\<lambda>s. s\<lparr>g_fatal := True\<rparr>)) (\<lambda>_. bindS (workerS (stop_keeper (gen_of env))) (\<lambda>_.
      bindS (set_health ''FENCE_FAILED'' False) (\<lambda>_. returnS False))))
    (\<lambda>_ s'. reaches env s0 s' \<and> disposable s') (\<lambda>_ s'. reaches env s0 s' \<and> disposable s') s"
proof -
  let ?s1 = "s\<lparr>g_fatal := True\<rparr>"
  have "reaches env s0 ?s1" by (rule reaches_step[OF assms(1)]) (simp add: spec_step.Fatal)
  then have r: "wp (workerS (stop_keeper (gen_of env))) (\<lambda>_. reaches env s0) (\<lambda>_. reaches env s0) ?s1"
    by (rule keeps_workerS[OF keeps_mono_stop(1), rotated]) (use assms(2) in simp)
  have f: "wp (workerS (stop_keeper (gen_of env))) (\<lambda>_. g_fatal) (\<lambda>_. g_fatal) ?s1"
    unfolding workerS_def wp_zoom by (simp add: wp_def split: sum.split prod.split)
  have "wp (workerS (stop_keeper (gen_of env))) (\<lambda>_ s'. wp (bindS (set_health ''FENCE_FAILED'' False) (\<lambda>_. returnS False))
      (\<lambda>_ s'. reaches env s0 s' \<and> disposable s') (\<lambda>_ s'. reaches env s0 s' \<and> disposable s') s') (\<lambda>_ s'. reaches env s0 s' \<and> disposable s') ?s1"
    by (rule wp_mono[OF wp_conj[OF r f]])
      (use keepsD[OF keeps_reach_health[of env s0 "''FENCE_FAILED''"]] in \<open>auto simp: wp_bind wp_return set_health_def wp_mod disposable_def\<close>)
  then show ?thesis by (simp add: wp_bind wp_mod)
qed

lemma retire_worker_run:
  assumes "reaches env s0 s" "g_worker s \<noteq> None"
  shows "wp (workerS (retire (gen_of env))) (\<lambda>_ s'. reaches env s0 s' \<and> disposable s') (\<lambda>_ s'. reaches env s0 s' \<and> g_worker s' \<noteq> None) s"
  by (rule wp_mono[OF wp_conj[OF keeps_workerS[OF keeps_mono_retire assms(2,1)] workerS_frame[OF retire_fences]]])
    (auto simp: disposable_def)

lemma publish_generation_run: "P s \<Longrightarrow> wp (publish_generation env) (\<lambda>_. P) (\<lambda>_. P) s"
  by (auto simp: publish_generation_def wp_simps split: option.split sum.split)

lemma retire_generation_run:
  assumes "reaches env s0 s"
  shows "wp (retire_generation env) (\<lambda>_ s'. reaches env s0 s' \<and> g_worker s' = None) (\<lambda>_ s'. reaches env s0 s' \<and> g_worker s' = None) s"
proof (cases "g_worker s")
  case None
  then show ?thesis using assms by (simp add: retire_generation_def wp_simps)
next
  case (Some g)
  then have False: "g_worker s \<noteq> None" by simp
  let ?D = "\<lambda>s'. reaches env s0 s' \<and> disposable s'"
  have tail: "wp (whenS ok (publish_generation env)) (\<lambda>_. ?D) (\<lambda>_. ?D) s'" if "?D s'" for ok s'
    using publish_generation_run[of ?D, OF that] that by (simp add: wp_when)
  have body: "wp (bindS (catchS (bindS (workerS (retire (gen_of env))) (\<lambda>_. returnS True)) (\<lambda>e.
          bindS (modS (\<lambda>s. s\<lparr>g_fatal := True\<rparr>)) (\<lambda>_.
          bindS (workerS (stop_keeper (gen_of env))) (\<lambda>_.
          bindS (set_health ''FENCE_FAILED'' False) (\<lambda>_. returnS False))))) (\<lambda>ok.
        whenS ok (publish_generation env))) (\<lambda>_. ?D) (\<lambda>_. ?D) s"
    unfolding wp_bind[of "catchS _ _"] wp_catch wp_bind[of "workerS (retire _)"] wp_return
    by (rule wp_mono[OF retire_worker_run[OF assms False]], erule tail, rule wp_mono[OF retire_failed_run]) (auto intro: tail)
  have "wp (retire_generation env) Q E s \<longleftrightarrow> wp (bindS (catchS (bindS (workerS (retire (gen_of env))) (\<lambda>_. returnS True)) (\<lambda>e.
          bindS (modS (\<lambda>s. s\<lparr>g_fatal := True\<rparr>)) (\<lambda>_.
          bindS (workerS (stop_keeper (gen_of env))) (\<lambda>_.
          bindS (set_health ''FENCE_FAILED'' False) (\<lambda>_. returnS False))))) (\<lambda>ok.
        whenS ok (publish_generation env))) (\<lambda>x s. Q x (s\<lparr>g_worker := None\<rparr>)) (\<lambda>e s. E e (s\<lparr>g_worker := None\<rparr>)) s" for Q E
    using Some by (simp add: retire_generation_def wp_bind[of "getS _"] wp_get wp_finally wp_mod)
  then show ?thesis by (simp only:) (rule wp_mono[OF body], auto intro: drop_worker)
qed

text \<open>Creating: only without a generation and without leftovers.\<close>

lemma start_unfenced: "\<not> fenced g \<Longrightarrow> wp (start_worker genv) (\<lambda>_ g'. \<not> fenced g') (\<lambda>_ _. True) g"
  by (rule wp_mono[OF start_run]) auto

lemma create_worker_run:
  assumes "reaches env s0 s" "g_worker s = None" "g_lingering s = []" "g_helpers s = []" "fst s0"
  shows "wp (create_worker env) (\<lambda>_. reaches env s0) (\<lambda>_. reaches env s0) s"
proof -
  have "reaches env s0 (s\<lparr>g_factory := f, g_worker := Some g, trace := tr\<rparr>)" if "\<not> fenced g" for f g tr
    by (rule reaches_step[OF assms(1)])
      (use spec_step.Create[of "abs_guard s" "fst s0" "failover env" "generation g"] assms(2-5) that in \<open>simp add: life_of_def\<close>)
  moreover have "\<not> fenced g" if "create_generation genv tok rdir m ha wa gw tr None f = (Inr u, g, f')" for genv tok rdir m ha wa gw tr f u g f'
  proof -
    from that obtain n where "start_worker genv (new_generation n tok m rdir ha wa gw tr None) = (Inr u, g)"
      by (auto simp: create_generation_def split: prod.splits)
    then show ?thesis by (rule wp_Inr[OF start_unfenced, rotated]) (simp add: new_generation_def)
  qed
  ultimately show ?thesis using assms(1)
    by (auto simp: wp_def create_worker_def reaches_def split: prod.split sum.split)
qed

definition no_leftovers :: "guard_state \<Rightarrow> bool" where
  "no_leftovers s \<longleftrightarrow> g_lingering s = [] \<and> g_helpers s = []"

lemma keeps_clear_ask [keeps_intros]: "keeps no_leftovers (askS ev f)"
  by (simp add: keeps_def wp_simps no_leftovers_def)

lemma keeps_clear_mod: "(\<And>s. g_lingering (g s) = g_lingering s \<and> g_helpers (g s) = g_helpers s) \<Longrightarrow> keeps no_leftovers (modS g)"
  by (rule keeps_mod) (simp add: no_leftovers_def)

lemma keeps_clear_worker [keeps_intros]: "keeps no_leftovers (workerS m)"
  by (auto simp: keeps_def workerS_def wp_def zoomS_def no_leftovers_def split: sum.split prod.split)

lemma keeps_clear_ops [keeps_intros]:
  "keeps no_leftovers (set_health st b)" "keeps no_leftovers (time_of_day env)" "keeps no_leftovers (selectorS env f fo)"
  "keeps no_leftovers (publish_generation env)"
  unfolding set_health_def time_of_day_def selectorS_def publish_generation_def by (intro keeps_intros keeps_clear_mod; simp)+

lemma keeps_clear_retire [keeps_intros]: "keeps no_leftovers (retire_generation env)"
  unfolding retire_generation_def by (intro keeps_intros keeps_clear_mod) simp_all

lemma keeps_clear_select [keeps_intros]: "keeps no_leftovers (select_transport env)"
  unfolding select_transport_def by (intro keeps_intros keeps_clear_mod) simp_all

lemma keeps_clear_ensure [keeps_intros]: "keeps no_leftovers (ensure_no_lingering env)"
  by (auto simp: keeps_def ensure_no_lingering_def still_running_def no_leftovers_def wp_simps)

text \<open>Creation and the record of its failure.\<close>

lemma keeps_reach_record_failure [keeps_intros]: "keeps (reaches env s0) (record_creation_failure env e)"
  unfolding record_creation_failure_def
proof (intro keeps_intros)
  fix t0 t1 n
  show "keeps (reaches env s0) (modS (\<lambda>s. s\<lparr>g_history := finish_generation t1 oc (g_history s)\<rparr>))" for oc
    by (rule keeps_reach_history) (rule exI[of _ "HFinish t1 oc"], simp)
  show "keeps (reaches env s0) (modS (\<lambda>s. s\<lparr>g_history := start_generation t0 n (g_transport s) m (g_history s)\<rparr>))" for m
    by (rule keeps_step) (metis abs_sel(1) abs_visible(5) history_step.simps(1) spec_step.History)
qed

lemma keeps_reach_select [keeps_intros]: "keeps (reaches env s0) (select_transport env)"
proof (cases "failover env")
  case None
  then show ?thesis unfolding select_transport_def by (simp add: keeps_hidden)
next
  case (Some fo)
  have sel: "wp (selectorS env (\<lambda>fo. select fo t0 t1) fo) (\<lambda>nf s'. reaches env s0 (s'\<lparr>g_selector := snd nf\<rparr>))
      (\<lambda>_. reaches env s0) s" if "reaches env s0 s" for t0 t1 s
  proof -
    have "reaches env s0 (s\<lparr>g_selector := f'\<rparr>)" if f: "select fo t0 t1 (g_selector s) = Inr (n, f')" for n f'
      by (rule reaches_step[OF \<open>reaches env s0 s\<close>])
        (use Some f in \<open>auto intro!: spec_step.Selector[of _ fo "OpSelect t0 t1"]\<close>)
    then show ?thesis using that by (auto simp: selectorS_def wp_simps split: sum.split)
  qed
  let ?tail = "\<lambda>(n, file). bindS (modS (\<lambda>s. s\<lparr>g_selector := file, g_transport := n, g_environ := Some n,
           g_fingerprint := verification_fingerprint_of env\<rparr>)) (\<lambda>_.
       if verify_all_transports_on_startup fo
       then bindS (selectorS env (\<lambda>_. startup_verification_required (verification_fingerprint_of env)) fo) (\<lambda>needed.
              modS (\<lambda>s. s\<lparr>g_pending := needed\<rparr>))
       else modS (\<lambda>s. s\<lparr>g_pending := False\<rparr>))"
  have tail: "wp (?tail nf) (\<lambda>_. reaches env s0) (\<lambda>_. reaches env s0) s" if "reaches env s0 (s\<lparr>g_selector := snd nf\<rparr>)" for nf s
  proof -
    have "keeps (reaches env s0) (if verify_all_transports_on_startup fo
       then bindS (selectorS env (\<lambda>_. startup_verification_required (verification_fingerprint_of env)) fo) (\<lambda>needed.
              modS (\<lambda>s. s\<lparr>g_pending := needed\<rparr>))
       else modS (\<lambda>s. s\<lparr>g_pending := False\<rparr>))" by (intro keeps_intros keeps_hidden) simp_all
    moreover have "reaches env s0 (s\<lparr>g_selector := snd nf, g_transport := n, g_environ := Some n,
           g_fingerprint := verification_fingerprint_of env\<rparr>)" for n
      by (rule reaches_same[OF that]) simp
    ultimately show ?thesis by (cases nf) (simp add: wp_bind wp_mod keepsD)
  qed
  have "wp (bindS (selectorS env (\<lambda>fo. select fo t0 t1) fo) ?tail) (\<lambda>_. reaches env s0) (\<lambda>_. reaches env s0) s" if "reaches env s0 s" for t0 t1 s
  proof (rule wp_seq[OF sel[OF that]])
    fix nf :: "string \<times> transport_file" and s' assume "reaches env s0 (s'\<lparr>g_selector := snd nf\<rparr>)"
    then show "wp (?tail nf) (\<lambda>_. reaches env s0) (\<lambda>_. reaches env s0) s'" by (rule tail)
  qed
  then have k: "keeps (reaches env s0) (bindS (selectorS env (\<lambda>fo. select fo t0 t1) fo) ?tail)" for t0 t1
    by (simp add: keeps_def)
  show ?thesis unfolding select_transport_def Some option.case
    by (rule keeps_bind[OF keeps_reach_health], rule keeps_bind[OF keeps_reach_clock(2)],
        rule keeps_bind[OF keeps_reach_clock(2)], rule k)
qed

lemma begin_base_run:
  assumes "reaches env s0 s" "no_leftovers s" "fst s0"
  shows "wp (begin_generation_base env) (\<lambda>_. reaches env s0) (\<lambda>_. reaches env s0) s"
proof -
  let ?I = "reaches env s0"
  have create: "wp (catchS (create_worker env) (\<lambda>e. bindS (record_creation_failure env e) (\<lambda>_. raiseS e))) (\<lambda>_. ?I) (\<lambda>_. ?I) s'"
    if "?I s'" "no_leftovers s'" "g_worker s' = None" for s'
    unfolding wp_catch
    by (rule wp_mono[OF create_worker_run]) (use that assms(3) in \<open>auto simp: no_leftovers_def intro!: keepsD keeps_intros\<close>)
  have rest: "keeps ?I (bindS (time_of_day env) (\<lambda>t. bindS (modS (\<lambda>s. s\<lparr>g_history := start_generation t (generation (the (g_worker s)))
      (g_transport s) (mode (the (g_worker s))) (g_history s)\<rparr>)) (\<lambda>_. publish_generation env)))"
    by (intro keeps_intros keeps_step) (metis abs_sel(1) abs_visible(5) history_step.simps(1) spec_step.History)
  have retired: "wp (retire_generation env) (\<lambda>_ s'. (?I s' \<and> g_worker s' = None) \<and> no_leftovers s') (\<lambda>_. ?I) s'"
    if "?I s'" "no_leftovers s'" for s'
    by (rule wp_mono[OF wp_conj[OF retire_generation_run[OF that(1)] keepsD[OF keeps_clear_retire that(2)]]]) auto
  have ensured: "wp (ensure_no_lingering env) (\<lambda>_ s'. ?I s' \<and> no_leftovers s') (\<lambda>_. ?I) s"
    by (rule wp_mono[OF wp_conj[OF keepsD[OF keeps_reach_leftovers(1) assms(1)] keepsD[OF keeps_clear_ensure assms(2)]]]) auto
  have health: "?I (s'\<lparr>g_health := st, g_ready := False\<rparr>)" if "?I s'" for s' st
    using keepsD[OF keeps_reach_health that, of st] by (simp add: set_health_def wp_mod)
  show ?thesis unfolding begin_generation_base_def
  proof (rule wp_seq[OF ensured], rule wp_seq[OF retired])
    fix s' assume s': "(?I s' \<and> g_worker s' = None) \<and> no_leftovers s'"
    show "wp (bindS (set_health ''CREATING_GENERATION'' False) (\<lambda>_.
       bindS (catchS (create_worker env) (\<lambda>e. bindS (record_creation_failure env e) (\<lambda>_. raiseS e))) (\<lambda>_.
       bindS (time_of_day env) (\<lambda>t. bindS (modS (\<lambda>s. s\<lparr>g_history := start_generation t (generation (the (g_worker s)))
         (g_transport s) (mode (the (g_worker s))) (g_history s)\<rparr>)) (\<lambda>_. publish_generation env)))))
       (\<lambda>_. ?I) (\<lambda>_. ?I) s'"
      unfolding set_health_def wp_bind[of "modS _"] wp_mod
      by (rule wp_seq[OF create]) (use s' in \<open>auto simp: health no_leftovers_def intro: keepsD[OF rest]\<close>)
  qed simp_all
qed

lemma ensure_no_lingering_run:
  assumes "reaches env s0 s"
  shows "wp (ensure_no_lingering env) (\<lambda>_ s'. reaches env s0 s' \<and> g_lingering s' = []) (\<lambda>_. reaches env s0) s"
proof -
  have "wp (ensure_no_lingering env) (\<lambda>_ s'. g_lingering s' = []) (\<lambda>_ _. True) s"
    by (auto simp: ensure_no_lingering_def bindS_def getS_def modS_def wp_def wp_return wp_raise returnS_def raiseS_def split: prod.split sum.split)
  from wp_conj[OF keepsD[OF keeps_reach_leftovers(1) assms] this] show ?thesis by (rule wp_mono) auto
qed

lemma keeps_lingering_reap: "keeps (\<lambda>s. g_lingering s = []) (reap_helpers env)"
proof -
  have "keeps (\<lambda>s. g_lingering s = []) (helper_alive env pid)" for pid
    by (simp add: keeps_def helper_alive_def os_defs wp_simps)
  then show ?thesis unfolding reap_helpers_def by (intro keeps_intros keeps_mod) simp_all
qed

lemma start_generation_run:
  assumes "reaches env s0 s" "no_leftovers s" "fst s0"
  shows "wp (bindS (select_transport env) (\<lambda>_. bindS (begin_generation_base env) (\<lambda>_. publish_transport env)))
    (\<lambda>_. reaches env s0) (\<lambda>_. reaches env s0) s"
proof (rule wp_seq)
  show "wp (select_transport env) (\<lambda>_ s'. reaches env s0 s' \<and> no_leftovers s') (\<lambda>_. reaches env s0) s"
    by (rule wp_mono[OF wp_conj[OF keepsD[OF keeps_reach_select assms(1)] keepsD[OF keeps_clear_select assms(2)]]]) auto
  fix s' assume "reaches env s0 s' \<and> no_leftovers s'"
  then show "wp (bindS (begin_generation_base env) (\<lambda>_. publish_transport env)) (\<lambda>_. reaches env s0) (\<lambda>_. reaches env s0) s'"
    using assms(3) by (intro wp_seq[OF begin_base_run] keepsD[OF keeps_reach_publish(1)]) auto
qed

lemma keeps_reach_begin [keeps_intros]: "fst s0 \<Longrightarrow> keeps (reaches env s0) (begin_generation env)"
  unfolding keeps_def begin_generation_def
proof (intro allI impI)
  fix s assume on: "fst s0" and "reaches env s0 s"
  let ?I = "reaches env s0"
  let ?J = "\<lambda>s. ?I s \<and> g_lingering s = []"
  have flags: "wp (modS (\<lambda>s. s\<lparr>g_transport_failure := False, g_failure_name := [], g_switch := False, g_detached := False,
      g_verifying := []\<rparr>)) (\<lambda>_. ?I) (\<lambda>_. ?I) s"
    using \<open>?I s\<close> by (simp add: wp_mod reaches_def)
  have reap: "wp (reap_helpers env) (\<lambda>_. ?J) (\<lambda>_. ?I) s'" if "?J s'" for s'
    by (rule wp_mono[OF wp_conj[OF keepsD[OF keeps_reach_leftovers(2)] keepsD[OF keeps_lingering_reap]]]) (use that in auto)
  have last: "wp (bindS (getS g_helpers) (\<lambda>hs. if hs \<noteq> [] then raiseS err
      else bindS (select_transport env) (\<lambda>_. bindS (begin_generation_base env) (\<lambda>_. publish_transport env)))) (\<lambda>_. ?I) (\<lambda>_. ?I) s'"
    if "?J s'" for s' err
    using that on start_generation_run[of env s0 s'] by (auto simp: wp_bind wp_get wp_raise no_leftovers_def)
  show "wp (bindS (modS (\<lambda>s. s\<lparr>g_transport_failure := False, g_failure_name := [], g_switch := False, g_detached := False,
         g_verifying := []\<rparr>)) (\<lambda>_.
     bindS (ensure_no_lingering env) (\<lambda>_.
     bindS (reap_helpers env) (\<lambda>_.
     bindS (getS g_helpers) (\<lambda>hs.
     if hs \<noteq> [] then raiseS (GStorage ''a previous storage helper is still blocked; refusing to select another transport'')
     else
       bindS (select_transport env) (\<lambda>_.
       bindS (begin_generation_base env) (\<lambda>_. publish_transport env)))))))
    (\<lambda>_. ?I) (\<lambda>_. ?I) s"
    by (rule wp_seq[OF flags], rule wp_seq[OF ensure_no_lingering_run], assumption, rule wp_seq[OF reap], assumption, rule last)
qed

text \<open>Fencing, ending and the recorded outcome.\<close>

lemma fence_worker_run:
  assumes "reaches env s0 s" "g_worker s \<noteq> None"
  shows "wp (catchS (bindS (workerS (fence (gen_of env) reason)) (\<lambda>_. returnS True)) (\<lambda>_.
          bindS (modS (\<lambda>s. s\<lparr>g_fatal := True\<rparr>)) (\<lambda>_.
          bindS (set_health ''FENCE_FAILED'' False) (\<lambda>_. returnS False)))) (\<lambda>_. reaches env s0) (\<lambda>_. reaches env s0) s"
  unfolding wp_catch wp_bind[of "workerS _"] wp_return
  by (rule wp_mono[OF keeps_workerS[OF keeps_mono_fence assms(2,1)]], assumption) (rule keepsD, intro keeps_intros)

lemma keeps_reach_fence_base [keeps_intros]: "keeps (reaches env s0) (fence_generation_base env reason)"
  unfolding keeps_def fence_generation_base_def
proof (intro allI impI)
  fix s assume s: "reaches env s0 s"
  have health: "wp (set_health ''FENCING'' False) (\<lambda>_ s'. reaches env s0 s' \<and> g_worker s' \<noteq> None) (\<lambda>_. reaches env s0) s"
    if "g_worker s \<noteq> None"
    using keepsD[OF keeps_reach_health s, of "''FENCING''"] that by (simp add: set_health_def wp_mod)
  show "wp (bindS (getS g_worker) (\<lambda>w.
     if w = None then returnS True
     else
       bindS (set_health ''FENCING'' False) (\<lambda>_.
       bindS (catchS (bindS (workerS (fence (gen_of env) reason)) (\<lambda>_. returnS True)) (\<lambda>_.
          bindS (modS (\<lambda>s. s\<lparr>g_fatal := True\<rparr>)) (\<lambda>_.
          bindS (set_health ''FENCE_FAILED'' False) (\<lambda>_. returnS False)))) (\<lambda>ok.
       bindS (publish_generation env) (\<lambda>_. returnS ok))))) (\<lambda>_. reaches env s0) (\<lambda>_. reaches env s0) s"
  proof (cases "g_worker s = None")
    case False
    show ?thesis unfolding wp_bind[of "getS _"] wp_get if_not_P[OF False]
    proof (rule wp_seq[OF health[OF False]], rule wp_seq[OF fence_worker_run])
      fix ok s' assume s': "reaches env s0 s'"
      show "wp (bindS (publish_generation env) (\<lambda>_. returnS ok)) (\<lambda>_. reaches env s0) (\<lambda>_. reaches env s0) s'"
        by (rule keepsD, intro keeps_intros) (rule s')
    qed auto
  qed (use s in \<open>simp add: wp_bind wp_get wp_return\<close>)
qed

lemma keeps_reach_store [keeps_intros]: "keeps (reaches env s0) (storeS m)"
  by (auto simp: keeps_def storeS_def wp_def zoomS_def reaches_def split: sum.split prod.split)

lemma keeps_reach_reap_sshfs [keeps_intros]: "keeps (reaches env s0) (reap_sshfs env fo transport)"
  unfolding reap_sshfs_def by (intro keeps_intros)

lemma keeps_reach_blame [keeps_intros]: "failover env = Some fo \<Longrightarrow> keeps (reaches env s0) (blame_transport env fo bad reason)"
  unfolding blame_transport_def by (intro keeps_intros)

lemma keeps_reach_fence [keeps_intros]: "keeps (reaches env s0) (fence_generation env reason)"
  unfolding fence_generation_def by (intro keeps_intros)

lemma keeps_reach_finish [keeps_intros]: "keeps (reaches env s0) (finish_history env oc)"
  unfolding finish_history_def by (intro keeps_intros keeps_reach_history exI[of _ "HFinish _ oc"]) simp

lemma keeps_reach_drain [keeps_intros]: "keeps (reaches env s0) (drain env b)"
  unfolding drain_def by (intro keeps_intros)

lemma keeps_reach_terminate [keeps_intros]: "keeps (reaches env s0) (terminate_generation env reason cause ph b)"
  unfolding terminate_generation_def terminate_generation_base_def by (intro keeps_intros)

lemma keeps_reach_retire [keeps_intros]: "keeps (reaches env s0) (retire_generation env)"
  unfolding keeps_def by (intro allI impI, rule wp_mono[OF retire_generation_run]) auto

section \<open>The loop\<close>

lemma keeps_reach_haproxy [keeps_intros]: "keeps (reaches env s0) (ensure_haproxy env)"
  unfolding ensure_haproxy_def by (intro keeps_intros keeps_hidden) simp_all

lemma keeps_reach_helper_on [keeps_intros]: "keeps (reaches env s0) (helper_on env op name)"
  unfolding helper_on_def by (intro keeps_intros)

lemma keeps_reach_verify [keeps_intros]: "keeps (reaches env s0) (verify_transport env fo transport)"
  unfolding verify_transport_def by (intro keeps_intros keeps_hidden) simp_all

lemma keeps_reach_verify_list [keeps_intros]: "keeps (reaches env s0) (verify_transports env fo ns)"
  by (induction ns) (auto intro!: keeps_intros)

lemma keeps_reach_verify_all [keeps_intros]: "keeps (reaches env s0) (verify_all_transports env)"
  unfolding verify_all_transports_def by (intro keeps_intros keeps_hidden) simp_all

lemma keeps_reach_mount [keeps_intros]: "keeps (reaches env s0) (mount_and_enroll env)"
  unfolding mount_and_enroll_def mount_and_enroll_base_def by (intro keeps_intros)

lemma keeps_reach_stabilize [keeps_intros]: "keeps (reaches env s0) (stabilize_recovery n env)"
  unfolding stabilize_recovery_def by (intro keeps_intros keeps_hidden) simp_all

lemma keeps_reach_go_online [keeps_intros]: "fst s0 \<Longrightarrow> keeps (reaches env s0) (set_health ''ONLINE'' True)"
  unfolding set_health_def by (rule keeps_step) (simp add: spec_step.Online)

lemma keeps_reach_serve [keeps_intros]: "fst s0 \<Longrightarrow> keeps (reaches env s0) (serve n env)"
  unfolding serve_def by (intro keeps_intros)

lemma keeps_reach_blocked [keeps_intros]: "keeps (reaches env s0) (blocked_rounds k n env)" "keeps (reaches env s0) (parked_rounds k n env)"
  by (induction k) (auto intro!: keeps_intros)

lemma keeps_reach_park [keeps_intros]: "keeps (reaches env s0) (park_manual_intervention n env reason ph cause)"
  unfolding park_manual_intervention_def by (intro keeps_intros keeps_hidden) simp_all

lemma keeps_reach_recover [keeps_intros]: "keeps (reaches env s0) (recover n env delay reason ph cause)"
  unfolding recover_def wait_for_blocked_cleanup_def by (intro keeps_intros keeps_hidden) simp_all

lemma keeps_reach_handle [keeps_intros]: "keeps (reaches env s0) (handle_failure n env delay e)"
  unfolding handle_failure_def by (intro keeps_intros)

lemma keeps_case_failure [keeps_intros]:
  "keeps I m \<Longrightarrow> keeps I k \<Longrightarrow> (\<And>e. keeps I (h e)) \<Longrightarrow>
   keeps I (case failure of None \<Rightarrow> m | Some KeyboardInterrupt \<Rightarrow> k | Some e \<Rightarrow> h e)"
  by (auto split: option.split guard_error.split)

lemma keeps_reach_turn [keeps_intros]: "fst s0 \<Longrightarrow> keeps (reaches env s0) (turn n env delay)"
  unfolding turn_def Let_def
  by (intro keeps_intros) (auto split: option.split guard_error.split intro!: keeps_intros)

lemma keeps_reach_turns [keeps_intros]: "fst s0 \<Longrightarrow> keeps (reaches env s0) (turns k n env delay)"
  by (induction k arbitrary: delay) (auto split: turn_end.split intro!: keeps_intros)

lemma keeps_reach_shutdown [keeps_intros]: "keeps (reaches env s0) (shutdown env)"
  unfolding shutdown_def by (intro keeps_intros)

lemma keeps_reach_run [keeps_intros]: "fst s0 \<Longrightarrow> keeps (reaches env s0) (run_guardian n env)"
  unfolding run_guardian_def by (intro keeps_intros keeps_reach_history exI[of _ "HRestart _"]) simp_all

end
