(* ===== verification/Guardian_Example.thy ===== *)
theory Guardian_Example
  imports Guardian_Run
begin

text \<open>
  A configuration, an operating system and a state on which the guardian runs: the concrete inputs the properties of the
  guardian are tried on. Time passes only while the program sleeps, no process can be started, and a stop signal is there
  from the start or never comes.
\<close>

primrec slept :: "os_event list \<Rightarrow> rat" where
  "slept [] = 0"
| "slept (e # tr) = (case e of ESleep d \<Rightarrow> max 0 d | _ \<Rightarrow> 0) + slept tr"

lemma slept_append [simp]: "slept (tr @ tr') = slept tr + slept tr'"
  by (induction tr) simp_all

definition example_config :: config where
  "example_config =
     \<lparr>appliance = example_appliance\<lparr>recovery_initial_seconds := 1\<rparr>,
      targets = [(''data'', example_base)],
      metadata = \<lparr>backend = ''postgres'', md_target = ''data'', md_directory = ''meta'', postgres_host = ''db'', postgres_port = 5432,
        postgres_user = ''u'', postgres_password_file = ''/p'', postgres_database = ''d'', postgres_schema = ''s'',
        postgres_sslmode = ''require'', custom_filer_toml = []\<rparr>,
      index = \<lparr>ix_target = ''data'', ix_directory = ''index''\<rparr>,
      seaweed = \<lparr>binary = ''weed'', master_port = 9333, volume_port = 8080, filer_port = 8888, s3_internal_port = 8333,
        volume_directory = ''volumes'', volume_max = 10, volume_size_limit_mb = 1024, default_replication = ''000'', filer_max_mb = 4,
        data_center = [], rack = [], disk_type = [], volume_extra_args = [], master_extra_args = [], filer_extra_args = [],
        s3_extra_args = [], encrypt_volume_data = False, volume_health_enabled = True, expected_readonly_volume_ids = [],
        all_readonly_wait_seconds = 60, auto_index_repair_enabled = True, index_repair_concurrency = 1, index_repair_max_volumes = 1,
        index_repair_timeout_seconds = 60, auto_tail_recovery_enabled = False, auto_tail_recovery_max_bytes = 0,
        concurrent_upload_limit_mb = 64, inflight_upload_timeout_seconds = 60\<rparr>,
      s3 = \<lparr>s3_host = ''0.0.0.0'', s3_port = 8000, domain_name = [], allowed_origins = ''*'', external_url = [],
        auth_mode = ''static'', access_key_file = ''/a'', secret_key_file = ''/s'', auth_config_file = [], canary_access_key_file = [],
        canary_secret_key_file = [], iam_config_file = [], audit_log_config_file = [], tls_mode = ''off'', tls_pem_file = [],
        admission = \<lparr>adm_enabled = False, adaptive_enabled = False, adm_slow_probe_seconds = 1, healthy_window_seconds = 1,
          max_active_read_requests = 1, max_active_write_requests = 1, max_queued_read_requests = 1,
          max_queued_write_requests = 1, queue_timeout_seconds = 1\<rparr>\<rparr>\<rparr>"

definition example_guard_env :: "failover_config option \<Rightarrow> bool \<Rightarrow> guard_env" where
  "example_guard_env fo stops = \<lparr>run_result = \<lambda>tr cmd. if cmd = link_show then Completed 1 [] [] else Completed 0 [] [],
     spawn = \<lambda>tr cmd. Inl ''no memory'', poll_code = \<lambda>tr pid. None, kill_found = \<lambda>tr pid. True, wait_ends = \<lambda>tr pid. True,
     clock = slept, asked = \<lambda>tr q. True, ip_address = Some, ip_interface = \<lambda>a. Some (a, ''net''),
     resolver_text = Inr (''nameserver 9.9.9.9'' @ [CHR 0x0A]), forwarding = \<lambda>tr. Inr ''1'',
     forwarding_write = None, executable = ''python3'', child_stderr = \<lambda>pid. [],
     cfg = example_config, config_file = ''/etc/node.toml'', failover = fo, store_env = example_storage_env,
     describe = class_name, json_ok = \<lambda>t. True, signal = \<lambda>tr. stops, wall = slept,
     helper_result = \<lambda>tr pid. Completed 0 [] [], fresh_token = \<lambda>tr. ''t'', volume_reply = \<lambda>tr. HttpFailed,
     canary_error = \<lambda>tr. None, repair_env_at = \<lambda>tr. example_env, repair_inputs = \<lambda>tr v. ([], []),
     haproxy_path = ''/run/haproxy.cfg'', filer_toml = None, s3_config_path = None, verification_fingerprint_of = ''fp''\<rparr>"

definition example_guard :: guard_state where
  "example_guard = \<lparr>trace = [], g_stopping = False, g_health = ''INITIALIZING'', g_ready = False, g_failures = 0, g_recoveries = 0,
     g_probes = 0, g_processes = [], g_haproxy = None, g_lingering = [], g_helpers = [], g_worker = None,
     g_factory = \<lparr>fac_counter = None, last_allocated = 0\<rparr>, g_history = open_history HistoryAbsent, g_fatal = False,
     g_selector = NoFile, g_store = example_storage, g_repair = False, g_journal = \<lparr>files = Map.empty, journal = Map.empty\<rparr>,
     g_transport = [], g_environ = None, g_switch = False, g_detached = False, g_transport_failure = False, g_failure_name = [],
     g_watch = False, g_pending = False, g_verifying = [], g_fingerprint = []\<rparr>"

lemma example_env_sel [simp]:
  "clock (example_guard_env fo k) = slept" "wall (example_guard_env fo k) = slept" "failover (example_guard_env fo k) = fo"
  "spawn (os_of (example_guard_env fo k)) tr cmd = Inl ''no memory''" "cfg (example_guard_env fo k) = example_config"
  "signal (example_guard_env fo k) tr = k" "worker_fencing_mode (appl (example_guard_env fo k)) = ''namespace''"
  "recovery_initial_seconds (appl (example_guard_env fo k)) = 1" "recovery_max_seconds (appl (example_guard_env fo k)) = 60"
  "recovery_probe_interval_seconds (appl (example_guard_env fo k)) = 2" "recovery_stability_seconds (appl (example_guard_env fo k)) = 10"
  "startup_timeout_seconds (appl (example_guard_env fo k)) = 120" "shutdown_grace_seconds (appl (example_guard_env fo k)) = 20"
  by (simp_all add: example_guard_env_def os_of_def os_env.defs appl_def example_config_def example_appliance_def)

lemma example_guard_sel [simp]:
  "trace example_guard = []" "\<not> g_stopping example_guard" "\<not> g_ready example_guard" "g_processes example_guard = []"
  "g_haproxy example_guard = None" "g_lingering example_guard = []" "g_helpers example_guard = []" "g_worker example_guard = None"
  "g_fatal example_guard = False" "g_watch example_guard = False" "g_detached example_guard = False" "g_selector example_guard = NoFile"
  "g_history example_guard = open_history HistoryAbsent" "g_failure_name example_guard = []" "g_transport example_guard = []"
  "g_environ example_guard = None"
  by (simp_all add: example_guard_def)

lemma example_targets: "active_targets example_config = Inr [example_base]"
  by code_simp

text \<open>Symbolic runs of the guardian.\<close>

lemmas run_defs = stop_requested_def bindS_def askS_def getS_def returnS_def raiseS_def catchS_def finallyS_def modS_def whenS_def
  set_health_def monotime_def time_of_day_def time_sleep_def popen_def is_exception_def still_running_def reap_helpers_def

lemmas recover_defs = recover_def terminate_generation_def terminate_generation_base_def stop_seaweed_def repair_targets_def
  repair_targets_base_def targets_of_def detach_one_def run_helper_def run_helper_generation_def generation_command_def
  is_failover_target_def example_base_def default_target_def failed_transport_def retire_generation_def
  wait_for_blocked_cleanup_def interruptible_sleep_def sleep_base_def

lemma example_turn:
  "case turn 6 (example_guard_env None False) 1 example_guard of (r, s') \<Rightarrow> r = Inr (Again 2) \<and> \<not> g_stopping s'"
  by (simp add: run_defs turn_def serve_def ensure_haproxy_def start_process_def running_def role_def handle_failure_def is_manual_def,
      simp add: recover_defs run_defs example_targets numeral_eq_Suc)

lemma example_run: "fst (run_guardian 2 (example_guard_env None True) example_guard) = Inr 0"
  by (simp add: run_guardian_def shutdown_def turn_def recover_defs run_defs example_targets numeral_eq_Suc)

lemma example_gen_of [simp]:
  "run_result (gen_of (example_guard_env fo k)) tr cmd = (if cmd = link_show then Completed 1 [] [] else Completed 0 [] [])"
  "poll_code (gen_of (example_guard_env fo k)) tr pid = None" "ip_interface (gen_of (example_guard_env fo k)) a = Some (a, ''net'')"
  "kill_found (gen_of (example_guard_env fo k)) tr pid = True" "wait_ends (gen_of (example_guard_env fo k)) tr pid = True"
  by (simp_all add: gen_of_def example_guard_env_def gen_env.defs)

lemma example_gen_sel [simp]: "mode example_gen = ''namespace''" "\<not> fenced example_gen" "keeper example_gen = Some 5"
  "dns_proxy example_gen = Some 6" "gen_worker_address example_gen = ''w''"
  by (simp_all add: example_gen_def new_generation_def)

lemmas worker_defs = workerS_def zoomS_def enter_command_def fence_def gen_run_def retire_def stop_helpers_def stop_dns_proxy_def
  stop_keeper_def stop_group_def persist_doc_def liftS_def worker_ip_def returncode_def publish_generation_def

lemma example_recover: "fst (recover 6 (example_guard_env None False) 1 ''io'' ''ONLINE'' ''storage_failure''
    (example_guard\<lparr>g_worker := Some example_gen\<rparr>)) = Inr (Again 2)"
  by (simp add: recover_defs run_defs worker_defs example_targets drain_def fence_generation_def fence_generation_base_def
      finish_history_def numeral_eq_Suc)

text \<open>A machine on which every call takes two fifths of a second.\<close>

definition race_env :: guard_env where
  "race_env = (example_guard_env None False)\<lparr>clock := \<lambda>tr. of_nat (length tr) * 2 / 5\<rparr>"

lemma race_env_sel [simp]: "clock race_env tr = of_nat (length tr) * 2 / 5" "\<not> signal race_env tr" "failover race_env = None"
  "cfg race_env = example_config" "appl race_env = appl (example_guard_env None False)"
  "spawn (os_of race_env) tr cmd = Inl ''no memory''"
  by (simp_all add: race_env_def example_guard_env_def os_of_def os_env.defs appl_def)

lemma race_turn: "fst (turn 6 race_env 1 example_guard) = Inl (GValue ''sleep length must be non-negative'')"
  by (simp add: run_defs turn_def serve_def ensure_haproxy_def start_process_def running_def role_def handle_failure_def is_manual_def,
      simp add: recover_defs run_defs example_targets numeral_eq_Suc)

end
