(* ===== verification/Guardian_Waits.thy ===== *)
theory Guardian_Waits
  imports Guardian_Example
begin

text \<open>
  The waits of the guardian end. A loop of the model takes the number of rounds it may make and gives \<open>Unfinished\<close>
  when they are used up; here the numbers that are enough are derived from what is known of the clock and of
  \<open>time.sleep\<close>: an interruptible sleep needs four rounds a second and one more, the wait for a stable volume status
  one round for each probe interval.
\<close>

section \<open>Operations without waits\<close>

definition finishes :: "'a guard \<Rightarrow> bool" where
  "finishes m \<longleftrightarrow> (\<forall>s. wp m (\<lambda>_ _. True) (\<lambda>e _. e \<noteq> Unfinished) s)"

named_theorems finishes_intros \<open>operations that never run out of rounds\<close>

lemma finishesD: "finishes m \<Longrightarrow> wp m (\<lambda>_ _. True) (\<lambda>e _. e \<noteq> Unfinished) s"
  by (simp add: finishes_def)

lemma finishes_basic [finishes_intros]:
  "finishes (returnS x)" "finishes (getS f)" "finishes (modS g)" "finishes (askS ev a)"
  by (simp_all add: finishes_def wp_simps)

lemma finishes_repair [finishes_intros]: "finishes (lift_repair m)"
  by (auto simp: finishes_def wp_def lift_repair_def split: prod.split sum.split)

lemma finishes_raise [finishes_intros]: "e \<noteq> Unfinished \<Longrightarrow> finishes (raiseS e)"
  by (simp add: finishes_def wp_simps)

lemma finishes_bind [finishes_intros]: "finishes m \<Longrightarrow> (\<And>x. finishes (f x)) \<Longrightarrow> finishes (bindS m f)"
  unfolding finishes_def wp_bind by (blast intro: wp_mono)

lemma finishes_if [finishes_intros]: "finishes m \<Longrightarrow> finishes k \<Longrightarrow> finishes (if b then m else k)"
  by simp

lemma finishes_when [finishes_intros]: "finishes m \<Longrightarrow> finishes (whenS b m)"
  by (simp add: whenS_def finishes_basic)

lemma finishes_status [finishes_intros]:
  "finishes (stop_requested env)" "finishes (monotime env)" "finishes (worker_endpoint_host env)" "finishes (inspect_seaweed_volumes env)"
  "finishes awaiting_validation" "finishes (certify_indexes_from_result env)"
  unfolding stop_requested_def monotime_def worker_endpoint_host_def inspect_seaweed_volumes_def awaiting_validation_def
    certify_indexes_from_result_def time_of_day_def
  by (auto intro!: finishes_intros split: option.split sum.split)

lemma finishes_settle [finishes_intros]: "finishes (settle env st)"
  unfolding settle_def accept_status_def by (auto intro!: finishes_intros split: if_splits)

lemma finishes_catch: "finishes m \<Longrightarrow> (\<And>e. e \<noteq> Unfinished \<Longrightarrow> finishes (h e)) \<Longrightarrow> finishes (catchS m h)"
  unfolding finishes_def wp_catch by (blast intro: wp_mono)

lemma finishes_sample [finishes_intros]: "finishes (sample_status env ss)"
  unfolding sample_status_def Let_def
  by (rule finishes_catch) (auto intro!: finishes_intros split: option.split guard_error.split)

section \<open>Time\<close>

text \<open>The clock read now is at least the one read at an earlier point.\<close>

definition past :: "guard_env \<Rightarrow> rat \<Rightarrow> guard_state \<Rightarrow> bool" where
  "past env t s \<longleftrightarrow> t \<le> clock env (trace s)"

lemma past_event: "sleeps env \<Longrightarrow> past env t s \<Longrightarrow> trace s' = trace s @ [ev] \<Longrightarrow> past env t s'"
  unfolding past_def sleeps_def by (metis order_trans)

lemma past_trace [simp]: "past env t (s\<lparr>g_stopping := b\<rparr>) = past env t s" "past env t (s\<lparr>g_health := h\<rparr>) = past env t s"
  "past env t (s\<lparr>g_ready := r\<rparr>) = past env t s" "past env t (s\<lparr>g_switch := r\<rparr>) = past env t s"
  by (simp_all add: past_def)

lemma keeps_past_ask [keeps_intros]: "sleeps env \<Longrightarrow> keeps (past env t) (askS ev a)"
  unfolding keeps_def wp_ask by (auto intro: past_event)

lemma keeps_past_status [keeps_intros]:
  assumes "sleeps env"
  shows "keeps (past env t) (stop_requested env)" "keeps (past env t) (monotime env)" "keeps (past env t) (worker_endpoint_host env)"
    "keeps (past env t) (inspect_seaweed_volumes env)"
  using assms unfolding stop_requested_def monotime_def worker_endpoint_host_def inspect_seaweed_volumes_def
  by (intro keeps_intros keeps_mod; simp)+

lemma keeps_past_sample [keeps_intros]: "sleeps env \<Longrightarrow> keeps (past env t) (sample_status env ss)"
  unfolding sample_status_def Let_def
  by (intro keeps_intros) (auto intro!: keeps_intros split: guard_error.split)

text \<open>After a nap of length \<open>d\<close> the clock has moved by \<open>d\<close>.\<close>

lemma wp_nap:
  assumes "sleeps env" "past env t s" "\<And>s'. past env (t + d) s' \<Longrightarrow> g_stopping s' = g_stopping s \<Longrightarrow> Q () s'"
    "d < 0 \<Longrightarrow> E (GValue ''sleep length must be non-negative'') s"
  shows "wp (time_sleep d) Q E s"
proof (cases "d < 0")
  case False
  have "clock env (trace s) + d \<le> clock env (trace s @ [ESleep d])" using assms(1) by (simp add: sleeps_def)
  then have "past env (t + d) (s\<lparr>trace := trace s @ [ESleep d]\<rparr>)" using assms(2) by (simp add: past_def)
  with False show ?thesis using assms(3) by (simp add: time_sleep_def wp_ask)
qed (use assms(4) in \<open>simp add: time_sleep_def wp_raise\<close>)

lemma wp_clock:
  assumes "sleeps env" "\<And>s'. past env (clock env (trace s)) s' \<Longrightarrow> g_stopping s' = g_stopping s \<Longrightarrow> g_probes s' = g_probes s \<Longrightarrow> Q (clock env (trace s)) s'"
  shows "wp (monotime env) Q E s"
proof -
  have "past env (clock env (trace s)) (s\<lparr>trace := trace s @ [EClock]\<rparr>)" using assms(1) by (simp add: past_def sleeps_def)
  then show ?thesis using assms(2) by (simp add: monotime_def wp_ask)
qed

lemma wp_stop:
  assumes "sleeps env" "past env t s" "\<And>s'. past env t s' \<Longrightarrow> g_stopping s' \<Longrightarrow> Q True s'"
    "\<And>s'. past env t s' \<Longrightarrow> \<not> g_stopping s \<Longrightarrow> \<not> g_stopping s' \<Longrightarrow> Q False s'"
  shows "wp (stop_requested env) Q E s"
proof -
  have "past env t (s\<lparr>trace := trace s @ [EAsk ''signal'']\<rparr>)" using assms(1,2) by (auto intro: past_event)
  then show ?thesis using assms(3,4) by (cases "g_stopping s") (simp_all add: stop_requested_def wp_simps)
qed

section \<open>Interruptible sleeps\<close>

lemma sleep_step:
  assumes "sleeps env" "past env t s"
    "\<And>t' s'. t < deadline \<Longrightarrow> past env t' s' \<Longrightarrow> deadline \<le> t' \<or> t + 1 / 4 \<le> t' \<Longrightarrow> wp again Q E s'"
    "\<And>s'. g_stopping s' \<or> past env deadline s' \<Longrightarrow> Q () s'" "\<And>s'. E (GValue ''sleep length must be non-negative'') s'"
  shows "wp (bindS (stop_requested env) (\<lambda>stop.
     if stop then returnS ()
     else bindS (monotime env) (\<lambda>c. if c < deadline then bindS (monotime env) (\<lambda>c2.
         bindS (time_sleep (min (1 / 4) (deadline - c2))) (\<lambda>_. again)) else returnS ()))) Q E s"
proof -
  have nap: "wp (bindS (time_sleep (min (1 / 4) (deadline - c2))) (\<lambda>_. again)) Q E s'"
    if "past env c2 s'" "t < deadline" "t \<le> c2" for c2 s'
    unfolding wp_bind by (rule wp_nap[OF assms(1) that(1)]) (use that assms(3,5) in \<open>auto simp: min_def\<close>)
  have clk: "wp (bindS (monotime env) (\<lambda>c. if c < deadline then bindS (monotime env) (\<lambda>c2.
         bindS (time_sleep (min (1 / 4) (deadline - c2))) (\<lambda>_. again)) else returnS ())) Q E s'" if "past env t s'" for s'
    unfolding wp_bind[of "monotime env"]
  proof (rule wp_clock[OF assms(1)])
    fix s2 assume s2: "past env (clock env (trace s')) s2"
    have c: "t \<le> clock env (trace s')" using that by (simp add: past_def)
    show "wp (if clock env (trace s') < deadline then bindS (monotime env) (\<lambda>c2.
         bindS (time_sleep (min (1 / 4) (deadline - c2))) (\<lambda>_. again)) else returnS ()) Q E s2"
    proof (cases "clock env (trace s') < deadline")
      case True
      show ?thesis unfolding if_P[OF True] wp_bind[of "monotime env"]
        by (rule wp_clock[OF assms(1)], rule nap) (use True c s2 in \<open>auto simp: past_def\<close>)
    next
      case False
      then show ?thesis using s2 by (simp add: wp_return assms(4) past_def)
    qed
  qed
  show ?thesis unfolding wp_bind[of "stop_requested env"]
    by (rule wp_stop[OF assms(1,2)]) (use clk in \<open>auto simp: wp_return assms(4)\<close>)
qed

lemma sleep_rounds_end:
  assumes "sleeps env"
  shows "past env t s \<Longrightarrow> deadline - t \<le> of_nat n / 4 \<Longrightarrow>
    wp (sleep_rounds (Suc n) env deadline) (\<lambda>_ s'. g_stopping s' \<or> past env deadline s') (\<lambda>e _. e \<noteq> Unfinished) s"
proof (induction n arbitrary: t s)
  case 0
  show ?case unfolding sleep_rounds.simps(2) by (rule sleep_step[OF assms 0(1)]) (use 0(2) in auto)
next
  case (Suc n)
  show ?case unfolding sleep_rounds.simps(2)[of "Suc n"]
  proof (rule sleep_step[OF assms Suc.prems(1)])
    fix t' s' assume "past env t' s'" "deadline \<le> t' \<or> t + 1 / 4 \<le> t'"
    then show "wp (sleep_rounds (Suc n) env deadline) (\<lambda>_ s'. g_stopping s' \<or> past env deadline s') (\<lambda>e _. e \<noteq> Unfinished) s'"
      by (intro Suc.IH[of t']) (use Suc.prems(2) in \<open>auto simp: field_simps intro: order_trans[of _ 0]\<close>)
  qed auto
qed

lemma wp_selector: "wp (selectorS env f fo) Q E s = (case f fo (g_selector s) of Inl e \<Rightarrow> E (GTransport e) s | Inr x \<Rightarrow> Q x s)"
  by (simp add: selectorS_def wp_simps split: sum.split)

lemma wp_set_health: "wp (set_health st b) Q E s = Q () (s\<lparr>g_health := st, g_ready := b\<rparr>)"
  by (simp add: set_health_def wp_mod)

lemma watch_step:
  assumes "sleeps env" "past env t s"
    "\<And>t' s'. t < deadline \<Longrightarrow> past env t' s' \<Longrightarrow> deadline \<le> t' \<or> t + 1 / 4 \<le> t' \<Longrightarrow> wp again Q E s'"
    "\<And>s'. g_stopping s' \<or> past env deadline s' \<Longrightarrow> Q () s'" "\<And>e s'. e \<noteq> Unfinished \<Longrightarrow> E e s'"
  shows "wp (bindS (stop_requested env) (\<lambda>stop.
     if stop then returnS ()
     else bindS (selectorS env pending_request fo) (\<lambda>wanted.
       bindS (getS g_transport) (\<lambda>current.
       if wanted \<noteq> [] \<and> wanted \<noteq> current then
         bindS (modS (\<lambda>s. s\<lparr>g_switch := True\<rparr>)) (\<lambda>_.
         bindS (set_health ''SUSPECT'' False) (\<lambda>_.
         raiseS (GSwitch (''operator requested transport switch to '' @ wanted))))
       else bindS (monotime env) (\<lambda>c.
         if deadline - c \<le> 0 then returnS ()
         else bindS (time_sleep (min (1 / 2) (deadline - c))) (\<lambda>_. again)))))) Q E s"
proof -
  have clk: "wp (bindS (monotime env) (\<lambda>c. if deadline - c \<le> 0 then returnS ()
         else bindS (time_sleep (min (1 / 2) (deadline - c))) (\<lambda>_. again))) Q E s'" if "past env t s'" for s'
    unfolding wp_bind[of "monotime env"]
  proof (rule wp_clock[OF assms(1)])
    fix s2 assume s2: "past env (clock env (trace s')) s2"
    have c: "t \<le> clock env (trace s')" using that by (simp add: past_def)
    show "wp (if deadline - clock env (trace s') \<le> 0 then returnS ()
         else bindS (time_sleep (min (1 / 2) (deadline - clock env (trace s')))) (\<lambda>_. again)) Q E s2"
    proof (cases "deadline - clock env (trace s') \<le> 0")
      case True
      then show ?thesis using s2 by (simp add: wp_return assms(4) past_def)
    next
      case False
      show ?thesis unfolding if_not_P[OF False] wp_bind
        by (rule wp_nap[OF assms(1) s2]) (use False c assms(3,5) in \<open>auto simp: min_def\<close>)
    qed
  qed
  show ?thesis unfolding wp_bind[of "stop_requested env"]
    by (rule wp_stop[OF assms(1,2)])
      (use clk in \<open>auto simp: wp_return wp_bind[of "selectorS _ _ _"] wp_selector wp_bind[of "getS _"] wp_get wp_bind[of "modS _"] wp_mod
          wp_raise wp_bind[of "set_health _ _"] wp_set_health assms(4,5) split: sum.split\<close>)
qed

lemma watch_rounds_end:
  assumes "sleeps env"
  shows "past env t s \<Longrightarrow> deadline - t \<le> of_nat n / 4 \<Longrightarrow>
    wp (watch_rounds (Suc n) env fo deadline) (\<lambda>_ s'. g_stopping s' \<or> past env deadline s') (\<lambda>e _. e \<noteq> Unfinished) s"
proof (induction n arbitrary: t s)
  case 0
  show ?case unfolding watch_rounds.simps(2) by (rule watch_step[OF assms 0(1)]) (use 0(2) in auto)
next
  case (Suc n)
  show ?case unfolding watch_rounds.simps(2)[of "Suc n"]
  proof (rule watch_step[OF assms Suc.prems(1)])
    fix t' s' assume "past env t' s'" "deadline \<le> t' \<or> t + 1 / 4 \<le> t'"
    then show "wp (watch_rounds (Suc n) env fo deadline) (\<lambda>_ s'. g_stopping s' \<or> past env deadline s') (\<lambda>e _. e \<noteq> Unfinished) s'"
      by (intro Suc.IH[of t']) (use Suc.prems(2) in \<open>auto simp: field_simps intro: order_trans[of _ 0]\<close>)
  qed auto
qed

lemma interruptible_sleep_end:
  assumes "sleeps env" "past env t s" "4 * seconds + 1 \<le> of_nat n" "0 \<le> seconds"
  shows "wp (interruptible_sleep n env seconds) (\<lambda>_ s'. g_stopping s' \<or> past env (t + seconds) s') (\<lambda>e _. e \<noteq> Unfinished) s"
proof (cases n)
  case (Suc m)
  have m: "seconds \<le> of_nat m / 4" using assms(3) Suc by simp
  have weaken: "wp k (\<lambda>_ s'. g_stopping s' \<or> past env (t + seconds) s') (\<lambda>e _. e \<noteq> Unfinished) s'"
    if "wp k (\<lambda>_ s'. g_stopping s' \<or> past env (clock env (trace s) + seconds) s') (\<lambda>e _. e \<noteq> Unfinished) s'"
    for k :: "unit guard" and s'
    by (rule wp_mono[OF that]) (use assms(2) in \<open>auto simp: past_def\<close>)
  have base: "wp (sleep_base n env seconds) (\<lambda>_ s'. g_stopping s' \<or> past env (t + seconds) s') (\<lambda>e _. e \<noteq> Unfinished) s"
    unfolding sleep_base_def wp_bind Suc
    by (rule wp_clock[OF assms(1)], rule weaken, rule sleep_rounds_end[OF assms(1)]) (use m in auto)
  have watch: "wp (bindS (monotime env) (\<lambda>t. watch_rounds n env fo (t + seconds)))
      (\<lambda>_ s'. g_stopping s' \<or> past env (t + seconds) s') (\<lambda>e _. e \<noteq> Unfinished) s" for fo
    unfolding wp_bind Suc
    by (rule wp_clock[OF assms(1)], rule weaken, rule watch_rounds_end[OF assms(1)]) (use m in auto)
  show ?thesis unfolding interruptible_sleep_def wp_bind[of "getS _"] wp_get using base watch by (simp split: option.split)
next
  case 0
  with assms(3,4) show ?thesis by simp
qed

section \<open>The wait for a stable volume status\<close>

lemma stable_step:
  assumes "sleeps env" "past env t s"
    "\<And>c ss' s'. past env c s' \<Longrightarrow> t \<le> c \<Longrightarrow> 0 < deadline - c \<Longrightarrow> \<not> g_stopping s \<Longrightarrow>
       wp (again ss' c) (\<lambda>_ _. True) (\<lambda>e _. e \<noteq> Unfinished) s'"
  shows "wp (bindS (stop_requested env) (\<lambda>stop.
     if stop then raiseS KeyboardInterrupt
     else bindS (sample_status env ss) (\<lambda>(ss', final_status). case final_status of
       Some st \<Rightarrow> settle env st
     | None \<Rightarrow>
         bindS (monotime env) (\<lambda>clk.
         if deadline - clk \<le> 0
         then raiseS (GUnstable msg)
         else again ss' clk)))) (\<lambda>_ _. True) (\<lambda>e _. e \<noteq> Unfinished) s"
proof -
  have clk: "wp (bindS (monotime env) (\<lambda>clk. if deadline - clk \<le> 0 then raiseS (GUnstable msg) else again ss' clk))
      (\<lambda>_ _. True) (\<lambda>e _. e \<noteq> Unfinished) s'" if "past env t s'" "\<not> g_stopping s" for ss' s'
    unfolding wp_bind by (rule wp_clock[OF assms(1)]) (use that assms(3) in \<open>auto simp: wp_raise past_def\<close>)
  have sample: "wp (sample_status env ss) (\<lambda>_. past env t) (\<lambda>e _. e \<noteq> Unfinished) s'" if "past env t s'" for s'
    by (rule wp_mono[OF wp_conj[OF keepsD[OF keeps_past_sample[OF assms(1)] that] finishesD[OF finishes_sample]]]) auto
  have tail: "wp (case x of (ss', final_status) \<Rightarrow> case final_status of
       Some st \<Rightarrow> settle env st
     | None \<Rightarrow> bindS (monotime env) (\<lambda>clk. if deadline - clk \<le> 0 then raiseS (GUnstable msg) else again ss' clk))
     (\<lambda>_ _. True) (\<lambda>e _. e \<noteq> Unfinished) s'" if "past env t s'" "\<not> g_stopping s" for x s'
    using clk[OF that] finishesD[OF finishes_settle] by (simp split: prod.split option.split)
  show ?thesis unfolding wp_bind[of "stop_requested env"]
    by (rule wp_stop[OF assms(1,2)]) (use tail in \<open>auto simp: wp_raise intro: wp_seq[OF sample]\<close>)
qed

lemma stable_rounds_end:
  assumes "sleeps env" "0 < recovery_probe_interval_seconds (appl env)" "4 * recovery_probe_interval_seconds (appl env) + 1 \<le> int n"
  shows "past env t s \<Longrightarrow> g_stopping s \<or> deadline - t \<le> of_nat k * of_int (recovery_probe_interval_seconds (appl env)) \<Longrightarrow>
    wp (stable_rounds (Suc k) n env deadline ss) (\<lambda>_ _. True) (\<lambda>e _. e \<noteq> Unfinished) s"
proof (induction k arbitrary: t s ss)
  case 0
  show ?case unfolding stable_rounds.simps(2) by (rule stable_step[OF assms(1) 0(1)]) (use 0(2) in auto)
next
  case (Suc k)
  let ?step = "of_int (recovery_probe_interval_seconds (appl env)) :: rat"
  have nap: "wp (bindS (interruptible_sleep n env (min ?step (deadline - c))) (\<lambda>_. stable_rounds (Suc k) n env deadline ss'))
      (\<lambda>_ _. True) (\<lambda>e _. e \<noteq> Unfinished) s'" if "past env c s'" "deadline - c \<le> of_nat (Suc k) * ?step" "0 < deadline - c" for c s' ss'
  proof (rule wp_seq[OF interruptible_sleep_end[OF assms(1) that(1)]])
    have "4 * min ?step (deadline - c) + 1 \<le> of_int (4 * recovery_probe_interval_seconds (appl env) + 1)" by simp
    also have "\<dots> \<le> of_int (int n)" using assms(3) by (rule of_int_le_iff[THEN iffD2])
    finally show "4 * min ?step (deadline - c) + 1 \<le> of_nat n" by simp
  next
    fix s2 assume s2: "g_stopping s2 \<or> past env (c + min ?step (deadline - c)) s2"
    show "wp (stable_rounds (Suc k) n env deadline ss') (\<lambda>_ _. True) (\<lambda>e _. e \<noteq> Unfinished) s2"
    proof (cases "g_stopping s2")
      case True
      show ?thesis by (rule Suc.IH[of "clock env (trace s2)"]) (use True in \<open>auto simp: past_def\<close>)
    next
      case False
      have "deadline - (c + min ?step (deadline - c)) \<le> of_nat k * ?step"
        using that(2) assms(2) by (auto simp: min_def field_simps)
      then show ?thesis using s2 False by (intro Suc.IH) auto
    qed
  qed (use assms(2) that in auto)
  show ?case unfolding stable_rounds.simps(2)[of "Suc k"]
    by (rule stable_step[OF assms(1) Suc.prems(1)], rule nap) (use Suc.prems(2) in auto)
qed

lemma wait_for_stable_end:
  assumes "sleeps env" "0 < recovery_probe_interval_seconds (appl env)"
    "4 * recovery_probe_interval_seconds (appl env) + 1 \<le> int n" "stable_timeout env + 1 \<le> int n"
  shows "finishes (wait_for_stable_volumes n env)"
proof -
  let ?step = "recovery_probe_interval_seconds (appl env)"
  have pos: "0 < n" using assms(2,3) by linarith
  have "of_int (stable_timeout env) \<le> (of_nat (n - 1) :: rat)" using assms(4) pos by linarith
  also have "\<dots> \<le> of_nat (n - 1) * of_int ?step" using assms(2) by (simp add: mult_le_cancel_left1)
  finally have rounds: "of_int (stable_timeout env) \<le> (of_nat (n - 1) * of_int ?step :: rat)" .
  have loop: "wp (stable_rounds n n env (c + of_int (stable_timeout env)) unstable) (\<lambda>_ _. True) (\<lambda>e _. e \<noteq> Unfinished) s"
    if "past env c s" for c s
    using stable_rounds_end[OF assms(1-3) that, of "c + of_int (stable_timeout env)" "n - 1"] rounds pos by simp
  show ?thesis unfolding wait_for_stable_volumes_def finishes_def
    by (auto simp: wp_return wp_bind[of "monotime _"] wp_bind[of "set_health _ _"] wp_set_health intro!: wp_clock[OF assms(1)] loop)
qed

section \<open>Probes before the node goes online\<close>

lemma keeps_probes_basic [keeps_intros]:
  "keeps (\<lambda>s. g_probes s = k) (askS ev a)" "keeps (\<lambda>s. g_probes s = k) (lift_repair m)" "keeps (\<lambda>s. g_probes s = k) (workerS w)"
  by (auto simp: keeps_def wp_def lift_repair_def workerS_def zoomS_def askS_def split: prod.split sum.split)

lemma keeps_probes_clock [keeps_intros]:
  "keeps (\<lambda>s. g_probes s = k) (stop_requested env)" "keeps (\<lambda>s. g_probes s = k) (monotime env)" "keeps (\<lambda>s. g_probes s = k) (time_sleep d)"
  "keeps (\<lambda>s. g_probes s = k) (set_health st b)" "keeps (\<lambda>s. g_probes s = k) (selectorS env f fo)"
  unfolding stop_requested_def monotime_def time_sleep_def set_health_def selectorS_def by (intro keeps_intros keeps_mod; simp)+

lemma keeps_probes_sleep [keeps_intros]:
  "keeps (\<lambda>s. g_probes s = k) (sleep_rounds n env d)" "keeps (\<lambda>s. g_probes s = k) (watch_rounds n env fo d)"
  by (induction n) (auto intro!: keeps_intros keeps_mod)

lemma keeps_probes_interruptible [keeps_intros]: "keeps (\<lambda>s. g_probes s = k) (interruptible_sleep n env d)"
  unfolding interruptible_sleep_def sleep_base_def by (intro keeps_intros)

lemma keeps_probes_status [keeps_intros]: "keeps (\<lambda>s. g_probes s = k) (check_seaweed_volumes env)" "keeps (\<lambda>s. g_probes s = k) (canary_if_enabled env)"
  unfolding check_seaweed_volumes_def accept_status_def inspect_seaweed_volumes_def awaiting_validation_def certify_indexes_from_result_def
    canary_if_enabled_def run_canary_def worker_endpoint_host_def time_of_day_def
  by (intro keeps_intros keeps_mod; simp)+

lemma keeps_probes_filter [keeps_intros]: "(\<And>x. keeps I (f x)) \<Longrightarrow> keeps I (filterS f xs)"
  by (induction xs) (auto intro!: keeps_intros)

lemma keeps_probes_result [keeps_intros]:
  "(\<And>c e x. keeps I (f c e x)) \<Longrightarrow> keeps I m \<Longrightarrow> keeps I (case r of Completed c e x \<Rightarrow> f c e x | RunTimeout \<Rightarrow> m)"
  by (cases r) auto

lemma keeps_probes_helper [keeps_intros]: "keeps (\<lambda>s. g_probes s = k) (run_helper env op target full)"
  unfolding run_helper_def run_helper_generation_def reap_helpers_def helper_alive_def poll_def generation_command_def popen_def killpg_def
  by (intro keeps_intros keeps_mod) simp_all

lemma probe_counts: "wp (probe_targets env full) (\<lambda>_ s'. g_probes s' = Suc (g_probes s)) (\<lambda>_ _. True) s"
proof -
  have keep: "wp m (\<lambda>_ s'. g_probes s' = g_probes s) (\<lambda>_ _. True) s1" if "keeps (\<lambda>s'. g_probes s' = g_probes s) m" "g_probes s1 = g_probes s"
    for m :: "'a guard" and s1
    by (rule wp_mono[OF keepsD[OF that(1)]]) (use that(2) in auto)
  have probes: "wp (catchS (bindS (targets_of env) (forS (\<lambda>t. bindS (run_helper env ''probe'' (Some (tgt_name t)) full) (\<lambda>_. returnS ()))))
       (\<lambda>e. bindS (whenS (is_exception e) (bindS (monotime env) (\<lambda>_. modS (\<lambda>s. s\<lparr>g_probes := 0\<rparr>)))) (\<lambda>_. raiseS e)))
      (\<lambda>_ s'. g_probes s' = g_probes s) (\<lambda>_ _. True) s1" if "g_probes s1 = g_probes s" for s1
    unfolding wp_catch
    by (rule wp_mono[OF keep]) (use that in \<open>auto simp: targets_of_def wp_simps monotime_def intro!: keeps_intros split: sum.split\<close>)
  show ?thesis unfolding probe_targets_def
    by (rule wp_seq[OF keep], rule keeps_probes_clock, simp, rule wp_seq[OF probes], assumption, rule wp_seq[OF keep],
        rule keeps_probes_clock, simp, simp add: wp_mod)
qed

lemma recovery_rounds_end:
  assumes "sleeps env"
  shows "wp (recovery_rounds k n env since i) (\<lambda>_ s'. int (g_probes s) + max 1 (recovery_successes_required (appl env) - i) \<le> int (g_probes s')
      \<and> past env (since + of_int (recovery_stability_seconds (appl env))) s') (\<lambda>_ _. True) s"
proof (induction k arbitrary: i s)
  case (Suc k)
  let ?N = "recovery_successes_required (appl env)" and ?T = "of_int (recovery_stability_seconds (appl env)) :: rat"
  let ?Q = "\<lambda>p s'. p + max 1 (?N - i) \<le> int (g_probes s') \<and> past env (since + ?T) s'"
  have keep: "wp m (\<lambda>_ s'. g_probes s' = j) (\<lambda>_ _. True) s1" if "keeps (\<lambda>s'. g_probes s' = j) m" "g_probes s1 = j"
    for m :: "'a guard" and s1 j
    by (rule wp_mono[OF keepsD[OF that(1)]]) (use that(2) in auto)
  have last: "wp (bindS (monotime env) (\<lambda>clk.
       if ?N \<le> i + 1 \<and> ?T \<le> clk - since then returnS ()
       else bindS (interruptible_sleep n env d) (\<lambda>_. recovery_rounds k n env since (i + 1))))
     (\<lambda>_. ?Q (int (g_probes s))) (\<lambda>_ _. True) s1" if p: "g_probes s1 = Suc (g_probes s)" for s1 d
    unfolding wp_bind[of "monotime env"]
  proof (rule wp_clock[OF assms])
    fix s2 assume s2: "past env (clock env (trace s1)) s2" and "g_probes s2 = g_probes s1"
    with p have p2: "g_probes s2 = Suc (g_probes s)" by simp
    show "wp (if ?N \<le> i + 1 \<and> ?T \<le> clock env (trace s1) - since then returnS ()
       else bindS (interruptible_sleep n env d) (\<lambda>_. recovery_rounds k n env since (i + 1))) (\<lambda>_. ?Q (int (g_probes s))) (\<lambda>_ _. True) s2"
    proof (cases "?N \<le> i + 1 \<and> ?T \<le> clock env (trace s1) - since")
      case True
      then show ?thesis using s2 p2 by (simp add: wp_return past_def)
    next
      case False
      show ?thesis unfolding if_not_P[OF False]
        by (rule wp_seq[OF keep[OF keeps_probes_interruptible p2]], rule wp_mono[OF Suc.IH]) auto
    qed
  qed
  have round: "wp (bindS (probe_targets env True) (\<lambda>_.
       bindS (check_seaweed_volumes env) (\<lambda>_.
       bindS (canary_if_enabled env) (\<lambda>_.
       bindS (monotime env) (\<lambda>clk.
       if ?N \<le> i + 1 \<and> ?T \<le> clk - since then returnS ()
       else bindS (interruptible_sleep n env d) (\<lambda>_. recovery_rounds k n env since (i + 1)))))))
     (\<lambda>_. ?Q (int (g_probes s))) (\<lambda>_ _. True) s1" if "g_probes s1 = g_probes s" for s1 d
    by (rule wp_seq[OF probe_counts], rule wp_seq[OF keep[OF keeps_probes_status(1)]], simp add: that, rule wp_seq[OF keep[OF keeps_probes_status(2)]],
        assumption, rule last, assumption)
  show ?case unfolding recovery_rounds.simps(2)
    by (rule wp_seq[OF keep[OF keeps_probes_clock(1) refl]]) (simp add: wp_raise round)
qed (simp add: wp_raise)

lemma stabilize_run:
  assumes "sleeps env"
  shows "wp (stabilize_recovery_base n env) (\<lambda>_ s'. int (g_probes s) + max 1 (recovery_successes_required (appl env)) \<le> int (g_probes s')
      \<and> past env (clock env (trace s) + of_int (recovery_stability_seconds (appl env))) s') (\<lambda>_ _. True) s"
  unfolding stabilize_recovery_base_def wp_bind[of "monotime env"]
proof (rule wp_clock[OF assms])
  fix s1 :: guard_state assume "g_probes s1 = g_probes s"
  then show "wp (bindS (set_health ''VERIFYING_RECOVERY'' False) (\<lambda>_. recovery_rounds n n env (clock env (trace s)) 0))
     (\<lambda>_ s'. int (g_probes s) + max 1 (recovery_successes_required (appl env)) \<le> int (g_probes s')
      \<and> past env (clock env (trace s) + of_int (recovery_stability_seconds (appl env))) s') (\<lambda>_ _. True) s1"
    using recovery_rounds_end[OF assms, of n n "clock env (trace s)" 0 "s1\<lparr>g_health := ''VERIFYING_RECOVERY'', g_ready := False\<rparr>"]
    by (simp add: wp_bind wp_set_health)
qed

section \<open>Properties\<close>

lemma example_sleeps: "sleeps (example_guard_env fo k)" "sleeps (os_of (example_guard_env fo k))"
  by (simp_all add: sleeps_def os_of_def os_env.defs example_guard_env_def split: os_event.split)

text \<open>
  The wait for a port needs no more than its four rounds a second: if the clock does not go back and a sleep takes at
  least its length, then with any larger number of rounds it gives the same result in the same state.
\<close>

theorem wait_for_tcp_decided:
  assumes "sleeps env" "0 \<le> timeout" "nat (4 * timeout) + 1 \<le> m"
  shows "wait_for_tcp env err host pn timeout p s
    = bindS (monotonic env) (\<lambda>t. wait_for_tcp_rounds m env err (host @ '':'' @ show_int pn) (t + of_int timeout) p) s"
proof -
  let ?s1 = "s\<lparr>trace := trace s @ [EClock]\<rparr>"
  have "clock env (trace s) \<le> clock env (trace ?s1)" using assms(1) by (simp add: sleeps_def)
  then have "clock env (trace s) + of_int timeout \<le> clock env (trace ?s1) + of_nat (nat (4 * timeout)) / 4"
    using assms(2) by simp
  from wait_for_tcp_more[OF assms(1) this, of "m - (nat (4 * timeout) + 1)" err "host @ '':'' @ show_int pn" p] assms(3)
  show ?thesis by (simp add: wait_for_tcp_def bindS_def[of "askS _ _"] monotonic_def askS_def del: wait_for_tcp_rounds.simps)
qed

theorem wait_for_tcp_decided_witness:
  "let env = os_of (example_guard_env None False); p = role (example_guard_env None False) ''filer'' [''weed''] None
   in wait_for_tcp env GProcess ''h'' 80 1 p example_guard
     = bindS (monotonic env) (\<lambda>t. wait_for_tcp_rounds 1000 env GProcess (''h'' @ '':'' @ show_int 80) (t + of_int 1) p) example_guard"
  unfolding Let_def by (rule wait_for_tcp_decided[OF example_sleeps(2)]) simp_all

text \<open>
  The node goes online only after the recovery was seen to be stable: when the wait returns, at least the required
  number of full probes have passed one after the other, and at least one, and the stability time has gone by.
\<close>

theorem stabilize_takes:
  assumes "sleeps env" "stabilize_recovery_base n env s = (Inr (), s')"
  shows "int (g_probes s) + max 1 (recovery_successes_required (appl env)) \<le> int (g_probes s')
    \<and> clock env (trace s) + of_int (recovery_stability_seconds (appl env)) \<le> clock env (trace s')"
  using wp_Inr[OF stabilize_run[OF assms(1)] assms(2)] by (simp add: past_def)

definition calm_env :: guard_env where
  "calm_env = (example_guard_env None False)\<lparr>spawn := \<lambda>tr cmd. Inr 9, cfg := example_config\<lparr>
     appliance := (appliance example_config)\<lparr>worker_fencing_mode := ''disabled'', s3_canary_enabled := False,
       recovery_stability_seconds := 0, recovery_successes_required := 1\<rparr>,
     seaweed := (seaweed example_config)\<lparr>volume_health_enabled := False\<rparr>\<rparr>\<rparr>"

theorem stabilize_takes_witness:
  "\<exists>s'. stabilize_recovery_base 1 calm_env example_guard = (Inr (), s') \<and> 0 < g_probes s'"
proof -
  have sel: "sleeps calm_env" "clock calm_env = slept" "\<And>tr. \<not> signal calm_env tr" "failover calm_env = None"
    "\<And>tr cmd. spawn (os_of calm_env) tr cmd = Inr 9" "\<And>tr pid. helper_result calm_env tr pid = Completed 0 [] []"
    "worker_fencing_mode (appl calm_env) = ''disabled''" "\<not> s3_canary_enabled (appl calm_env)" "recovery_stability_seconds (appl calm_env) = 0"
    "recovery_successes_required (appl calm_env) = 1" "\<not> volume_health_enabled (seaweed (cfg calm_env))"
    using example_sleeps(1)[of None False] by (simp_all add: calm_env_def appl_def os_of_def os_env.defs sleeps_def example_guard_env_def)
  have targets: "active_targets (cfg calm_env) = Inr [example_base]"
    by code_simp
  have strip: "py_strip [] = []" by code_simp
  have "fst (stabilize_recovery_base 1 calm_env example_guard) = Inr ()"
    by (simp add: sel targets stabilize_recovery_base_def run_defs probe_targets_def targets_of_def run_helper_def run_helper_generation_def
        generation_command_def check_seaweed_volumes_def inspect_seaweed_volumes_def accept_status_def canary_if_enabled_def strip)
  then obtain s' where run: "stabilize_recovery_base 1 calm_env example_guard = (Inr (), s')"
    by (cases "stabilize_recovery_base 1 calm_env example_guard") simp
  from stabilize_takes[OF sel(1) run] sel run show ?thesis by auto
qed

end
