(* ===== verification/Guardian_Props.thy ===== *)
theory Guardian_Props
  imports Guardian_Spec Guardian_Waits
begin

text \<open>
  What follows from the refinement for the guardian: the invariants of a whole run, what the handler of a failure may
  leave behind, when the next generation is refused, how long the waits take.
\<close>

section \<open>Invariants of the abstract machine\<close>

lemma spec_inv:
  assumes "(spec_step b fo)\<^sup>*\<^sup>* a a'" "P a" "\<And>x y. spec_step b fo x y \<Longrightarrow> P x \<Longrightarrow> P y"
  shows "P a'"
  using assms by (induction rule: rtranclp_induct) auto

definition ready_online :: "spec \<Rightarrow> bool" where
  "ready_online a \<longleftrightarrow> (sp_ready a \<longrightarrow> sp_health a = ''ONLINE'')"

lemma spec_ready_online: "spec_step b fo x y \<Longrightarrow> ready_online x \<Longrightarrow> ready_online y"
  by (induction rule: spec_step.induct) (simp_all add: ready_online_def)

lemma spec_fatal: "spec_step b fo x y \<Longrightarrow> sp_fatal x \<Longrightarrow> sp_fatal y"
  by (induction rule: spec_step.induct) simp_all

lemma spec_stopping: "spec_step b fo x y \<Longrightarrow> sp_stopping x \<Longrightarrow> sp_stopping y"
  by (induction rule: spec_step.induct) simp_all

lemma spec_quarantined: "spec_step b fo x y \<Longrightarrow> is_quarantined n (sp_selector x) \<Longrightarrow> is_quarantined n (sp_selector y)"
proof (induction rule: spec_step.induct)
  case (Selector c op a f)
  then show ?case by (auto intro: is_quarantined_step)
qed simp_all

definition history_sound :: "generation_history \<Rightarrow> bool" where
  "history_sound h \<longleftrightarrow> in_sync h \<and> accounts (gh_state h)"

lemma spec_history: "spec_step b fo x y \<Longrightarrow> history_sound (sp_history x) \<Longrightarrow> history_sound (sp_history y)"
  by (induction rule: spec_step.induct) (auto simp: history_sound_def dest: accounts_step)

text \<open>Steps that do not serve: no generation comes into being, no fence is lifted, the node does not get ready.\<close>

definition not_live :: "guard_state \<Rightarrow> bool" where
  "not_live s \<longleftrightarrow> (\<forall>g. g_worker s = Some g \<longrightarrow> fenced g)"

lemma life_simps [simp]: "life_of w = NoGeneration \<longleftrightarrow> w = None" "(\<forall>n. life_of (g_worker s) \<noteq> Live n) \<longleftrightarrow> not_live s"
  by (auto simp: life_of_def not_live_def split: option.splits)

inductive_cases quiet_stepE: "spec_step False fo x y"

lemma quiet_ready: "spec_step False fo x y \<Longrightarrow> \<not> sp_ready x \<Longrightarrow> \<not> sp_ready y"
  by (auto elim: quiet_stepE)

lemma quiet_gone: "spec_step False fo x y \<Longrightarrow> sp_life x = NoGeneration \<Longrightarrow> sp_life y = NoGeneration"
  by (auto elim: quiet_stepE)

lemma quiet_dead: "spec_step False fo x y \<Longrightarrow> \<forall>n. sp_life x \<noteq> Live n \<Longrightarrow> \<forall>n. sp_life y \<noteq> Live n"
  by (auto elim: quiet_stepE)

lemma steps_keep:
  assumes "\<And>s. keeps (reaches env (b, s)) m" "\<And>x y. spec_step b (failover env) x y \<Longrightarrow> P x \<Longrightarrow> P y"
  shows "keeps (\<lambda>s. P (abs_guard s)) m"
proof (rule keepsI)
  fix s assume "P (abs_guard s)"
  moreover have "reaches env (b, s) (snd (m s))" by (rule keeps_run[OF assms(1)]) simp
  ultimately show "P (abs_guard (snd (m s)))" unfolding reaches_def by (auto intro: spec_inv assms(2))
qed

lemma keeps_not_ready: "(\<And>s. keeps (reaches env (False, s)) m) \<Longrightarrow> keeps (\<lambda>s. \<not> g_ready s) m"
  using steps_keep[of env False m "\<lambda>a. \<not> sp_ready a"] by (simp add: quiet_ready)

lemma keeps_no_worker: "(\<And>s. keeps (reaches env (False, s)) m) \<Longrightarrow> keeps (\<lambda>s. g_worker s = None) m"
  using steps_keep[of env False m "\<lambda>a. sp_life a = NoGeneration"] by (simp add: quiet_gone)

lemma keeps_not_live: "(\<And>s. keeps (reaches env (False, s)) m) \<Longrightarrow> keeps (\<lambda>s. ok \<longrightarrow> not_live s) m"
  using steps_keep[of env False m "\<lambda>a. ok \<longrightarrow> (\<forall>n. sp_life a \<noteq> Live n)"] by (simp add: quiet_dead)

lemma keeps_stopping: "(\<And>s. keeps (reaches env (True, s)) m) \<Longrightarrow> keeps g_stopping m"
  using steps_keep[of env True m sp_stopping] by (simp add: spec_stopping)

lemma run_keeps:
  assumes "\<And>x y. spec_step True (failover env) x y \<Longrightarrow> P x \<Longrightarrow> P y" "P (abs_guard s)" "run_guardian n env s = (r, s')"
  shows "P (abs_guard s')"
proof -
  have "reaches env (True, s) s'" using keeps_run[OF keeps_reach_run[of "(True, s)" env n], of s] assms(3) by simp
  then show ?thesis unfolding reaches_def using assms(1,2) by (auto intro: spec_inv)
qed

lemma wp_True: "wp m (\<lambda>_ _. True) (\<lambda>_ _. True) s"
  by (simp add: wp_def split: sum.split prod.split)

section \<open>The end of a generation\<close>

lemma fence_base_run: "wp (fence_generation_base env reason) (\<lambda>ok s'. ok \<longrightarrow> not_live s') (\<lambda>_ _. True) s"
proof (cases "g_worker s = None")
  case False
  have pub: "wp (bindS (publish_generation env) (\<lambda>_. returnS ok)) (\<lambda>ok s'. ok \<longrightarrow> not_live s') (\<lambda>_ _. True) s'"
    if "ok \<longrightarrow> not_live s'" for ok s'
    unfolding wp_bind wp_return by (rule wp_mono[OF publish_generation_run[of "\<lambda>s'. ok \<longrightarrow> not_live s'", OF that]]) auto
  have fence: "wp (catchS (bindS (workerS (fence (gen_of env) reason)) (\<lambda>_. returnS True)) (\<lambda>_.
          bindS (modS (\<lambda>s. s\<lparr>g_fatal := True\<rparr>)) (\<lambda>_.
          bindS (set_health ''FENCE_FAILED'' False) (\<lambda>_. returnS False)))) (\<lambda>ok s'. ok \<longrightarrow> not_live s') (\<lambda>_ _. True) s'" for s'
    unfolding wp_catch wp_bind[of "workerS _"] wp_return
    by (rule wp_mono[OF workerS_frame[OF fence_fences]]) (auto simp: not_live_def wp_simps set_health_def)
  show ?thesis unfolding fence_generation_base_def wp_bind[of "getS _"] wp_get if_not_P[OF False]
    by (rule wp_seq[OF wp_True], rule wp_seq[OF fence], rule pub)
qed (simp add: fence_generation_base_def wp_simps not_live_def)

lemma wp_then_return:
  assumes "keeps I m" "I s" "\<And>s'. I s' \<Longrightarrow> Q x s'"
  shows "wp (bindS m (\<lambda>_. returnS x)) Q (\<lambda>_ _. True) s"
  unfolding wp_bind wp_return by (rule wp_mono[OF keepsD[OF assms(1,2)]]) (auto intro: assms(3))

lemma fence_verdict: "wp (fence_generation env reason) (\<lambda>ok s'. ok \<longrightarrow> not_live s') (\<lambda>_ _. True) s"
  unfolding fence_generation_def
proof (rule wp_seq[OF fence_base_run], unfold wp_bind[of "getS _"] wp_get)
  fix ok s' assume s': "ok \<longrightarrow> not_live s'"
  show "wp (bindS (case failover env of
         None \<Rightarrow> returnS ()
       | Some fo \<Rightarrow> whenS ok
           (bindS (whenS (failed_transport s' \<noteq> []) (bindS (reap_sshfs env fo (failed_transport s')) (\<lambda>_.
               blame_transport env fo (failed_transport s') reason))) (\<lambda>_. publish_transport env))) (\<lambda>_. returnS ok))
      (\<lambda>ok s'. ok \<longrightarrow> not_live s') (\<lambda>_ _. True) s'"
    by (rule wp_then_return[where I = "\<lambda>s. ok \<longrightarrow> not_live s"], rule keeps_not_live[of env], intro keeps_intros) (use s' in auto)
qed

lemma terminate_base_verdict:
  "wp (terminate_generation_base env reason cause ph b) (\<lambda>ok s'. ok \<longrightarrow> not_live s') (\<lambda>_ _. True) s"
proof (cases "g_worker s = None")
  case True
  have "keeps (\<lambda>s. g_worker s = None) (bindS (monotime env) (\<lambda>_. bindS (stop_seaweed env) (\<lambda>_.
      bindS (repair_targets env b None) (\<lambda>_. returnS True))))"
    by (rule keeps_no_worker[of env]) (intro keeps_intros)
  from keepsD[OF this True] show ?thesis unfolding terminate_generation_base_def wp_bind[of "getS _"] wp_get if_P[OF True]
    by (rule wp_mono) (auto simp: not_live_def)
next
  case False
  have tail: "wp (bindS (if clean then returnS True else repair_targets env b None) (\<lambda>_.
       bindS (finish_history env oc) (\<lambda>_. returnS ok))) (\<lambda>ok s'. ok \<longrightarrow> not_live s') (\<lambda>_ _. True) s'"
    if "ok \<longrightarrow> not_live s'" for clean oc ok s'
  proof (rule wp_seq[where R = "\<lambda>_ s. ok \<longrightarrow> not_live s"])
    have "keeps (\<lambda>s. ok \<longrightarrow> not_live s) (if clean then returnS True else repair_targets env b None)"
      by (rule keeps_not_live[of env]) (intro keeps_intros)
    from keepsD[OF this that] show "wp (if clean then returnS True else repair_targets env b None)
        (\<lambda>_ s. ok \<longrightarrow> not_live s) (\<lambda>_ _. True) s'" by (rule wp_mono) auto
  qed (rule wp_then_return[where I = "\<lambda>s. ok \<longrightarrow> not_live s"], rule keeps_not_live[of env], intro keeps_intros, auto)
  show ?thesis unfolding terminate_generation_base_def wp_bind[of "getS _"] wp_get if_not_P[OF False]
    by (rule wp_seq[OF wp_True], rule wp_seq[OF fence_verdict], rule tail)
qed

text \<open>An end that is reported as fenced leaves no generation but a fenced one.\<close>

lemma terminate_verdict:
  "wp (terminate_generation env reason cause ph b) (\<lambda>ok s'. ok \<longrightarrow> not_live s') (\<lambda>_ _. True) s"
proof -
  have tail: "wp (bindS (getS g_lingering) (\<lambda>ps.
     bindS (still_running env ps) (\<lambda>alive.
     bindS (getS g_helpers) (\<lambda>hs.
     bindS (filterS (helper_alive env) hs) (\<lambda>busy.
     bindS (case failover env of
         Some fo \<Rightarrow> whenS (ok \<and> transport \<noteq> [] \<and> (alive \<noteq> [] \<or> busy \<noteq> []))
           (bindS (time_of_day env) (\<lambda>t.
            bindS (selector_writeS (quarantine fo transport reason t)) (\<lambda>_. publish_transport env)))
       | None \<Rightarrow> returnS ()) (\<lambda>_. returnS ok)))))) (\<lambda>ok s'. ok \<longrightarrow> not_live s') (\<lambda>_ _. True) s'"
    if s': "ok \<longrightarrow> not_live s'" for ok transport s'
  proof -
    let ?I = "\<lambda>s. ok \<longrightarrow> not_live s"
    have step: "wp m (\<lambda>_. ?I) (\<lambda>_ _. True) s''" if "\<And>s. keeps (reaches env (False, s)) m" "?I s''" for m :: "'x guard" and s''
      by (rule wp_mono[OF keepsD[OF keeps_not_live[OF that(1)] that(2)]]) auto
    show ?thesis
    proof (rule wp_seq[OF step], intro keeps_intros, rule s', rule wp_seq[OF step], intro keeps_intros, assumption,
        rule wp_seq[OF step], intro keeps_intros, assumption, rule wp_seq[OF step], intro keeps_intros, assumption)
    qed (rule wp_then_return[where I = ?I], rule keeps_not_live[of env], intro keeps_intros, auto)
  qed
  show ?thesis unfolding terminate_generation_def by (rule wp_seq[OF wp_True], rule wp_seq[OF terminate_base_verdict], rule tail)
qed

section \<open>Turns of the loop\<close>

lemma stop_requested_run: "wp (stop_requested env) (\<lambda>b s'. b = g_stopping s') (\<lambda>_ _. True) s"
  by (simp add: stop_requested_def wp_simps)

lemma online_rounds_run: "wp (online_rounds k n env d) (\<lambda>_. g_stopping) (\<lambda>_ _. True) s"
proof (induction k arbitrary: d s)
  case (Suc k)
  have "wp (if stop then returnS () else bindS (suspect (online_check env d)) (\<lambda>d'.
       bindS (interruptible_sleep n env (of_int (app_probe_interval_seconds (appl env)))) (\<lambda>_.
       online_rounds k n env d'))) (\<lambda>_. g_stopping) (\<lambda>_ _. True) s'" if "stop = g_stopping s'" for stop s'
    using that by (auto simp: wp_return intro!: wp_seq[OF wp_True] Suc.IH)
  then show ?case by (simp) (rule wp_seq[OF stop_requested_run], simp)
qed (simp add: wp_raise)

lemma online_loop_run: "wp (online_loop n env) (\<lambda>_. g_stopping) (\<lambda>_ _. True) s"
proof -
  have "wp (bindS (monotime env) (\<lambda>clk. online_rounds n n env (clk + of_int (full_probe_interval_seconds (appl env)))))
      (\<lambda>_. g_stopping) (\<lambda>_ _. True) s'" for s'
    by (rule wp_seq[OF wp_True], rule online_rounds_run)
  then show ?thesis unfolding online_loop_def wp_bind[of "modS _"] wp_finally wp_mod by (rule wp_mono) simp_all
qed

text \<open>After a failure the loop goes on only past a fence: what is left then is no generation, a node that is not ready and
  a delay that doubled.\<close>

definition failed_state :: "guard_state \<Rightarrow> guard_state" where
  "failed_state s = s\<lparr>g_failures := g_failures s + 1, g_health := ''OFFLINE'', g_ready := False\<rparr>"

definition after_fence :: "nat \<Rightarrow> guard_env \<Rightarrow> int \<Rightarrow> turn_end guard" where
  "after_fence n env delay =
     bindS (wait_for_blocked_cleanup n env) (\<lambda>_.
       bindS (stop_requested env) (\<lambda>stop.
       if stop then returnS LoopEnds
       else
         bindS (modS (\<lambda>s. s\<lparr>g_recoveries := g_recoveries s + 1\<rparr>)) (\<lambda>_.
         bindS (interruptible_sleep n env (of_int delay)) (\<lambda>_.
         returnS (Again (min (delay * 2) (recovery_max_seconds (appl env))))))))"

lemma recover_eq: "recover n env delay reason ph cause s =
  (case terminate_generation env reason cause ph False (failed_state s) of
     (Inl e, s1) \<Rightarrow> (Inl e, s1)
   | (Inr ok, s1) \<Rightarrow> if ok then bindS (retire_generation env) (\<lambda>_. after_fence n env delay) s1
       else (Inr LoopEnds, s1\<lparr>g_stopping := True\<rparr>))"
  by (simp add: recover_def failed_state_def after_fence_def set_health_def bindS_def[of "modS _"] modS_def
      bindS_def[of "terminate_generation _ _ _ _ _"] bindS_def returnS_def split: prod.split sum.split)

lemma keeps_reach_after_fence [keeps_intros]: "keeps (reaches env s0) (after_fence n env delay)"
  unfolding after_fence_def wait_for_blocked_cleanup_def by (intro keeps_intros keeps_hidden) simp_all

lemma after_fence_run:
  assumes "g_worker s = None"
  shows "wp (after_fence n env delay) (\<lambda>t s'. g_worker s' = None \<and> (\<forall>d. t = Again d \<longrightarrow> d = min (delay * 2) (recovery_max_seconds (appl env))))
    (\<lambda>_ _. True) s"
proof -
  have "wp (after_fence n env delay) (\<lambda>t _. \<forall>d. t = Again d \<longrightarrow> d = min (delay * 2) (recovery_max_seconds (appl env))) (\<lambda>_ _. True) s"
    unfolding after_fence_def by (rule wp_seq[OF wp_True], rule wp_seq[OF wp_True]) (auto simp: wp_return intro!: wp_seq[OF wp_True])
  from wp_conj[OF keepsD[OF keeps_no_worker[OF keeps_reach_after_fence] assms] this] show ?thesis by (rule wp_mono) auto
qed

lemma retire_gone: "wp (retire_generation env) (\<lambda>_ s'. g_worker s' = None) (\<lambda>_ _. True) s"
  by (rule wp_mono[OF retire_generation_run[of env "(True, s)" s]]) auto

lemma recover_Again:
  assumes "recover n env delay reason ph cause s = (Inr (Again d), s')"
  shows "\<exists>s1. terminate_generation env reason cause ph False (failed_state s) = (Inr True, s1) \<and> not_live s1 \<and> g_worker s' = None
    \<and> d = min (delay * 2) (recovery_max_seconds (appl env))"
proof -
  from assms obtain s1 where s1: "terminate_generation env reason cause ph False (failed_state s) = (Inr True, s1)"
    and r: "bindS (retire_generation env) (\<lambda>_. after_fence n env delay) s1 = (Inr (Again d), s')"
    by (auto simp: recover_eq split: prod.splits sum.splits if_splits)
  have "wp (bindS (retire_generation env) (\<lambda>_. after_fence n env delay))
      (\<lambda>t s'. g_worker s' = None \<and> (\<forall>d. t = Again d \<longrightarrow> d = min (delay * 2) (recovery_max_seconds (appl env)))) (\<lambda>_ _. True) s1"
    by (rule wp_seq[OF retire_gone after_fence_run])
  from wp_Inr[OF this r] s1 wp_Inr[OF terminate_verdict s1] show ?thesis by auto
qed

lemma keeps_not_ready_recover: "keeps (\<lambda>s. \<not> g_ready s) (bindS (terminate_generation env reason cause ph False) (\<lambda>ok.
     if \<not> ok then bindS (modS (\<lambda>s. s\<lparr>g_stopping := True\<rparr>)) (\<lambda>_. returnS LoopEnds)
     else bindS (retire_generation env) (\<lambda>_. after_fence n env delay)))"
  by (rule keeps_not_ready[of env]) (intro keeps_intros)

lemma recover_not_ready: "\<not> g_ready (snd (recover n env delay reason ph cause s))"
proof -
  have "\<not> g_ready (failed_state s)" by (simp add: failed_state_def)
  from keeps_run[OF keeps_not_ready_recover[unfolded after_fence_def] this, of env reason cause ph n delay] show ?thesis
    by (simp add: recover_def failed_state_def set_health_def bindS_def[of "modS _"] modS_def)
qed

lemma handle_failure_run:
  "wp (handle_failure n env delay e) (\<lambda>t s'. \<forall>d. t = Again d \<longrightarrow> g_worker s' = None \<and> \<not> g_ready s'
      \<and> d = min (delay * 2) (recovery_max_seconds (appl env))) (\<lambda>_ _. True) s"
proof -
  let ?Q = "\<lambda>t s'. \<forall>d. t = Again d \<longrightarrow> g_worker s' = None \<and> \<not> g_ready s' \<and> d = min (delay * 2) (recovery_max_seconds (appl env))"
  have "wp (recover n env delay reason ph cause) ?Q (\<lambda>_ _. True) s'" for reason ph cause s'
    unfolding wp_run using recover_Again recover_not_ready[of n env delay reason ph cause s'] by fastforce
  then show ?thesis unfolding handle_failure_def
    by (intro wp_seq[OF wp_True]) (auto simp: wp_return wp_bind[of "getS _"] wp_get intro: wp_seq[OF wp_True])
qed

definition turn_ok :: "guard_env \<Rightarrow> int \<Rightarrow> turn_end \<Rightarrow> guard_state \<Rightarrow> bool" where
  "turn_ok env delay t s' = (case t of LoopEnds \<Rightarrow> True | Again d \<Rightarrow>
     (g_stopping s' \<and> d \<in> {delay, recovery_initial_seconds (appl env)})
     \<or> (g_worker s' = None \<and> \<not> g_ready s' \<and>
        (\<exists>d0\<in>{delay, recovery_initial_seconds (appl env)}. d = min (d0 * 2) (recovery_max_seconds (appl env)))))"

lemma turn_run: "wp (turn n env delay) (turn_ok env delay) (\<lambda>_ _. True) s"
proof -
  let ?delay = "\<lambda>early :: guard_error option. case early of None \<Rightarrow> recovery_initial_seconds (appl env) | Some _ \<Rightarrow> delay"
  let ?online = "\<lambda>early. case early of Some e \<Rightarrow> returnS (Some e)
      | None \<Rightarrow> catchS (bindS (online_loop n env) (\<lambda>_. returnS None)) (\<lambda>e. returnS (Some e))"
  let ?finish = "\<lambda>d failure. case failure of
           None \<Rightarrow> returnS (Again d)
         | Some KeyboardInterrupt \<Rightarrow> bindS (modS (\<lambda>s. s\<lparr>g_stopping := True\<rparr>)) (\<lambda>_. returnS (Again d))
         | Some e \<Rightarrow> (if is_exception e then handle_failure n env d e else raiseS e)"
  have delay: "?delay early \<in> {delay, recovery_initial_seconds (appl env)}" for early by (cases early) auto
  have online: "wp (?online early) (\<lambda>failure s'. failure = None \<longrightarrow> g_stopping s') (\<lambda>_ _. True) s'" for early s'
  proof (cases early)
    case None
    show ?thesis unfolding None option.case wp_catch wp_bind wp_return by (rule wp_mono[OF online_loop_run]) auto
  qed (simp add: wp_return)
  have handled: "wp (if is_exception e then handle_failure n env d e else raiseS e) (turn_ok env delay) (\<lambda>_ _. True) s'"
    if "d \<in> {delay, recovery_initial_seconds (appl env)}" for e d s'
  proof -
    have "wp (handle_failure n env d e) (turn_ok env delay) (\<lambda>_ _. True) s'"
      by (rule wp_mono[OF handle_failure_run]) (use that in \<open>auto simp: turn_ok_def split: turn_end.split\<close>)
    then show ?thesis by (simp add: wp_raise)
  qed
  have ending: "wp (?finish d failure) (turn_ok env delay) (\<lambda>_ _. True) s'"
    if "failure = None \<longrightarrow> g_stopping s'" "d \<in> {delay, recovery_initial_seconds (appl env)}" for failure d s'
  proof (cases failure)
    case (Some e)
    with handled[OF that(2), of e s'] that(2) show ?thesis by (cases e) (auto simp: wp_simps turn_ok_def)
  qed (use that in \<open>auto simp: wp_simps turn_ok_def\<close>)
  have body: "wp (bindS (?online early) (?finish (?delay early))) (turn_ok env delay) (\<lambda>_ _. True) s'" for early s'
    by (rule wp_seq[OF online], rule ending[OF _ delay])
  have "wp (bindS m (\<lambda>early. bindS (?online early) (?finish (?delay early)))) (turn_ok env delay) (\<lambda>_ _. True) s'" for m s'
    by (rule wp_seq[OF wp_True], rule body)
  then show ?thesis unfolding turn_def Let_def
    by (intro wp_seq[OF wp_True]) (simp add: wp_return turn_ok_def)
qed

lemma shutdown_run: "wp (shutdown env) (\<lambda>c s'. g_worker s' = None \<and> \<not> g_ready s' \<and> c = (if g_fatal s' then 4 else 0)) (\<lambda>_ _. True) s"
proof -
  let ?rest = "bindS (terminate_generation env ''container stopping'' ''container_shutdown'' ''STOPPING'' True) (\<lambda>_.
     bindS (getS g_haproxy) (\<lambda>h.
     bindS (case h of None \<Rightarrow> returnS () | Some p \<Rightarrow> bindS (stop_until (os_of env) p) (\<lambda>_. returnS ())) (\<lambda>_.
     bindS (retire_generation env) (\<lambda>_.
     getS (\<lambda>s. if g_fatal s then 4 else (0 :: int))))))"
  have code: "wp ?rest (\<lambda>c s'. g_worker s' = None \<and> c = (if g_fatal s' then 4 else 0)) (\<lambda>_ _. True) s'" for s'
    by (rule wp_seq[OF wp_True], rule wp_seq[OF wp_True], rule wp_seq[OF wp_True], rule wp_seq[OF retire_gone]) (simp add: wp_get)
  have "keeps (\<lambda>s. \<not> g_ready s) ?rest" by (rule keeps_not_ready[of env]) (intro keeps_intros)
  from wp_conj[OF code keepsD[OF this]] have "wp ?rest (\<lambda>c s'. g_worker s' = None \<and> \<not> g_ready s' \<and> c = (if g_fatal s' then 4 else 0)) (\<lambda>_ _. True) s'"
    if "\<not> g_ready s'" for s' by (rule wp_mono) (use that in auto)
  then show ?thesis unfolding shutdown_def set_health_def wp_bind[of "modS _"] wp_mod by simp
qed

lemma run_guardian_run:
  "wp (run_guardian n env) (\<lambda>c s'. g_worker s' = None \<and> \<not> g_ready s' \<and> c = (if g_fatal s' then 4 else 0)) (\<lambda>_ _. True) s"
  unfolding run_guardian_def by (intro wp_seq[OF wp_True] shutdown_run)

section \<open>Leftovers\<close>

text \<open>A process or a helper of an earlier generation that never ends.\<close>

definition leftover_alive :: "guard_env \<Rightarrow> guard_state \<Rightarrow> bool" where
  "leftover_alive env s \<longleftrightarrow>
     (\<exists>p\<in>set (g_lingering s). \<exists>pid. mp_process p = Some pid \<and> (\<forall>tr. poll_code (os_of env) tr pid = None))
     \<or> (\<exists>pid\<in>set (g_helpers s). \<forall>tr. poll_code (os_of env) tr pid = None)"

text \<open>Only questions about processes were asked.\<close>

definition only_polled :: "guard_state \<Rightarrow> guard_state \<Rightarrow> bool" where
  "only_polled s s' \<longleftrightarrow> g_factory s' = g_factory s \<and> g_worker s' = g_worker s \<and> g_selector s' = g_selector s \<and> g_history s' = g_history s
     \<and> (\<exists>evs. trace s' = trace s @ evs \<and> (\<forall>e\<in>set evs. \<exists>pid. e = EPoll pid))"

lemma only_polled_refl [simp]: "only_polled s s"
  by (simp add: only_polled_def)

lemma only_polled_ask: "only_polled s s' \<Longrightarrow> only_polled s (s'\<lparr>trace := trace s' @ [EPoll pid]\<rparr>)"
  by (force simp: only_polled_def)

lemma only_polled_update [simp]:
  "only_polled s (s'\<lparr>g_lingering := ps\<rparr>) = only_polled s s'" "only_polled s (s'\<lparr>g_helpers := hs\<rparr>) = only_polled s s'"
  by (simp_all add: only_polled_def)

lemma keeps_polled_filter: "keeps (only_polled s) (filterS (running (os_of env)) ps)" "keeps (only_polled s) (filterS (helper_alive env) hs)"
  by (intro keeps_filterS; simp add: keeps_def running_def helper_alive_def os_defs wp_simps only_polled_ask split: option.split)+

lemma filterS_kept:
  fixes f :: "'x \<Rightarrow> ('s, 'e, bool) eff"
  assumes "v \<in> set xs" "\<And>s. wp (f v) (\<lambda>b _. b) (\<lambda>_ _. True) s"
  shows "wp (filterS f xs) (\<lambda>ys _. v \<in> set ys) (\<lambda>_ _. True) s"
  using assms(1)
proof (induction xs arbitrary: s)
  case (Cons y xs)
  have rest: "wp (bindS (filterS f xs) (\<lambda>ys. returnS (if b then y # ys else ys))) (\<lambda>ys _. v \<in> set ys) (\<lambda>_ _. True) s'"
    if "v = y \<longrightarrow> b" for b s'
  proof (cases "v \<in> set xs")
    case True
    show ?thesis unfolding wp_bind wp_return by (rule wp_mono[OF Cons.IH[OF True]]) auto
  next
    case False
    show ?thesis unfolding wp_bind wp_return by (rule wp_mono[OF wp_True]) (use Cons.prems that False in auto)
  qed
  have first: "wp (f y) (\<lambda>b _. v = y \<longrightarrow> b) (\<lambda>_ _. True) s'" for s'
    by (cases "v = y") (use assms(2) in \<open>simp_all add: wp_True\<close>)
  show ?case unfolding filterS.simps by (rule wp_seq[OF first]) (rule rest)
qed simp

lemma polled_conj:
  assumes "keeps (only_polled s) m" "only_polled s s1" "wp m Q (\<lambda>_ _. True) s1"
  shows "wp m (\<lambda>x s'. only_polled s s' \<and> Q x s') (\<lambda>_. only_polled s) s1"
  by (rule wp_mono[OF wp_conj[OF keepsD[OF assms(1,2)] assms(3)]]) auto

lemma lingering_refused:
  assumes "p \<in> set (g_lingering s1)" "mp_process p = Some pid" "\<And>tr. poll_code (os_of env) tr pid = None" "only_polled s s1"
  shows "wp (bindS (ensure_no_lingering env) f) (\<lambda>_ _. False) (\<lambda>_. only_polled s) s1"
proof -
  have "wp (still_running env (g_lingering s1)) (\<lambda>alive s'. only_polled s s' \<and> p \<in> set alive) (\<lambda>_. only_polled s) s1"
    unfolding still_running_def
    by (rule polled_conj[OF keeps_polled_filter(1) assms(4) filterS_kept[OF assms(1)]])
      (simp add: running_def os_defs wp_simps assms(2,3))
  then have "wp (ensure_no_lingering env) (\<lambda>_ _. False) (\<lambda>_. only_polled s) s1"
    unfolding ensure_no_lingering_def wp_bind wp_get by (rule wp_mono) (auto simp: wp_mod wp_raise)
  then show ?thesis unfolding wp_bind by (rule wp_mono) auto
qed

lemma helper_refused:
  assumes "pid \<in> set (g_helpers s1)" "\<And>tr. poll_code (os_of env) tr pid = None" "only_polled s s1"
  shows "wp (bindS (reap_helpers env) (\<lambda>_. bindS (getS g_helpers) (\<lambda>hs. if hs \<noteq> [] then raiseS e else m)))
    (\<lambda>_ _. False) (\<lambda>_. only_polled s) s1"
proof -
  have "wp (filterS (helper_alive env) (g_helpers s1)) (\<lambda>alive s'. only_polled s s' \<and> pid \<in> set alive) (\<lambda>_. only_polled s) s1"
    by (rule polled_conj[OF keeps_polled_filter(2) assms(3) filterS_kept[OF assms(1)]])
      (simp add: helper_alive_def os_defs wp_simps assms(2))
  then show ?thesis unfolding reap_helpers_def wp_bind wp_get
    by (rule wp_mono) (auto simp: wp_mod wp_raise wp_get)
qed

lemma keeps_polled_ensure: "keeps (\<lambda>s'. only_polled s s' \<and> g_helpers s' = hs) (ensure_no_lingering env)"
proof -
  have "keeps (\<lambda>s'. only_polled s s' \<and> g_helpers s' = hs) (running (os_of env) p)" for p
    by (simp add: keeps_def running_def os_defs wp_simps only_polled_ask split: option.split)
  then show ?thesis unfolding ensure_no_lingering_def still_running_def by (intro keeps_intros keeps_mod) simp_all
qed

lemma begin_refused_run:
  assumes "leftover_alive env s"
  shows "wp (begin_generation env) (\<lambda>_ _. False) (\<lambda>_. only_polled s) s"
proof -
  let ?s1 = "s\<lparr>g_transport_failure := False, g_failure_name := [], g_switch := False, g_detached := False, g_verifying := []\<rparr>"
  have s1: "only_polled s ?s1" by (simp add: only_polled_def)
  from assms consider (p) p pid where "p \<in> set (g_lingering s)" "mp_process p = Some pid" "\<And>tr. poll_code (os_of env) tr pid = None"
    | (h) pid where "pid \<in> set (g_helpers s)" "\<And>tr. poll_code (os_of env) tr pid = None"
    by (auto simp: leftover_alive_def)
  then show ?thesis unfolding begin_generation_def wp_bind[of "modS _"] wp_mod
  proof cases
    case p
    show "wp (bindS (ensure_no_lingering env) f) (\<lambda>_ _. False) (\<lambda>_. only_polled s) ?s1" for f :: "unit \<Rightarrow> unit guard"
      by (rule lingering_refused[OF _ p(2,3) s1]) (use p(1) in simp)
  next
    case h
    have ensured: "wp (ensure_no_lingering env) (\<lambda>_ s'. only_polled s s' \<and> g_helpers s' = g_helpers s) (\<lambda>_. only_polled s) ?s1"
      by (rule wp_mono[OF keepsD[OF keeps_polled_ensure[of s "g_helpers s"]]]) (use s1 in auto)
    show "wp (bindS (ensure_no_lingering env) (\<lambda>_. bindS (reap_helpers env) (\<lambda>_. bindS (getS g_helpers) (\<lambda>hs.
        if hs \<noteq> [] then raiseS e else m)))) (\<lambda>_ _. False) (\<lambda>_. only_polled s) ?s1" for e and m :: "unit guard"
      by (rule wp_seq[OF ensured], rule helper_refused) (use h in auto)
  qed
qed

section \<open>Properties\<close>




text \<open>
  A turn of the main loop that leads to another one leaves a delay between the initial and the maximal one, and
  either the stop flag is set, so that the next turn ends the loop, or there is no generation and the node is not ready.
\<close>

theorem turn_again:
  assumes "turn n env delay s = (Inr (Again d), s')" "0 \<le> recovery_initial_seconds (appl env)"
    "recovery_initial_seconds (appl env) \<le> delay" "delay \<le> recovery_max_seconds (appl env)"
  shows "recovery_initial_seconds (appl env) \<le> d \<and> d \<le> recovery_max_seconds (appl env)
    \<and> (g_stopping s' \<or> g_worker s' = None \<and> \<not> g_ready s')"
  using wp_Inr[OF turn_run assms(1)] assms(2-4) by (auto simp: turn_ok_def)

theorem turn_again_witness:
  "\<exists>s'. turn 6 (example_guard_env None False) 1 example_guard = (Inr (Again 2), s') \<and> g_worker s' = None \<and> \<not> g_ready s'"
proof -
  obtain r s' where run: "turn 6 (example_guard_env None False) 1 example_guard = (r, s')"
    by (cases "turn 6 (example_guard_env None False) 1 example_guard")
  with example_turn have r: "r = Inr (Again 2)" and "\<not> g_stopping s'" by simp_all
  with turn_again[OF run[unfolded r]] run r show ?thesis by simp
qed

text \<open>
  A whole run of the appliance: without the writer lease it gives 3 and changes nothing; with it, the lease is free
  again however the run ends, and a run that returns has no generation, is not ready and gives 4 exactly if a fence or a
  retirement failed, 0 otherwise.
\<close>

theorem run_appliance_ends:
  assumes "run_appliance gs i n env (ls, s) = (r, ls', s')"
  shows "if flock_owner ls = None
    then flock_owner ls' = None \<and> \<not> held ls' i
      \<and> (\<forall>c. r = Inr c \<longrightarrow> g_worker s' = None \<and> \<not> g_ready s' \<and> c = (if g_fatal s' then 4 else 0))
    else r = Inr 3 \<and> ls' = ls \<and> s' = s"
proof (cases "flock_owner ls")
  case None
  then obtain ls1 where a: "acquire gs (wall env (trace s)) i ls = Inr ls1" and ls1: "flock_owner ls1 = Some i" "held ls1 i"
    by (auto simp: acquire_def lease_defs)
  from a assms have r: "run_guardian n env s = (r, s')" and ls': "ls' = release i ls1"
    by (auto simp: run_appliance_def split: prod.splits)
  have "\<forall>c. r = Inr c \<longrightarrow> g_worker s' = None \<and> \<not> g_ready s' \<and> c = (if g_fatal s' then 4 else 0)"
    using wp_Inr[OF run_guardian_run] r by blast
  with None ls1 show ?thesis by (simp add: ls' lease_defs)
next
  case (Some j)
  then have "acquire gs (wall env (trace s)) i ls = Inl (AlreadyHeld (lock_text ls))" by (simp add: acquire_def take_flock_def)
  with assms Some show ?thesis by (simp add: run_appliance_def)
qed

theorem run_appliance_ends_witness:
  "\<exists>ls' s'. run_appliance (\<lambda>i. (''node'', int i)) 1 2 (example_guard_env None True) (lease_start None, example_guard) = (Inr 0, ls', s')
     \<and> flock_owner ls' = None \<and> g_worker s' = None"
proof -
  let ?run = "run_appliance (\<lambda>i. (''node'', int i)) 1 2 (example_guard_env None True) (lease_start None, example_guard)"
  obtain r ls' s' where run: "?run = (r, ls', s')" by (cases ?run) auto
  have free: "flock_owner (lease_start None) = None" by (simp add: lease_start_def)
  have "fst ?run = Inr 0"
    using example_run by (auto simp: run_appliance_def acquire_def lease_defs free split: prod.splits)
  with run have r: "r = Inr 0" by simp
  from run_appliance_ends[OF run] free r run show ?thesis by simp
qed



text \<open>
  A transport that is quarantined when the guardian starts stays quarantined through the whole run, and no selection
  made on the file it leaves gives that transport.
\<close>

theorem quarantine_survives_run:
  assumes "is_quarantined transport (g_selector s)" "run_guardian n env s = (r, s')"
  shows "is_quarantined transport (g_selector s') \<and> (\<forall>fo now w f'. select fo now w (g_selector s') \<noteq> Inr (transport, f'))"
  using run_keeps[where P = "\<lambda>a. is_quarantined transport (sp_selector a)", OF spec_quarantined _ assms(2)] assms(1)
    is_quarantined_select by auto

theorem quarantine_survives_run_witness:
  "\<exists>f0 r s'. quarantine example_failover ''ssh-b'' ''lost'' 1 NoFile = Inr f0
     \<and> run_guardian 3 (example_guard_env (Some example_failover) False) (example_guard\<lparr>g_selector := f0\<rparr>) = (r, s')
     \<and> is_quarantined ''ssh-b'' (g_selector s')"
proof -
  obtain st where st: "load_state NoFile = Inr st"
    using selector_inv_empty[of example_failover] by (auto simp: selector_inv_def)
  then obtain f0 where f0: "quarantine example_failover ''ssh-b'' ''lost'' 1 NoFile = Inr f0"
    by (simp add: quarantine_def contains_def example_ordered_names)
  then have q: "is_quarantined ''ssh-b'' f0" by (auto simp: quarantine_def is_quarantined_def res_simps split: if_splits)
  let ?run = "run_guardian 3 (example_guard_env (Some example_failover) False) (example_guard\<lparr>g_selector := f0\<rparr>)"
  obtain r s' where run: "?run = (r, s')" by (cases ?run)
  from quarantine_survives_run[OF _ run] f0 q run show ?thesis by auto
qed

text \<open>
  C18. While a SeaweedFS process or a storage helper of an earlier generation is there, no new generation comes into
  being: the attempt fails, and all it did was to ask for the state of processes. No number is used up, nothing is
  started or run, and neither history nor selector file changes.
\<close>

theorem begin_refused:
  assumes "leftover_alive env s" "begin_generation env s = (r, s')"
  shows "(\<exists>e. r = Inl e) \<and> g_factory s' = g_factory s \<and> g_worker s' = g_worker s \<and> g_selector s' = g_selector s
    \<and> g_history s' = g_history s \<and> (\<exists>evs. trace s' = trace s @ evs \<and> (\<forall>e\<in>set evs. \<exists>pid. e = EPoll pid))"
  using begin_refused_run[OF assms(1)] assms(2)
  by (cases r) (auto simp: wp_def only_polled_def)

theorem begin_refused_witness:
  "leftover_alive (example_guard_env None False) (example_guard\<lparr>g_helpers := [7]\<rparr>)
   \<and> (\<exists>e s'. begin_generation (example_guard_env None False) (example_guard\<lparr>g_helpers := [7]\<rparr>) = (Inl e, s')
        \<and> g_factory s' = g_factory example_guard)"
proof -
  let ?env = "example_guard_env None False" and ?s = "example_guard\<lparr>g_helpers := [7]\<rparr>"
  have left: "leftover_alive ?env ?s" by (simp add: leftover_alive_def example_guard_env_def os_of_def os_env.defs)
  obtain r s' where run: "begin_generation ?env ?s = (r, s')" by (cases "begin_generation ?env ?s")
  from begin_refused[OF left run] left run show ?thesis by auto
qed

text \<open>
  The wait for a stable volume status ends: if the clock does not go back and a sleep takes at least its length, a
  positive probe interval and as many rounds as the timeout has seconds, and four for each second of the interval, are
  enough for the loop to end with a verdict; it does not run on.
\<close>

theorem wait_for_stable_terminates:
  assumes "sleeps env" "0 < recovery_probe_interval_seconds (appl env)"
    "4 * recovery_probe_interval_seconds (appl env) + 1 \<le> int n" "stable_timeout env + 1 \<le> int n"
  shows "fst (wait_for_stable_volumes n env s) \<noteq> Inl Unfinished"
  using finishesD[OF wait_for_stable_end[OF assms], of s] by (auto simp: wp_def split: prod.splits sum.splits)

theorem wait_for_stable_terminates_witness:
  "fst (wait_for_stable_volumes 200 (example_guard_env None False) example_guard) \<noteq> Inl Unfinished"
proof -
  have "sleeps (example_guard_env None False)" by (simp add: sleeps_def split: os_event.split)
  moreover have "stable_timeout (example_guard_env None False) = 120"
    by (simp add: stable_timeout_def example_config_def example_appliance_def appl_def)
  ultimately show ?thesis using wait_for_stable_terminates[of "example_guard_env None False" 200 example_guard] by simp
qed

text \<open>
  \<open>_interruptible_sleep\<close> reads the clock a second time for the length of its nap. If the deadline passes between the
  two readings, the length is negative and \<open>time.sleep\<close> raises \<open>ValueError\<close> instead of the sleep ending.
\<close>

theorem sleep_race_raises:
  assumes "\<not> g_stopping s" "\<not> signal env (trace s)" "clock env (trace s @ [EAsk ''signal'']) < deadline"
    "deadline < clock env (trace s @ [EAsk ''signal'', EClock])"
  shows "fst (sleep_rounds (Suc n) env deadline s) = Inl (GValue ''sleep length must be non-negative'')"
  using assms by (simp add: stop_requested_def bindS_def askS_def whenS_def returnS_def getS_def monotime_def time_sleep_def raiseS_def)

theorem sleep_race_raises_witness:
  "fst (sleep_rounds 1 race_env 1 (example_guard\<lparr>trace := [EClock]\<rparr>)) = Inl (GValue ''sleep length must be non-negative'')
   \<and> fst (turn 6 race_env 1 example_guard) = Inl (GValue ''sleep length must be non-negative'')"
  using sleep_race_raises[of "example_guard\<lparr>trace := [EClock]\<rparr>" race_env 1 0] race_turn by simp

end
