(* ===== verification/Config_Load.thy ===== *)
theory Config_Load
  imports Config_Target "HOL-Library.Sublist"
begin

text \<open>
  \<open>load_config\<close> of \<open>config.py\<close>: the tables of the decoded TOML document, read in the order of the source with its
  defaults, and every check with its message. Reading addresses (\<open>ipaddress\<close>) and resolving paths against the file
  system (\<open>Path.resolve\<close>) are parameters.
\<close>

section \<open>Surroundings\<close>

text \<open>What reading the file gave. Only a missing file and invalid TOML are turned into a configuration error.\<close>

datatype toml_read = TomlMissing | TomlInvalid string | TomlUnreadable | TomlDoc table

datatype load_error = LoadError parse_error | LoadUnreadable | LoadKeyError

text \<open>An interface is its version, address and network, an address its version and the address.\<close>

record load_env =
  ip_interface_of :: "string \<Rightarrow> string + int \<times> string \<times> string"
  ip_address_of :: "string \<Rightarrow> string + int \<times> string"
  resolve_path :: "ppath \<Rightarrow> ppath"

definition raise_config :: "string \<Rightarrow> parse_error + 'a" where
  "raise_config m = Inl (ConfigError m)"

section \<open>Fields of a section\<close>

definition key_of :: "string \<Rightarrow> string \<Rightarrow> string" where
  "key_of sec k = sec @ ''.'' @ k"

definition str_field :: "string \<Rightarrow> table \<Rightarrow> string \<Rightarrow> string \<Rightarrow> parse_error + string" where
  "str_field sec raw k dflt = cfg_string (json_get raw k) (key_of sec k) dflt"

definition int_field :: "string \<Rightarrow> table \<Rightarrow> string \<Rightarrow> int \<Rightarrow> parse_error + int" where
  "int_field sec raw k dflt = cfg_int (json_get raw k) (key_of sec k) dflt"

definition bool_field :: "string \<Rightarrow> table \<Rightarrow> string \<Rightarrow> bool \<Rightarrow> parse_error + bool" where
  "bool_field sec raw k dflt = cfg_bool (json_get raw k) (key_of sec k) dflt"

definition list_field :: "string \<Rightarrow> table \<Rightarrow> string \<Rightarrow> parse_error + string list" where
  "list_field sec raw k = cfg_string_list (json_get raw k) (key_of sec k)"

definition path_field :: "string \<Rightarrow> table \<Rightarrow> string \<Rightarrow> string \<Rightarrow> parse_error + string" where
  "path_field sec raw k dflt = cfg_relative_path (json_get raw k) (key_of sec k) dflt"

text \<open>\<open>_positive\<close> on several fields, in order.\<close>

primrec all_positive :: "string \<Rightarrow> (string \<times> int) list \<Rightarrow> parse_error + unit" where
  "all_positive sec [] = Inr ()"
| "all_positive sec (f # fs) = bindE (cfg_positive (snd f) (key_of sec (fst f)) False) (\<lambda>_. all_positive sec fs)"

section \<open>\<open>[appliance]\<close>\<close>

definition parse_dirs :: "table \<Rightarrow> parse_error + (ppath \<times> ppath)" where
  "parse_dirs raw =
     bindE (str_field ''appliance'' raw ''runtime_dir'' ''/run/s3-storage-node'') (\<lambda>r.
     bindE (str_field ''appliance'' raw ''state_dir'' ''/var/lib/s3-storage-node'') (\<lambda>s.
     let rdir = path_of_string r; sdir = path_of_string s
     in if \<not> path_is_absolute rdir \<or> \<not> path_is_absolute sdir
        then raise_config ''appliance.state_dir and appliance.runtime_dir must be absolute''
        else if sdir = rdir \<or> path_is_relative_to sdir rdir
        then raise_config ''appliance.state_dir must not be inside the ephemeral runtime_dir''
        else Inr (rdir, sdir)))"

definition parse_fencing_mode :: "table \<Rightarrow> parse_error + string" where
  "parse_fencing_mode raw =
     bindE (str_field ''appliance'' raw ''worker_fencing_mode'' ''disabled'') (\<lambda>m0.
     let m = py_lower m0
     in if m \<noteq> ''disabled'' \<and> m \<noteq> ''namespace''
        then raise_config ''appliance.worker_fencing_mode must be disabled or namespace''
        else Inr m)"

definition check_worker_network :: "load_env \<Rightarrow> string \<Rightarrow> string \<Rightarrow> string \<Rightarrow> parse_error + unit" where
  "check_worker_network env host worker gw =
     (case (ip_interface_of env host, ip_interface_of env worker, ip_address_of env gw) of
        (Inr (hv, hip, hnet), Inr (wv, wip, wnet), Inr (gv, gip)) \<Rightarrow>
          (if hv \<noteq> 4 \<or> wv \<noteq> 4 \<or> gv \<noteq> 4 then raise_config ''worker namespace addresses must be IPv4''
           else if hnet \<noteq> wnet then raise_config ''worker_host_address and worker_address must share one subnet''
           else if hip = wip then raise_config ''worker_host_address and worker_address must use different addresses''
           else if gip \<noteq> hip then raise_config ''worker_gateway must equal the worker_host_address IP''
           else Inr ())
      | (Inl e, _, _) \<Rightarrow> raise_config (''invalid worker namespace address: '' @ e)
      | (_, Inl e, _) \<Rightarrow> raise_config (''invalid worker namespace address: '' @ e)
      | (_, _, Inl e) \<Rightarrow> raise_config (''invalid worker namespace address: '' @ e))"

definition check_appliance :: "appliance_config \<Rightarrow> parse_error + appliance_config" where
  "check_appliance a =
     bindE (all_positive ''appliance''
       [(''health_port'', health_port a), (''probe_interval_seconds'', app_probe_interval_seconds a),
        (''full_probe_interval_seconds'', full_probe_interval_seconds a), (''probe_timeout_seconds'', app_probe_timeout_seconds a),
        (''startup_timeout_seconds'', startup_timeout_seconds a), (''shutdown_grace_seconds'', shutdown_grace_seconds a),
        (''recovery_initial_seconds'', recovery_initial_seconds a), (''recovery_max_seconds'', recovery_max_seconds a),
        (''recovery_probe_interval_seconds'', recovery_probe_interval_seconds a),
        (''recovery_successes_required'', recovery_successes_required a),
        (''recovery_stability_seconds'', recovery_stability_seconds a)]) (\<lambda>_.
     if recovery_max_seconds a < recovery_initial_seconds a
     then raise_config ''appliance.recovery_initial_seconds may not exceed recovery_max_seconds''
     else Inr a)"

definition parse_appliance :: "load_env \<Rightarrow> table \<Rightarrow> parse_error + appliance_config" where
  "parse_appliance env raw =
     (let str = str_field ''appliance'' raw; num = int_field ''appliance'' raw
      in bindE (parse_dirs raw) (\<lambda>(rdir, sdir).
         bindE (parse_fencing_mode raw) (\<lambda>fencing.
         bindE (str ''worker_host_address'' ''169.254.254.1/30'') (\<lambda>host.
         bindE (str ''worker_address'' ''169.254.254.2/30'') (\<lambda>worker.
         bindE (str ''worker_gateway'' ''169.254.254.1'') (\<lambda>gw.
         bindE (check_worker_network env host worker gw) (\<lambda>_.
         bindE (str ''name'' ''s3-storage-node'') (\<lambda>name.
         bindE (num ''uid'' 10001) (\<lambda>u.
         bindE (num ''gid'' 10001) (\<lambda>g.
         bindE (str ''health_host'' ''0.0.0.0'') (\<lambda>hh.
         bindE (num ''health_port'' 9090) (\<lambda>hp.
         bindE (num ''probe_interval_seconds'' 5) (\<lambda>pi.
         bindE (num ''full_probe_interval_seconds'' 60) (\<lambda>fpi.
         bindE (num ''probe_timeout_seconds'' 15) (\<lambda>pt.
         bindE (num ''startup_timeout_seconds'' 30) (\<lambda>st.
         bindE (num ''shutdown_grace_seconds'' 45) (\<lambda>sg.
         bindE (num ''recovery_initial_seconds'' 5) (\<lambda>ri.
         bindE (num ''recovery_max_seconds'' 60) (\<lambda>rm.
         bindE (num ''recovery_stability_seconds'' 15) (\<lambda>rs.
         bindE (num ''recovery_probe_interval_seconds'' 2) (\<lambda>rpi.
         bindE (num ''recovery_successes_required'' 3) (\<lambda>rsr.
         bindE (bool_field ''appliance'' raw ''s3_canary_enabled'' True) (\<lambda>canary.
         check_appliance
           \<lparr>app_name = name, state_dir = sdir, runtime_dir = rdir, uid = u, gid = g, health_host = hh, health_port = hp,
            app_probe_interval_seconds = pi, full_probe_interval_seconds = fpi, app_probe_timeout_seconds = pt,
            startup_timeout_seconds = st, shutdown_grace_seconds = sg, recovery_initial_seconds = ri,
            recovery_max_seconds = rm, recovery_stability_seconds = rs, recovery_probe_interval_seconds = rpi,
            recovery_successes_required = rsr, s3_canary_enabled = canary, worker_fencing_mode = fencing,
            worker_host_address = host, worker_address = worker, worker_gateway = gw\<rparr>)))))))))))))))))))))))"

section \<open>\<open>[storage]\<close>\<close>

primrec parse_target_names :: "table \<Rightarrow> ppath \<Rightarrow> string list \<Rightarrow> parse_error + (string \<times> target_config) list" where
  "parse_target_names storage rdir [] = Inr []"
| "parse_target_names storage rdir (n # ns) = (case json_get storage n of
     None \<Rightarrow> parse_target_names storage rdir ns
   | Some (JObj d) \<Rightarrow>
       bindE (parse_target n d rdir) (\<lambda>t. bindE (parse_target_names storage rdir ns) (\<lambda>ts. Inr ((n, t) # ts)))
   | Some _ \<Rightarrow> raise_config (''[storage.'' @ n @ ''] must be a table''))"

definition may_initialize :: "load_env \<Rightarrow> ppath \<Rightarrow> target_config \<Rightarrow> bool" where
  "may_initialize env sdir t \<longleftrightarrow> \<not> (tgt_type t = ''path'' \<and> allow_initialize t)
     \<or> path_is_relative_to (resolve_path env (mountpoint t)) (resolve_path env sdir)"

primrec check_initialize :: "load_env \<Rightarrow> ppath \<Rightarrow> (string \<times> target_config) list \<Rightarrow> parse_error + unit" where
  "check_initialize env sdir [] = Inr ()"
| "check_initialize env sdir (nt # nts) =
     (if may_initialize env sdir (snd nt) then check_initialize env sdir nts
      else raise_config (''storage.'' @ tgt_name (snd nt) @ ''.allow_initialize may only be true for path targets beneath ''
        @ ''appliance.state_dir ('' @ string_of_path sdir @ ''); externally managed paths must be enrolled manually ''
        @ ''and use allow_initialize=false''))"

definition parse_storage :: "load_env \<Rightarrow> appliance_config \<Rightarrow> table \<Rightarrow> parse_error + (string \<times> target_config) list" where
  "parse_storage env a storage =
     (case json_get storage ''data'' of
        Some (JObj _) \<Rightarrow>
          bindE (parse_target_names storage (runtime_dir a) [''data'', ''metadata'', ''index'']) (\<lambda>ts.
          if worker_fencing_mode a = ''namespace'' \<and> (case map_of ts ''data'' of Some t \<Rightarrow> tgt_type t \<noteq> ''cifs'' | None \<Rightarrow> False)
          then raise_config ''appliance.worker_fencing_mode=namespace currently requires storage.data.type=cifs''
          else bindE (check_initialize env (state_dir a) ts) (\<lambda>_. Inr ts))
      | _ \<Rightarrow> raise_config ''[storage.data] is required'')"

section \<open>\<open>[metadata]\<close> and \<open>[index]\<close>\<close>

definition missing_postgres :: "metadata_config \<Rightarrow> string list" where
  "missing_postgres m = map fst (filter (\<lambda>kv. snd kv = [])
     [(''postgres_host'', postgres_host m), (''postgres_user'', postgres_user m),
      (''postgres_password_file'', postgres_password_file m), (''postgres_database'', postgres_database m)])"

definition check_metadata :: "(string \<times> target_config) list \<Rightarrow> metadata_config \<Rightarrow> parse_error + metadata_config" where
  "check_metadata ts m =
     (if backend m = ''embedded'' \<and> map_of ts (md_target m) = None
      then raise_config (''metadata.target references missing storage target: '' @ md_target m)
      else if backend m = ''postgres'' \<and> missing_postgres m \<noteq> []
      then raise_config (''metadata postgres settings missing: '' @ py_join '', '' (missing_postgres m))
      else if backend m = ''custom'' \<and> custom_filer_toml m = []
      then raise_config ''metadata.custom_filer_toml is required for custom backend''
      else Inr m)"

definition parse_metadata :: "(string \<times> target_config) list \<Rightarrow> table \<Rightarrow> parse_error + metadata_config" where
  "parse_metadata ts raw =
     (let str = str_field ''metadata'' raw
      in bindE (str ''backend'' ''embedded'') (\<lambda>b0.
         let b = py_lower b0
         in if b \<noteq> ''embedded'' \<and> b \<noteq> ''postgres'' \<and> b \<noteq> ''custom''
            then raise_config ''metadata.backend must be embedded, postgres, or custom''
            else
         bindE (str ''target'' ''metadata'') (\<lambda>tgt.
         bindE (path_field ''metadata'' raw ''directory'' ''filer'') (\<lambda>dir.
         bindE (str ''postgres_host'' []) (\<lambda>ph.
         bindE (int_field ''metadata'' raw ''postgres_port'' 5432) (\<lambda>pp.
         bindE (str ''postgres_user'' []) (\<lambda>pu.
         bindE (str ''postgres_password_file'' []) (\<lambda>pw.
         bindE (str ''postgres_database'' []) (\<lambda>pd.
         bindE (str ''postgres_schema'' ''public'') (\<lambda>ps.
         bindE (str ''postgres_sslmode'' ''require'') (\<lambda>pm.
         bindE (str ''custom_filer_toml'' []) (\<lambda>ct.
         check_metadata ts
           \<lparr>backend = b, md_target = tgt, md_directory = dir, postgres_host = ph, postgres_port = pp, postgres_user = pu,
            postgres_password_file = pw, postgres_database = pd, postgres_schema = ps, postgres_sslmode = pm,
            custom_filer_toml = ct\<rparr>))))))))))))"

definition parse_index :: "(string \<times> target_config) list \<Rightarrow> table \<Rightarrow> parse_error + index_config" where
  "parse_index ts raw =
     bindE (str_field ''index'' raw ''target'' ''index'') (\<lambda>tgt.
     bindE (path_field ''index'' raw ''directory'' ''volume-indexes'') (\<lambda>dir.
     if map_of ts tgt = None then raise_config (''index.target references missing storage target: '' @ tgt)
     else Inr \<lparr>ix_target = tgt, ix_directory = dir\<rparr>))"

section \<open>\<open>[seaweed]\<close>\<close>

definition check_seaweed :: "seaweed_config \<Rightarrow> parse_error + seaweed_config" where
  "check_seaweed w =
     bindE (all_positive ''seaweed''
       [(''master_port'', master_port w), (''volume_port'', volume_port w), (''filer_port'', filer_port w),
        (''s3_internal_port'', s3_internal_port w), (''volume_size_limit_mb'', volume_size_limit_mb w),
        (''filer_max_mb'', filer_max_mb w)]) (\<lambda>_.
     bindE (cfg_positive (volume_max w) ''seaweed.volume_max'' True) (\<lambda>_.
     if list_ex (\<lambda>v. v \<le> 0) (expected_readonly_volume_ids w)
     then raise_config ''seaweed.expected_readonly_volume_ids must contain positive volume IDs''
     else if \<not> distinct (expected_readonly_volume_ids w)
     then raise_config ''seaweed.expected_readonly_volume_ids must not contain duplicates''
     else
     bindE (all_positive ''seaweed''
       [(''all_readonly_wait_seconds'', all_readonly_wait_seconds w),
        (''index_repair_concurrency'', index_repair_concurrency w),
        (''index_repair_max_volumes'', index_repair_max_volumes w),
        (''index_repair_timeout_seconds'', index_repair_timeout_seconds w),
        (''auto_tail_recovery_max_bytes'', auto_tail_recovery_max_bytes w),
        (''concurrent_upload_limit_mb'', concurrent_upload_limit_mb w),
        (''inflight_upload_timeout_seconds'', inflight_upload_timeout_seconds w)]) (\<lambda>_.
     if 8 < index_repair_concurrency w then raise_config ''seaweed.index_repair_concurrency may not exceed 8''
     else if auto_index_repair_enabled w \<and> \<not> volume_health_enabled w
     then raise_config ''seaweed.auto_index_repair_enabled requires seaweed.volume_health_enabled''
     else Inr w)))"

definition parse_seaweed :: "table \<Rightarrow> parse_error + seaweed_config" where
  "parse_seaweed raw =
     (let str = str_field ''seaweed'' raw; num = int_field ''seaweed'' raw; flag = bool_field ''seaweed'' raw;
          strs = list_field ''seaweed'' raw
      in bindE (str ''binary'' ''/usr/local/bin/weed'') (\<lambda>bin.
         bindE (num ''master_port'' 9333) (\<lambda>mp.
         bindE (num ''volume_port'' 8080) (\<lambda>vp.
         bindE (num ''filer_port'' 8888) (\<lambda>fp.
         bindE (num ''s3_internal_port'' 18333) (\<lambda>sp.
         bindE (path_field ''seaweed'' raw ''volume_directory'' ''volumes'') (\<lambda>vdir.
         bindE (num ''volume_max'' 0) (\<lambda>vmax.
         bindE (num ''volume_size_limit_mb'' 30000) (\<lambda>vsize.
         bindE (str ''default_replication'' ''000'') (\<lambda>repl.
         bindE (num ''filer_max_mb'' 16) (\<lambda>fmax.
         bindE (str ''data_center'' []) (\<lambda>dc.
         bindE (str ''rack'' []) (\<lambda>rck.
         bindE (str ''disk_type'' []) (\<lambda>disk.
         bindE (strs ''volume_extra_args'') (\<lambda>vargs.
         bindE (strs ''master_extra_args'') (\<lambda>margs.
         bindE (strs ''filer_extra_args'') (\<lambda>fargs.
         bindE (strs ''s3_extra_args'') (\<lambda>sargs.
         bindE (flag ''encrypt_volume_data'' False) (\<lambda>enc.
         bindE (flag ''volume_health_enabled'' True) (\<lambda>vh.
         bindE (cfg_int_list (json_get raw ''expected_readonly_volume_ids'') ''seaweed.expected_readonly_volume_ids'') (\<lambda>ids.
         bindE (num ''all_readonly_wait_seconds'' 75) (\<lambda>wait.
         bindE (flag ''auto_index_repair_enabled'' True) (\<lambda>repair.
         bindE (num ''index_repair_concurrency'' 1) (\<lambda>conc.
         bindE (num ''index_repair_max_volumes'' 2) (\<lambda>maxv.
         bindE (num ''index_repair_timeout_seconds'' 3600) (\<lambda>rtime.
         bindE (flag ''auto_tail_recovery_enabled'' False) (\<lambda>tail.
         bindE (num ''auto_tail_recovery_max_bytes'' 16777216) (\<lambda>tmax.
         bindE (num ''concurrent_upload_limit_mb'' 32) (\<lambda>ulim.
         bindE (num ''inflight_upload_timeout_seconds'' 15) (\<lambda>utime.
         check_seaweed
           \<lparr>binary = bin, master_port = mp, volume_port = vp, filer_port = fp, s3_internal_port = sp,
            volume_directory = vdir, volume_max = vmax, volume_size_limit_mb = vsize, default_replication = repl,
            filer_max_mb = fmax, data_center = dc, rack = rck, disk_type = disk, volume_extra_args = vargs,
            master_extra_args = margs, filer_extra_args = fargs, s3_extra_args = sargs, encrypt_volume_data = enc,
            volume_health_enabled = vh, expected_readonly_volume_ids = ids, all_readonly_wait_seconds = wait,
            auto_index_repair_enabled = repair, index_repair_concurrency = conc, index_repair_max_volumes = maxv,
            index_repair_timeout_seconds = rtime, auto_tail_recovery_enabled = tail, auto_tail_recovery_max_bytes = tmax,
            concurrent_upload_limit_mb = ulim, inflight_upload_timeout_seconds = utime\<rparr>))))))))))))))))))))))))))))))"

section \<open>\<open>[s3]\<close>\<close>

definition check_admission :: "s3_admission_config \<Rightarrow> parse_error + s3_admission_config" where
  "check_admission a =
     bindE (all_positive ''s3.admission''
       [(''max_active_read_requests'', max_active_read_requests a), (''max_active_write_requests'', max_active_write_requests a),
        (''max_queued_read_requests'', max_queued_read_requests a), (''max_queued_write_requests'', max_queued_write_requests a),
        (''queue_timeout_seconds'', queue_timeout_seconds a), (''slow_probe_seconds'', adm_slow_probe_seconds a),
        (''healthy_window_seconds'', healthy_window_seconds a)]) (\<lambda>_. Inr a)"

definition parse_admission :: "table \<Rightarrow> parse_error + s3_admission_config" where
  "parse_admission raw =
     (let num = int_field ''s3.admission'' raw; flag = bool_field ''s3.admission'' raw
      in bindE (flag ''enabled'' True) (\<lambda>on.
         bindE (flag ''adaptive_enabled'' True) (\<lambda>adaptive.
         bindE (num ''slow_probe_seconds'' 2) (\<lambda>slow.
         bindE (num ''healthy_window_seconds'' 300) (\<lambda>window.
         bindE (num ''max_active_read_requests'' 16) (\<lambda>ar.
         bindE (num ''max_active_write_requests'' 2) (\<lambda>aw.
         bindE (num ''max_queued_read_requests'' 32) (\<lambda>qr.
         bindE (num ''max_queued_write_requests'' 4) (\<lambda>qw.
         bindE (num ''queue_timeout_seconds'' 3) (\<lambda>qt.
         check_admission
           \<lparr>adm_enabled = on, adaptive_enabled = adaptive, adm_slow_probe_seconds = slow, healthy_window_seconds = window,
            max_active_read_requests = ar, max_active_write_requests = aw, max_queued_read_requests = qr,
            max_queued_write_requests = qw, queue_timeout_seconds = qt\<rparr>))))))))))"

definition check_s3 :: "bool \<Rightarrow> s3_config \<Rightarrow> parse_error + s3_config" where
  "check_s3 canary s =
     bindE (cfg_positive (s3_port s) ''s3.port'' False) (\<lambda>_.
     if s3_port s < 1024
     then raise_config ''s3.port must be 1024 or greater; publish privileged host ports through Docker port mapping''
     else if auth_mode s = ''static'' \<and> (access_key_file s = [] \<or> secret_key_file s = [])
     then raise_config ''static S3 auth requires access_key_file and secret_key_file''
     else if auth_mode s = ''config'' \<and> auth_config_file s = []
     then raise_config ''config S3 auth requires auth_config_file''
     else if auth_mode s = ''config'' \<and> canary \<and> (canary_access_key_file s = [] \<or> canary_secret_key_file s = [])
     then raise_config
       ''config S3 auth with canary enabled requires canary_access_key_file and canary_secret_key_file''
     else if tls_mode s = ''terminate'' \<and> tls_pem_file s = []
     then raise_config ''TLS termination requires s3.tls_pem_file''
     else Inr s)"

definition parse_modes :: "table \<Rightarrow> parse_error + (string \<times> string)" where
  "parse_modes raw =
     bindE (str_field ''s3'' raw ''auth_mode'' ''static'') (\<lambda>auth0.
     let auth = py_lower auth0
     in if auth \<noteq> ''static'' \<and> auth \<noteq> ''config'' \<and> auth \<noteq> ''none''
        then raise_config ''s3.auth_mode must be static, config, or none''
        else
     bindE (str_field ''s3'' raw ''tls_mode'' ''off'') (\<lambda>tls0.
     let tls = py_lower tls0
     in if tls \<noteq> ''off'' \<and> tls \<noteq> ''terminate'' then raise_config ''s3.tls_mode must be off or terminate''
        else Inr (auth, tls)))"

definition parse_s3 :: "bool \<Rightarrow> table \<Rightarrow> parse_error + s3_config" where
  "parse_s3 canary raw =
     (let str = str_field ''s3'' raw
      in bindE (parse_modes raw) (\<lambda>(auth, tls).
         bindE (cfg_table raw ''admission'') (\<lambda>adm_raw.
         bindE (parse_admission adm_raw) (\<lambda>adm.
         bindE (str ''host'' ''0.0.0.0'') (\<lambda>h.
         bindE (int_field ''s3'' raw ''port'' 8333) (\<lambda>p.
         bindE (str ''domain_name'' []) (\<lambda>dom.
         bindE (str ''allowed_origins'' ''*'') (\<lambda>orig.
         bindE (str ''external_url'' []) (\<lambda>url.
         bindE (str ''access_key_file'' ''/run/secrets/s3_access_key'') (\<lambda>ak.
         bindE (str ''secret_key_file'' ''/run/secrets/s3_secret_key'') (\<lambda>sk.
         bindE (str ''auth_config_file'' []) (\<lambda>acf.
         bindE (str ''canary_access_key_file'' []) (\<lambda>cak.
         bindE (str ''canary_secret_key_file'' []) (\<lambda>csk.
         bindE (str ''iam_config_file'' []) (\<lambda>iam.
         bindE (str ''audit_log_config_file'' []) (\<lambda>audit.
         bindE (str ''tls_pem_file'' []) (\<lambda>pem.
         check_s3 canary
           \<lparr>s3_host = h, s3_port = p, domain_name = dom, allowed_origins = orig, external_url = url, auth_mode = auth,
            access_key_file = ak, secret_key_file = sk, auth_config_file = acf, canary_access_key_file = cak,
            canary_secret_key_file = csk, iam_config_file = iam, audit_log_config_file = audit, tls_mode = tls,
            tls_pem_file = pem, admission = adm\<rparr>)))))))))))))))))"

section \<open>The whole document\<close>

definition config_ports :: "config \<Rightarrow> int list" where
  "config_ports c =
     [health_port (appliance c), master_port (seaweed c), volume_port (seaweed c), filer_port (seaweed c),
      s3_internal_port (seaweed c), s3_port (s3 c)]"

definition check_ports :: "config \<Rightarrow> parse_error + config" where
  "check_ports c =
     (if list_ex (\<lambda>p. 65535 < p) (config_ports c) then raise_config ''ports must be between 1 and 65535''
      else if \<not> distinct (config_ports c) then raise_config ''appliance and SeaweedFS ports must be unique''
      else Inr c)"

text \<open>\<open>active_mountpoints\<close>: the resolved mountpoints seen so far, with the name of the target that uses each.\<close>

fun check_mountpoints :: "load_env \<Rightarrow> (ppath \<rightharpoonup> string) \<Rightarrow> target_config list \<Rightarrow> parse_error + unit" where
  "check_mountpoints env seen [] = Inr ()"
| "check_mountpoints env seen (t # ts) =
     (case seen (resolve_path env (mountpoint t)) of
        Some previous \<Rightarrow>
          (if previous \<noteq> [] \<and> previous \<noteq> tgt_name t
           then raise_config (''active storage targets '' @ previous @ '' and '' @ tgt_name t
             @ '' use the same mountpoint; reference one target from metadata/index instead'')
           else check_mountpoints env (seen(resolve_path env (mountpoint t) \<mapsto> tgt_name t)) ts)
      | None \<Rightarrow> check_mountpoints env (seen(resolve_path env (mountpoint t) \<mapsto> tgt_name t)) ts)"

fun check_roles :: "(ppath \<rightharpoonup> string) \<Rightarrow> (string \<times> ppath) list \<Rightarrow> parse_error + unit" where
  "check_roles seen [] = Inr ()"
| "check_roles seen ((role, p) # rs) =
     (case seen p of
        Some previous \<Rightarrow>
          (if previous \<noteq> []
           then raise_config (''SeaweedFS role directories '' @ previous @ '' and '' @ role @ '' resolve to the same path'')
           else check_roles (seen(p \<mapsto> role)) rs)
      | None \<Rightarrow> check_roles (seen(p \<mapsto> role)) rs)"

definition role_paths :: "load_env \<Rightarrow> config \<Rightarrow> py_error + (string \<times> ppath) list" where
  "role_paths env c =
     bindE (volume_path c) (\<lambda>v.
     bindE (index_path c) (\<lambda>i.
     if backend (metadata c) = ''embedded''
     then bindE (metadata_path c) (\<lambda>m.
       Inr [(''volume'', resolve_path env v), (''index'', resolve_path env i), (''metadata'', resolve_path env m)])
     else Inr [(''volume'', resolve_path env v), (''index'', resolve_path env i)]))"

definition load_tables :: "load_env \<Rightarrow> table \<Rightarrow> parse_error + config" where
  "load_tables env raw =
     bindE (cfg_table raw ''appliance'') (\<lambda>araw.
     bindE (parse_appliance env araw) (\<lambda>a.
     bindE (cfg_table raw ''storage'') (\<lambda>traw.
     bindE (parse_storage env a traw) (\<lambda>ts.
     bindE (cfg_table raw ''metadata'') (\<lambda>mraw.
     bindE (parse_metadata ts mraw) (\<lambda>m.
     bindE (cfg_table raw ''index'') (\<lambda>iraw.
     bindE (parse_index ts iraw) (\<lambda>i.
     bindE (cfg_table raw ''seaweed'') (\<lambda>wraw.
     bindE (parse_seaweed wraw) (\<lambda>w.
     bindE (cfg_table raw ''s3'') (\<lambda>sraw.
     bindE (parse_s3 (s3_canary_enabled a) sraw) (\<lambda>s.
     check_ports \<lparr>appliance = a, targets = ts, metadata = m, index = i, seaweed = w, s3 = s\<rparr>))))))))))))"

definition or_config_error :: "parse_error + 'a \<Rightarrow> load_error + 'a" where
  "or_config_error r = (case r of Inl e \<Rightarrow> Inl (LoadError e) | Inr x \<Rightarrow> Inr x)"

definition or_key_error :: "py_error + 'a \<Rightarrow> load_error + 'a" where
  "or_key_error r = (case r of Inl e \<Rightarrow> Inl LoadKeyError | Inr x \<Rightarrow> Inr x)"

definition check_paths :: "load_env \<Rightarrow> config \<Rightarrow> load_error + config" where
  "check_paths env c =
     bindE (or_key_error (active_targets c)) (\<lambda>ts.
     bindE (or_config_error (check_mountpoints env Map.empty ts)) (\<lambda>_.
     bindE (or_key_error (role_paths env c)) (\<lambda>rs.
     bindE (or_config_error (check_roles Map.empty rs)) (\<lambda>_. Inr c))))"

definition load_config :: "load_env \<Rightarrow> ppath \<Rightarrow> toml_read \<Rightarrow> load_error + config" where
  "load_config env config_path got =
     (case got of
        TomlMissing \<Rightarrow> Inl (LoadError (ConfigError (''configuration file not found: '' @ string_of_path config_path)))
      | TomlInvalid e \<Rightarrow>
          Inl (LoadError (ConfigError (''invalid TOML in '' @ string_of_path config_path @ '': '' @ e)))
      | TomlUnreadable \<Rightarrow> Inl LoadUnreadable
      | TomlDoc raw \<Rightarrow> bindE (or_config_error (load_tables env raw)) (check_paths env))"

section \<open>Well-formed configurations\<close>

definition appliance_wf :: "appliance_config \<Rightarrow> bool" where
  "appliance_wf a \<longleftrightarrow>
     list_all (\<lambda>v. 0 < v)
       [health_port a, app_probe_interval_seconds a, full_probe_interval_seconds a, app_probe_timeout_seconds a,
        startup_timeout_seconds a, shutdown_grace_seconds a, recovery_initial_seconds a, recovery_max_seconds a,
        recovery_probe_interval_seconds a, recovery_successes_required a, recovery_stability_seconds a]
     \<and> recovery_initial_seconds a \<le> recovery_max_seconds a
     \<and> path_is_absolute (runtime_dir a) \<and> path_is_absolute (state_dir a)
     \<and> state_dir a \<noteq> runtime_dir a \<and> \<not> path_is_relative_to (state_dir a) (runtime_dir a)
     \<and> worker_fencing_mode a \<in> {''disabled'', ''namespace''}"

definition target_wf :: "load_env \<Rightarrow> appliance_config \<Rightarrow> string \<times> target_config \<Rightarrow> bool" where
  "target_wf env a nt \<longleftrightarrow> tgt_name (snd nt) = fst nt \<and> tgt_type (snd nt) \<in> {''cifs'', ''block'', ''path''}
     \<and> sentinel_id (snd nt) \<noteq> [] \<and> may_initialize env (state_dir a) (snd nt)
     \<and> (tgt_type (snd nt) = ''cifs'' \<longrightarrow> policy_wf (snd nt))"

definition targets_wf :: "load_env \<Rightarrow> appliance_config \<Rightarrow> (string \<times> target_config) list \<Rightarrow> bool" where
  "targets_wf env a ts \<longleftrightarrow> list_all (target_wf env a) ts \<and> subseq (map fst ts) [''data'', ''metadata'', ''index'']
     \<and> (\<exists>t. map_of ts ''data'' = Some t \<and> (worker_fencing_mode a = ''namespace'' \<longrightarrow> tgt_type t = ''cifs''))"

definition metadata_wf :: "(string \<times> target_config) list \<Rightarrow> metadata_config \<Rightarrow> bool" where
  "metadata_wf ts m \<longleftrightarrow>
     (backend m = ''embedded'' \<and> map_of ts (md_target m) \<noteq> None)
     \<or> (backend m = ''postgres'' \<and> [] \<notin> {postgres_host m, postgres_user m, postgres_password_file m, postgres_database m})
     \<or> (backend m = ''custom'' \<and> custom_filer_toml m \<noteq> [])"

definition seaweed_wf :: "seaweed_config \<Rightarrow> bool" where
  "seaweed_wf w \<longleftrightarrow>
     list_all (\<lambda>v. 0 < v)
       [master_port w, volume_port w, filer_port w, s3_internal_port w, volume_size_limit_mb w, filer_max_mb w,
        all_readonly_wait_seconds w, index_repair_concurrency w, index_repair_max_volumes w,
        index_repair_timeout_seconds w, auto_tail_recovery_max_bytes w, concurrent_upload_limit_mb w,
        inflight_upload_timeout_seconds w]
     \<and> 0 \<le> volume_max w \<and> list_all (\<lambda>v. 0 < v) (expected_readonly_volume_ids w)
     \<and> distinct (expected_readonly_volume_ids w) \<and> index_repair_concurrency w \<le> 8
     \<and> (auto_index_repair_enabled w \<longrightarrow> volume_health_enabled w)"

definition admission_wf :: "s3_admission_config \<Rightarrow> bool" where
  "admission_wf a \<longleftrightarrow> list_all (\<lambda>v. 0 < v)
     [max_active_read_requests a, max_active_write_requests a, max_queued_read_requests a, max_queued_write_requests a,
      queue_timeout_seconds a, adm_slow_probe_seconds a, healthy_window_seconds a]"

definition s3_wf :: "bool \<Rightarrow> s3_config \<Rightarrow> bool" where
  "s3_wf canary s \<longleftrightarrow> 1024 \<le> s3_port s \<and> admission_wf (admission s)
     \<and> (auth_mode s = ''none''
        \<or> (auth_mode s = ''static'' \<and> access_key_file s \<noteq> [] \<and> secret_key_file s \<noteq> [])
        \<or> (auth_mode s = ''config'' \<and> auth_config_file s \<noteq> []
           \<and> (canary \<longrightarrow> canary_access_key_file s \<noteq> [] \<and> canary_secret_key_file s \<noteq> [])))
     \<and> (tls_mode s = ''off'' \<or> (tls_mode s = ''terminate'' \<and> tls_pem_file s \<noteq> []))"

definition config_wf :: "load_env \<Rightarrow> config \<Rightarrow> bool" where
  "config_wf env c \<longleftrightarrow>
     appliance_wf (appliance c) \<and> targets_wf env (appliance c) (targets c) \<and> metadata_wf (targets c) (metadata c)
     \<and> map_of (targets c) (ix_target (index c)) \<noteq> None \<and> seaweed_wf (seaweed c)
     \<and> s3_wf (s3_canary_enabled (appliance c)) (s3 c)
     \<and> list_all (\<lambda>p. 1 \<le> p \<and> p \<le> 65535) (config_ports c) \<and> distinct (config_ports c)"

section \<open>Each section is checked\<close>

lemma bindE_InrE: "bindE r f = Inr y \<Longrightarrow> (\<And>x. r = Inr x \<Longrightarrow> f x = Inr y \<Longrightarrow> P) \<Longrightarrow> P"
  by (cases r) simp_all

lemma raise_config_not_Inr [simp]: "raise_config m \<noteq> Inr x"
  by (simp add: raise_config_def)

lemma cfg_positive_Inr: "cfg_positive v n z = Inr u \<longleftrightarrow> u = v \<and> (0 < v \<or> (z \<and> v = 0))"
  by (auto simp: cfg_positive_def)

lemma all_positive_Inr: "all_positive sec fs = Inr u \<longleftrightarrow> list_all (\<lambda>f. 0 < snd f) fs"
  by (induction fs) (auto simp: res_simps cfg_positive_Inr)

lemmas field_checks = res_simps all_positive_Inr cfg_positive_Inr

lemma check_appliance_Inr:
  "check_appliance a = Inr a' \<Longrightarrow> a' = a \<and> recovery_initial_seconds a \<le> recovery_max_seconds a
     \<and> list_all (\<lambda>v. 0 < v)
       [health_port a, app_probe_interval_seconds a, full_probe_interval_seconds a, app_probe_timeout_seconds a,
        startup_timeout_seconds a, shutdown_grace_seconds a, recovery_initial_seconds a, recovery_max_seconds a,
        recovery_probe_interval_seconds a, recovery_successes_required a, recovery_stability_seconds a]"
  by (simp add: check_appliance_def field_checks split: if_splits)

lemma parse_dirs_Inr:
  "parse_dirs raw = Inr d \<Longrightarrow> path_is_absolute (fst d) \<and> path_is_absolute (snd d) \<and> snd d \<noteq> fst d
     \<and> \<not> path_is_relative_to (snd d) (fst d)"
  by (auto simp: parse_dirs_def Let_def res_simps split: if_splits)

lemma parse_fencing_mode_Inr: "parse_fencing_mode raw = Inr m \<Longrightarrow> m \<in> {''disabled'', ''namespace''}"
  by (auto simp: parse_fencing_mode_def Let_def res_simps split: if_splits)

lemma parse_appliance_wf: "parse_appliance env raw = Inr a \<Longrightarrow> appliance_wf a"
  unfolding parse_appliance_def Let_def split_def
  by (elim bindE_InrE, drule check_appliance_Inr)
    (auto simp: appliance_wf_def dest!: parse_fencing_mode_Inr parse_dirs_Inr)

lemma parse_target_names_Inr:
  assumes "parse_target_names storage rdir ns = Inr ts" "(n, t) \<in> set ts"
  shows "\<exists>d. parse_target n d rdir = Inr t"
  using assms
proof (induction ns arbitrary: ts)
  case (Cons a ns)
  then show ?case by (cases "json_get storage a") (auto simp: res_simps split: json.splits)
qed simp

lemma parse_target_names_subseq: "parse_target_names storage rdir ns = Inr ts \<Longrightarrow> subseq (map fst ts) ns"
proof (induction ns arbitrary: ts)
  case (Cons a ns)
  then show ?case by (cases "json_get storage a") (auto simp: res_simps split: json.splits)
qed simp

lemma parse_target_names_first:
  "parse_target_names storage rdir (n # ns) = Inr ts \<Longrightarrow> json_get storage n = Some (JObj d) \<Longrightarrow> \<exists>t. map_of ts n = Some t"
  by (auto simp: res_simps)

lemma check_initialize_Inr: "check_initialize env sdir ts = Inr u \<longleftrightarrow> list_all (\<lambda>nt. may_initialize env sdir (snd nt)) ts"
  by (induction ts) simp_all

lemma parse_target_target_wf:
  assumes "parse_target n d rdir = Inr t" "may_initialize env (state_dir a) t"
  shows "target_wf env a (n, t)"
proof -
  have "tgt_name t = n \<and> tgt_type t \<in> {''cifs'', ''block'', ''path''} \<and> check_target d rdir t = Inr t"
    using assms(1) by (rule parse_target_steps) (metis (no_types))
  moreover have "tgt_type t = ''cifs'' \<longrightarrow> policy_wf t" using parse_target_policy_wf[OF assms(1)] by (rule impI)
  ultimately show ?thesis using assms(2) check_target_Inr[of d rdir t t] unfolding target_wf_def fst_conv snd_conv by blast
qed

lemma parse_storage_wf:
  assumes "parse_storage env a storage = Inr ts"
  shows "targets_wf env a ts"
proof -
  from assms obtain d where d: "json_get storage ''data'' = Some (JObj d)"
    and p: "parse_target_names storage (runtime_dir a) [''data'', ''metadata'', ''index''] = Inr ts"
    and f: "worker_fencing_mode a = ''namespace'' \<longrightarrow> (\<forall>t. map_of ts ''data'' = Some t \<longrightarrow> tgt_type t = ''cifs'')"
    and i: "check_initialize env (state_dir a) ts = Inr ()"
    by (auto simp: parse_storage_def res_simps simp del: parse_target_names.simps
        split: option.splits json.splits if_splits)
  have "target_wf env a (n, t)" if nt: "(n, t) \<in> set ts" for n t
  proof -
    obtain d' where "parse_target n d' (runtime_dir a) = Inr t" using parse_target_names_Inr[OF p nt] by blast
    moreover have "may_initialize env (state_dir a) t" using i nt by (auto simp: check_initialize_Inr list_all_iff)
    ultimately show ?thesis by (rule parse_target_target_wf)
  qed
  then have "list_all (target_wf env a) ts" by (auto simp: list_all_iff)
  moreover obtain t where "map_of ts ''data'' = Some t" using parse_target_names_first[OF p d] by blast
  ultimately show ?thesis
    using f parse_target_names_subseq[OF p] by (simp add: targets_wf_def)
qed

lemma check_metadata_wf:
  "check_metadata ts m = Inr m' \<Longrightarrow> backend m \<in> {''embedded'', ''postgres'', ''custom''} \<Longrightarrow> metadata_wf ts m'"
  by (auto simp: check_metadata_def metadata_wf_def missing_postgres_def split: if_splits)

lemma backend_cases:
  "(if b \<noteq> ''embedded'' \<and> b \<noteq> ''postgres'' \<and> b \<noteq> ''custom'' then raise_config msg else r) = Inr x
     \<Longrightarrow> b \<in> {''embedded'', ''postgres'', ''custom''} \<and> r = Inr x"
  by (simp split: if_splits)

lemma parse_metadata_wf: "parse_metadata ts raw = Inr m \<Longrightarrow> metadata_wf ts m"
  unfolding parse_metadata_def Let_def
  by (erule bindE_InrE, drule backend_cases, erule conjE, elim bindE_InrE,
      erule check_metadata_wf, simp)

lemma parse_index_wf: "parse_index ts raw = Inr i \<Longrightarrow> map_of ts (ix_target i) \<noteq> None"
  by (auto simp: parse_index_def res_simps split: if_splits)

lemma check_seaweed_Inr: "check_seaweed w = Inr w' \<Longrightarrow> w' = w \<and> seaweed_wf w"
  by (auto simp: check_seaweed_def field_checks seaweed_wf_def list_all_iff list_ex_iff split: if_splits)

lemma parse_seaweed_wf: "parse_seaweed raw = Inr w \<Longrightarrow> seaweed_wf w"
  unfolding parse_seaweed_def Let_def by (elim bindE_InrE, drule check_seaweed_Inr) simp

lemma parse_admission_wf: "parse_admission raw = Inr a \<Longrightarrow> admission_wf a"
  unfolding parse_admission_def Let_def
  by (elim bindE_InrE) (auto simp: check_admission_def admission_wf_def field_checks)

lemma parse_modes_Inr:
  "parse_modes raw = Inr m \<Longrightarrow> fst m \<in> {''static'', ''config'', ''none''} \<and> snd m \<in> {''off'', ''terminate''}"
  by (auto simp: parse_modes_def Let_def res_simps split: if_splits)

lemma check_s3_wf:
  "check_s3 canary s = Inr s' \<Longrightarrow> auth_mode s \<in> {''static'', ''config'', ''none''} \<Longrightarrow> tls_mode s \<in> {''off'', ''terminate''}
     \<Longrightarrow> admission_wf (admission s) \<Longrightarrow> s3_wf canary s'"
  by (auto simp: check_s3_def s3_wf_def field_checks split: if_splits)

lemma parse_s3_wf: "parse_s3 canary raw = Inr s \<Longrightarrow> s3_wf canary s"
  unfolding parse_s3_def Let_def split_def
  by (elim bindE_InrE, drule parse_modes_Inr, drule parse_admission_wf, drule check_s3_wf) simp_all

lemma check_ports_Inr:
  "check_ports c = Inr c' \<longleftrightarrow> c' = c \<and> list_all (\<lambda>p. p \<le> 65535) (config_ports c) \<and> distinct (config_ports c)"
  by (auto simp: check_ports_def list_all_iff list_ex_iff not_le)

lemma load_tables_wf:
  assumes "load_tables env raw = Inr c"
  shows "config_wf env c"
proof -
  from assms obtain araw traw mraw iraw wraw sraw where
    a: "parse_appliance env araw = Inr (appliance c)" and ts: "parse_storage env (appliance c) traw = Inr (targets c)"
    and m: "parse_metadata (targets c) mraw = Inr (metadata c)" and i: "parse_index (targets c) iraw = Inr (index c)"
    and w: "parse_seaweed wraw = Inr (seaweed c)" and s: "parse_s3 (s3_canary_enabled (appliance c)) sraw = Inr (s3 c)"
    and p: "list_all (\<lambda>p. p \<le> 65535) (config_ports c)" "distinct (config_ports c)"
    unfolding load_tables_def by (elim bindE_InrE) (auto simp: check_ports_Inr)
  show ?thesis
    using parse_appliance_wf[OF a] parse_storage_wf[OF ts] parse_metadata_wf[OF m] parse_index_wf[OF i]
      parse_seaweed_wf[OF w] parse_s3_wf[OF s] p
    by (simp add: config_wf_def) (simp add: config_ports_def appliance_wf_def seaweed_wf_def s3_wf_def)
qed

section \<open>Paths\<close>

lemma check_roles_distinct:
  assumes "check_roles seen rs = Inr u" "[] \<notin> fst ` set rs" "[] \<notin> ran seen"
  shows "distinct (map snd rs) \<and> (\<forall>r\<in>set rs. seen (snd r) = None)"
  using assms
proof (induction rs arbitrary: seen)
  case (Cons r rs)
  obtain role p where r: "r = (role, p)" by fastforce
  have new: "seen p = None" "check_roles (seen(p \<mapsto> role)) rs = Inr u"
    using Cons.prems by (auto simp: r ran_def split: option.splits if_splits)
  have "[] \<notin> ran (seen(p \<mapsto> role))" using Cons.prems by (auto simp: r ran_def)
  then have "distinct (map snd rs) \<and> (\<forall>r\<in>set rs. (seen(p \<mapsto> role)) (snd r) = None)"
    using Cons.prems(2) by (intro Cons.IH[OF new(2)]) (simp_all del: fun_upd_apply)
  then show ?case using new(1) by (auto simp: r split: if_splits)
qed simp

lemma check_mountpoints_distinct:
  assumes "check_mountpoints env seen ts = Inr u" "distinct (map tgt_name ts)" "[] \<notin> tgt_name ` set ts"
    "[] \<notin> ran seen" "ran seen \<inter> tgt_name ` set ts = {}"
  shows "distinct (map (\<lambda>t. resolve_path env (mountpoint t)) ts)
    \<and> (\<forall>t\<in>set ts. seen (resolve_path env (mountpoint t)) = None)"
  using assms
proof (induction ts arbitrary: seen)
  case (Cons t ts)
  let ?p = "resolve_path env (mountpoint t)"
  have new: "seen ?p = None" "check_mountpoints env (seen(?p \<mapsto> tgt_name t)) ts = Inr u"
    using Cons.prems by (auto simp: ran_def split: option.splits if_splits)
  have "[] \<notin> ran (seen(?p \<mapsto> tgt_name t)) \<and> ran (seen(?p \<mapsto> tgt_name t)) \<inter> tgt_name ` set ts = {}"
    using Cons.prems by (auto simp: ran_def)
  then have "distinct (map (\<lambda>t. resolve_path env (mountpoint t)) ts)
    \<and> (\<forall>t'\<in>set ts. (seen(?p \<mapsto> tgt_name t)) (resolve_path env (mountpoint t')) = None)"
    using Cons.prems(2,3) by (intro Cons.IH[OF new(2)]) (simp_all del: fun_upd_apply)
  then show ?case using new(1) by (auto split: if_splits)
qed simp

lemma target_named_Inr: "target_named c n = Inr t \<longleftrightarrow> map_of (targets c) n = Some t"
  by (auto simp: target_named_def split: option.splits)

text \<open>Every target a well-formed configuration refers to is there.\<close>

lemma active_targets_ok:
  assumes "config_wf env c"
  shows "active_targets c = Inr (map (\<lambda>n. the (map_of (targets c) n)) (active_target_names c))"
    and "\<forall>n\<in>set (active_target_names c). map_of (targets c) n \<noteq> None"
proof -
  show "\<forall>n\<in>set (active_target_names c). map_of (targets c) n \<noteq> None"
    using assms by (auto simp: active_target_names_def config_wf_def targets_wf_def metadata_wf_def)
  then show "active_targets c = Inr (map (\<lambda>n. the (map_of (targets c) n)) (active_target_names c))"
    unfolding active_targets_def by (rule collect_targets_ok)
qed

lemma subseq_subset: "subseq xs ys \<Longrightarrow> set xs \<subseteq> set ys"
  using set_nths_subset[of ys] by (auto simp: subseq_conv_nths)

lemma targets_wf_named:
  assumes "targets_wf env a ts" "map_of ts n = Some t"
  shows "tgt_name t = n" and "n \<noteq> []"
proof -
  have "(n, t) \<in> set ts" using assms(2) by (rule map_of_SomeD)
  moreover from this have "n \<in> set (map fst ts)" by force
  then have "n \<in> {''data'', ''metadata'', ''index''}"
    using assms(1) subseq_subset[of "map fst ts"] unfolding targets_wf_def by fastforce
  ultimately show "tgt_name t = n" "n \<noteq> []" using assms(1) by (auto simp: targets_wf_def target_wf_def list_all_iff)
qed

lemma active_names:
  assumes "config_wf env c" "active_targets c = Inr ts"
  shows "map tgt_name ts = active_target_names c \<and> [] \<notin> set (active_target_names c)"
proof -
  have w: "targets_wf env (appliance c) (targets c)" using assms(1) by (simp add: config_wf_def)
  have "tgt_name (the (map_of (targets c) n)) = n \<and> n \<noteq> []" if "n \<in> set (active_target_names c)" for n
    using active_targets_ok(2)[OF assms(1)] that targets_wf_named[OF w, of n] by fastforce
  then show ?thesis using assms(2) active_targets_ok(1)[OF assms(1)] by (auto intro!: map_idI)
qed

lemma role_paths_ok:
  assumes "config_wf env c"
  shows "\<exists>rs. role_paths env c = Inr rs \<and> set (map fst rs) \<subseteq> {''volume'', ''index'', ''metadata''}"
proof -
  obtain d i where "target_named c ''data'' = Inr d" "target_named c (ix_target (index c)) = Inr i"
    using assms unfolding target_named_Inr by (auto simp: config_wf_def targets_wf_def)
  moreover have "\<exists>m. target_named c (md_target (metadata c)) = Inr m" if "backend (metadata c) = ''embedded''"
    using assms that unfolding target_named_Inr by (auto simp: config_wf_def metadata_wf_def)
  ultimately show ?thesis
    by (auto simp: role_paths_def volume_path_def index_path_def metadata_path_def data_target_def)
qed

lemma or_error_simps [simp]:
  "or_config_error r = Inr x \<longleftrightarrow> r = Inr x" "or_config_error r \<noteq> Inl LoadKeyError" "or_config_error r \<noteq> Inl LoadUnreadable"
  "or_key_error q = Inr x \<longleftrightarrow> q = Inr x"
  by (auto simp: or_config_error_def or_key_error_def split: sum.splits)

lemma load_config_Inr:
  "load_config env p got = Inr c \<longleftrightarrow> (\<exists>raw. got = TomlDoc raw \<and> load_tables env raw = Inr c \<and> check_paths env c = Inr c)"
  by (auto simp: load_config_def res_simps check_paths_def split: toml_read.splits)

section \<open>Properties\<close>

text \<open>
  C29. A configuration that loads is well-formed: every interval, timeout and limit is positive and the initial delay is
  at most the maximal one, all six ports are different and in range, each target carries its own name, a dataset id and,
  for CIFS, supported policies, new datasets are only set up below the state directory, every target a section refers to
  exists, fencing by namespace goes with CIFS data, and each authentication and TLS mode has its files. Moreover no two
  active targets share a mountpoint and no two SeaweedFS roles a directory, once resolved.
\<close>

theorem load_config_sound:
  assumes "load_config env p got = Inr c"
  shows "config_wf env c
    \<and> (\<exists>ts. active_targets c = Inr ts \<and> distinct (map (\<lambda>t. resolve_path env (mountpoint t)) ts))
    \<and> (\<exists>rs. role_paths env c = Inr rs \<and> distinct (map snd rs))"
proof -
  from assms obtain raw where w: "config_wf env c" and p: "check_paths env c = Inr c"
    unfolding load_config_Inr using load_tables_wf by blast
  from p obtain ts rs where ts: "active_targets c = Inr ts" "check_mountpoints env Map.empty ts = Inr ()"
    and rs: "role_paths env c = Inr rs" "check_roles Map.empty rs = Inr ()"
    by (auto simp: check_paths_def res_simps)
  have names: "distinct (map tgt_name ts)" "[] \<notin> tgt_name ` set ts"
    using active_names[OF w ts(1)] by (simp_all add: active_target_names_def flip: list.set_map)
  then have "distinct (map (\<lambda>t. resolve_path env (mountpoint t)) ts)"
    using check_mountpoints_distinct[OF ts(2)] names by simp
  moreover have "[] \<notin> fst ` set rs" using role_paths_ok[OF w] rs(1) by auto
  then have "distinct (map snd rs)" using check_roles_distinct[OF rs(2)] by simp
  ultimately show ?thesis using w ts(1) rs(1) by simp
qed

text \<open>A node with one CIFS target for the data and local targets for metadata and indexes.\<close>

definition example_document :: table where
  "example_document =
     [(''appliance'', JObj [(''worker_fencing_mode'', JStr ''Namespace''), (''recovery_initial_seconds'', JInt 1)]),
      (''storage'', JObj
        [(''data'', JObj example_table),
         (''metadata'', JObj [(''sentinel_id'', JStr ''meta-1''), (''mountpoint'', JStr ''/srv/meta'')]),
         (''index'', JObj [(''sentinel_id'', JStr ''idx-1''), (''mountpoint'', JStr ''/srv/index'')])])]"

definition example_load_env :: load_env where
  "example_load_env =
     \<lparr>ip_interface_of = (\<lambda>s. Inr (4, fst (py_partition (CHR ''/'') s), ''169.254.254.0/30'')),
      ip_address_of = (\<lambda>s. Inr (4, s)), resolve_path = (\<lambda>p. p)\<rparr>"

definition example_loaded :: "load_error + config" where
  "example_loaded = load_config example_load_env (path_of_string ''/etc/node.toml'') (TomlDoc example_document)"

lemma example_loads: "case example_loaded of Inr c \<Rightarrow> map fst (targets c) = [''data'', ''metadata'', ''index'']
    \<and> config_ports c = [9090, 9333, 8080, 8888, 18333, 8333] | Inl _ \<Rightarrow> False"
  by code_simp

theorem load_config_sound_witness:
  "\<exists>c. example_loaded = Inr c \<and> config_wf example_load_env c"
proof -
  obtain c where "example_loaded = Inr c" using example_loads by (auto split: sum.splits)
  with load_config_sound show ?thesis unfolding example_loaded_def by blast
qed

text \<open>
  Loading fails with a configuration error or, for a file that cannot be read, with the error of the read: the lookups
  of targets by name that come after the checks never raise \<open>KeyError\<close>.
\<close>

theorem load_config_errors:
  "(case load_config env p got of Inl LoadKeyError \<Rightarrow> False | Inl LoadUnreadable \<Rightarrow> got = TomlUnreadable | _ \<Rightarrow> got \<noteq> TomlUnreadable)"
proof (cases got)
  case (TomlDoc raw)
  have "check_paths env c \<noteq> Inl LoadKeyError \<and> check_paths env c \<noteq> Inl LoadUnreadable" if "load_tables env raw = Inr c" for c
    using active_targets_ok(1)[OF load_tables_wf[OF that]] role_paths_ok[OF load_tables_wf[OF that]]
    by (auto simp: check_paths_def res_simps or_key_error_def)
  then show ?thesis
    by (auto simp: TomlDoc load_config_def res_simps split: sum.splits load_error.splits)
qed (simp_all add: load_config_def)

end
