(* ===== verification/Dns_Proxy.thy ===== *)
theory Dns_Proxy
  imports Prelude "HOL-Library.Word"
begin

text \<open>
  \<open>dns_proxy.py\<close>: the relay between the resolver of a worker's network namespace and the resolvers of the host. Messages
  are lists of bytes. A connection is the list of what its \<open>recv\<close> calls meet: data in the pieces in which they arrive,
  a fault (\<open>OSError\<close>, a timeout included), and the peer's close at the end. Reading addresses and the upstream
  resolvers are parameters.
\<close>

section \<open>Sockets\<close>

type_synonym packet = "8 word list"

datatype arrival = Data packet | Fault

datatype dns_error = DnsProxyError string | DnsValueError string | DnsOSError | StructError

datatype family = AF_INET | AF_INET6

record endpoint =
  ep_family :: family
  ep_address :: string
  ep_port :: int

text \<open>\<open>tcp_exchange\<close> is what the connection to an endpoint answers once the request is sent, \<open>udp_exchange\<close> the datagram that
  comes back; \<open>None\<close> is an \<open>OSError\<close> on the way.\<close>

record dns_net =
  ip_version_of :: "string \<Rightarrow> string + int"
  tcp_exchange :: "endpoint \<Rightarrow> packet \<Rightarrow> arrival list option"
  udp_exchange :: "endpoint \<Rightarrow> packet \<Rightarrow> packet option"

definition parse_address :: "dns_net \<Rightarrow> string \<Rightarrow> dns_error + int" where
  "parse_address net a = (case ip_version_of net a of Inl e \<Rightarrow> Inl (DnsValueError e) | Inr v \<Rightarrow> Inr v)"

definition socket_address :: "dns_net \<Rightarrow> string \<Rightarrow> int \<Rightarrow> dns_error + endpoint" where
  "socket_address net a p =
     bindE (parse_address net a) (\<lambda>v.
     Inr \<lparr>ep_family = (if v = 4 then AF_INET else AF_INET6), ep_address = a, ep_port = p\<rparr>)"

text \<open>\<open>sock.recv(n)\<close>: at most \<open>n\<close> bytes of the next piece, the rest of it stays; nothing once the peer has closed.\<close>

fun sock_recv :: "nat \<Rightarrow> arrival list \<Rightarrow> dns_error + packet \<times> arrival list" where
  "sock_recv n [] = Inr ([], [])"
| "sock_recv n (Fault # as) = Inl DnsOSError"
| "sock_recv n (Data c # as) = Inr (take n c, if length c \<le> n then as else Data (drop n c) # as)"

function recv_exact :: "nat \<Rightarrow> arrival list \<Rightarrow> dns_error + packet \<times> arrival list" where
  "recv_exact remaining s =
     (if remaining = 0 then Inr ([], s)
      else case sock_recv remaining s of
        Inl e \<Rightarrow> Inl e
      | Inr (chunk, s') \<Rightarrow>
          (if chunk = [] then Inl (DnsProxyError ''DNS TCP peer closed before the complete message arrived'')
           else case recv_exact (remaining - length chunk) s' of
             Inl e \<Rightarrow> Inl e
           | Inr (rest, s'') \<Rightarrow> Inr (chunk @ rest, s'')))"
  by pat_completeness auto
termination by (relation "measure fst") auto

declare recv_exact.simps [simp del]

text \<open>\<open>struct.pack("!H", n)\<close> and \<open>struct.unpack("!H", b)\<close>.\<close>

definition pack_H :: "nat \<Rightarrow> dns_error + packet" where
  "pack_H n = (if n \<le> 65535 then Inr [of_nat (n div 256), of_nat (n mod 256)] else Inl StructError)"

fun unpack_H :: "packet \<Rightarrow> dns_error + nat" where
  "unpack_H [hi, lo] = Inr (unat hi * 256 + unat lo)"
| "unpack_H _ = Inl StructError"

section \<open>The relay\<close>

record proxy_config =
  listen_address :: string
  upstreams :: "string list"
  proxy_port :: int

primrec check_addresses :: "dns_net \<Rightarrow> string list \<Rightarrow> dns_error + unit" where
  "check_addresses net [] = Inr ()"
| "check_addresses net (u # us) = bindE (parse_address net u) (\<lambda>_. check_addresses net us)"

definition make_proxy :: "dns_net \<Rightarrow> string \<Rightarrow> string list \<Rightarrow> int \<Rightarrow> dns_error + proxy_config" where
  "make_proxy net listen ups p =
     (if ups = [] then Inl (DnsProxyError ''at least one upstream DNS resolver is required'')
      else bindE (parse_address net listen) (\<lambda>_.
        bindE (check_addresses net ups) (\<lambda>_.
        if \<not> (1 \<le> p \<and> p \<le> 65535) then Inl (DnsProxyError ''DNS port must be between 1 and 65535'')
        else Inr \<lparr>listen_address = listen, upstreams = ups, proxy_port = p\<rparr>)))"

text \<open>The length prefix and as many bytes as it says.\<close>

definition recv_message :: "arrival list \<Rightarrow> dns_error + packet \<times> arrival list" where
  "recv_message s =
     bindE (recv_exact 2 s) (\<lambda>(h, s'). bindE (unpack_H h) (\<lambda>n. recv_exact n s'))"

primrec ask_tcp :: "dns_net \<Rightarrow> packet \<Rightarrow> string list \<Rightarrow> dns_error + packet option" where
  "ask_tcp net framed [] = Inr None"
| "ask_tcp net framed (u # us) =
     bindE (socket_address net u 53) (\<lambda>ep.
     case tcp_exchange net ep framed of
       None \<Rightarrow> ask_tcp net framed us
     | Some s \<Rightarrow> (case recv_message s of Inl _ \<Rightarrow> ask_tcp net framed us | Inr (response, _) \<Rightarrow> Inr (Some response)))"

definition forward_tcp :: "dns_net \<Rightarrow> string list \<Rightarrow> packet \<Rightarrow> dns_error + packet option" where
  "forward_tcp net ups query = bindE (pack_H (length query)) (\<lambda>h. ask_tcp net (h @ query) ups)"

text \<open>The bytes handed to \<open>connection.sendall\<close>, if any; an exception ends the thread.\<close>

definition handle_tcp :: "dns_net \<Rightarrow> proxy_config \<Rightarrow> arrival list \<Rightarrow> dns_error + packet option" where
  "handle_tcp net px conn =
     (case recv_message conn of
        Inl _ \<Rightarrow> Inr None
      | Inr (query, _) \<Rightarrow>
          bindE (forward_tcp net (upstreams px) query) (\<lambda>answer.
          case answer of
            None \<Rightarrow> Inr None
          | Some response \<Rightarrow> bindE (pack_H (length response)) (\<lambda>h. Inr (Some (h @ response)))))"

primrec forward_udp :: "dns_net \<Rightarrow> string list \<Rightarrow> packet \<Rightarrow> dns_error + packet option" where
  "forward_udp net [] query = Inr None"
| "forward_udp net (u # us) query =
     bindE (socket_address net u 53) (\<lambda>ep.
     case udp_exchange net ep query of None \<Rightarrow> forward_udp net us query | Some response \<Rightarrow> Inr (Some response))"

text \<open>What is sent to the client; nothing if the proxy's own socket is closed by then.\<close>

definition handle_udp :: "dns_net \<Rightarrow> proxy_config \<Rightarrow> bool \<Rightarrow> packet \<Rightarrow> 'c \<Rightarrow> dns_error + (packet \<times> 'c) option" where
  "handle_udp net px open_socket query client =
     bindE (forward_udp net (upstreams px) query) (\<lambda>answer.
     case answer of
       None \<Rightarrow> Inr None
     | Some response \<Rightarrow> Inr (if open_socket then Some (response, client) else None))"

text \<open>The accept loops: whether the stop event is set, then what the socket gives. The result is what is handed to threads.\<close>

datatype 'a turn_event = Got 'a | SockTimeout | SockError

fun relay_loop :: "(bool \<times> 'a turn_event) list \<Rightarrow> 'a list" where
  "relay_loop [] = []"
| "relay_loop ((True, _) # evs) = []"
| "relay_loop ((False, Got x) # evs) = x # relay_loop evs"
| "relay_loop ((False, SockTimeout) # evs) = relay_loop evs"
| "relay_loop ((False, SockError) # evs) = []"

section \<open>The process\<close>

record proxy_state =
  px_sockets :: bool
  px_ready :: "string option"

definition proxy_close :: "proxy_state \<Rightarrow> proxy_state" where
  "proxy_close s = s\<lparr>px_sockets := False, px_ready := None\<rparr>"

record serve_env =
  bind_fails :: bool
  publish_fails :: bool
  proxy_pid :: string

definition publish_ready :: "serve_env \<Rightarrow> proxy_state \<Rightarrow> (dns_error + unit) \<times> proxy_state" where
  "publish_ready env s =
     (if publish_fails env then (Inl DnsOSError, s) else (Inr (), s\<lparr>px_ready := Some (proxy_pid env @ [CHR 0x0A])\<rparr>))"

text \<open>\<open>serve\<close> up to the stop event, with the ready file the worker generation asks for.\<close>

definition serve_proxy :: "serve_env \<Rightarrow> proxy_state \<Rightarrow> (dns_error + unit) \<times> proxy_state" where
  "serve_proxy env s =
     (if bind_fails env then (Inl DnsOSError, s)
      else case publish_ready env (s\<lparr>px_sockets := True\<rparr>) of
        (Inl e, s') \<Rightarrow> (Inl e, s')
      | (Inr _, s') \<Rightarrow> (Inr (), proxy_close s'))"

definition proxy_main :: "dns_net \<Rightarrow> serve_env \<Rightarrow> string \<Rightarrow> string list \<Rightarrow> int \<Rightarrow> proxy_state \<Rightarrow> int \<times> proxy_state" where
  "proxy_main net env listen ups p s =
     (case make_proxy net listen ups p of
        Inl _ \<Rightarrow> (2, s)
      | Inr _ \<Rightarrow> (case serve_proxy env s of (Inl _, s') \<Rightarrow> (1, proxy_close s') | (Inr _, s') \<Rightarrow> (0, s')))"

section \<open>Framing\<close>

definition frame :: "packet \<Rightarrow> packet" where
  "frame m = [of_nat (length m div 256), of_nat (length m mod 256)] @ m"

text \<open>A connection without faults whose pieces are not empty.\<close>

definition delivers :: "arrival list \<Rightarrow> packet \<Rightarrow> bool" where
  "delivers s m \<longleftrightarrow> (\<exists>cs. s = map Data cs \<and> [] \<notin> set cs \<and> concat cs = m)"

lemma delivers_Nil [simp]: "delivers s [] \<longleftrightarrow> s = []"
  by (auto simp: delivers_def) (metis list.set_intros(1) neq_Nil_conv)

lemma delivers_cases:
  assumes "delivers s m" "m \<noteq> []"
  obtains c as where "s = Data c # as" "c \<noteq> []" "m = c @ drop (length c) m" "delivers as (drop (length c) m)"
proof -
  from assms obtain cs where cs: "s = map Data cs" "[] \<notin> set cs" "concat cs = m" by (auto simp: delivers_def)
  with assms(2) obtain c cs' where "cs = c # cs'" by (cases cs) auto
  with cs show thesis by (intro that[of c "map Data cs'"]) (auto simp: delivers_def)
qed

lemma delivers_Cons: "delivers as m \<Longrightarrow> c \<noteq> [] \<Longrightarrow> delivers (Data c # as) (c @ m)"
  unfolding delivers_def by (metis concat.simps(2) list.simps(9) set_ConsD)

lemma recv_exact_delivers:
  assumes "delivers s m" "n \<le> length m"
  shows "\<exists>s'. recv_exact n s = Inr (take n m, s') \<and> delivers s' (drop n m)"
  using assms
proof (induction n s arbitrary: m rule: recv_exact.induct)
  case (1 n s)
  show ?case
  proof (cases "n = 0")
    case True
    with 1(2) show ?thesis by (simp add: recv_exact.simps)
  next
    case False
    with 1(3) have "m \<noteq> []" by auto
    from 1(2) this obtain c as where c: "s = Data c # as" "c \<noteq> []" "m = c @ drop (length c) m" "delivers as (drop (length c) m)"
      by (rule delivers_cases)
    let ?s = "if length c \<le> n then as else Data (drop n c) # as"
    have rest: "delivers ?s (drop (length (take n c)) m)"
    proof (cases "length c \<le> n")
      case False
      then have "drop n m = drop n c @ drop (length c) m" by (subst c(3)) simp
      with c(4) False show ?thesis by (simp add: delivers_Cons min_absorb2)
    qed (use c(4) in simp)
    have got: "sock_recv n s = Inr (take n c, ?s)" "take n c \<noteq> []" using c(1,2) False by simp_all
    obtain s' where s': "recv_exact (n - length (take n c)) ?s = Inr (take (n - length (take n c)) (drop (length (take n c)) m), s')"
      "delivers s' (drop (n - length (take n c)) (drop (length (take n c)) m))"
      using 1(1)[OF False got(1) refl got(2) rest] 1(3) diff_le_mono[of n "length m"] by auto
    have "take n c @ take (n - length (take n c)) (drop (length (take n c)) m) = take n m"
      using arg_cong[OF c(3), of "take n"] by (simp add: min_def)
    with s' got False show ?thesis by (subst recv_exact.simps) (auto simp: min_def)
  qed
qed

lemma recv_exact_length: "recv_exact n s = Inr (m, s') \<Longrightarrow> length m = n"
proof (induction n s arbitrary: m rule: recv_exact.induct)
  case (1 n s)
  show ?case
  proof (cases "n = 0")
    case False
    with 1(2) obtain c s1 r where c: "sock_recv n s = Inr (c, s1)" "c \<noteq> []" "recv_exact (n - length c) s1 = Inr (r, s')" "m = c @ r"
      by (subst (asm) recv_exact.simps) (auto split: sum.splits if_splits)
    then have "length c \<le> n" by (cases "(n, s)" rule: sock_recv.cases) auto
    with 1(1)[OF False c(1) refl c(2,3)] c(4) show ?thesis by simp
  qed (use 1(2) in \<open>simp add: recv_exact.simps\<close>)
qed

lemma unat_byte: "n < 256 \<Longrightarrow> unat (of_nat n :: 8 word) = n"
  by (simp add: unat_of_nat)

lemma unpack_frame: "length m \<le> 65535 \<Longrightarrow> unpack_H (take 2 (frame m)) = Inr (length m)"
  by (simp add: frame_def unat_byte)

lemma pack_frame: "length m \<le> 65535 \<Longrightarrow> bindE (pack_H (length m)) (\<lambda>h. f (h @ m)) = f (frame m)"
  by (simp add: pack_H_def frame_def)

lemma recv_message_frame:
  assumes "delivers s (frame m @ extra)" "length m \<le> 65535"
  shows "\<exists>s'. recv_message s = Inr (m, s') \<and> delivers s' extra"
proof -
  obtain s1 where 1: "recv_exact 2 s = Inr (take 2 (frame m), s1)" "delivers s1 (m @ extra)"
    using recv_exact_delivers[OF assms(1), of 2] by (auto simp: frame_def)
  obtain s2 where 2: "recv_exact (length m) s1 = Inr (m, s2)" "delivers s2 extra"
    using recv_exact_delivers[OF 1(2), of "length m"] by auto
  show ?thesis using 1(1) 2 unpack_frame[OF assms(2)] by (simp add: recv_message_def)
qed

lemma recv_message_length: "recv_message s = Inr (m, s') \<Longrightarrow> length m \<le> 65535"
proof -
  assume "recv_message s = Inr (m, s')"
  then obtain h s1 n where "unpack_H h = Inr n" "recv_exact n s1 = Inr (m, s')"
    by (auto simp: recv_message_def res_simps)
  moreover have "n \<le> 65535" if u: "unpack_H h = Inr n"
    using u
  proof (cases h rule: unpack_H.cases)
    case (1 hi lo)
    moreover have "unat hi < 256" "unat lo < 256"
      using unsigned_less[of hi, where 'a = nat] unsigned_less[of lo, where 'a = nat] by simp_all
    ultimately show ?thesis using u by simp
  qed auto
  ultimately show ?thesis using recv_exact_length by metis
qed

section \<open>Properties\<close>

lemma check_addresses_ok: "check_addresses net us = Inr x \<Longrightarrow> u \<in> set us \<Longrightarrow> \<exists>ep. socket_address net u p = Inr ep"
  by (induction us) (auto simp: res_simps socket_address_def)

lemma make_proxy_ok:
  assumes "make_proxy net listen ups p = Inr px"
  shows "upstreams px = ups" and "u \<in> set ups \<Longrightarrow> \<exists>ep. socket_address net u 53 = Inr ep"
  using assms by (auto simp: make_proxy_def res_simps split: if_splits dest: check_addresses_ok)

lemma ask_tcp_first:
  assumes "\<And>b. b \<in> set bad \<Longrightarrow> \<exists>ep. socket_address net b 53 = Inr ep \<and> tcp_exchange net ep fr = None"
  shows "ask_tcp net fr (bad @ us) = ask_tcp net fr us"
  using assms
proof (induction bad)
  case (Cons b bad)
  then obtain ep where "socket_address net b 53 = Inr ep" "tcp_exchange net ep fr = None" by auto
  with Cons show ?case by simp
qed simp

lemma ask_tcp_total:
  assumes "\<And>u. u \<in> set us \<Longrightarrow> \<exists>ep. socket_address net u 53 = Inr ep"
  shows "\<exists>r. ask_tcp net fr us = Inr r \<and> (\<forall>m. r = Some m \<longrightarrow> length m \<le> 65535)"
  using assms
proof (induction us)
  case (Cons u us)
  then obtain ep where "socket_address net u 53 = Inr ep" by auto
  moreover have "\<exists>r. ask_tcp net fr us = Inr r \<and> (\<forall>m. r = Some m \<longrightarrow> length m \<le> 65535)" using Cons by auto
  ultimately show ?case by (auto split: option.split sum.split dest: recv_message_length)
qed simp

text \<open>
  C31. The relay is transparent for TCP: if the client's query arrives complete, in whatever pieces, and upstream resolvers
  before some resolver cannot be reached and that one answers with a complete message, in whatever pieces, the client
  gets that message in one frame, and the resolver got the query unchanged.
\<close>

theorem handle_tcp_relays:
  assumes "make_proxy net listen (bad @ u # us) p = Inr px"
    and "delivers conn (frame q @ junk)" "length q \<le> 65535"
    and "\<And>b ep. b \<in> set bad \<Longrightarrow> socket_address net b 53 = Inr ep \<Longrightarrow> tcp_exchange net ep (frame q) = None"
    and "socket_address net u 53 = Inr ep" "tcp_exchange net ep (frame q) = Some s"
    and "delivers s (frame m @ junk')" "length m \<le> 65535"
  shows "handle_tcp net px conn = Inr (Some (frame m))"
proof -
  obtain c where c: "recv_message conn = Inr (q, c)" using recv_message_frame[OF assms(2,3)] by auto
  obtain s' where s': "recv_message s = Inr (m, s')" using recv_message_frame[OF assms(7,8)] by auto
  have "ask_tcp net (frame q) (bad @ u # us) = ask_tcp net (frame q) (u # us)"
  proof (rule ask_tcp_first)
    fix b assume b: "b \<in> set bad"
    then obtain e where "socket_address net b 53 = Inr e" using make_proxy_ok(2)[OF assms(1)] by auto
    with assms(4)[OF b] show "\<exists>ep. socket_address net b 53 = Inr ep \<and> tcp_exchange net ep (frame q) = None" by blast
  qed
  then have "forward_tcp net (bad @ u # us) q = Inr (Some m)"
    using assms(5,6) s' by (simp add: forward_tcp_def pack_frame[OF assms(3), of "\<lambda>fr. ask_tcp net fr (bad @ u # us)"])
  then show ?thesis
    using c make_proxy_ok(1)[OF assms(1)] pack_frame[OF assms(8), of "\<lambda>fr. Inr (Some fr)"] by (simp add: handle_tcp_def)
qed

definition example_net :: dns_net where
  "example_net =
     \<lparr>ip_version_of = (\<lambda>a. if a = ''x'' then Inl ''bad address'' else Inr 4),
      tcp_exchange = (\<lambda>ep q. if ep_address ep = ''10.0.0.1'' then None else Some [Data [0], Data [2, 7], Data [8, 9]]),
      udp_exchange = (\<lambda>ep q. None)\<rparr>"

theorem handle_tcp_relays_witness:
  "\<exists>px. make_proxy example_net ''169.254.254.1'' [''10.0.0.1'', ''10.0.0.2''] 53 = Inr px
     \<and> handle_tcp example_net px [Data [0, 3, 1], Data [2], Data [3]] = Inr (Some [0, 2, 7, 8])"
proof -
  obtain px where px: "make_proxy example_net ''169.254.254.1'' ([''10.0.0.1''] @ ''10.0.0.2'' # []) 53 = Inr px"
    by (simp add: make_proxy_def example_net_def parse_address_def)
  let ?ep = "\<lparr>ep_family = AF_INET, ep_address = ''10.0.0.2'', ep_port = 53\<rparr>"
  have ep: "socket_address example_net ''10.0.0.2'' 53 = Inr ?ep" "tcp_exchange example_net ?ep (frame [1, 2, 3]) = Some [Data [0], Data [2, 7], Data [8, 9]]"
    by (simp_all add: socket_address_def parse_address_def example_net_def)
  have bad: "tcp_exchange example_net e (frame [1, 2, 3]) = None" if "b \<in> set [''10.0.0.1'']" "socket_address example_net b 53 = Inr e" for b e
    using that by (auto simp: socket_address_def parse_address_def example_net_def)
  have q: "delivers [Data [0, 3, 1], Data [2], Data [3]] (frame [1, 2, 3] @ [])"
    by (auto simp: delivers_def frame_def intro!: exI[of _ "[[0, 3, 1], [2], [3]]"])
  have m: "delivers [Data [0], Data [2, 7], Data [8, 9]] (frame [7, 8] @ [9])"
    by (auto simp: delivers_def frame_def intro!: exI[of _ "[[0], [2, 7], [8, 9]]"])
  have "handle_tcp example_net px [Data [0, 3, 1], Data [2], Data [3]] = Inr (Some (frame [7, 8]))"
    by (rule handle_tcp_relays[OF px q _ _ ep m]) (simp_all, erule bad[rotated], simp)
  with px show ?thesis by (simp add: frame_def)
qed

text \<open>
  No exception ends the thread of a TCP query of a proxy that was set up: whatever the client and the resolvers send,
  the handler either sends nothing or one frame of at most 65535 bytes, and every message fits its length prefix.
\<close>

theorem handle_tcp_safe:
  assumes "make_proxy net listen ups p = Inr px"
  shows "\<exists>r. handle_tcp net px conn = Inr r \<and> (\<forall>out. r = Some out \<longrightarrow> (\<exists>m. length m \<le> 65535 \<and> out = frame m))"
proof (cases "recv_message conn")
  case (Inr qc)
  obtain q c where q: "qc = (q, c)" by fastforce
  have len: "length q \<le> 65535" using Inr q recv_message_length by blast
  obtain r where r: "forward_tcp net ups q = Inr r" "\<And>m. r = Some m \<Longrightarrow> length m \<le> 65535"
    using ask_tcp_total[of ups net "frame q"] make_proxy_ok(2)[OF assms]
    by (auto simp: forward_tcp_def pack_frame[OF len, of "\<lambda>fr. ask_tcp net fr ups"])
  show ?thesis
  proof (cases r)
    case (Some m)
    with Inr q r make_proxy_ok(1)[OF assms] show ?thesis
      using pack_frame[of m "\<lambda>fr. Inr (Some fr)"] by (auto simp: handle_tcp_def)
  qed (use Inr q r make_proxy_ok(1)[OF assms] in \<open>simp add: handle_tcp_def\<close>)
qed (simp add: handle_tcp_def)

theorem handle_tcp_safe_witness:
  "\<exists>px r. make_proxy example_net ''169.254.254.1'' [''10.0.0.2''] 53 = Inr px \<and> handle_tcp example_net px [Data [0], Fault] = Inr r"
proof -
  obtain px where px: "make_proxy example_net ''169.254.254.1'' [''10.0.0.2''] 53 = Inr px"
    by (simp add: make_proxy_def example_net_def parse_address_def)
  with handle_tcp_safe[OF px, of "[Data [0], Fault]"] show ?thesis by blast
qed

text \<open>Once the process ends after having been set up, its sockets are closed and its ready file is gone.\<close>

lemma proxy_main_cleans:
  "proxy_main net env listen ups p \<lparr>px_sockets = False, px_ready = None\<rparr> = (code, s) \<Longrightarrow> \<not> px_sockets s \<and> px_ready s = None"
  by (auto simp: proxy_main_def serve_proxy_def publish_ready_def proxy_close_def split: sum.splits if_splits)

text \<open>The loops hand out what arrives before the stop event or a socket error, timeouts left out.\<close>

lemma relay_loop_quiet:
  "\<forall>e\<in>set evs. fst e = False \<and> snd e \<noteq> SockError \<Longrightarrow> relay_loop evs = [x. (_, Got x) \<leftarrow> evs]"
  by (induction evs rule: relay_loop.induct) auto

end
