(* ===== verification/S3_Canary.thy ===== *)
theory S3_Canary
  imports Processes "HOL-Library.AList" "HOL-Library.Sublist" "HOL-Library.Word"
begin

text \<open>
  \<open>s3check.py\<close>: the signed S3 round trip that tests a started gateway. Requests are HTTP requests with their headers;
  the gateway's answers, the hash functions, the encoding of text and the date are parameters. Header dictionaries
  keep their order.
\<close>

section \<open>Surroundings\<close>

type_synonym octets = "8 word list"

record http_request =
  rq_method :: string
  rq_path :: string
  rq_body :: octets
  rq_headers :: "(string \<times> string) list"

datatype s3_error =
    S3CheckError string
  | S3Transport string
  | S3ValueError
  | CanaryUnfinished

text \<open>\<open>utc_stamp\<close> gives the two formats of the current date, \<open>bracket_ok\<close> says whether \<open>urlsplit\<close> accepts a bracketed host.\<close>

record s3_env = os_env +
  utc_stamp :: "os_event list \<Rightarrow> string \<times> string"
  utf8 :: "string \<Rightarrow> octets"
  sha256_hex :: "octets \<Rightarrow> string"
  hmac_sha256 :: "octets \<Rightarrow> octets \<Rightarrow> octets"
  hex_of :: "octets \<Rightarrow> string"
  repr_bytes :: "octets \<Rightarrow> string"
  http :: "os_event list \<Rightarrow> http_request \<Rightarrow> string + int \<times> octets"
  bracket_ok :: "string \<Rightarrow> bool"

type_synonym 'a s3op = "(os_state, s3_error, 'a) eff"

section \<open>Signature\<close>

abbreviation newline :: string where
  "newline \<equiv> [CHR 0x0A]"

definition upper_hex :: "nat \<Rightarrow> char" where
  "upper_hex n = (if n < 10 then char_of (48 + n) else char_of (55 + n))"

definition quote_char :: "char \<Rightarrow> string" where
  "quote_char c = (let n = (of_char c :: nat) in
     if (48 \<le> n \<and> n \<le> 57) \<or> (65 \<le> n \<and> n \<le> 90) \<or> (97 \<le> n \<and> n \<le> 122) \<or> c \<in> set ''_.-~/'' then [c]
     else [CHR ''%'', upper_hex (n div 16), upper_hex (n mod 16)])"

definition quote :: "string \<Rightarrow> string" where
  "quote s = concat (map quote_char s)"

definition sign :: "s3_env \<Rightarrow> octets \<Rightarrow> string \<Rightarrow> octets" where
  "sign env key message = hmac_sha256 env key (utf8 env message)"

definition signed_headers :: string where
  "signed_headers = ''host;x-amz-content-sha256;x-amz-date''"

definition canonical_request :: "s3_env \<Rightarrow> string \<Rightarrow> string \<Rightarrow> string \<Rightarrow> string \<Rightarrow> octets \<Rightarrow> string" where
  "canonical_request env amz_date meth path host payload =
     (let payload_hash = sha256_hex env payload;
          canonical_headers = ''host:'' @ host @ newline @ ''x-amz-content-sha256:'' @ payload_hash @ newline
            @ ''x-amz-date:'' @ amz_date @ newline
      in py_join newline [meth, quote path, [], canonical_headers, signed_headers, payload_hash])"

definition signing_key :: "s3_env \<Rightarrow> string \<Rightarrow> string \<Rightarrow> octets" where
  "signing_key env secret_key date_stamp =
     sign env (sign env (sign env (sign env (utf8 env (''AWS4'' @ secret_key)) date_stamp) ''us-east-1'') ''s3'') ''aws4_request''"

definition authorization ::
  "s3_env \<Rightarrow> string \<times> string \<Rightarrow> string \<Rightarrow> string \<Rightarrow> string \<Rightarrow> octets \<Rightarrow> string \<Rightarrow> string \<Rightarrow> (string \<times> string) list" where
  "authorization env stamp meth path host payload access_key secret_key =
     (let amz_date = fst stamp; date_stamp = snd stamp;
          scope = date_stamp @ ''/us-east-1/s3/aws4_request'';
          string_to_sign = py_join newline [''AWS4-HMAC-SHA256'', amz_date, scope,
            sha256_hex env (utf8 env (canonical_request env amz_date meth path host payload))];
          signature = hex_of env (sign env (signing_key env secret_key date_stamp) string_to_sign)
      in [(''Host'', host), (''x-amz-date'', amz_date), (''x-amz-content-sha256'', sha256_hex env payload),
          (''Authorization'', ''AWS4-HMAC-SHA256 Credential='' @ access_key @ ''/'' @ scope @ '', SignedHeaders=''
             @ signed_headers @ '', Signature='' @ signature),
          (''Content-Length'', show_int (int (length payload)))])"

section \<open>One round trip\<close>

definition dict_update :: "(string \<times> string) list \<Rightarrow> (string \<times> string) list \<Rightarrow> (string \<times> string) list" where
  "dict_update d new = fold (\<lambda>(k, v). AList.update k v) new d"

text \<open>An empty or absent key leaves the request unsigned.\<close>

definition s3_request ::
  "s3_env \<Rightarrow> string \<Rightarrow> string \<Rightarrow> octets \<Rightarrow> string \<Rightarrow> string \<Rightarrow> string \<Rightarrow> (int \<times> octets) s3op" where
  "s3_request env meth path body access_key secret_key signature_host =
     (let base = [(''Host'', signature_host), (''Content-Length'', show_int (int (length body)))];
          send = (\<lambda>hs. let rq = \<lparr>rq_method = meth, rq_path = path, rq_body = body, rq_headers = hs\<rparr> in
            bindS (askS (EAsk (meth @ '' '' @ path)) (\<lambda>tr. http env tr rq)) (\<lambda>r.
            case r of Inl e \<Rightarrow> raiseS (S3Transport e) | Inr a \<Rightarrow> returnS a))
      in if access_key \<noteq> [] \<and> secret_key \<noteq> []
         then bindS (askS (EAsk ''utcnow'') (utc_stamp env)) (\<lambda>stamp.
           send (dict_update base (authorization env stamp meth path signature_host body access_key secret_key)))
         else send base)"

definition canary_data :: "s3_env \<Rightarrow> octets" where
  "canary_data env = utf8 env ''s3-storage-node-canary-v1''"

definition canary_failed :: "s3_env \<Rightarrow> string \<Rightarrow> int \<times> octets \<Rightarrow> unit s3op" where
  "canary_failed env what r =
     raiseS (S3CheckError (what @ '' canary failed with HTTP '' @ show_int (fst r) @ '': '' @ repr_bytes env (take 200 (snd r))))"

definition run_canary_once :: "s3_env \<Rightarrow> string \<Rightarrow> string \<Rightarrow> string \<Rightarrow> unit s3op" where
  "run_canary_once env access_key secret_key host =
     (let bucket = ''/s3-storage-node-health''; key = ''/s3-storage-node-health/canary'';
          req = (\<lambda>meth path body. s3_request env meth path body access_key secret_key host)
      in bindS (req ''PUT'' bucket []) (\<lambda>r1.
         if fst r1 \<notin> {200, 204, 409} then canary_failed env ''bucket'' r1
         else bindS (req ''PUT'' key (canary_data env)) (\<lambda>r2.
         if fst r2 \<notin> {200, 201, 204} then canary_failed env ''PUT'' r2
         else bindS (req ''GET'' key []) (\<lambda>r3.
         if fst r3 \<noteq> 200 \<or> snd r3 \<noteq> canary_data env
         then raiseS (S3CheckError (''GET canary failed with HTTP '' @ show_int (fst r3) @ '' or content mismatch''))
         else bindS (req ''DELETE'' key []) (\<lambda>r4.
         if fst r4 \<notin> {200, 204} then canary_failed env ''DELETE'' r4
         else returnS ())))))"

section \<open>The retries\<close>

text \<open>\<open>urlsplit(url).netloc\<close>: controls and blanks in front are dropped, tabs and line ends removed, a scheme is a letter with
  letters, digits and \<open>+-.\<close> up to the first colon, and the network location lies between \<open>//\<close> and the next \<open>/\<close>, \<open>?\<close> or \<open>#\<close>.\<close>

definition scheme_char :: "char \<Rightarrow> bool" where
  "scheme_char c \<longleftrightarrow> (let n = (of_char c :: nat) in
     (48 \<le> n \<and> n \<le> 57) \<or> (65 \<le> n \<and> n \<le> 90) \<or> (97 \<le> n \<and> n \<le> 122) \<or> c \<in> set ''+-.'')"

definition letter :: "char \<Rightarrow> bool" where
  "letter c \<longleftrightarrow> (let n = (of_char c :: nat) in (65 \<le> n \<and> n \<le> 90) \<or> (97 \<le> n \<and> n \<le> 122))"

definition drop_scheme :: "string \<Rightarrow> string" where
  "drop_scheme url = (case py_partition (CHR '':'') url of (scheme, sep, rest) \<Rightarrow>
     if sep \<and> scheme \<noteq> [] \<and> letter (hd scheme) \<and> list_all scheme_char scheme then rest else url)"

definition url_netloc :: "s3_env \<Rightarrow> string \<Rightarrow> s3_error + string" where
  "url_netloc env url0 =
     (let url = drop_scheme (filter (\<lambda>c. c \<notin> {CHR 0x09, CHR 0x0A, CHR 0x0D}) (dropWhile (\<lambda>c. (of_char c :: nat) \<le> 32) url0));
          netloc = (if take 2 url = ''//'' then takeWhile (\<lambda>c. c \<notin> set ''/?#'') (drop 2 url) else [])
      in if (CHR ''['' \<in> set netloc) \<noteq> (CHR '']'' \<in> set netloc) \<or> (CHR ''['' \<in> set netloc \<and> \<not> bracket_ok env netloc)
         then Inl S3ValueError else Inr netloc)"

definition signature_host :: "s3_env \<Rightarrow> string \<Rightarrow> int \<Rightarrow> string \<Rightarrow> s3_error + string" where
  "signature_host env host port external_url =
     (if external_url = [] then Inr (host @ '':'' @ show_int port)
      else bindE (url_netloc env external_url) (\<lambda>n.
        if n = [] then Inl (S3CheckError (''invalid external_url for S3 canary: '' @ external_url)) else Inr n))"

text \<open>\<open>fuel\<close> bounds the rounds; every round that leads to another one sleeps for the interval or up to the deadline.\<close>

primrec canary_rounds :: "nat \<Rightarrow> s3_env \<Rightarrow> rat \<Rightarrow> rat \<Rightarrow> string \<Rightarrow> string \<Rightarrow> string \<Rightarrow> unit s3op" where
  "canary_rounds 0 env interval deadline access_key secret_key host = raiseS CanaryUnfinished"
| "canary_rounds (Suc fuel) env interval deadline access_key secret_key host =
     catchS (run_canary_once env access_key secret_key host) (\<lambda>e.
     case e of
       S3CheckError m \<Rightarrow>
         bindS (askS EClock (clock env)) (\<lambda>t.
         if deadline \<le> t then raiseS e
         else bindS (askS EClock (clock env)) (\<lambda>t2.
           bindS (askS (ESleep (min interval (max 0 (deadline - t2)))) (\<lambda>_. ())) (\<lambda>_.
           canary_rounds fuel env interval deadline access_key secret_key host)))
     | _ \<Rightarrow> raiseS e)"

definition run_canary_s3 ::
  "nat \<Rightarrow> s3_env \<Rightarrow> int \<Rightarrow> string \<Rightarrow> string \<Rightarrow> string \<Rightarrow> string \<Rightarrow> rat \<Rightarrow> rat \<Rightarrow> unit s3op" where
  "run_canary_s3 fuel env port access_key secret_key host external_url retry_seconds interval =
     bindS (liftS (signature_host env host port external_url)) (\<lambda>sig_host.
     bindS (askS EClock (clock env)) (\<lambda>t.
     canary_rounds fuel env interval (t + max 0 retry_seconds) access_key secret_key sig_host))"

section \<open>What a passed round trip shows\<close>

definition asked_for :: "string \<Rightarrow> string \<Rightarrow> octets \<Rightarrow> http_request \<Rightarrow> bool" where
  "asked_for meth path body r \<longleftrightarrow> rq_method r = meth \<and> rq_path r = path \<and> rq_body r = body"

text \<open>The four requests, one after the other within the trace, each with an answer the canary takes for a success.\<close>

definition canary_passed :: "s3_env \<Rightarrow> os_event list \<Rightarrow> bool" where
  "canary_passed env tr \<longleftrightarrow> (\<exists>t1 t2 t3 t4 r1 r2 r3 r4 a1 a2 a4.
     strict_prefix t1 t2 \<and> strict_prefix t2 t3 \<and> strict_prefix t3 t4 \<and> strict_prefix t4 tr
     \<and> asked_for ''PUT'' ''/s3-storage-node-health'' [] r1 \<and> http env t1 r1 = Inr a1 \<and> fst a1 \<in> {200, 204, 409}
     \<and> asked_for ''PUT'' ''/s3-storage-node-health/canary'' (canary_data env) r2 \<and> http env t2 r2 = Inr a2 \<and> fst a2 \<in> {200, 201, 204}
     \<and> asked_for ''GET'' ''/s3-storage-node-health/canary'' [] r3 \<and> http env t3 r3 = Inr (200, canary_data env)
     \<and> asked_for ''DELETE'' ''/s3-storage-node-health/canary'' [] r4 \<and> http env t4 r4 = Inr a4 \<and> fst a4 \<in> {200, 204})"

lemma wp_s3_request:
  assumes "\<And>t r a s'. prefix (trace s) t \<Longrightarrow> strict_prefix t (trace s') \<Longrightarrow> asked_for meth path body r \<Longrightarrow> http env t r = Inr a \<Longrightarrow> Q a s'"
    and "\<And>m s'. prefix (trace s) (trace s') \<Longrightarrow> E (S3Transport m) s'"
  shows "wp (s3_request env meth path body ak sk host) Q E s"
proof -
  have send: "wp (bindS (askS ev (\<lambda>tr. http env tr r)) (\<lambda>x. case x of Inl e \<Rightarrow> raiseS (S3Transport e) | Inr a \<Rightarrow> returnS a)) Q E s1"
    if "prefix (trace s) (trace s1)" "asked_for meth path body r" for ev r s1
  proof (cases "http env (trace s1) r")
    case (Inl e)
    then show ?thesis using assms(2) that(1) by (simp add: wp_bind wp_ask wp_raise prefix_order.order_trans[OF that(1)])
  next
    case (Inr a)
    have "Q a (s1\<lparr>trace := trace s1 @ [ev]\<rparr>)" by (rule assms(1)[OF that(1) _ that(2) Inr]) (simp add: strict_prefix_def)
    with Inr show ?thesis by (simp add: wp_bind wp_ask wp_return)
  qed
  show ?thesis
    unfolding s3_request_def Let_def
    by (cases "ak \<noteq> [] \<and> sk \<noteq> []")
      (simp_all only: if_True if_False simp_thms wp_bind[of "askS (EAsk ''utcnow'') _"] wp_ask, (rule send; simp add: asked_for_def)+)
qed

definition onward :: "os_state \<Rightarrow> s3_error \<Rightarrow> os_state \<Rightarrow> bool" where
  "onward s e s' \<longleftrightarrow> e \<noteq> CanaryUnfinished \<and> prefix (trace s) (trace s')"

lemma wp_canary_step:
  assumes "prefix (trace s0) (trace s)"
    and "\<And>t r a s'. prefix (trace s) t \<Longrightarrow> strict_prefix t (trace s') \<Longrightarrow> prefix (trace s0) (trace s') \<Longrightarrow>
      asked_for meth path body r \<Longrightarrow> http env t r = Inr a \<Longrightarrow> \<not> wrong a \<Longrightarrow> wp (go_on a) Q (onward s0) s'"
    and "\<And>a s'. prefix (trace s0) (trace s') \<Longrightarrow> wp (fail a) Q (onward s0) s'"
  shows "wp (bindS (s3_request env meth path body ak sk host) (\<lambda>a. if wrong a then fail a else go_on a)) Q (onward s0) s"
  unfolding wp_bind
proof (rule wp_s3_request)
  fix t r a and s' :: os_state
  assume r: "prefix (trace s) t" "strict_prefix t (trace s')" "asked_for meth path body r" "http env t r = Inr a"
  have "prefix (trace s0) (trace s')" using assms(1) r(1,2) by (meson prefix_order.order_trans prefix_order.less_imp_le)
  then show "wp (if wrong a then fail a else go_on a) Q (onward s0) s'" using assms(2,3) r by simp
next
  fix m and s' :: os_state assume "prefix (trace s) (trace s')"
  then show "onward s0 (S3Transport m) s'" using assms(1) prefix_order.order_trans by (auto simp: onward_def)
qed

lemma wp_canary_failed: "prefix (trace s0) (trace s) \<Longrightarrow> wp (canary_failed env what r) Q (onward s0) s"
  by (simp add: canary_failed_def wp_raise onward_def)

lemma canary_passedI:
  assumes "strict_prefix t1 u1" "prefix u1 t2" "strict_prefix t2 u2" "prefix u2 t3" "strict_prefix t3 u3" "prefix u3 t4" "strict_prefix t4 tr"
    and "asked_for ''PUT'' ''/s3-storage-node-health'' [] r1" "http env t1 r1 = Inr a1" "\<not> fst a1 \<notin> {200, 204, 409}"
    and "asked_for ''PUT'' ''/s3-storage-node-health/canary'' (canary_data env) r2" "http env t2 r2 = Inr a2" "\<not> fst a2 \<notin> {200, 201, 204}"
    and "asked_for ''GET'' ''/s3-storage-node-health/canary'' [] r3" "http env t3 r3 = Inr a3" "\<not> (fst a3 \<noteq> 200 \<or> snd a3 \<noteq> canary_data env)"
    and "asked_for ''DELETE'' ''/s3-storage-node-health/canary'' [] r4" "http env t4 r4 = Inr a4" "\<not> fst a4 \<notin> {200, 204}"
  shows "canary_passed env tr"
proof -
  have "strict_prefix t1 t2" "strict_prefix t2 t3" "strict_prefix t3 t4"
    using assms(1-6) by (blast intro: prefix_order.less_le_trans)+
  moreover have "http env t3 r3 = Inr (200, canary_data env)" using assms(15,16) by (cases a3) simp
  ultimately show ?thesis unfolding canary_passed_def using assms(7-14) assms(17-19) not_not by blast
qed

lemma run_canary_once_passes:
  "wp (run_canary_once env ak sk host) (\<lambda>_ s'. canary_passed env (trace s') \<and> prefix (trace s) (trace s')) (onward s) s"
  unfolding run_canary_once_def Let_def
  apply (rule wp_canary_step, rule prefix_order.order_refl)
   apply (rule wp_canary_step, assumption)
    apply (rule wp_canary_step, assumption)
     apply (rule wp_canary_step, assumption)
      apply (unfold wp_return, rule conjI, rule canary_passedI, assumption+)
     apply (rule wp_canary_failed, assumption)
    apply (simp add: wp_raise onward_def)
   apply (rule wp_canary_failed, assumption)
  apply (rule wp_canary_failed, assumption)
  done

section \<open>Properties\<close>

lemma clock_prefix: "sleeps env \<Longrightarrow> prefix tr tr' \<Longrightarrow> clock env tr \<le> clock env tr'"
  unfolding prefix_def using sleeps_append by blast

lemma nearer:
  fixes x :: rat
  assumes "0 \<le> x" "deadline - c0 \<le> x + interval" "c0 \<le> c" "c \<le> c2" "c2 + min interval (max 0 (deadline - c)) \<le> c3"
  shows "deadline - c3 \<le> x"
  using assms by (auto simp: min_def max_def split: if_splits)

text \<open>A round that leads to another one brings the deadline nearer by the interval, or reaches it.\<close>

lemma canary_rounds_pass:
  assumes "sleeps env" "0 < interval" "deadline - clock env (trace s) \<le> of_nat k * interval"
  shows "wp (canary_rounds (Suc k) env interval deadline ak sk host) (\<lambda>_ s'. canary_passed env (trace s')) (\<lambda>e _. e \<noteq> CanaryUnfinished) s"
  using assms(3)
proof (induction k arbitrary: s)
  case 0
  have late: "deadline \<le> clock env (trace s')" if "onward s e s'" for e s'
    using clock_prefix[OF assms(1), of "trace s" "trace s'"] that 0 by (simp add: onward_def)
  have "wp (case e of S3CheckError m \<Rightarrow> bindS (askS EClock (clock env)) (\<lambda>t. if deadline \<le> t then raiseS e else rest t)
      | _ \<Rightarrow> raiseS e) (\<lambda>_ s'. canary_passed env (trace s')) (\<lambda>e _. e \<noteq> CanaryUnfinished) s'" if "onward s e s'" for e s' rest
    using late[OF that] that by (cases e) (simp_all add: wp_bind wp_ask wp_raise onward_def)
  then show ?case
    unfolding canary_rounds.simps(2)[of 0] wp_catch by (intro wp_mono[OF run_canary_once_passes]) simp_all
next
  case (Suc k)
  let ?go = "canary_rounds (Suc k) env interval deadline ak sk host"
  let ?pass = "\<lambda>m. wp m (\<lambda>_ s'. canary_passed env (trace s')) (\<lambda>e _. e \<noteq> CanaryUnfinished)"
  have again: "?pass (bindS (askS (ESleep (min interval (max 0 (deadline - c)))) (\<lambda>_. ())) (\<lambda>_. ?go)) s2"
    if "clock env (trace s) \<le> c" "c \<le> clock env (trace s2)" for c s2
  proof -
    let ?d = "min interval (max 0 (deadline - c))"
    have slept: "clock env (trace s2) + ?d \<le> clock env (trace s2 @ [ESleep ?d])" using assms(1) unfolding sleeps_def by blast
    have pos: "0 \<le> of_nat k * interval" using assms(2) by simp
    have "deadline - clock env (trace s) \<le> of_nat k * interval + interval" using Suc.prems by (simp add: algebra_simps)
    from nearer[OF pos this that slept] have "deadline - clock env (trace s2 @ [ESleep ?d]) \<le> of_nat k * interval" .
    then show ?thesis unfolding wp_bind wp_ask by (intro Suc.IH) simp
  qed
  have "?pass (case e of S3CheckError m \<Rightarrow>
         bindS (askS EClock (clock env)) (\<lambda>t.
         if deadline \<le> t then raiseS e
         else bindS (askS EClock (clock env)) (\<lambda>t2.
           bindS (askS (ESleep (min interval (max 0 (deadline - t2)))) (\<lambda>_. ())) (\<lambda>_. ?go)))
     | _ \<Rightarrow> raiseS e) s'" if on: "onward s e s'" for e s'
  proof (cases e)
    case (S3CheckError m)
    let ?s1 = "s'\<lparr>trace := trace s' @ [EClock]\<rparr>"
    have "clock env (trace s) \<le> clock env (trace ?s1)" "clock env (trace ?s1) \<le> clock env (trace ?s1 @ [EClock])"
      using on by (auto simp: onward_def intro!: clock_prefix[OF assms(1)])
    then have "?pass (bindS (askS (ESleep (min interval (max 0 (deadline - clock env (trace ?s1))))) (\<lambda>_. ())) (\<lambda>_. ?go))
        (?s1\<lparr>trace := trace ?s1 @ [EClock]\<rparr>)" by (intro again) simp_all
    then show ?thesis by (simp add: S3CheckError wp_bind wp_ask wp_raise)
  qed (use on in \<open>simp_all add: onward_def wp_raise\<close>)
  then show ?case
    unfolding canary_rounds.simps(2)[of "Suc k"] wp_catch by (intro wp_mono[OF run_canary_once_passes]) simp_all
qed

lemma signature_host_error: "signature_host env host port url = Inl e \<Longrightarrow> e \<noteq> CanaryUnfinished"
  by (auto simp: signature_host_def url_netloc_def Let_def res_simps split: if_splits)

text \<open>
  C30. The canary ends and means what it says: with a positive interval and one round more than intervals fit into the retry
  time, \<open>run_canary\<close> either raises an error of its own or of a request, or it returns, and then the gateway accepted the
  bucket and the object, gave the very bytes of the object back and accepted its deletion, in this order.
\<close>

theorem run_canary_decides:
  assumes "sleeps env" "0 < interval" "max 0 retry \<le> of_nat k * interval"
  shows "case run_canary_s3 (Suc k) env port ak sk host url retry interval s of
    (Inl e, s') \<Rightarrow> e \<noteq> CanaryUnfinished | (Inr _, s') \<Rightarrow> canary_passed env (trace s')"
proof -
  have "wp (run_canary_s3 (Suc k) env port ak sk host url retry interval) (\<lambda>_ s'. canary_passed env (trace s')) (\<lambda>e _. e \<noteq> CanaryUnfinished) s"
  proof (cases "signature_host env host port url")
    case (Inr h)
    have "clock env (trace s) \<le> clock env (trace s @ [EClock])" using assms(1) by (simp add: sleeps_def)
    then have "clock env (trace s) + max 0 retry - clock env (trace s @ [EClock]) \<le> of_nat k * interval" using assms(3) by linarith
    then show ?thesis
      using canary_rounds_pass[OF assms(1,2), of "clock env (trace s) + max 0 retry" "s\<lparr>trace := trace s @ [EClock]\<rparr>" k]
      by (simp add: run_canary_s3_def Inr wp_bind wp_lift wp_ask del: canary_rounds.simps)
  qed (auto simp: run_canary_s3_def wp_bind wp_lift dest: signature_host_error)
  then show ?thesis by (auto simp: wp_def split: prod.splits sum.splits)
qed

text \<open>A gateway that serves the object only after a second.\<close>

primrec slept_for :: "os_event list \<Rightarrow> rat" where
  "slept_for [] = 0"
| "slept_for (e # tr) = (case e of ESleep d \<Rightarrow> max 0 d | _ \<Rightarrow> 0) + slept_for tr"

lemma slept_for_append: "slept_for (tr @ tr') = slept_for tr + slept_for tr'"
  by (induction tr) simp_all

definition example_s3 :: s3_env where
  "example_s3 =
     \<lparr>run_result = \<lambda>tr c. RunTimeout, spawn = \<lambda>tr c. Inl [], poll_code = \<lambda>tr p. None, kill_found = \<lambda>tr p. False,
      wait_ends = \<lambda>tr p. False, clock = slept_for, asked = \<lambda>tr q. False,
      utc_stamp = \<lambda>tr. (''20240101T000000Z'', ''20240101''), utf8 = map of_char, sha256_hex = \<lambda>b. ''h'',
      hmac_sha256 = \<lambda>k m. m, hex_of = \<lambda>b. ''x'', repr_bytes = \<lambda>b. [],
      http = \<lambda>tr r. (if rq_method r = ''GET'' then (if ESleep 1 \<in> set tr then Inr (200, map of_char ''s3-storage-node-canary-v1'')
        else Inr (404, [])) else Inr (200, [])), bracket_ok = \<lambda>h. True\<rparr>"

lemma example_s3_passes:
  "case run_canary_s3 16 example_s3 8333 ''ak'' ''sk'' ''127.0.0.1'' ''https://s3.example.org/x'' 15 1 \<lparr>trace = []\<rparr> of
     (Inr _, s') \<Rightarrow> length (filter (\<lambda>e. e = EAsk ''GET /s3-storage-node-health/canary'') (trace s')) = 2 | (Inl _, _) \<Rightarrow> False"
  by code_simp

theorem run_canary_decides_witness:
  "\<exists>s'. run_canary_s3 16 example_s3 8333 ''ak'' ''sk'' ''127.0.0.1'' ''https://s3.example.org/x'' 15 1 \<lparr>trace = []\<rparr> = (Inr (), s')
     \<and> canary_passed example_s3 (trace s')"
proof -
  let ?run = "run_canary_s3 16 example_s3 8333 ''ak'' ''sk'' ''127.0.0.1'' ''https://s3.example.org/x'' 15 1 \<lparr>trace = []\<rparr>"
  have "sleeps example_s3"
    by (simp add: sleeps_def example_s3_def slept_for_append split: os_event.split)
  from run_canary_decides[OF this, of 1 15 15 8333 "''ak''" "''sk''" "''127.0.0.1''" "''https://s3.example.org/x''" "\<lparr>trace = []\<rparr>"]
  show ?thesis using example_s3_passes by (cases ?run) (auto split: sum.splits)
qed

end
