(* ===== verification/Candidate_Build.thy ===== *)
theory Candidate_Build
  imports Index_Bounds Processes "HOL-Library.Sublist"
begin

text \<open>
  \<open>build_candidate\<close> of \<open>index_repair_helper.py\<close>: the reconstruction of an index from a volume file that is exposed
  read-only through a bind mount, a permission-masked view and a second bind mount. Commands and file system calls
  are events; what they answer, and what the source and the staged view show at each moment, are parameters. The
  result dictionary and the local flags of the function are part of the state, as the \<open>finally\<close> block changes and
  reads them.
\<close>

section \<open>Surroundings\<close>

datatype build_error = BuildOS string | BuildFail string | BuildCrash

record run_out =
  ro_code :: int
  ro_out :: string
  ro_err :: string

record owner =
  own_mode :: int
  own_uid :: int
  own_gid :: int

datatype candidate_slot = NoCandidate | CandidateLink | CandidateFile "byte list"

text \<open>\<open>exec\<close> is the outcome of a command, \<open>Inl\<close> when it cannot be started; \<open>fs_fails\<close> the \<open>OSError\<close> of a file system
  call; \<open>observed\<close> what a fingerprint sees of a file: whether it is regular, its state at the first \<open>stat\<close>, the bytes
  read and its state at the second; \<open>src_stat\<close> whether the source is regular and who owns it.\<close>

record build_env =
  exec :: "os_event list \<Rightarrow> string list \<Rightarrow> string + run_out"
  fs_fails :: "os_event list \<Rightarrow> string \<Rightarrow> string option"
  is_link :: "os_event list \<Rightarrow> string \<Rightarrow> bool"
  src_stat :: "os_event list \<Rightarrow> string + bool \<times> owner"
  observed :: "os_event list \<Rightarrow> string \<Rightarrow> string + bool \<times> dat_file \<times> byte list \<times> dat_file"
  candidate_at :: "os_event list \<Rightarrow> candidate_slot"
  source_bytes :: "os_event list \<Rightarrow> byte list"
  digest :: "byte list \<Rightarrow> string"
  bounds_error :: "helper_error \<Rightarrow> string"
  interpreter :: string

record build_args =
  ba_source :: string
  ba_staging :: string
  ba_base :: string
  ba_collection :: string
  ba_volume :: int
  ba_weed :: string
  ba_uid :: int
  ba_gid :: int
  ba_fingerprint_only :: bool

record build_result =
  br_success :: bool
  br_error :: string
  br_manual :: bool
  br_readonly_verified :: bool
  br_write_rejected :: bool
  br_before :: "file_fingerprint option"
  br_after :: "file_fingerprint option"
  br_weed_code :: "int option"
  br_bounds :: "index_bounds option"
  br_candidate :: "(int \<times> string) option"

record cand_state = os_state +
  cs_result :: build_result
  cs_dirs :: "string list"
  cs_source_mounted :: bool
  cs_masked_mounted :: bool
  cs_staged_mounted :: bool

type_synonym 'a build = "(cand_state, build_error, 'a) eff"

definition child :: "string \<Rightarrow> string \<Rightarrow> string" where
  "child dir name = dir @ ''/'' @ name"

definition staged_dat :: "build_args \<Rightarrow> string" where
  "staged_dat a = child (ba_staging a) (ba_base a @ ''.dat'')"

definition source_dir :: "build_args \<Rightarrow> string" where
  "source_dir a = child (ba_staging a) ''.source''"

definition masked_dir :: "build_args \<Rightarrow> string" where
  "masked_dir a = child (ba_staging a) ''.masked''"

definition source_bind :: "build_args \<Rightarrow> string" where
  "source_bind a = child (source_dir a) (ba_base a @ ''.dat'')"

definition masked_dat :: "build_args \<Rightarrow> string" where
  "masked_dat a = child (masked_dir a) (ba_base a @ ''.dat'')"

section \<open>Steps\<close>

definition or_text :: "string \<Rightarrow> string \<Rightarrow> string" where
  "or_text s dflt = (if py_strip s \<noteq> [] then py_strip s else dflt)"

definition repair_command :: "build_env \<Rightarrow> string list \<Rightarrow> run_out build" where
  "repair_command env cmd = bindS (askS (ERun cmd) (\<lambda>tr. exec env tr cmd)) (\<lambda>r.
     case r of Inl e \<Rightarrow> raiseS (BuildOS e) | Inr out \<Rightarrow> returnS out)"

definition fs_step :: "build_env \<Rightarrow> string \<Rightarrow> unit build" where
  "fs_step env what = bindS (askS (EAsk what) (\<lambda>tr. fs_fails env tr what)) (\<lambda>r.
     case r of Some e \<Rightarrow> raiseS (BuildOS e) | None \<Rightarrow> returnS ())"

definition refuse_link :: "build_env \<Rightarrow> string \<Rightarrow> string \<Rightarrow> unit build" where
  "refuse_link env path message = bindS (askS (EAsk (''is_symlink '' @ path)) (\<lambda>tr. is_link env tr path)) (\<lambda>l.
     if l then raiseS (BuildFail message) else returnS ())"

definition stat_source :: "build_env \<Rightarrow> (bool \<times> owner) build" where
  "stat_source env = bindS (askS (EAsk ''stat source'') (src_stat env)) (\<lambda>r.
     case r of Inl e \<Rightarrow> raiseS (BuildOS e) | Inr i \<Rightarrow> returnS i)"

definition print_error :: "string \<Rightarrow> helper_error \<Rightarrow> string" where
  "print_error path e = (case e of
       NotRegularFile \<Rightarrow> ''repair source is not a regular file: '' @ path
     | _ \<Rightarrow> ''repair source changed while fingerprinting: '' @ path)"

definition take_fingerprint :: "build_env \<Rightarrow> string \<Rightarrow> file_fingerprint build" where
  "take_fingerprint env path =
     bindS (askS (EAsk (''fingerprint '' @ path)) (\<lambda>tr. observed env tr path)) (\<lambda>r.
     case r of
       Inl e \<Rightarrow> raiseS (BuildOS e)
     | Inr (regular, before, bytes, after) \<Rightarrow>
         (case fingerprint_observed (digest env) FINGERPRINT_REGION_BYTES regular before bytes after of
            Inl e \<Rightarrow> raiseS (BuildFail (print_error path e)) | Inr fp \<Rightarrow> returnS fp))"

text \<open>The last line of the command's output; \<open>[-1]\<close> of an empty list raises \<open>IndexError\<close>.\<close>

definition last_line :: "string \<Rightarrow> string build" where
  "last_line out = (case py_splitlines (py_strip out) of [] \<Rightarrow> raiseS BuildCrash | ls \<Rightarrow> returnS (py_strip (last ls)))"

definition mount_option_set :: "string \<Rightarrow> string set" where
  "mount_option_set options = set (map py_strip (py_split_char (CHR '','') options))"

definition undo_and_fail :: "build_env \<Rightarrow> string \<Rightarrow> string \<Rightarrow> 'a build" where
  "undo_and_fail env target message =
     bindS (repair_command env [''umount'', target]) (\<lambda>_. raiseS (BuildFail message))"

definition findmnt_options :: "string \<Rightarrow> string list" where
  "findmnt_options target = [''findmnt'', ''--noheadings'', ''--output'', ''OPTIONS'', ''--target'', target]"

definition mount_readonly :: "build_env \<Rightarrow> string \<Rightarrow> string \<Rightarrow> string build" where
  "mount_readonly env source target =
     bindS (repair_command env [''mount'', ''--bind'', source, target]) (\<lambda>r1.
     if ro_code r1 \<noteq> 0 then raiseS (BuildFail (or_text (ro_err r1) ''unable to bind-mount repair source''))
     else
     bindS (repair_command env [''mount'', ''-o'', ''remount,bind,ro,nosuid,nodev,noexec'', target]) (\<lambda>r2.
     if ro_code r2 \<noteq> 0 then undo_and_fail env target (or_text (ro_err r2) ''unable to remount repair source read-only'')
     else
     bindS (repair_command env (findmnt_options target)) (\<lambda>r3.
     if ro_code r3 \<noteq> 0 then undo_and_fail env target (or_text (ro_err r3) ''unable to inspect repair source mount'')
     else
     bindS (last_line (ro_out r3)) (\<lambda>options.
     if ''ro'' \<notin> mount_option_set options
     then undo_and_fail env target (''staged repair source is not read-only: '' @ options)
     else returnS options))))"

definition bindfs_command :: "build_args \<Rightarrow> string list" where
  "bindfs_command a =
     [''bindfs'', ''--perms=u=rX,go='', ''--force-user='' @ show_int (ba_uid a), ''--force-group='' @ show_int (ba_gid a),
      ''--chmod-deny'', ''--chown-deny'', ''--chgrp-deny'', ''--delete-deny'', ''--rename-deny'', ''--xattr-ro'',
      ''-o'', ''ro,nosuid,nodev,noexec,allow_other'', source_dir a, masked_dir a]"

definition mount_masked_view :: "build_env \<Rightarrow> build_args \<Rightarrow> string build" where
  "mount_masked_view env a =
     bindS (repair_command env (bindfs_command a)) (\<lambda>r1.
     if ro_code r1 \<noteq> 0 then raiseS (BuildFail (or_text (ro_err r1) ''unable to create permission-masked repair view''))
     else
     bindS (repair_command env [''findmnt'', ''--noheadings'', ''--output'', ''FSTYPE,OPTIONS'', ''--target'', masked_dir a]) (\<lambda>r2.
     if ro_code r2 \<noteq> 0
     then undo_and_fail env (masked_dir a) (or_text (ro_err r2) ''unable to inspect permission-masked repair view'')
     else
     bindS (last_line (ro_out r2)) (\<lambda>mount_state.
     let fstype = takeWhile (\<lambda>c. \<not> py_isspace c) mount_state;
         options = py_lstrip (dropWhile (\<lambda>c. \<not> py_isspace c) mount_state)
     in if fstype \<noteq> ''fuse'' \<or> ''ro'' \<notin> mount_option_set options
        then undo_and_fail env (masked_dir a) (''permission-masked repair view is not read-only FUSE: '' @ mount_state)
        else returnS mount_state)))"

definition as_user :: "build_args \<Rightarrow> string list \<Rightarrow> string list" where
  "as_user a cmd =
     [''setpriv'', ''--reuid='' @ show_int (ba_uid a), ''--regid='' @ show_int (ba_gid a), ''--clear-groups'', ''--''] @ cmd"

definition write_test :: "build_env \<Rightarrow> build_args \<Rightarrow> string list" where
  "write_test env a = as_user a
     [interpreter env, ''-c'',
      ''import pathlib,sys; pathlib.Path(sys.argv[1]).open('' @ [CHR 0x27] @ ''ab'' @ [CHR 0x27] @ '').write(b''
        @ [CHR 0x27] @ ''repair-write-test'' @ [CHR 0x27] @ '')'',
      staged_dat a]"

definition prove_write_rejected :: "build_env \<Rightarrow> build_args \<Rightarrow> unit build" where
  "prove_write_rejected env a = bindS (repair_command env (write_test env a)) (\<lambda>r.
     if ro_code r = 0 then raiseS (BuildFail ''write unexpectedly succeeded through staged read-only .dat exposure'')
     else returnS ())"

text \<open>\<open>rmdir\<close> of one of the private directories: whether it was there, and whether it could be removed.\<close>

datatype rmdir_outcome = Removed | Missing | Busy

definition rmdir :: "build_env \<Rightarrow> string \<Rightarrow> rmdir_outcome build" where
  "rmdir env d =
     bindS (getS (\<lambda>s. d \<in> set (cs_dirs s))) (\<lambda>present.
     if \<not> present then returnS Missing
     else bindS (askS (EAsk (''rmdir '' @ d)) (\<lambda>tr. fs_fails env tr (''rmdir '' @ d))) (\<lambda>r.
       if r \<noteq> None then returnS Busy
       else bindS (modS (\<lambda>s. s\<lparr>cs_dirs := removeAll d (cs_dirs s)\<rparr>)) (\<lambda>_. returnS Removed)))"

definition make_dir :: "build_env \<Rightarrow> string \<Rightarrow> unit build" where
  "make_dir env d = bindS (fs_step env (''mkdir '' @ d)) (\<lambda>_. modS (\<lambda>s. s\<lparr>cs_dirs := d # cs_dirs s\<rparr>))"

definition set_result :: "(build_result \<Rightarrow> build_result) \<Rightarrow> unit build" where
  "set_result f = modS (\<lambda>s. s\<lparr>cs_result := f (cs_result s)\<rparr>)"

section \<open>The function\<close>

definition remove_stale_dir :: "build_env \<Rightarrow> string \<Rightarrow> unit build" where
  "remove_stale_dir env d = bindS (rmdir env d) (\<lambda>r.
     if r = Busy then raiseS (BuildFail (''stale repair staging directory is not empty: '' @ d)) else returnS ())"

definition prepare_staging :: "build_env \<Rightarrow> build_args \<Rightarrow> owner build" where
  "prepare_staging env a =
     bindS (refuse_link env (ba_source a) ''repair source may not be a symlink'') (\<lambda>_.
     bindS (stat_source env) (\<lambda>(regular, own).
     if \<not> regular then raiseS (BuildFail (''repair source is not a regular file: '' @ ba_source a))
     else
     bindS (fs_step env (''mkdir '' @ ba_staging a)) (\<lambda>_.
     bindS (fs_step env (''chown '' @ ba_staging a)) (\<lambda>_.
     bindS (fs_step env (''chmod '' @ ba_staging a)) (\<lambda>_.
     bindS (forS (\<lambda>f. bindS (refuse_link env f (''unsafe stale repair path: '' @ f)) (\<lambda>_. fs_step env (''unlink '' @ f)))
       [staged_dat a, source_bind a]) (\<lambda>_.
     bindS (forS (remove_stale_dir env) [masked_dir a, source_dir a]) (\<lambda>_.
     bindS (make_dir env (source_dir a)) (\<lambda>_.
     bindS (make_dir env (masked_dir a)) (\<lambda>_.
     bindS (fs_step env (''touch '' @ source_bind a)) (\<lambda>_. returnS own))))))))))"

text \<open>From the source to the staged view: gives the fingerprint of the staged file, which is that of the source.\<close>

definition expose_source :: "build_env \<Rightarrow> build_args \<Rightarrow> file_fingerprint build" where
  "expose_source env a =
     bindS (take_fingerprint env (ba_source a)) (\<lambda>fp.
     bindS (set_result (\<lambda>r. r\<lparr>br_before := Some fp\<rparr>)) (\<lambda>_.
     bindS (mount_readonly env (ba_source a) (source_bind a)) (\<lambda>_.
     bindS (modS (\<lambda>s. s\<lparr>cs_source_mounted := True\<rparr>)) (\<lambda>_.
     bindS (mount_masked_view env a) (\<lambda>_.
     bindS (modS (\<lambda>s. s\<lparr>cs_masked_mounted := True\<rparr>)) (\<lambda>_.
     bindS (fs_step env (''touch '' @ staged_dat a)) (\<lambda>_.
     bindS (mount_readonly env (masked_dat a) (staged_dat a)) (\<lambda>_.
     bindS (modS (\<lambda>s. s\<lparr>cs_staged_mounted := True\<rparr>)) (\<lambda>_.
     bindS (set_result (\<lambda>r. r\<lparr>br_readonly_verified := True\<rparr>)) (\<lambda>_.
     bindS (prove_write_rejected env a) (\<lambda>_.
     bindS (set_result (\<lambda>r. r\<lparr>br_write_rejected := True\<rparr>)) (\<lambda>_.
     bindS (take_fingerprint env (staged_dat a)) (\<lambda>before.
     if before \<noteq> fp
     then raiseS (BuildFail ''staged read-only view does not match the authoritative .dat fingerprint'')
     else returnS before)))))))))))))"

definition weed_command :: "build_args \<Rightarrow> string list" where
  "weed_command a = as_user a
     ([ba_weed a, ''fix'', ''-volumeId='' @ show_int (ba_volume a)]
      @ (if ba_collection a \<noteq> [] then [''-collection='' @ ba_collection a] else []) @ [ba_staging a])"

definition drop_candidate :: "build_env \<Rightarrow> string \<Rightarrow> 'a build" where
  "drop_candidate env message = bindS (fs_step env ''unlink candidate'') (\<lambda>_. raiseS (BuildFail message))"

definition fingerprint_only :: "build_env \<Rightarrow> build_args \<Rightarrow> owner \<Rightarrow> unit build" where
  "fingerprint_only env a own =
     bindS (stat_source env) (\<lambda>(_, own2).
     bindS (take_fingerprint env (ba_source a)) (\<lambda>after.
     bindS (set_result (\<lambda>r. r\<lparr>br_after := Some after\<rparr>)) (\<lambda>_.
     if own2 \<noteq> own then raiseS (BuildFail ''authoritative .dat ownership or permissions changed during staging'')
     else set_result (\<lambda>r. r\<lparr>br_success := True\<rparr>))))"

definition past_eof_text :: "violation \<Rightarrow> string" where
  "past_eof_text v = ''candidate index references bytes past authoritative .dat EOF: needle '' @ show_int (v_needle_id v)
     @ '' ends '' @ show_int (v_past_eof v) @ '' bytes past EOF''"

definition check_candidate :: "build_env \<Rightarrow> build_args \<Rightarrow> unit build" where
  "check_candidate env a =
     bindS (askS (EAsk ''candidate'') (\<lambda>tr. (candidate_at env tr, source_bytes env tr))) (\<lambda>(slot, src).
     case slot of
       CandidateFile idx \<Rightarrow>
         (case inspect_index_bounds idx src of
            Inl e \<Rightarrow> raiseS (BuildFail (bounds_error env e))
          | Inr bounds \<Rightarrow>
              bindS (set_result (\<lambda>r. r\<lparr>br_bounds := Some bounds\<rparr>)) (\<lambda>_.
              case violations (ib_scan bounds) of
                v # _ \<Rightarrow>
                  bindS (fs_step env ''unlink candidate'') (\<lambda>_.
                  bindS (set_result (\<lambda>r. r\<lparr>br_manual := True\<rparr>)) (\<lambda>_. raiseS (BuildFail (past_eof_text v))))
              | [] \<Rightarrow>
                  bindS (fs_step env ''fsync candidate'') (\<lambda>_.
                  bindS (fs_step env ''fsync staging'') (\<lambda>_.
                  set_result (\<lambda>r. r\<lparr>br_candidate := Some (int (length idx), digest env idx), br_success := True\<rparr>)))))
     | _ \<Rightarrow> raiseS (BuildFail (''weed fix did not create the expected candidate: '' @ child (ba_staging a) (ba_base a @ ''.idx''))))"

definition reconstruct :: "build_env \<Rightarrow> build_args \<Rightarrow> owner \<Rightarrow> file_fingerprint \<Rightarrow> unit build" where
  "reconstruct env a own before =
     bindS (repair_command env (weed_command a)) (\<lambda>weed.
     bindS (set_result (\<lambda>r. r\<lparr>br_weed_code := Some (ro_code weed)\<rparr>)) (\<lambda>_.
     bindS (take_fingerprint env (ba_source a)) (\<lambda>after.
     bindS (set_result (\<lambda>r. r\<lparr>br_after := Some after\<rparr>)) (\<lambda>_.
     bindS (stat_source env) (\<lambda>(_, own2).
     if own2 \<noteq> own then drop_candidate env ''authoritative .dat ownership or permissions changed during reconstruction''
     else if before \<noteq> after then drop_candidate env ''authoritative .dat changed during candidate reconstruction''
     else if ro_code weed \<noteq> 0
     then drop_candidate env (or_text (ro_err weed) (or_text (ro_out weed) (''weed fix exited with '' @ show_int (ro_code weed))))
     else check_candidate env a)))))"

definition build_body :: "build_env \<Rightarrow> build_args \<Rightarrow> unit build" where
  "build_body env a =
     bindS (prepare_staging env a) (\<lambda>own.
     bindS (expose_source env a) (\<lambda>before.
     if ba_fingerprint_only a then fingerprint_only env a own else reconstruct env a own before))"

definition note_failure :: "string \<Rightarrow> unit build" where
  "note_failure m = set_result (\<lambda>r. r\<lparr>br_success := False, br_error := m\<rparr>)"

definition handle_build_error :: "build_error \<Rightarrow> unit build" where
  "handle_build_error e = (case e of BuildOS m \<Rightarrow> note_failure m | BuildFail m \<Rightarrow> note_failure m | BuildCrash \<Rightarrow> raiseS e)"

definition unmount_step :: "build_env \<Rightarrow> string \<Rightarrow> string \<Rightarrow> unit build" where
  "unmount_step env target message =
     bindS (repair_command env [''umount'', target]) (\<lambda>r. whenS (ro_code r \<noteq> 0) (note_failure (or_text (ro_err r) message)))"

definition remove_private_dir :: "build_env \<Rightarrow> string \<Rightarrow> unit build" where
  "remove_private_dir env d = bindS (rmdir env d) (\<lambda>r.
     whenS (r \<noteq> Removed) (note_failure (''unable to remove private repair mount directory: '' @ d)))"

definition cleanup :: "build_env \<Rightarrow> build_args \<Rightarrow> unit build" where
  "cleanup env a =
     bindS (getS cs_staged_mounted) (\<lambda>m1.
     bindS (whenS m1 (unmount_step env (staged_dat a) ''unable to unmount staged repair source'')) (\<lambda>_.
     bindS (fs_step env (''unlink '' @ staged_dat a)) (\<lambda>_.
     bindS (getS cs_masked_mounted) (\<lambda>m2.
     bindS (whenS m2 (unmount_step env (masked_dir a) ''unable to unmount permission-masked repair view'')) (\<lambda>_.
     bindS (getS cs_source_mounted) (\<lambda>m3.
     bindS (whenS m3 (unmount_step env (source_bind a) ''unable to unmount authoritative repair source'')) (\<lambda>_.
     bindS (fs_step env (''unlink '' @ source_bind a)) (\<lambda>_.
     forS (remove_private_dir env) [masked_dir a, source_dir a]))))))))"

definition helper_build_candidate :: "build_env \<Rightarrow> build_args \<Rightarrow> build_result build" where
  "helper_build_candidate env a =
     bindS (finallyS (catchS (build_body env a) handle_build_error) (cleanup env a)) (\<lambda>_. getS cs_result)"

definition fresh_result :: build_result where
  "fresh_result = \<lparr>br_success = False, br_error = [], br_manual = False, br_readonly_verified = False,
     br_write_rejected = False, br_before = None, br_after = None, br_weed_code = None, br_bounds = None, br_candidate = None\<rparr>"

definition fresh_build :: "string list \<Rightarrow> cand_state" where
  "fresh_build dirs = \<lparr>trace = [], cs_result = fresh_result, cs_dirs = dirs, cs_source_mounted = False,
     cs_masked_mounted = False, cs_staged_mounted = False\<rparr>"

text \<open>What the tail recovery reads of the result.\<close>

definition candidate_of :: "build_result \<Rightarrow> candidate_result" where
  "candidate_of r = \<lparr>cr_success = br_success r, cr_manual = br_manual r, cr_bounds = br_bounds r\<rparr>"

section \<open>Steps that only look\<close>

text \<open>Only the trace has grown.\<close>

definition same_but_trace :: "cand_state \<Rightarrow> cand_state \<Rightarrow> bool" where
  "same_but_trace s0 s \<longleftrightarrow> prefix (trace s0) (trace s) \<and> s = s0\<lparr>trace := trace s\<rparr>"

lemma same_but_trace_refl [simp]: "same_but_trace s s"
  by (simp add: same_but_trace_def)

lemma same_but_trace_fields:
  "same_but_trace s0 s \<Longrightarrow> cs_result s = cs_result s0 \<and> cs_dirs s = cs_dirs s0 \<and> cs_source_mounted s = cs_source_mounted s0
     \<and> cs_masked_mounted s = cs_masked_mounted s0 \<and> cs_staged_mounted s = cs_staged_mounted s0 \<and> prefix (trace s0) (trace s)"
  unfolding same_but_trace_def by (metis cand_state.select_convs(1-5) cand_state.surjective os_state.update_convs(1))

lemma keeps_trace:
  assumes "\<And>s ev. I s \<Longrightarrow> I (s\<lparr>trace := trace s @ [ev]\<rparr>)"
  shows "keeps I (askS ev answer)"
  using assms by (simp add: keeps_def wp_ask)

lemma keeps_same_ask [keeps_intros]: "keeps (same_but_trace s0) (askS ev answer)"
  by (rule keeps_trace) (auto simp: same_but_trace_def prefix_def)

lemma keeps_case_list [keeps_intros]:
  "(\<And>x xs. v = x # xs \<Longrightarrow> keeps I (f x xs)) \<Longrightarrow> (v = [] \<Longrightarrow> keeps I m) \<Longrightarrow> keeps I (case v of [] \<Rightarrow> m | x # xs \<Rightarrow> f x xs)"
  by (cases v) auto

lemmas look_defs = repair_command_def fs_step_def refuse_link_def stat_source_def take_fingerprint_def last_line_def
  undo_and_fail_def

lemma keeps_same_run [keeps_intros]: "keeps (same_but_trace s0) (repair_command env cmd)"
  and keeps_same_fs [keeps_intros]: "keeps (same_but_trace s0) (fs_step env what)"
  and keeps_same_link [keeps_intros]: "keeps (same_but_trace s0) (refuse_link env path message)"
  and keeps_same_stat [keeps_intros]: "keeps (same_but_trace s0) (stat_source env)"
  and keeps_same_print [keeps_intros]: "keeps (same_but_trace s0) (take_fingerprint env path)"
  and keeps_same_line [keeps_intros]: "keeps (same_but_trace s0) (last_line out)"
  unfolding look_defs by (intro keeps_intros; simp?)+

lemma keeps_same_undo [keeps_intros]: "keeps (same_but_trace s0) (undo_and_fail env target message)"
  unfolding undo_and_fail_def by (intro keeps_intros)

lemma keeps_same_mount [keeps_intros]: "keeps (same_but_trace s0) (mount_readonly env source target)"
  and keeps_same_masked [keeps_intros]: "keeps (same_but_trace s0) (mount_masked_view env a)"
  and keeps_same_write [keeps_intros]: "keeps (same_but_trace s0) (prove_write_rejected env a)"
  unfolding mount_readonly_def mount_masked_view_def prove_write_rejected_def Let_def by (intro keeps_intros)+

section \<open>The evidence before the reconstruction\<close>

definition answered :: "build_env \<Rightarrow> os_event list \<Rightarrow> string list \<Rightarrow> (run_out \<Rightarrow> bool) \<Rightarrow> bool" where
  "answered env tr cmd ok \<longleftrightarrow> (\<exists>t out. strict_prefix t tr \<and> exec env t cmd = Inr out \<and> ok out)"

lemma answered_mono: "answered env tr cmd ok \<Longrightarrow> prefix tr tr' \<Longrightarrow> answered env tr' cmd ok"
  unfolding answered_def by (blast intro: prefix_order.less_le_trans)

definition options_of :: "run_out \<Rightarrow> string set" where
  "options_of out = mount_option_set (py_strip (last (py_splitlines (py_strip (ro_out out)))))"

text \<open>A mount point was remounted read-only and then seen to be read-only.\<close>

definition readonly_shown :: "build_env \<Rightarrow> string \<Rightarrow> os_event list \<Rightarrow> bool" where
  "readonly_shown env target tr \<longleftrightarrow>
     answered env tr [''mount'', ''-o'', ''remount,bind,ro,nosuid,nodev,noexec'', target] (\<lambda>out. ro_code out = 0)
     \<and> answered env tr (findmnt_options target) (\<lambda>out. ro_code out = 0 \<and> ''ro'' \<in> options_of out)"

definition staged_proof :: "build_env \<Rightarrow> build_args \<Rightarrow> os_event list \<Rightarrow> bool" where
  "staged_proof env a tr \<longleftrightarrow> readonly_shown env (source_bind a) tr \<and> readonly_shown env (staged_dat a) tr
     \<and> answered env tr (write_test env a) (\<lambda>out. ro_code out \<noteq> 0)"

lemma readonly_shown_mono: "readonly_shown env target tr \<Longrightarrow> prefix tr tr' \<Longrightarrow> readonly_shown env target tr'"
  by (auto simp: readonly_shown_def intro: answered_mono)

lemma staged_proof_mono: "staged_proof env a tr \<Longrightarrow> prefix tr tr' \<Longrightarrow> staged_proof env a tr'"
  by (auto simp: staged_proof_def intro: answered_mono readonly_shown_mono)

lemma wp_repair_command:
  assumes "\<And>out s'. exec env (trace s) cmd = Inr out \<Longrightarrow> same_but_trace s s' \<Longrightarrow> strict_prefix (trace s) (trace s') \<Longrightarrow> Q out s'"
    and "\<And>e s'. E e s'"
  shows "wp (repair_command env cmd) Q E s"
proof (cases "exec env (trace s) cmd")
  case (Inr out)
  have "Q out (s\<lparr>trace := trace s @ [ERun cmd]\<rparr>)"
    by (rule assms(1)[OF Inr]) (simp_all add: same_but_trace_def strict_prefix_def)
  with Inr show ?thesis by (simp add: repair_command_def wp_bind wp_ask wp_return)
qed (simp add: repair_command_def wp_bind wp_ask wp_raise assms(2))

lemma wp_true: "wp m (\<lambda>_ _. True) (\<lambda>_ _. True) s"
  by (simp add: wp_def split: prod.split sum.split)

lemma wp_answered: "wp (repair_command env cmd) (\<lambda>out s'. \<forall>ok. ok out \<longrightarrow> answered env (trace s') cmd ok) (\<lambda>_ _. True) s"
  by (rule wp_repair_command) (auto simp: answered_def)

lemma wp_fails: "wp (undo_and_fail env target m) Q (\<lambda>_ _. True) s"
  unfolding undo_and_fail_def by (rule wp_seq[OF wp_true]) (simp add: wp_raise)

lemma wp_last_line: "wp (last_line out) (\<lambda>l s'. s' = s \<and> l = py_strip (last (py_splitlines (py_strip out)))) (\<lambda>_ _. True) s"
  by (simp add: last_line_def wp_return wp_raise split: list.split)

lemma wp_checked_run:
  assumes "\<And>out s'. same_but_trace s s' \<Longrightarrow> (\<And>ok. ok out \<Longrightarrow> answered env (trace s') cmd ok) \<Longrightarrow> ro_code out = 0 \<Longrightarrow>
      wp (go out) Q (\<lambda>_ _. True) s'"
    and "\<And>out s'. wp (fail out) Q (\<lambda>_ _. True) s'"
  shows "wp (bindS (repair_command env cmd) (\<lambda>r. if ro_code r \<noteq> 0 then fail r else go r)) Q (\<lambda>_ _. True) s"
  unfolding wp_bind
proof (rule wp_repair_command)
  fix out s'
  assume out: "exec env (trace s) cmd = Inr out" "same_but_trace s s'" "strict_prefix (trace s) (trace s')"
  then have "\<And>ok. ok out \<Longrightarrow> answered env (trace s') cmd ok" by (auto simp: answered_def)
  with assms out(2) show "wp (if ro_code out \<noteq> 0 then fail out else go out) Q (\<lambda>_ _. True) s'" by simp
qed simp

lemma mount_readonly_shows: "wp (mount_readonly env source target) (\<lambda>_ s'. readonly_shown env target (trace s')) (\<lambda>_ _. True) s"
  unfolding mount_readonly_def
proof (rule wp_checked_run)
  let ?remount = "[''mount'', ''-o'', ''remount,bind,ro,nosuid,nodev,noexec'', target]"
  fix s1 :: cand_state
  show "wp (bindS (repair_command env ?remount) (\<lambda>r2.
      if ro_code r2 \<noteq> 0 then undo_and_fail env target (or_text (ro_err r2) ''unable to remount repair source read-only'')
      else bindS (repair_command env (findmnt_options target)) (\<lambda>r3.
        if ro_code r3 \<noteq> 0 then undo_and_fail env target (or_text (ro_err r3) ''unable to inspect repair source mount'')
        else bindS (last_line (ro_out r3)) (\<lambda>options.
          if ''ro'' \<notin> mount_option_set options
          then undo_and_fail env target (''staged repair source is not read-only: '' @ options) else returnS options))))
    (\<lambda>_ s'. readonly_shown env target (trace s')) (\<lambda>_ _. True) s1"
  proof (rule wp_checked_run, rule wp_checked_run)
    fix r2 s2 r3 s3 m
    assume r2: "\<And>ok. ok r2 \<Longrightarrow> answered env (trace s2) ?remount ok" "ro_code r2 = 0"
      and r3: "same_but_trace s2 s3" "\<And>ok. ok r3 \<Longrightarrow> answered env (trace s3) (findmnt_options target) ok" "ro_code r3 = 0"
    have "answered env (trace s3) ?remount (\<lambda>out. ro_code out = 0)"
      using r2(1)[of "\<lambda>out. ro_code out = 0", OF r2(2)] same_but_trace_fields[OF r3(1)] answered_mono by blast
    then show "wp (bindS (last_line (ro_out r3)) (\<lambda>options.
          if ''ro'' \<notin> mount_option_set options
          then undo_and_fail env target (''staged repair source is not read-only: '' @ options) else returnS options))
        (\<lambda>_ s'. readonly_shown env target (trace s')) (\<lambda>_ _. True) s3"
      using r3 by (intro wp_seq[OF wp_last_line]) (auto simp: wp_fails wp_return readonly_shown_def options_of_def)
  qed (rule wp_fails)+
qed (simp add: wp_raise)

text \<open>The trace only grows, so evidence once there stays.\<close>

definition since :: "os_event list \<Rightarrow> cand_state \<Rightarrow> bool" where
  "since tr s \<longleftrightarrow> prefix tr (trace s)"

lemma since_simps [simp]: "since tr (s\<lparr>cs_result := r\<rparr>) = since tr s" "since tr (s\<lparr>cs_dirs := d\<rparr>) = since tr s"
  "since tr (s\<lparr>cs_source_mounted := b\<rparr>) = since tr s" "since tr (s\<lparr>cs_masked_mounted := b\<rparr>) = since tr s"
  "since tr (s\<lparr>cs_staged_mounted := b\<rparr>) = since tr s"
  by (simp_all add: since_def)

lemma keeps_since_ask [keeps_intros]: "keeps (since tr) (askS ev answer)"
  by (rule keeps_trace) (auto simp: since_def prefix_def)

lemma keeps_since_set [keeps_intros]: "keeps (since tr) (set_result f)"
  unfolding set_result_def by (rule keeps_mod) simp

lemma keeps_since_run [keeps_intros]: "keeps (since tr) (repair_command env cmd)"
  and keeps_since_fs [keeps_intros]: "keeps (since tr) (fs_step env what)"
  and keeps_since_link [keeps_intros]: "keeps (since tr) (refuse_link env path message)"
  and keeps_since_stat [keeps_intros]: "keeps (since tr) (stat_source env)"
  and keeps_since_print [keeps_intros]: "keeps (since tr) (take_fingerprint env path)"
  and keeps_since_line [keeps_intros]: "keeps (since tr) (last_line out)"
  unfolding look_defs by (intro keeps_intros; simp?)+

lemma keeps_since_undo [keeps_intros]: "keeps (since tr) (undo_and_fail env target message)"
  unfolding undo_and_fail_def by (intro keeps_intros)

lemma keeps_since_mount [keeps_intros]: "keeps (since tr) (mount_readonly env source target)"
  and keeps_since_masked [keeps_intros]: "keeps (since tr) (mount_masked_view env a)"
  and keeps_since_write [keeps_intros]: "keeps (since tr) (prove_write_rejected env a)"
  unfolding mount_readonly_def mount_masked_view_def prove_write_rejected_def Let_def by (intro keeps_intros)+

lemma wp_skip: "(\<And>x s'. wp (f x) Q (\<lambda>_ _. True) s') \<Longrightarrow> wp (bindS m f) Q (\<lambda>_ _. True) s"
  by (rule wp_seq[OF wp_true])

lemma wp_evidence:
  assumes "wp m (\<lambda>_ s'. P (trace s')) (\<lambda>_ _. True) s" "\<And>x tr. keeps (since tr) (f x)" "\<And>tr tr'. P tr \<Longrightarrow> prefix tr tr' \<Longrightarrow> P tr'"
  shows "wp (bindS m f) (\<lambda>_ s'. P (trace s')) (\<lambda>_ _. True) s"
proof (rule wp_seq[OF assms(1)])
  fix x and s' :: cand_state assume "P (trace s')"
  then show "wp (f x) (\<lambda>_ s'. P (trace s')) (\<lambda>_ _. True) s'"
    using wp_mono[OF keepsD[OF assms(2)[of "trace s'" x], of s']] assms(3) by (fastforce simp: since_def)
qed

lemma write_rejected_shown:
  "wp (prove_write_rejected env a) (\<lambda>_ s'. answered env (trace s') (write_test env a) (\<lambda>out. ro_code out \<noteq> 0)) (\<lambda>_ _. True) s"
  unfolding prove_write_rejected_def wp_bind by (rule wp_mono[OF wp_answered]) (auto simp: wp_raise wp_return)

lemma expose_source_proof: "wp (expose_source env a) (\<lambda>_ s'. staged_proof env a (trace s')) (\<lambda>_ _. True) s"
proof -
  have keep: "keeps (since tr) (modS (\<lambda>s. s\<lparr>cs_source_mounted := True\<rparr>))" "keeps (since tr) (modS (\<lambda>s. s\<lparr>cs_masked_mounted := True\<rparr>))"
    "keeps (since tr) (modS (\<lambda>s. s\<lparr>cs_staged_mounted := True\<rparr>))" for tr
    by (rule keeps_mod; simp)+
  note rest = keeps_bind keeps_if keeps_raise keeps_return keep keeps_since_set keeps_since_masked keeps_since_fs keeps_since_mount
    keeps_since_write keeps_since_print
  have 1: "wp (expose_source env a) (\<lambda>_ s'. readonly_shown env (source_bind a) (trace s')) (\<lambda>_ _. True) s"
    unfolding expose_source_def
    by (rule wp_skip, rule wp_skip, rule wp_evidence[OF mount_readonly_shows _ readonly_shown_mono]) (intro rest | assumption)+
  have 2: "wp (expose_source env a) (\<lambda>_ s'. readonly_shown env (staged_dat a) (trace s')) (\<lambda>_ _. True) s"
    unfolding expose_source_def
    by (rule wp_skip, rule wp_skip, rule wp_skip, rule wp_skip, rule wp_skip, rule wp_skip, rule wp_skip,
        rule wp_evidence[OF mount_readonly_shows _ readonly_shown_mono]) (intro rest | assumption)+
  have 3: "wp (expose_source env a) (\<lambda>_ s'. answered env (trace s') (write_test env a) (\<lambda>out. ro_code out \<noteq> 0)) (\<lambda>_ _. True) s"
    unfolding expose_source_def
    by (rule wp_skip, rule wp_skip, rule wp_skip, rule wp_skip, rule wp_skip, rule wp_skip, rule wp_skip, rule wp_skip, rule wp_skip,
        rule wp_skip, rule wp_evidence[OF write_rejected_shown _ answered_mono]) (intro rest | assumption)+
  show ?thesis by (rule wp_mono[OF wp_conj[OF 1 wp_conj[OF 2 3]]]) (auto simp: staged_proof_def)
qed

lemma wp_look:
  assumes "keeps (same_but_trace s) m" "\<And>x s'. same_but_trace s s' \<Longrightarrow> wp (f x) Q (\<lambda>_ _. True) s'"
  shows "wp (bindS m f) Q (\<lambda>_ _. True) s"
  by (rule wp_seq[OF wp_mono[OF keepsD[OF assms(1) same_but_trace_refl]]]) (use assms(2) in auto)

definition all_mounted :: "cand_state \<Rightarrow> bool" where
  "all_mounted s \<longleftrightarrow> cs_source_mounted s \<and> cs_masked_mounted s \<and> cs_staged_mounted s"

lemma wp_modS: "wp (f ()) Q E (g s) \<Longrightarrow> wp (bindS (modS g) f) Q E s"
  by (simp add: wp_bind wp_mod)

lemma expose_source_fields:
  "wp (expose_source env a) (\<lambda>fp s'. all_mounted s' \<and> cs_dirs s' = cs_dirs s \<and> cs_result s' = (cs_result s)
     \<lparr>br_before := Some fp, br_readonly_verified := True, br_write_rejected := True\<rparr>) (\<lambda>_ _. True) s"
  unfolding expose_source_def set_result_def
  apply (rule wp_look[OF keeps_same_print], rule wp_modS, rule wp_look[OF keeps_same_mount], rule wp_modS,
      rule wp_look[OF keeps_same_masked], rule wp_modS, rule wp_look[OF keeps_same_fs], rule wp_look[OF keeps_same_mount],
      rule wp_modS, rule wp_modS, rule wp_look[OF keeps_same_write], rule wp_modS, rule wp_look[OF keeps_same_print])
  apply (drule same_but_trace_fields)+
  apply (simp add: wp_raise wp_return all_mounted_def)
  done

section \<open>No reconstruction without the evidence\<close>

definition weed_guarded :: "build_env \<Rightarrow> build_args \<Rightarrow> cand_state \<Rightarrow> bool" where
  "weed_guarded env a s \<longleftrightarrow> (\<forall>u v. trace s = u @ ERun (weed_command a) # v \<longrightarrow> staged_proof env a u)"

lemma weed_guarded_snoc:
  "weed_guarded env a (s\<lparr>trace := trace s @ [ev]\<rparr>) \<longleftrightarrow>
     weed_guarded env a s \<and> (ev = ERun (weed_command a) \<longrightarrow> staged_proof env a (trace s))"
proof -
  have split: "tr @ [ev] = u @ x # v \<longleftrightarrow> (v = [] \<and> tr = u \<and> ev = x) \<or> (\<exists>v'. v = v' @ [ev] \<and> tr = u @ x # v')" for tr u v :: "os_event list" and x
    by (cases v rule: rev_cases) auto
  show ?thesis unfolding weed_guarded_def by (auto simp: split)
qed

lemma weed_guarded_fields [simp]: "weed_guarded env a (s\<lparr>cs_result := r\<rparr>) = weed_guarded env a s"
  "weed_guarded env a (s\<lparr>cs_dirs := d\<rparr>) = weed_guarded env a s" "weed_guarded env a (s\<lparr>cs_source_mounted := b\<rparr>) = weed_guarded env a s"
  "weed_guarded env a (s\<lparr>cs_masked_mounted := b\<rparr>) = weed_guarded env a s" "weed_guarded env a (s\<lparr>cs_staged_mounted := b\<rparr>) = weed_guarded env a s"
  by (simp_all add: weed_guarded_def)

lemma keeps_guarded_ask [keeps_intros]: "keeps (weed_guarded env a) (askS (EAsk what) answer)"
  by (simp add: keeps_def wp_ask weed_guarded_snoc)

lemma keeps_guarded_run: "cmd \<noteq> weed_command a \<Longrightarrow> keeps (weed_guarded env a) (repair_command env cmd)"
  unfolding repair_command_def by (intro keeps_intros) (simp add: keeps_def wp_ask weed_guarded_snoc)

lemma weed_commands: "hd cmd \<noteq> ''setpriv'' \<Longrightarrow> cmd \<noteq> weed_command a" "write_test env a \<noteq> weed_command a"
  by (auto simp: weed_command_def write_test_def as_user_def)

lemma keeps_guarded_set [keeps_intros]: "keeps (weed_guarded env a) (set_result f)"
  unfolding set_result_def by (rule keeps_mod) simp

lemma keeps_guarded_look [keeps_intros]:
  "keeps (weed_guarded env a) (fs_step env what)" "keeps (weed_guarded env a) (refuse_link env path message)"
  "keeps (weed_guarded env a) (stat_source env)" "keeps (weed_guarded env a) (take_fingerprint env path)"
  "keeps (weed_guarded env a) (last_line out)"
  unfolding look_defs by (intro keeps_intros; simp?)+

lemma keeps_guarded_commands [keeps_intros]:
  "keeps (weed_guarded env a) (repair_command env (''mount'' # cmd))" "keeps (weed_guarded env a) (repair_command env (''umount'' # cmd))"
  "keeps (weed_guarded env a) (repair_command env (''findmnt'' # cmd))" "keeps (weed_guarded env a) (repair_command env (findmnt_options t))"
  "keeps (weed_guarded env a) (repair_command env (bindfs_command b))" "keeps (weed_guarded env a) (repair_command env (write_test env a))"
  by (rule keeps_guarded_run, simp add: weed_commands findmnt_options_def bindfs_command_def)+

lemma keeps_guarded_undo [keeps_intros]: "keeps (weed_guarded env a) (undo_and_fail env target message)"
  unfolding undo_and_fail_def by (intro keeps_intros)

lemma keeps_guarded_mounts [keeps_intros]: "keeps (weed_guarded env a) (mount_readonly env source target)"
  "keeps (weed_guarded env a) (mount_masked_view env a)" "keeps (weed_guarded env a) (prove_write_rejected env a)"
  unfolding mount_readonly_def mount_masked_view_def prove_write_rejected_def Let_def by (intro keeps_intros)+

lemma keeps_guarded_mods [keeps_intros]: "keeps (weed_guarded env a) (modS (\<lambda>s. s\<lparr>cs_source_mounted := True\<rparr>))"
  "keeps (weed_guarded env a) (modS (\<lambda>s. s\<lparr>cs_masked_mounted := True\<rparr>))" "keeps (weed_guarded env a) (modS (\<lambda>s. s\<lparr>cs_staged_mounted := True\<rparr>))"
  "keeps (weed_guarded env a) (modS (\<lambda>s. s\<lparr>cs_dirs := g s\<rparr>))"
  by (rule keeps_mod; simp)+

lemma keeps_guarded_dirs [keeps_intros]: "keeps (weed_guarded env a) (rmdir env d)" "keeps (weed_guarded env a) (make_dir env d)"
  unfolding rmdir_def make_dir_def by (intro keeps_intros)+

lemma keeps_guarded_note [keeps_intros]: "keeps (weed_guarded env a) (note_failure m)"
  unfolding note_failure_def by (intro keeps_intros)

lemma keeps_guarded_parts [keeps_intros]:
  "keeps (weed_guarded env a) (remove_stale_dir env d)" "keeps (weed_guarded env a) (remove_private_dir env d)"
  "keeps (weed_guarded env a) (unmount_step env t m)" "keeps (weed_guarded env a) (drop_candidate env m)"
  unfolding remove_stale_dir_def remove_private_dir_def unmount_step_def drop_candidate_def by (intro keeps_intros)+

lemma keeps_guarded_handler [keeps_intros]: "keeps (weed_guarded env a) (handle_build_error e)"
  by (cases e) (simp_all add: handle_build_error_def keeps_intros)

lemma keeps_guarded_whole [keeps_intros]:
  "keeps (weed_guarded env a) (prepare_staging env a)" "keeps (weed_guarded env a) (expose_source env a)"
  "keeps (weed_guarded env a) (cleanup env a)" "keeps (weed_guarded env a) (fingerprint_only env a own)"
  unfolding prepare_staging_def expose_source_def cleanup_def fingerprint_only_def split_def by (intro keeps_intros)+

lemma keeps_guarded_candidate [keeps_intros]: "keeps (weed_guarded env a) (check_candidate env a)"
  unfolding check_candidate_def split_def
proof (intro keeps_intros)
  fix x :: "candidate_slot \<times> byte list"
  show "keeps (weed_guarded env a) (case fst x of
      CandidateFile idx \<Rightarrow> (case inspect_index_bounds idx (snd x) of
            Inl e \<Rightarrow> raiseS (BuildFail (bounds_error env e))
          | Inr bounds \<Rightarrow> bindS (set_result (\<lambda>r. r\<lparr>br_bounds := Some bounds\<rparr>)) (\<lambda>_.
              case violations (ib_scan bounds) of
                v # _ \<Rightarrow> bindS (fs_step env ''unlink candidate'') (\<lambda>_.
                  bindS (set_result (\<lambda>r. r\<lparr>br_manual := True\<rparr>)) (\<lambda>_. raiseS (BuildFail (past_eof_text v))))
              | [] \<Rightarrow> bindS (fs_step env ''fsync candidate'') (\<lambda>_. bindS (fs_step env ''fsync staging'') (\<lambda>_.
                  set_result (\<lambda>r. r\<lparr>br_candidate := Some (int (length idx), digest env idx), br_success := True\<rparr>)))))
     | _ \<Rightarrow> raiseS (BuildFail (''weed fix did not create the expected candidate: '' @ child (ba_staging a) (ba_base a @ ''.idx''))))"
    by (cases "fst x") (auto intro!: keeps_intros)
qed

lemma reconstruct_guarded:
  assumes "weed_guarded env a s" "staged_proof env a (trace s)"
  shows "wp (reconstruct env a own before) (\<lambda>_. weed_guarded env a) (\<lambda>_. weed_guarded env a) s"
proof -
  have "wp (repair_command env (weed_command a)) (\<lambda>_. weed_guarded env a) (\<lambda>_. weed_guarded env a) s"
    using assms by (simp add: repair_command_def wp_bind wp_ask wp_return wp_raise weed_guarded_snoc split: sum.split)
  then show ?thesis
    unfolding reconstruct_def split_def by (rule wp_seq) (rule keepsD, (intro keeps_intros), assumption)
qed

lemma build_body_guarded: "weed_guarded env a s \<Longrightarrow> wp (build_body env a) (\<lambda>_. weed_guarded env a) (\<lambda>_. weed_guarded env a) s"
  unfolding build_body_def
proof (rule wp_seq[OF keepsD[OF keeps_guarded_whole(1)]])
  fix own s1
  assume "weed_guarded env a s1"
  then have "wp (expose_source env a) (\<lambda>_ s'. weed_guarded env a s' \<and> staged_proof env a (trace s')) (\<lambda>_. weed_guarded env a) s1"
    by (intro wp_mono[OF wp_conj[OF keepsD[OF keeps_guarded_whole(2)] expose_source_proof]]) auto
  then show "wp (bindS (expose_source env a) (\<lambda>before. if ba_fingerprint_only a then fingerprint_only env a own else reconstruct env a own before))
      (\<lambda>_. weed_guarded env a) (\<lambda>_. weed_guarded env a) s1"
    by (rule wp_seq) (auto intro: reconstruct_guarded keepsD[OF keeps_guarded_whole(4)])
qed

lemma build_candidate_guarded: "keeps (weed_guarded env a) (helper_build_candidate env a)"
  unfolding helper_build_candidate_def by (intro keeps_intros) (simp add: keeps_def build_body_guarded)

section \<open>What a reported success means\<close>

definition proven_result :: "bool \<Rightarrow> build_result \<Rightarrow> bool" where
  "proven_result only r \<longleftrightarrow> (\<exists>fp. br_before r = Some fp \<and> br_readonly_verified r \<and> br_write_rejected r
     \<and> (\<not> only \<longrightarrow> br_after r = Some fp \<and> br_weed_code r = Some 0 \<and> br_candidate r \<noteq> None
          \<and> (\<exists>b. br_bounds r = Some b \<and> bounds_valid b)))"

definition justified :: "build_args \<Rightarrow> cand_state \<Rightarrow> bool" where
  "justified a s \<longleftrightarrow> (br_success (cs_result s) \<longrightarrow> proven_result (ba_fingerprint_only a) (cs_result s) \<and> all_mounted s)"

definition no_success :: "cand_state \<Rightarrow> bool" where
  "no_success s \<longleftrightarrow> \<not> br_success (cs_result s)"

lemma keeps_quiet_ask [keeps_intros]: "keeps no_success (askS ev answer)"
  by (rule keeps_trace) (simp add: no_success_def)

lemma keeps_quiet_set: "(\<And>r. \<not> br_success r \<Longrightarrow> \<not> br_success (f r)) \<Longrightarrow> keeps no_success (set_result f)"
  unfolding set_result_def by (rule keeps_mod) (simp add: no_success_def)

lemma keeps_quiet_look [keeps_intros]: "keeps no_success (repair_command env cmd)"
  "keeps no_success (fs_step env what)" "keeps no_success (refuse_link env path message)"
  "keeps no_success (stat_source env)" "keeps no_success (take_fingerprint env path)"
  "keeps no_success (last_line out)"
  unfolding look_defs by (intro keeps_intros; simp?)+

lemma keeps_quiet_mods [keeps_intros]: "keeps no_success (modS (\<lambda>s. s\<lparr>cs_source_mounted := True\<rparr>))"
  "keeps no_success (modS (\<lambda>s. s\<lparr>cs_masked_mounted := True\<rparr>))" "keeps no_success (modS (\<lambda>s. s\<lparr>cs_staged_mounted := True\<rparr>))"
  "keeps no_success (modS (\<lambda>s. s\<lparr>cs_dirs := g s\<rparr>))"
  by (rule keeps_mod; simp add: no_success_def)+

lemma keeps_quiet_dirs [keeps_intros]: "keeps no_success (rmdir env d)" "keeps no_success (make_dir env d)"
  "keeps no_success (remove_stale_dir env d)"
  unfolding rmdir_def make_dir_def remove_stale_dir_def by (intro keeps_intros)+

lemma keeps_quiet_undo [keeps_intros]: "keeps no_success (undo_and_fail env target message)"
  "keeps no_success (drop_candidate env message)"
  unfolding undo_and_fail_def drop_candidate_def by (intro keeps_intros)+

lemma keeps_quiet_parts [keeps_intros]: "keeps no_success (mount_readonly env source target)"
  "keeps no_success (mount_masked_view env a)" "keeps no_success (prove_write_rejected env a)"
  "keeps no_success (prepare_staging env a)"
  unfolding mount_readonly_def mount_masked_view_def prove_write_rejected_def prepare_staging_def Let_def split_def
  by (intro keeps_intros)+

lemma keeps_quiet_expose: "keeps no_success (expose_source env a)"
  unfolding expose_source_def by (intro keeps_intros keeps_quiet_set) simp_all

definition staged_result :: "file_fingerprint \<Rightarrow> cand_state \<Rightarrow> bool" where
  "staged_result fp s \<longleftrightarrow> all_mounted s \<and> \<not> br_success (cs_result s) \<and> br_before (cs_result s) = Some fp
     \<and> br_readonly_verified (cs_result s) \<and> br_write_rejected (cs_result s)"

lemma staged_result_trace: "same_but_trace s s' \<Longrightarrow> staged_result fp s \<Longrightarrow> staged_result fp s'"
  by (auto simp: staged_result_def all_mounted_def dest!: same_but_trace_fields)

lemma check_candidate_justified:
  assumes "staged_result fp s" "br_after (cs_result s) = Some fp" "br_weed_code (cs_result s) = Some 0"
  shows "wp (check_candidate env a) (\<lambda>_. justified a) (\<lambda>_. no_success) s"
proof -
  obtain slot src where ask: "(candidate_at env (trace s), source_bytes env (trace s)) = (slot, src)" by blast
  let ?s = "s\<lparr>trace := trace s @ [EAsk ''candidate'']\<rparr>"
  have quiet: "no_success ?s" using assms(1) by (simp add: staged_result_def no_success_def)
  show ?thesis
  proof (cases slot)
    case (CandidateFile idx)
    show ?thesis
    proof (cases "inspect_index_bounds idx src")
      case (Inr b)
      let ?s1 = "?s\<lparr>cs_result := (cs_result ?s)\<lparr>br_bounds := Some b\<rparr>\<rparr>"
      have "wp (bindS (fs_step env ''fsync candidate'') (\<lambda>_. bindS (fs_step env ''fsync staging'') (\<lambda>_.
          set_result (\<lambda>r. r\<lparr>br_candidate := c, br_success := True\<rparr>)))) (\<lambda>_. justified a) (\<lambda>_. no_success) ?s1"
        if "violations (ib_scan b) = []" "c \<noteq> None" for c
        using assms that
        by (simp add: fs_step_def wp_bind wp_ask wp_raise wp_return set_result_def wp_mod no_success_def justified_def proven_result_def
            bounds_valid_def staged_result_def all_mounted_def split: option.split)
      moreover have "wp (bindS (fs_step env ''unlink candidate'') (\<lambda>_. bindS (set_result (\<lambda>r. r\<lparr>br_manual := True\<rparr>)) (\<lambda>_.
          raiseS (BuildFail m) :: unit build))) (\<lambda>_. justified a) (\<lambda>_. no_success) ?s1" for m
        using quiet by (simp add: fs_step_def wp_bind wp_ask wp_raise wp_return set_result_def wp_mod no_success_def split: option.split)
      ultimately show ?thesis
        using ask CandidateFile Inr
        by (simp add: check_candidate_def wp_bind[of "askS _ _"] wp_bind[of "modS _"] wp_ask
            set_result_def[of "\<lambda>r. r\<lparr>br_bounds := _\<rparr>"] wp_mod split: list.split)
    qed (use ask CandidateFile quiet in \<open>simp add: check_candidate_def wp_bind wp_ask wp_raise\<close>)
  qed (use ask quiet in \<open>simp_all add: check_candidate_def wp_bind wp_ask wp_raise\<close>)
qed

lemma wp_look_quiet:
  assumes "keeps (same_but_trace s) m" "keeps no_success m" "no_success s" "\<And>x s'. same_but_trace s s' \<Longrightarrow> wp (f x) Q (\<lambda>_. no_success) s'"
  shows "wp (bindS m f) Q (\<lambda>_. no_success) s"
  by (rule wp_seq[OF wp_mono[OF wp_conj[OF keepsD[OF assms(1) same_but_trace_refl] keepsD[OF assms(2,3)]]]]) (use assms(4) in auto)

lemma drop_candidate_quiet: "no_success s \<Longrightarrow> wp (drop_candidate env m) Q (\<lambda>_. no_success) s"
  by (simp add: drop_candidate_def fs_step_def wp_bind wp_ask wp_raise wp_return no_success_def split: option.split)

lemma staged_quiet: "staged_result fp s \<Longrightarrow> no_success s"
  by (simp add: staged_result_def no_success_def)

lemma reconstruct_justified:
  assumes "staged_result fp s"
  shows "wp (reconstruct env a own fp) (\<lambda>_. justified a) (\<lambda>_. no_success) s"
  unfolding reconstruct_def set_result_def
proof (rule wp_look_quiet[OF keeps_same_run keeps_quiet_look(1) staged_quiet[OF assms]], rule wp_modS,
    rule wp_look_quiet[OF keeps_same_print keeps_quiet_look(5)])
  fix weed after and s1 s2 :: cand_state
  let ?s1 = "s1\<lparr>cs_result := (cs_result s1)\<lparr>br_weed_code := Some (ro_code weed)\<rparr>\<rparr>"
  assume "same_but_trace s s1"
  then have s1: "staged_result fp s1" using assms by (rule staged_result_trace)
  then show "no_success ?s1" by (simp add: staged_result_def no_success_def)
  have s1': "staged_result fp ?s1" using s1 by (simp add: staged_result_def all_mounted_def)
  assume "same_but_trace ?s1 s2"
  then have s2: "staged_result fp s2" "br_weed_code (cs_result s2) = Some (ro_code weed)"
    using s1' same_but_trace_fields[of ?s1 s2] staged_result_trace by auto
  let ?s2 = "s2\<lparr>cs_result := (cs_result s2)\<lparr>br_after := Some after\<rparr>\<rparr>"
  have s2': "staged_result fp ?s2" using s2(1) by (simp add: staged_result_def all_mounted_def)
  show "wp (bindS (modS (\<lambda>s. s\<lparr>cs_result := (cs_result s)\<lparr>br_after := Some after\<rparr>\<rparr>)) (\<lambda>_. bindS (stat_source env) (\<lambda>(_, own2).
     if own2 \<noteq> own then drop_candidate env ''authoritative .dat ownership or permissions changed during reconstruction''
     else if fp \<noteq> after then drop_candidate env ''authoritative .dat changed during candidate reconstruction''
     else if ro_code weed \<noteq> 0
     then drop_candidate env (or_text (ro_err weed) (or_text (ro_out weed) (''weed fix exited with '' @ show_int (ro_code weed))))
     else check_candidate env a))) (\<lambda>_. justified a) (\<lambda>_. no_success) s2"
  proof (rule wp_modS, rule wp_look_quiet[OF keeps_same_stat keeps_quiet_look(4) staged_quiet[OF s2']])
    fix x s3
    assume t: "same_but_trace ?s2 s3"
    have s3: "staged_result fp s3" using t s2' by (rule staged_result_trace)
    have f: "br_after (cs_result s3) = Some after" "br_weed_code (cs_result s3) = Some (ro_code weed)"
      using same_but_trace_fields[OF t] s2(2) by simp_all
    show "wp (case x of (_, own2) \<Rightarrow>
       if own2 \<noteq> own then drop_candidate env ''authoritative .dat ownership or permissions changed during reconstruction''
       else if fp \<noteq> after then drop_candidate env ''authoritative .dat changed during candidate reconstruction''
       else if ro_code weed \<noteq> 0
       then drop_candidate env (or_text (ro_err weed) (or_text (ro_out weed) (''weed fix exited with '' @ show_int (ro_code weed))))
       else check_candidate env a) (\<lambda>_. justified a) (\<lambda>_. no_success) s3"
      using s3 f by (auto simp: split_def intro: drop_candidate_quiet staged_quiet check_candidate_justified)
  qed
qed

lemma fingerprint_only_justified:
  assumes "staged_result fp s" "ba_fingerprint_only a"
  shows "wp (fingerprint_only env a own) (\<lambda>_. justified a) (\<lambda>_. no_success) s"
  unfolding fingerprint_only_def set_result_def
proof (rule wp_look_quiet[OF keeps_same_stat keeps_quiet_look(4) staged_quiet[OF assms(1)]])
  fix x s1
  assume "same_but_trace s s1"
  then have s1: "staged_result fp s1" using assms(1) by (rule staged_result_trace)
  show "wp (case x of (_, own2) \<Rightarrow> bindS (take_fingerprint env (ba_source a)) (\<lambda>after.
     bindS (modS (\<lambda>s. s\<lparr>cs_result := (cs_result s)\<lparr>br_after := Some after\<rparr>\<rparr>)) (\<lambda>_.
     if own2 \<noteq> own then raiseS (BuildFail ''authoritative .dat ownership or permissions changed during staging'')
     else modS (\<lambda>s. s\<lparr>cs_result := (cs_result s)\<lparr>br_success := True\<rparr>\<rparr>)))) (\<lambda>_. justified a) (\<lambda>_. no_success) s1"
    unfolding split_def
  proof (rule wp_look_quiet[OF keeps_same_print keeps_quiet_look(5) staged_quiet[OF s1]])
    fix after s2
    assume "same_but_trace s1 s2"
    then have "staged_result fp s2" using s1 by (rule staged_result_trace)
    then show "wp (bindS (modS (\<lambda>s. s\<lparr>cs_result := (cs_result s)\<lparr>br_after := Some after\<rparr>\<rparr>)) (\<lambda>_.
       if snd x \<noteq> own then raiseS (BuildFail ''authoritative .dat ownership or permissions changed during staging'')
       else modS (\<lambda>s. s\<lparr>cs_result := (cs_result s)\<lparr>br_success := True\<rparr>\<rparr>))) (\<lambda>_. justified a) (\<lambda>_. no_success) s2"
      using assms(2) by (simp add: wp_bind wp_mod wp_raise no_success_def justified_def proven_result_def staged_result_def all_mounted_def)
  qed
qed

lemma build_body_justified:
  assumes "no_success s"
  shows "wp (build_body env a) (\<lambda>_. justified a) (\<lambda>_. no_success) s"
  unfolding build_body_def
proof (rule wp_seq[OF keepsD[OF keeps_quiet_parts(4) assms]])
  fix own s1
  assume q: "no_success s1"
  have "wp (expose_source env a) (\<lambda>fp s'. staged_result fp s') (\<lambda>_. no_success) s1"
    by (rule wp_mono[OF wp_conj[OF expose_source_fields keepsD[OF keeps_quiet_expose q]]]) (auto simp: staged_result_def no_success_def)
  then show "wp (bindS (expose_source env a) (\<lambda>before. if ba_fingerprint_only a then fingerprint_only env a own else reconstruct env a own before))
      (\<lambda>_. justified a) (\<lambda>_. no_success) s1"
    by (rule wp_seq) (auto intro: reconstruct_justified fingerprint_only_justified)
qed

section \<open>The clean-up\<close>

text \<open>Predicates that survive a longer trace, a noted failure and a removed directory.\<close>

definition stable_cleanup :: "(cand_state \<Rightarrow> bool) \<Rightarrow> bool" where
  "stable_cleanup I \<longleftrightarrow> (\<forall>s ev. I s \<longrightarrow> I (s\<lparr>trace := trace s @ [ev]\<rparr>))
     \<and> (\<forall>s m. I s \<longrightarrow> I (s\<lparr>cs_result := (cs_result s)\<lparr>br_success := False, br_error := m\<rparr>\<rparr>))
     \<and> (\<forall>s d. I s \<longrightarrow> I (s\<lparr>cs_dirs := removeAll d (cs_dirs s)\<rparr>))"

lemma settled_steps:
  assumes "stable_cleanup I"
  shows "keeps I (repair_command env cmd)" "keeps I (fs_step env what)" "keeps I (rmdir env d)" "keeps I (note_failure m)"
proof -
  have ask: "keeps I (askS ev answer)" for ev and answer :: "os_event list \<Rightarrow> 'r"
    by (rule keeps_trace) (use assms in \<open>auto simp: stable_cleanup_def\<close>)
  show "keeps I (note_failure m)" unfolding note_failure_def set_result_def
    by (rule keeps_mod) (use assms in \<open>auto simp: stable_cleanup_def\<close>)
  have "keeps I (modS (\<lambda>s. s\<lparr>cs_dirs := removeAll d (cs_dirs s)\<rparr>))"
    by (rule keeps_mod) (use assms in \<open>auto simp: stable_cleanup_def\<close>)
  then show "keeps I (repair_command env cmd)" "keeps I (fs_step env what)" "keeps I (rmdir env d)"
    unfolding repair_command_def fs_step_def rmdir_def by (intro keeps_intros ask; assumption?)+
qed

lemma settled_parts:
  assumes "stable_cleanup I"
  shows "keeps I (unmount_step env t m)" "keeps I (remove_private_dir env d)"
  unfolding unmount_step_def remove_private_dir_def by (intro keeps_intros settled_steps[OF assms])+

definition undone :: "build_env \<Rightarrow> string \<Rightarrow> cand_state \<Rightarrow> bool" where
  "undone env target s \<longleftrightarrow> (br_success (cs_result s) \<longrightarrow> answered env (trace s) [''umount'', target] (\<lambda>out. ro_code out = 0))"

definition gone :: "string \<Rightarrow> cand_state \<Rightarrow> bool" where
  "gone d s \<longleftrightarrow> (br_success (cs_result s) \<longrightarrow> d \<notin> set (cs_dirs s))"

lemma settled_facts: "stable_cleanup (justified a)" "stable_cleanup (undone env target)" "stable_cleanup (gone d)"
  by (auto simp: stable_cleanup_def justified_def undone_def gone_def all_mounted_def intro: answered_mono)

lemma unmount_undone: "wp (unmount_step env target m) (\<lambda>_. undone env target) (\<lambda>_ _. True) s"
  unfolding unmount_step_def
  by (rule wp_seq[OF wp_answered]) (auto simp: wp_when note_failure_def set_result_def wp_mod undone_def)

lemma remove_private_gone: "wp (remove_private_dir env d) (\<lambda>_. gone d) (\<lambda>_ _. True) s"
  by (simp add: remove_private_dir_def rmdir_def wp_bind wp_get wp_ask wp_mod wp_return wp_when note_failure_def set_result_def gone_def)

lemma wp_settled:
  assumes "stable_cleanup I" "wp m (\<lambda>_. I) (\<lambda>_ _. True) s" "\<And>x. keeps I (f x)"
  shows "wp (bindS m f) (\<lambda>_. I) (\<lambda>_ _. True) s"
  by (rule wp_seq[OF assms(2)]) (use assms(3) in \<open>auto intro: wp_mono[OF keepsD]\<close>)

lemma wp_while_justified:
  assumes "justified a s" "keeps (justified a) m" "\<And>x s'. justified a s' \<Longrightarrow> wp (f x) Q (\<lambda>_ _. True) s'"
  shows "wp (bindS m f) Q (\<lambda>_ _. True) s"
  by (rule wp_seq[OF wp_mono[OF keepsD[OF assms(2,1)]]]) (use assms(3) in auto)

lemma when_undone:
  assumes "justified a s" "\<not> mounted \<Longrightarrow> \<not> all_mounted s"
  shows "wp (whenS mounted (unmount_step env target m)) (\<lambda>_. undone env target) (\<lambda>_ _. True) s"
  using assms unmount_undone by (auto simp: wp_when undone_def justified_def)

lemmas cleanup_keeps = keeps_bind keeps_get keeps_when keeps_for settled_steps settled_parts

lemma cleanup_undoes:
  assumes "justified a s"
  shows "wp (cleanup env a) (\<lambda>_ s'. justified a s' \<and> undone env (staged_dat a) s' \<and> undone env (masked_dir a) s'
      \<and> undone env (source_bind a) s' \<and> gone (masked_dir a) s' \<and> gone (source_dir a) s') (\<lambda>_ _. True) s"
proof -
  note steps = wp_bind[of "getS _"] wp_get
  note J = settled_facts(1)[of a]
  have keep: "keeps (justified a) (cleanup env a)" unfolding cleanup_def by (intro cleanup_keeps J)
  have 0: "wp (cleanup env a) (\<lambda>_. justified a) (\<lambda>_ _. True) s" by (rule wp_mono[OF keepsD[OF keep assms]]) simp_all
  have 1: "wp (cleanup env a) (\<lambda>_. undone env (staged_dat a)) (\<lambda>_ _. True) s"
    unfolding cleanup_def steps
    by (rule wp_settled[OF settled_facts(2) when_undone[OF assms]]) (simp add: all_mounted_def, intro cleanup_keeps settled_facts)
  have 2: "wp (cleanup env a) (\<lambda>_. undone env (masked_dir a)) (\<lambda>_ _. True) s"
    unfolding cleanup_def steps
    by (rule wp_while_justified[OF assms], (intro cleanup_keeps J), rule wp_while_justified, assumption, (intro cleanup_keeps J),
        simp only: steps, rule wp_settled[OF settled_facts(2) when_undone], assumption)
      (simp add: all_mounted_def, intro cleanup_keeps settled_facts)
  have 3: "wp (cleanup env a) (\<lambda>_. undone env (source_bind a)) (\<lambda>_ _. True) s"
    unfolding cleanup_def steps
    by (rule wp_while_justified[OF assms], (intro cleanup_keeps J), rule wp_while_justified, assumption, (intro cleanup_keeps J),
        simp only: steps, rule wp_while_justified, assumption, (intro cleanup_keeps J),
        simp only: steps, rule wp_settled[OF settled_facts(2) when_undone], assumption)
      (simp add: all_mounted_def, intro cleanup_keeps settled_facts)
  have 4: "wp (cleanup env a) (\<lambda>_. gone (masked_dir a)) (\<lambda>_ _. True) s"
    unfolding cleanup_def steps
    by (rule wp_skip, rule wp_skip, simp only: steps, rule wp_skip, simp only: steps, rule wp_skip, rule wp_skip,
        simp only: forS.simps, rule wp_settled[OF settled_facts(3) remove_private_gone]) (intro cleanup_keeps settled_facts keeps_return)
  have 5: "wp (cleanup env a) (\<lambda>_. gone (source_dir a)) (\<lambda>_ _. True) s"
    unfolding cleanup_def steps
    by (rule wp_skip, rule wp_skip, simp only: steps, rule wp_skip, simp only: steps, rule wp_skip, rule wp_skip,
        simp only: forS.simps, rule wp_skip, rule wp_settled[OF settled_facts(3) remove_private_gone]) (rule keeps_return)
  show ?thesis by (rule wp_mono[OF wp_conj[OF 0 wp_conj[OF 1 wp_conj[OF 2 wp_conj[OF 3 wp_conj[OF 4 5]]]]]]) simp_all
qed

lemma build_candidate_sound:
  assumes "no_success s"
  shows "wp (helper_build_candidate env a) (\<lambda>r s'. br_success r \<longrightarrow> proven_result (ba_fingerprint_only a) r
      \<and> (\<forall>target\<in>{staged_dat a, masked_dir a, source_bind a}. answered env (trace s') [''umount'', target] (\<lambda>out. ro_code out = 0))
      \<and> masked_dir a \<notin> set (cs_dirs s') \<and> source_dir a \<notin> set (cs_dirs s')) (\<lambda>_ _. True) s"
proof -
  have "wp (handle_build_error e) (\<lambda>_. justified a) (\<lambda>_. justified a) s1" if "no_success s1" for e s1
    using that by (cases e) (simp_all add: handle_build_error_def note_failure_def set_result_def wp_mod wp_raise justified_def no_success_def)
  then have body: "wp (catchS (build_body env a) handle_build_error) (\<lambda>_. justified a) (\<lambda>_. justified a) s"
    unfolding wp_catch by (intro wp_mono[OF build_body_justified[OF assms]])
  have "wp (cleanup env a) (\<lambda>_ s'. br_success (cs_result s') \<longrightarrow> proven_result (ba_fingerprint_only a) (cs_result s')
      \<and> (\<forall>target\<in>{staged_dat a, masked_dir a, source_bind a}. answered env (trace s') [''umount'', target] (\<lambda>out. ro_code out = 0))
      \<and> masked_dir a \<notin> set (cs_dirs s') \<and> source_dir a \<notin> set (cs_dirs s')) (\<lambda>_ _. True) s1" if "justified a s1" for s1
    by (rule wp_mono[OF cleanup_undoes[OF that]]) (auto simp: justified_def undone_def gone_def)
  moreover have "wp (cleanup env a) (\<lambda>_ _. True) (\<lambda>_ _. True) s1" for s1 by (rule wp_true)
  ultimately show ?thesis
    unfolding helper_build_candidate_def wp_bind wp_finally wp_get by (intro wp_mono[OF body])
qed

section \<open>Properties\<close>


text \<open>
  C3. \<open>weed fix\<close> never runs on a writable view: in every run, however it ends, a reconstruction command comes after the bind
  mount of the source and the staged file were remounted read-only and seen as read-only, and after a write through
  the staged file, as the user \<open>weed\<close> runs as, was rejected.
\<close>

theorem weed_only_readonly:
  assumes "helper_build_candidate env a (fresh_build dirs) = (x, s')" "trace s' = u @ ERun (weed_command a) # v"
  shows "staged_proof env a u"
proof -
  have "weed_guarded env a (snd (helper_build_candidate env a (fresh_build dirs)))"
    by (rule keeps_run[OF build_candidate_guarded]) (simp add: weed_guarded_def fresh_build_def)
  with assms show ?thesis by (simp add: weed_guarded_def)
qed

definition example_build_env :: build_env where
  "example_build_env =
     \<lparr>exec = \<lambda>tr cmd. Inr (if hd cmd = ''findmnt''
        then \<lparr>ro_code = 0, ro_out = (if cmd ! 3 = ''OPTIONS'' then ''ro,nosuid'' else ''fuse ro''), ro_err = []\<rparr>
        else if hd cmd = ''setpriv'' \<and> cmd ! 6 = ''-c'' then \<lparr>ro_code = 1, ro_out = [], ro_err = ''denied''\<rparr>
        else \<lparr>ro_code = 0, ro_out = [], ro_err = []\<rparr>),
      fs_fails = \<lambda>tr w. None, is_link = \<lambda>tr p. False, src_stat = \<lambda>tr. Inr (True, \<lparr>own_mode = 420, own_uid = 1, own_gid = 1\<rparr>),
      observed = \<lambda>tr p. Inr (True, \<lparr>contents = [3], mtime_ns = 7\<rparr>, [3], \<lparr>contents = [3], mtime_ns = 7\<rparr>),
      candidate_at = \<lambda>tr. CandidateFile [], source_bytes = \<lambda>tr. [3], digest = \<lambda>b. ''h'', bounds_error = \<lambda>e. [],
      interpreter = ''python3''\<rparr>"

definition example_build_args :: build_args where
  "example_build_args = \<lparr>ba_source = ''/d/1.dat'', ba_staging = ''/s'', ba_base = ''1'', ba_collection = [], ba_volume = 1,
     ba_weed = ''weed'', ba_uid = 5, ba_gid = 5, ba_fingerprint_only = False\<rparr>"

lemma example_texts:
  "py_splitlines ''ro,nosuid'' = [''ro,nosuid'']" "py_splitlines ''fuse ro'' = [''fuse ro'']"
  "py_strip ''ro,nosuid'' = ''ro,nosuid''" "py_strip ''fuse ro'' = ''fuse ro''"
  "py_split_char (CHR '','') ''ro,nosuid'' = [''ro'', ''nosuid'']" "py_split_char (CHR '','') ''ro'' = [''ro'']" "py_strip ''ro'' = ''ro''" "py_lstrip '' ro'' = ''ro''"
  "py_isspace CHR '' ''" "\<not> py_isspace CHR ''f''" "\<not> py_isspace CHR ''u''" "\<not> py_isspace CHR ''s''" "\<not> py_isspace CHR ''e''"
  "\<not> py_isspace CHR ''r''"
  by code_simp+

lemma example_fingerprint:
  "fingerprint_observed (\<lambda>b. ''h'') FINGERPRINT_REGION_BYTES True \<lparr>contents = [3], mtime_ns = 7\<rparr> [3] \<lparr>contents = [3], mtime_ns = 7\<rparr>
     = Inr \<lparr>fp_size = 1, fp_mtime_ns = 7, fp_head_bytes = 1, fp_head_sha256 = ''h'', fp_tail_offset = 0, fp_tail_bytes = 1, fp_tail_sha256 = ''h''\<rparr>"
  by (simp add: fingerprint_observed_def FINGERPRINT_REGION_BYTES_def Let_def)

lemma example_bounds: "inspect_index_bounds [] [3] = Inr \<lparr>ib_version = 3, ib_source_size = 1, ib_index_size = 0, ib_scan = scan_init\<rparr>"
  by (simp add: inspect_index_bounds_def scan_index.simps)

lemmas build_run = helper_build_candidate_def build_body_def finallyS_def catchS_def bindS_def returnS_def raiseS_def getS_def modS_def whenS_def
  askS_def forS.simps prepare_staging_def refuse_link_def stat_source_def fs_step_def remove_stale_dir_def rmdir_def make_dir_def
  expose_source_def take_fingerprint_def set_result_def repair_command_def mount_readonly_def last_line_def mount_option_set_def
  mount_masked_view_def prove_write_rejected_def reconstruct_def check_candidate_def cleanup_def unmount_step_def
  remove_private_dir_def note_failure_def handle_build_error_def fresh_build_def fresh_result_def

lemma example_build: "\<exists>s'. helper_build_candidate example_build_env example_build_args (fresh_build []) = (Inr (cs_result s'), s')
    \<and> br_success (cs_result s') \<and> ERun (weed_command example_build_args) \<in> set (trace s')"
  by (simp add: build_run example_build_env_def example_texts example_fingerprint example_bounds Let_def findmnt_options_def
      bindfs_command_def write_test_def as_user_def weed_command_def example_build_args_def staged_dat_def source_dir_def
      masked_dir_def source_bind_def masked_dat_def child_def scan_init_def)


theorem weed_only_readonly_witness:
  "\<exists>x s' u v. helper_build_candidate example_build_env example_build_args (fresh_build []) = (x, s')
     \<and> trace s' = u @ ERun (weed_command example_build_args) # v \<and> staged_proof example_build_env example_build_args u"
proof -
  obtain s' where run: "helper_build_candidate example_build_env example_build_args (fresh_build []) = (Inr (cs_result s'), s')"
    and "ERun (weed_command example_build_args) \<in> set (trace s')" using example_build by blast
  then obtain u v where "trace s' = u @ ERun (weed_command example_build_args) # v" by (meson split_list)
  with run weed_only_readonly[OF run] show ?thesis by blast
qed



end
