(* ===== verification/Health.thy ===== *)
theory Health
  imports Prelude
begin

text \<open>
  \<open>health.py\<close>: the status object the guardian writes, the answers of the HTTP endpoint and the text of the metrics.
  Dictionaries keep their order; floats carry the text Python prints for them, as everywhere in \<open>json\<close>. The lock of
  the object makes each method one step. The clock readings are arguments.
\<close>

section \<open>The status object\<close>

record health_state =
  hs_state :: string
  hs_ready :: bool
  hs_reason :: string
  hs_since :: json
  hs_storage :: "(string \<times> (string \<times> json) list) list"
  hs_recovery_attempts :: int
  hs_failures_total :: int
  hs_consecutive_probe_successes :: int
  hs_last_probe_at :: json
  hs_probe_started_monotonic :: json
  hs_admission :: "(string \<times> json) list"
  hs_blocked_recovery :: "(string \<times> json) list"
  hs_last_probe_duration_seconds :: json
  hs_last_failure_at :: json
  hs_last_failure :: string
  hs_recovery_stable_since :: json
  hs_writer :: "(string \<times> json) list"
  hs_generation :: "(string \<times> json) list"
  hs_generation_history :: "(string \<times> json) list"
  hs_seaweed_volumes :: "(string \<times> json) list"
  hs_index_repair :: "(string \<times> json) list"

abbreviation zero_float :: json where
  "zero_float \<equiv> JFloat 0 ''0.0''"

definition initial_health :: "json \<Rightarrow> health_state" where
  "initial_health t =
     \<lparr>hs_state = ''BOOTSTRAPPING'', hs_ready = False, hs_reason = ''starting'', hs_since = t, hs_storage = [],
      hs_recovery_attempts = 0, hs_failures_total = 0, hs_consecutive_probe_successes = 0, hs_last_probe_at = zero_float,
      hs_probe_started_monotonic = zero_float, hs_admission = [], hs_blocked_recovery = [],
      hs_last_probe_duration_seconds = zero_float, hs_last_failure_at = zero_float, hs_last_failure = [],
      hs_recovery_stable_since = zero_float,
      hs_writer = [(''scope'', JStr ''local''), (''held'', JBool False)],
      hs_generation = [(''id'', JInt 0), (''mode'', JStr ''disabled''), (''state'', JStr ''none''), (''fenced'', JBool True)],
      hs_generation_history = [(''indexes_certified'', JBool True), (''counters'', JObj []), (''recent'', JList [])],
      hs_seaweed_volumes = [(''checked'', JBool False), (''total'', JInt 0), (''readonly'', JInt 0), (''writable'', JInt 0),
        (''unexpected_readonly'', JInt 0), (''orphan_deletion_safe'', JBool False), (''collections'', JObj [])],
      hs_index_repair = [(''enabled'', JBool False), (''state'', JStr ''idle''), (''transaction_id'', JStr []),
        (''pending_volume_ids'', JList []), (''current_volume_id'', JInt 0), (''verified_volume_ids'', JList []),
        (''resolved_without_install_volume_ids'', JList []), (''failed_volume_ids'', JList []), (''last_error'', JStr []),
        (''started_at'', zero_float), (''updated_at'', zero_float), (''counters'', JObj [])]\<rparr>"

text \<open>\<open>d[k] = v\<close>: an existing key keeps its place.\<close>

fun dict_set :: "(string \<times> 'v) list \<Rightarrow> string \<Rightarrow> 'v \<Rightarrow> (string \<times> 'v) list" where
  "dict_set [] k v = [(k, v)]"
| "dict_set ((k', v') # d) k v = (if k' = k then (k, v) # d else (k', v') # dict_set d k v)"

text \<open>One constructor per method that changes the object; a clock reading the method makes is its first argument.\<close>

datatype health_op =
    SetHealth json string bool string
  | SetStorage string "(string \<times> json) list"
  | StartProbe json
  | SetAdmission "(string \<times> json) list"
  | SetBlockedRecovery "(string \<times> json) list"
  | RecordProbe json bool json string
  | SetRecoveryStableSince json
  | SetWriter bool string string
  | SetGeneration "(string \<times> json) list"
  | SetGenerationHistory "(string \<times> json) list"
  | SetSeaweedVolumes "(string \<times> json) list"
  | SetIndexRepair "(string \<times> json) list"
  | IncrementFailure json
  | IncrementRecovery

fun health_step :: "health_op \<Rightarrow> health_state \<Rightarrow> health_state" where
  "health_step (SetHealth t state ready reason) h =
     (let h1 = (if state \<noteq> hs_state h then h\<lparr>hs_since := t\<rparr> else h)
      in h1\<lparr>hs_state := state, hs_ready := ready, hs_reason := reason\<rparr>)"
| "health_step (SetStorage name values) h = h\<lparr>hs_storage := dict_set (hs_storage h) name values\<rparr>"
| "health_step (StartProbe t) h = h\<lparr>hs_probe_started_monotonic := t\<rparr>"
| "health_step (SetAdmission values) h = h\<lparr>hs_admission := values\<rparr>"
| "health_step (SetBlockedRecovery values) h = h\<lparr>hs_blocked_recovery := values\<rparr>"
| "health_step (RecordProbe t success duration error) h =
     (let h1 = h\<lparr>hs_probe_started_monotonic := zero_float, hs_last_probe_at := t, hs_last_probe_duration_seconds := duration\<rparr>
      in if success then h1\<lparr>hs_consecutive_probe_successes := hs_consecutive_probe_successes h1 + 1\<rparr>
         else h1\<lparr>hs_consecutive_probe_successes := 0, hs_last_failure_at := t, hs_last_failure := error\<rparr>)"
| "health_step (SetRecoveryStableSince v) h = h\<lparr>hs_recovery_stable_since := v\<rparr>"
| "health_step (SetWriter held scope owner) h =
     h\<lparr>hs_writer := [(''scope'', JStr scope), (''held'', JBool held), (''owner'', JStr owner)]\<rparr>"
| "health_step (SetGeneration values) h = h\<lparr>hs_generation := values\<rparr>"
| "health_step (SetGenerationHistory values) h = h\<lparr>hs_generation_history := values\<rparr>"
| "health_step (SetSeaweedVolumes values) h = h\<lparr>hs_seaweed_volumes := values\<rparr>"
| "health_step (SetIndexRepair values) h = h\<lparr>hs_index_repair := values\<rparr>"
| "health_step (IncrementFailure t) h = h\<lparr>hs_failures_total := hs_failures_total h + 1, hs_last_failure_at := t\<rparr>"
| "health_step IncrementRecovery h = h\<lparr>hs_recovery_attempts := hs_recovery_attempts h + 1\<rparr>"

definition health_run :: "health_op list \<Rightarrow> health_state \<Rightarrow> health_state" where
  "health_run ops h = fold health_step ops h"

definition snapshot_dict :: "health_state \<Rightarrow> (string \<times> json) list" where
  "snapshot_dict h =
     [(''state'', JStr (hs_state h)), (''ready'', JBool (hs_ready h)), (''reason'', JStr (hs_reason h)), (''since'', hs_since h),
      (''storage'', JObj (map (\<lambda>(n, v). (n, JObj v)) (hs_storage h))), (''recovery_attempts'', JInt (hs_recovery_attempts h)),
      (''failures_total'', JInt (hs_failures_total h)),
      (''consecutive_probe_successes'', JInt (hs_consecutive_probe_successes h)), (''last_probe_at'', hs_last_probe_at h),
      (''probe_started_monotonic'', hs_probe_started_monotonic h), (''admission'', JObj (hs_admission h)),
      (''blocked_recovery'', JObj (hs_blocked_recovery h)),
      (''last_probe_duration_seconds'', hs_last_probe_duration_seconds h), (''last_failure_at'', hs_last_failure_at h),
      (''last_failure'', JStr (hs_last_failure h)), (''recovery_stable_since'', hs_recovery_stable_since h),
      (''writer'', JObj (hs_writer h)), (''generation'', JObj (hs_generation h)),
      (''generation_history'', JObj (hs_generation_history h)), (''seaweed_volumes'', JObj (hs_seaweed_volumes h)),
      (''index_repair'', JObj (hs_index_repair h))]"

section \<open>Metrics\<close>

text \<open>A value that should be a dictionary or a list and is not.\<close>

datatype metrics_error = AttributeError | LengthError

definition sub_dict :: "(string \<times> json) list \<Rightarrow> string \<Rightarrow> metrics_error + (string \<times> json) list" where
  "sub_dict d k = (case json_get d k of None \<Rightarrow> Inr [] | Some (JObj v) \<Rightarrow> Inr v | Some _ \<Rightarrow> Inl AttributeError)"

definition get_or_zero :: "(string \<times> json) list \<Rightarrow> string \<Rightarrow> string" where
  "get_or_zero d k = (case json_get d k of None \<Rightarrow> ''0'' | Some v \<Rightarrow> py_str v)"

definition flag_of :: "(string \<times> json) list \<Rightarrow> string \<Rightarrow> string" where
  "flag_of d k = (case json_get d k of None \<Rightarrow> ''0'' | Some v \<Rightarrow> if py_truthy v then ''1'' else ''0'')"

definition replace_char :: "char \<Rightarrow> string \<Rightarrow> string \<Rightarrow> string" where
  "replace_char c r s = concat (map (\<lambda>x. if x = c then r else [x]) s)"

abbreviation backslash :: char where "backslash \<equiv> CHR 0x5C"
abbreviation dquote :: char where "dquote \<equiv> CHR 0x22"
abbreviation linefeed :: char where "linefeed \<equiv> CHR 0x0A"

definition label :: "string \<Rightarrow> string" where
  "label s = replace_char linefeed [backslash, CHR ''n''] (replace_char dquote [backslash, dquote]
     (replace_char backslash [backslash, backslash] s))"

definition metric :: "string \<Rightarrow> string \<Rightarrow> string" where
  "metric name value = ''s3_storage_node_'' @ name @ '' '' @ value"

definition labelled :: "string \<Rightarrow> (string \<times> string) list \<Rightarrow> string \<Rightarrow> string" where
  "labelled name labels value = ''s3_storage_node_'' @ name @ ''{''
     @ py_join '','' (map (\<lambda>(k, v). k @ ''='' @ [dquote] @ label v @ [dquote]) labels) @ ''} '' @ value"

definition typed :: "string \<Rightarrow> string \<Rightarrow> string \<Rightarrow> string list" where
  "typed name kind value = [''# TYPE s3_storage_node_'' @ name @ '' '' @ kind, metric name value]"

definition pending_count :: "(string \<times> json) list \<Rightarrow> metrics_error + string" where
  "pending_count d = (case json_get d ''pending_volume_ids'' of
       None \<Rightarrow> Inr ''0''
     | Some (JList vs) \<Rightarrow> Inr (show_int (int (length vs)))
     | Some (JStr s) \<Rightarrow> Inr (show_int (int (length s)))
     | Some (JObj o') \<Rightarrow> Inr (show_int (int (length o')))
     | Some _ \<Rightarrow> Inl LengthError)"

definition base_lines :: "health_state \<Rightarrow> string list" where
  "base_lines h =
     [''# HELP s3_storage_node_ready Whether the appliance can safely serve S3 traffic.'']
     @ typed ''ready'' ''gauge'' (if hs_ready h then ''1'' else ''0'')
     @ typed ''failures_total'' ''counter'' (show_int (hs_failures_total h))
     @ typed ''recovery_attempts'' ''counter'' (show_int (hs_recovery_attempts h))
     @ [''# HELP s3_storage_node_manual_intervention_required Whether recovery is parked for operator review.'']
     @ typed ''manual_intervention_required'' ''gauge''
         (if hs_state h \<in> {''MANUAL_INTERVENTION_REQUIRED'', ''HOST_RECOVERY_REQUIRED''} then ''1'' else ''0'')
     @ typed ''consecutive_probe_successes'' ''gauge'' (show_int (hs_consecutive_probe_successes h))
     @ typed ''last_probe_duration_seconds'' ''gauge'' (py_str (hs_last_probe_duration_seconds h))
     @ typed ''writer_lease_held'' ''gauge'' (flag_of (hs_writer h) ''held'')
     @ typed ''generation'' ''gauge'' (get_or_zero (hs_generation h) ''id'')
     @ typed ''generation_fenced'' ''gauge'' (flag_of (hs_generation h) ''fenced'')
     @ typed ''indexes_certified'' ''gauge'' (flag_of (hs_generation_history h) ''indexes_certified'')
     @ typed ''seaweed_volume_total'' ''gauge'' (get_or_zero (hs_seaweed_volumes h) ''total'')
     @ typed ''seaweed_volume_readonly'' ''gauge'' (get_or_zero (hs_seaweed_volumes h) ''readonly'')
     @ typed ''seaweed_volume_writable'' ''gauge'' (get_or_zero (hs_seaweed_volumes h) ''writable'')
     @ typed ''seaweed_volume_unexpected_readonly'' ''gauge'' (get_or_zero (hs_seaweed_volumes h) ''unexpected_readonly'')
     @ typed ''orphan_deletion_safe'' ''gauge'' (flag_of (hs_seaweed_volumes h) ''orphan_deletion_safe'')"

definition repair_counters :: "string list" where
  "repair_counters = [''detected'', ''attempted'', ''succeeded'', ''resolved_without_install'', ''failed'', ''rolled_back'']"

definition repair_lines :: "health_state \<Rightarrow> metrics_error + string list" where
  "repair_lines h =
     bindE (sub_dict (hs_index_repair h) ''counters'') (\<lambda>c.
     bindE (pending_count (hs_index_repair h)) (\<lambda>n.
     Inr (concat (map (\<lambda>k. typed (''index_repairs_'' @ k @ ''_total'') ''counter'' (get_or_zero c (k @ ''_total''))) repair_counters)
       @ typed ''index_repair_pending'' ''gauge'' n
       @ typed ''index_repair_current_volume'' ''gauge'' (get_or_zero (hs_index_repair h) ''current_volume_id''))))"

definition admission_lines :: "health_state \<Rightarrow> string list" where
  "admission_lines h = map (\<lambda>k. metric (''admission_'' @ k) (get_or_zero (hs_admission h) k))
     [''write_limit'', ''queue'', ''active'', ''backoffs_total'', ''control_errors_total'']"

definition generation_metrics :: "(string \<times> string) list" where
  "generation_metrics =
     [(''generations_created_total'', ''generations_created_total''),
      (''generations_completed_total'', ''generations_completed_total''),
      (''clean_shutdowns_total'', ''generation_clean_shutdowns_total''),
      (''unclean_shutdowns_total'', ''generation_unclean_shutdowns_total''),
      (''verified_fences_total'', ''generation_verified_fences_total''),
      (''unverified_fences_total'', ''generation_unverified_fences_total''),
      (''index_certifications_total'', ''index_certifications_total'')]"

definition generation_lines :: "(string \<times> json) list \<Rightarrow> string list" where
  "generation_lines c =
     map (\<lambda>(k, m). metric m (get_or_zero c k)) generation_metrics
     @ map (\<lambda>(k, v). labelled ''generation_cause_total'' [(''cause'', drop 6 k)] (py_str v))
         (filter (\<lambda>(k, v). py_startswith k ''cause:'') c)"

fun collection_lines :: "(string \<times> json) list \<Rightarrow> metrics_error + string list" where
  "collection_lines [] = Inr []"
| "collection_lines ((name, JObj v) # cs) =
     bindE (collection_lines cs) (\<lambda>ls.
     Inr (map (\<lambda>st. labelled ''seaweed_collection_volumes'' [(''collection'', name), (''state'', st)] (get_or_zero v st))
       [''total'', ''readonly'', ''writable''] @ ls))"
| "collection_lines (_ # cs) = Inl AttributeError"

definition when_present :: "(string \<times> json) list \<Rightarrow> string \<Rightarrow> (json \<Rightarrow> string list) \<Rightarrow> string list" where
  "when_present d k f = (case json_get d k of None \<Rightarrow> [] | Some v \<Rightarrow> f v)"

definition get_text :: "(string \<times> json) list \<Rightarrow> string \<Rightarrow> string \<Rightarrow> string" where
  "get_text d k dflt = (case json_get d k of None \<Rightarrow> dflt | Some v \<Rightarrow> py_str v)"

definition storage_lines :: "string \<times> (string \<times> json) list \<Rightarrow> string list" where
  "storage_lines nv = (case nv of (name, d) \<Rightarrow>
     let tgt = (''target'', name); one = (\<lambda>m v. [labelled m [tgt] (py_str v)])
     in when_present d ''free_bytes'' (one ''storage_free_bytes'')
      @ when_present d ''total_bytes'' (one ''storage_total_bytes'')
      @ when_present d ''connected_channels'' (one ''cifs_connected_channels'')
      @ when_present d ''cifs_session_reconnects'' (one ''cifs_session_reconnects'')
      @ when_present d ''cifs_share_reconnects'' (one ''cifs_share_reconnects'')
      @ when_present d ''effective_smb_dialect'' (\<lambda>v. [labelled ''cifs_transport_info''
          [tgt, (''dialect'', py_str v), (''handles'', get_text d ''effective_handle_reconnect_mode'' ''disabled'')] ''1''])
      @ when_present d ''active_transport'' (\<lambda>v.
          [labelled ''transport_info'' [tgt, (''active'', py_str v), (''primary'', get_text d ''primary_transport'' [])] ''1'',
           labelled ''transport_using_primary'' [tgt] (get_or_zero d ''using_primary'')]))"

definition metrics_lines :: "health_state \<Rightarrow> metrics_error + string list" where
  "metrics_lines h =
     bindE (repair_lines h) (\<lambda>rs.
     bindE (sub_dict (hs_generation_history h) ''counters'') (\<lambda>gc.
     bindE (sub_dict (hs_seaweed_volumes h) ''collections'') (\<lambda>cols.
     bindE (collection_lines cols) (\<lambda>cs.
     Inr (base_lines h @ rs @ admission_lines h @ generation_lines gc @ cs @ concat (map storage_lines (hs_storage h)))))))"

definition metrics_body :: "health_state \<Rightarrow> metrics_error + string" where
  "metrics_body h = bindE (metrics_lines h) (\<lambda>ls. Inr (py_join [linefeed] ls @ [linefeed]))"

section \<open>The endpoint\<close>

datatype http_body = JsonBody "(string \<times> json) list" | MetricsBody string

definition do_GET :: "string \<Rightarrow> health_state \<Rightarrow> metrics_error + int \<times> http_body" where
  "do_GET path h =
     (if path = ''/live'' then Inr (200, JsonBody ((''live'', JBool True) # snapshot_dict h))
      else if path = ''/ready'' \<or> path = ''/healthz'' then Inr (if hs_ready h then 200 else 503, JsonBody (snapshot_dict h))
      else if path = ''/metrics'' then bindE (metrics_body h) (\<lambda>b. Inr (200, MetricsBody b))
      else Inr (404, JsonBody [(''error'', JStr ''not found'')]))"

section \<open>Labels\<close>

definition label_escape :: "char \<Rightarrow> string" where
  "label_escape c = (if c = backslash then [backslash, backslash] else if c = dquote then [backslash, dquote]
     else if c = linefeed then [backslash, CHR ''n''] else [c])"

text \<open>The three replacements one after the other do what one pass over the characters does.\<close>

lemma label_escapes: "label s = concat (map label_escape s)"
  by (induction s) (simp_all add: label_def replace_char_def label_escape_def)

fun unlabel :: "string \<Rightarrow> string" where
  "unlabel [] = []"
| "unlabel [c] = [c]"
| "unlabel (c # d # s) = (if c = backslash then (if d = CHR ''n'' then linefeed else d) # unlabel s else c # unlabel (d # s))"

lemma unlabel_step: "unlabel (label_escape c @ s) = c # unlabel s"
  by (cases s) (simp_all add: label_escape_def)

lemma unlabel_label: "unlabel (label s) = s"
  by (induction s) (simp_all add: label_escapes unlabel_step)

lemma label_one_line: "linefeed \<notin> set (label s)"
  by (induction s) (simp_all add: label_escapes label_escape_def)

section \<open>One line each\<close>

definition plain :: "json \<Rightarrow> bool" where
  "plain v \<longleftrightarrow> linefeed \<notin> set (py_str v)"

definition plain_at :: "(string \<times> json) list \<Rightarrow> string list \<Rightarrow> bool" where
  "plain_at d ks \<longleftrightarrow> (\<forall>k\<in>set ks. \<forall>v. json_get d k = Some v \<longrightarrow> plain v)"

definition metric_line :: "string \<Rightarrow> bool" where
  "metric_line l \<longleftrightarrow> linefeed \<notin> set l \<and> (py_startswith l ''# '' \<or> py_startswith l ''s3_storage_node_'')"

text \<open>The values the metrics print outside of labels are numbers: their text has no line end.\<close>

definition numbers_plain :: "health_state \<Rightarrow> bool" where
  "numbers_plain h \<longleftrightarrow> plain (hs_last_probe_duration_seconds h) \<and> plain_at (hs_generation h) [''id'']
     \<and> plain_at (hs_seaweed_volumes h) [''total'', ''readonly'', ''writable'', ''unexpected_readonly'']
     \<and> plain_at (hs_index_repair h) [''current_volume_id'']
     \<and> (\<forall>c. json_get (hs_index_repair h) ''counters'' = Some (JObj c) \<longrightarrow> list_all (\<lambda>kv. plain (snd kv)) c)
     \<and> list_all (\<lambda>kv. plain (snd kv)) (hs_admission h)
     \<and> (\<forall>c. json_get (hs_generation_history h) ''counters'' = Some (JObj c) \<longrightarrow> list_all (\<lambda>kv. plain (snd kv)) c)
     \<and> (\<forall>c n v. json_get (hs_seaweed_volumes h) ''collections'' = Some (JObj c) \<longrightarrow> (n, JObj v) \<in> set c \<longrightarrow> list_all (\<lambda>kv. plain (snd kv)) v)
     \<and> (\<forall>(n, d)\<in>set (hs_storage h). plain_at d [''free_bytes'', ''total_bytes'', ''connected_channels'', ''cifs_session_reconnects'',
          ''cifs_share_reconnects'', ''using_primary''])"

lemma show_nat_one_line: "linefeed \<notin> set (show_nat n)"
  using show_nat_plain[of linefeed n] by (auto simp: digit_value_def)

lemma show_int_one_line: "linefeed \<notin> set (show_int n)"
  using show_nat_one_line by (simp add: show_int_def)

lemma startswith_append [simp]: "py_startswith (p @ s) p"
  by (simp add: py_startswith_def)

lemma metric_line_metric: "linefeed \<notin> set name \<Longrightarrow> linefeed \<notin> set value \<Longrightarrow> metric_line (metric name value)"
  by (simp add: metric_line_def metric_def py_startswith_def)

lemma metric_line_typed:
  "linefeed \<notin> set name \<Longrightarrow> linefeed \<notin> set kind \<Longrightarrow> linefeed \<notin> set value \<Longrightarrow> list_all metric_line (typed name kind value)"
  by (simp add: typed_def metric_line_metric) (simp add: metric_line_def py_startswith_def)

lemma join_one_line: "\<forall>x\<in>set xs. c \<notin> set x \<Longrightarrow> c \<notin> set sep \<Longrightarrow> c \<notin> set (py_join sep xs)"
  by (induction sep xs rule: py_join.induct) auto

lemma metric_line_labelled:
  assumes "linefeed \<notin> set name" "\<forall>(k, v)\<in>set labels. linefeed \<notin> set k" "linefeed \<notin> set value"
  shows "metric_line (labelled name labels value)"
proof -
  have "linefeed \<notin> set (py_join '','' (map (\<lambda>(k, v). k @ ''='' @ [dquote] @ label v @ [dquote]) labels))"
    using assms(2) by (intro join_one_line) (auto simp: label_one_line)
  with assms show ?thesis by (simp add: metric_line_def labelled_def py_startswith_def)
qed

lemma get_or_zero_one_line: "(\<And>v. json_get d k = Some v \<Longrightarrow> plain v) \<Longrightarrow> linefeed \<notin> set (get_or_zero d k)"
  by (auto simp: get_or_zero_def plain_def split: option.split)

lemma get_or_zero_plain_at: "plain_at d ks \<Longrightarrow> k \<in> set ks \<Longrightarrow> linefeed \<notin> set (get_or_zero d k)"
  by (rule get_or_zero_one_line) (simp add: plain_at_def)

lemma get_or_zero_all: "list_all (\<lambda>kv. plain (snd kv)) d \<Longrightarrow> linefeed \<notin> set (get_or_zero d k)"
  by (rule get_or_zero_one_line) (auto simp: json_get_def list_all_iff dest!: map_of_SomeD)

lemma flag_one_line: "linefeed \<notin> set (flag_of d k)"
  by (simp add: flag_of_def split: option.split)

lemma help_lines: "metric_line ''# HELP s3_storage_node_ready Whether the appliance can safely serve S3 traffic.''"
  "metric_line ''# HELP s3_storage_node_manual_intervention_required Whether recovery is parked for operator review.''"
  by (simp_all add: metric_line_def py_startswith_def)

lemma base_lines_ok:
  assumes "numbers_plain h"
  shows "list_all metric_line (base_lines h)"
proof -
  have "linefeed \<notin> set (py_str (hs_last_probe_duration_seconds h))" "linefeed \<notin> set (get_or_zero (hs_generation h) ''id'')"
    using assms get_or_zero_plain_at[of "hs_generation h" "[''id'']" "''id''"] by (simp_all add: numbers_plain_def plain_def)
  moreover have "linefeed \<notin> set (get_or_zero (hs_seaweed_volumes h) k)"
    if "k \<in> set [''total'', ''readonly'', ''writable'', ''unexpected_readonly'']" for k
    using assms that get_or_zero_plain_at[of "hs_seaweed_volumes h" _ k] unfolding numbers_plain_def by blast
  ultimately show ?thesis
    unfolding base_lines_def list_all_append list.pred_inject(2) list.pred_inject(1) simp_thms
    by (intro conjI help_lines metric_line_typed) (simp_all add: flag_one_line show_int_one_line)
qed

lemma pending_one_line: "pending_count d = Inr n \<Longrightarrow> linefeed \<notin> set n"
  by (auto simp: pending_count_def show_int_one_line split: option.splits json.splits)

lemma sub_dict_plain:
  "sub_dict d k = Inr c \<Longrightarrow> (\<And>c. json_get d k = Some (JObj c) \<Longrightarrow> list_all P c) \<Longrightarrow> list_all P c"
  by (auto simp: sub_dict_def split: option.splits json.splits)

lemma repair_lines_ok:
  assumes "numbers_plain h" "repair_lines h = Inr ls"
  shows "list_all metric_line ls"
proof -
  from assms(2) obtain c n where c: "sub_dict (hs_index_repair h) ''counters'' = Inr c" "pending_count (hs_index_repair h) = Inr n"
    and ls: "ls = concat (map (\<lambda>k. typed (''index_repairs_'' @ k @ ''_total'') ''counter'' (get_or_zero c (k @ ''_total''))) repair_counters)
       @ typed ''index_repair_pending'' ''gauge'' n
       @ typed ''index_repair_current_volume'' ''gauge'' (get_or_zero (hs_index_repair h) ''current_volume_id'')"
    by (auto simp: repair_lines_def res_simps)
  have "list_all (\<lambda>kv. plain (snd kv)) c" using sub_dict_plain[OF c(1)] assms(1) by (auto simp: numbers_plain_def)
  moreover have "linefeed \<notin> set (get_or_zero (hs_index_repair h) ''current_volume_id'')"
    using assms(1) by (intro get_or_zero_plain_at[of _ "[''current_volume_id'']"]) (simp_all add: numbers_plain_def)
  ultimately show ?thesis
    using pending_one_line[OF c(2)] by (simp add: ls repair_counters_def metric_line_typed get_or_zero_all)
qed

lemma admission_lines_ok: "numbers_plain h \<Longrightarrow> list_all metric_line (admission_lines h)"
  by (simp add: admission_lines_def numbers_plain_def metric_line_metric get_or_zero_all)

lemma generation_lines_ok: "list_all (\<lambda>kv. plain (snd kv)) c \<Longrightarrow> list_all metric_line (generation_lines c)"
  by (auto simp: generation_lines_def generation_metrics_def metric_line_metric get_or_zero_all list_all_iff plain_def
      intro!: metric_line_labelled)

lemma collection_lines_ok:
  "collection_lines cs = Inr ls \<Longrightarrow> (\<And>n v. (n, JObj v) \<in> set cs \<Longrightarrow> list_all (\<lambda>kv. plain (snd kv)) v) \<Longrightarrow> list_all metric_line ls"
proof (induction cs arbitrary: ls rule: collection_lines.induct)
  case (2 name v cs)
  then have "list_all (\<lambda>kv. plain (snd kv)) v" by auto
  moreover from 2(2) obtain ls' where ls': "collection_lines cs = Inr ls'"
    "ls = map (\<lambda>st. labelled ''seaweed_collection_volumes'' [(''collection'', name), (''state'', st)] (get_or_zero v st))
       [''total'', ''readonly'', ''writable''] @ ls'" by (auto simp: res_simps)
  moreover have "list_all metric_line ls'" using 2(3) by (intro 2(1)[OF ls'(1)]) auto
  ultimately show ?case by (simp add: metric_line_labelled get_or_zero_all)
qed auto

lemma storage_lines_ok:
  assumes "plain_at d [''free_bytes'', ''total_bytes'', ''connected_channels'', ''cifs_session_reconnects'', ''cifs_share_reconnects'', ''using_primary'']"
  shows "list_all metric_line (storage_lines (name, d))"
proof -
  have present: "list_all metric_line (when_present d k f)" if "\<And>v. json_get d k = Some v \<Longrightarrow> list_all metric_line (f v)" for k f
    using that by (simp add: when_present_def split: option.split)
  have one: "list_all metric_line (when_present d k (\<lambda>v. [labelled m [(''target'', name)] (py_str v)]))"
    if "k \<in> set [''free_bytes'', ''total_bytes'', ''connected_channels'', ''cifs_session_reconnects'', ''cifs_share_reconnects'', ''using_primary'']"
      "linefeed \<notin> set m" for k m
  proof (rule present)
    fix v assume "json_get d k = Some v"
    then have "linefeed \<notin> set (py_str v)" using assms that(1) unfolding plain_at_def plain_def by blast
    with that(2) show "list_all metric_line [labelled m [(''target'', name)] (py_str v)]" by (simp add: metric_line_labelled)
  qed
  have "linefeed \<notin> set (get_or_zero d ''using_primary'')" by (rule get_or_zero_plain_at[OF assms]) simp
  then show ?thesis
    unfolding storage_lines_def Let_def prod.case list_all_append
    by (intro conjI one present) (simp_all add: metric_line_labelled)
qed

lemma metrics_lines_ok:
  assumes "numbers_plain h" "metrics_lines h = Inr ls"
  shows "list_all metric_line ls"
proof -
  from assms(2) obtain rs gc cols cs where r: "repair_lines h = Inr rs" "sub_dict (hs_generation_history h) ''counters'' = Inr gc"
    "sub_dict (hs_seaweed_volumes h) ''collections'' = Inr cols" "collection_lines cols = Inr cs"
    and ls: "ls = base_lines h @ rs @ admission_lines h @ generation_lines gc @ cs @ concat (map storage_lines (hs_storage h))"
    by (auto simp: metrics_lines_def res_simps)
  have "list_all (\<lambda>kv. plain (snd kv)) gc" using sub_dict_plain[OF r(2)] assms(1) by (auto simp: numbers_plain_def)
  then have "list_all metric_line (generation_lines gc)" by (rule generation_lines_ok)
  moreover have "list_all (\<lambda>nv. \<forall>v. snd nv = JObj v \<longrightarrow> list_all (\<lambda>kv. plain (snd kv)) v) cols"
    using assms(1) by (intro sub_dict_plain[OF r(3)]) (fastforce simp: numbers_plain_def list_all_iff)
  then have "list_all metric_line cs" by (intro collection_lines_ok[OF r(4)]) (auto simp: list_all_iff)
  moreover have "list_all metric_line (concat (map storage_lines (hs_storage h)))"
    using assms(1) storage_lines_ok by (auto simp: numbers_plain_def list_all_iff)
  ultimately show ?thesis
    using base_lines_ok[OF assms(1)] repair_lines_ok[OF assms(1) r(1)] admission_lines_ok[OF assms(1)] by (simp add: ls)
qed

section \<open>Properties\<close>

lemma metrics_lines_nonempty: "metrics_lines h = Inr ls \<Longrightarrow> ls \<noteq> []"
  by (auto simp: metrics_lines_def base_lines_def res_simps)

lemma split_trailing: "c \<notin> set x \<Longrightarrow> py_split_char c (x @ [c]) = [x, []]"
  using py_split_char_append[of c x "[]"] by simp

lemma split_lines:
  assumes "ls \<noteq> []" "\<forall>l\<in>set ls. c \<notin> set l"
  shows "py_split_char c (py_join [c] ls @ [c]) = ls @ [[]]"
proof -
  have "py_join [c] (ls @ [[]]) = py_join [c] ls @ [c]"
    using assms(1) by (induction "[c]" ls rule: py_join.induct) simp_all
  moreover have "py_split_char c (py_join [c] (ls @ [[]])) = ls @ [[]]" using assms(2) by (intro py_split_join) auto
  ultimately show ?thesis by simp
qed


definition example_health :: health_state where
  "example_health = health_run
     [SetStorage (''da'' @ [linefeed] @ ''s3_storage_node_ready 1'') [(''free_bytes'', JInt 5)],
      SetGenerationHistory [(''counters'', JObj [(''cause:io'' @ [linefeed], JInt 2)])]] (initial_health zero_float)"


text \<open>What the last \<open>set\<close> said, and how many probes in a row have succeeded.\<close>

fun last_set :: "health_op list \<Rightarrow> bool \<Rightarrow> bool" where
  "last_set [] r = r"
| "last_set (SetHealth _ _ ready _ # ops) r = last_set ops ready"
| "last_set (_ # ops) r = last_set ops r"

definition probe_results :: "health_op list \<Rightarrow> bool list" where
  "probe_results ops = concat (map (\<lambda>e. case e of RecordProbe _ success _ _ \<Rightarrow> [success] | _ \<Rightarrow> []) ops)"

definition failures_in :: "health_op list \<Rightarrow> nat" where
  "failures_in ops = length (filter (\<lambda>e. case e of IncrementFailure _ \<Rightarrow> True | _ \<Rightarrow> False) ops)"

lemma ready_run: "hs_ready (health_run ops h) = last_set ops (hs_ready h)"
proof (induction ops arbitrary: h)
  case (Cons e ops)
  then show ?case by (cases e) (auto simp: health_run_def Let_def)
qed (simp add: health_run_def)

lemma health_run_snoc: "health_run (ops @ [e]) h = health_step e (health_run ops h)"
  by (simp add: health_run_def)

lemma successes_run:
  "hs_consecutive_probe_successes h = 0 \<Longrightarrow>
     hs_consecutive_probe_successes (health_run ops h) = int (length (takeWhile id (rev (probe_results ops))))"
proof (induction ops rule: rev_induct)
  case (snoc e ops)
  then show ?case by (cases e) (auto simp: health_run_snoc probe_results_def Let_def)
qed (simp add: health_run_def probe_results_def)

lemma failures_run: "hs_failures_total (health_run ops h) = hs_failures_total h + int (failures_in ops)"
proof (induction ops rule: rev_induct)
  case (snoc e ops)
  then show ?case by (cases e) (auto simp: health_run_snoc failures_in_def Let_def)
qed (simp add: health_run_def failures_in_def)

text \<open>
  The endpoint says what the guardian last said: after any sequence of calls, \<open>/ready\<close> and \<open>/healthz\<close> answer 200 exactly if
  the last \<open>set\<close> was ready, and 503 otherwise and before the first; the count of consecutive probe successes is the
  number of successful probes since the last failed one, and the total of failures the number of times one was counted.
\<close>

theorem health_reports:
  "let h = health_run ops (initial_health t) in
     do_GET ''/ready'' h = Inr (if last_set ops False then 200 else 503, JsonBody (snapshot_dict h))
     \<and> do_GET ''/healthz'' h = do_GET ''/ready'' h
     \<and> json_get (snapshot_dict h) ''consecutive_probe_successes'' = Some (JInt (int (length (takeWhile id (rev (probe_results ops))))))
     \<and> json_get (snapshot_dict h) ''failures_total'' = Some (JInt (int (failures_in ops)))"
  by (simp add: do_GET_def ready_run snapshot_dict_def json_get_def successes_run failures_run initial_health_def)

end
