(* ===== verification/Render.thy ===== *)
theory Render
  imports Config_Load Effects
begin

text \<open>
  \<open>render.py\<close>: the files written for the SeaweedFS filer, its S3 gateway and HAProxy. The state is the list of files
  written so far; reading files, the failure of a write and the address of the worker interface are parameters.
\<close>

section \<open>Surroundings\<close>

datatype render_error = RenderOS string | RenderValue string | RenderKey

record written_file =
  wf_path :: ppath
  wf_content :: string
  wf_mode :: int

record render_env =
  rd_read :: "string \<Rightarrow> string + string"
  rd_write_fails :: "ppath \<Rightarrow> string option"
  rd_interface_ip :: "string \<Rightarrow> string + string"

type_synonym 'a render = "(written_file list, render_error, 'a) eff"

definition read_text :: "render_env \<Rightarrow> string \<Rightarrow> string render" where
  "read_text env p = (case rd_read env (string_of_path (path_of_string p)) of
     Inl e \<Rightarrow> raiseS (RenderOS e) | Inr t \<Rightarrow> returnS t)"

definition read_secret :: "render_env \<Rightarrow> string \<Rightarrow> string render" where
  "read_secret env p = bindS (read_text env p) (\<lambda>t.
     if py_strip t = [] then raiseS (RenderValue (''secret is empty: '' @ p)) else returnS (py_strip t))"

text \<open>The temporary file replaces the target in one step, so a failure leaves the target as it was.\<close>

definition write_atomic :: "render_env \<Rightarrow> ppath \<Rightarrow> string \<Rightarrow> int \<Rightarrow> unit render" where
  "write_atomic env p content md = (case rd_write_fails env p of
     Some e \<Rightarrow> raiseS (RenderOS e)
   | None \<Rightarrow> modS (\<lambda>ws. ws @ [\<lparr>wf_path = p, wf_content = content, wf_mode = md\<rparr>]))"

section \<open>JSON text\<close>

definition json_escape :: "char \<Rightarrow> string" where
  "json_escape c = (let n = (of_char c :: nat) in
     if c = CHR 0x5C \<or> c = CHR 0x22 then [CHR 0x5C, c]
     else if n = 10 then [CHR 0x5C, CHR ''n''] else if n = 13 then [CHR 0x5C, CHR ''r'']
     else if n = 9 then [CHR 0x5C, CHR ''t''] else if n = 12 then [CHR 0x5C, CHR ''f'']
     else if n = 8 then [CHR 0x5C, CHR ''b'']
     else if 32 \<le> n \<and> n \<le> 126 then [c]
     else [CHR 0x5C, CHR ''u'', CHR ''0'', CHR ''0'', hex_digit (n div 16), hex_digit (n mod 16)])"

definition toml_string :: "string \<Rightarrow> string" where
  "toml_string s = CHR 0x22 # concat (map json_escape s) @ [CHR 0x22]"

abbreviation nl :: string where "nl \<equiv> [CHR 0x0A]"

text \<open>\<open>json.dumps(v, indent=2)\<close> of a value at a given depth.\<close>

fun dumps_indent :: "nat \<Rightarrow> json \<Rightarrow> string" where
  "dumps_indent d JNull = ''null''"
| "dumps_indent d (JBool b) = (if b then ''true'' else ''false'')"
| "dumps_indent d (JInt n) = show_int n"
| "dumps_indent d (JFloat _ t) = t"
| "dumps_indent d (JStr s) = toml_string s"
| "dumps_indent d (JList vs) =
     (if vs = [] then ''[]''
      else ''['' @ nl @ py_join ('','' @ nl) (map (\<lambda>v. replicate (2 * (d + 1)) CHR '' '' @ dumps_indent (d + 1) v) vs)
        @ nl @ replicate (2 * d) CHR '' '' @ '']'')"
| "dumps_indent d (JObj kvs) =
     (if kvs = [] then ''{}''
      else ''{'' @ nl @ py_join ('','' @ nl)
          (map (\<lambda>(k, v). replicate (2 * (d + 1)) CHR '' '' @ toml_string k @ '': '' @ dumps_indent (d + 1) v) kvs)
        @ nl @ replicate (2 * d) CHR '' '' @ ''}'')"

section \<open>\<open>filer.toml\<close>\<close>

definition generated :: "config \<Rightarrow> string \<Rightarrow> ppath" where
  "generated c name = path_div (path_div (runtime_dir (appliance c)) ''generated'') name"

definition key_line :: "string \<Rightarrow> string \<Rightarrow> string" where
  "key_line k v = k @ '' = '' @ v @ nl"

definition triple :: string where
  "triple = [CHR 0x22, CHR 0x22, CHR 0x22]"

definition quoted :: "string \<Rightarrow> string" where
  "quoted s = [CHR 0x22] @ s @ [CHR 0x22]"

definition create_table :: string where
  "create_table =
     ''createTable = '' @ triple @ nl
     @ ''  CREATE TABLE IF NOT EXISTS '' @ quoted ''%s'' @ '' ('' @ nl
     @ ''    dirhash BIGINT,'' @ nl @ ''    name VARCHAR(65535),'' @ nl @ ''    directory VARCHAR(65535),'' @ nl
     @ ''    meta BYTEA,'' @ nl @ ''    PRIMARY KEY (dirhash, name)'' @ nl @ ''  );'' @ nl @ triple @ nl"

definition upsert_query :: string where
  "upsert_query =
     ''upsertQuery = '' @ triple @ nl
     @ ''  INSERT INTO '' @ quoted ''%[1]s'' @ '' (dirhash,name,directory,meta) VALUES($1,$2,$3,$4)'' @ nl
     @ ''  ON CONFLICT (dirhash,name) DO UPDATE SET meta = EXCLUDED.meta'' @ nl
     @ ''  WHERE '' @ quoted ''%[1]s'' @ ''.meta != EXCLUDED.meta'' @ nl @ triple @ nl"

definition postgres_toml :: "metadata_config \<Rightarrow> string \<Rightarrow> string" where
  "postgres_toml m password =
     ''[postgres2]'' @ nl @ key_line ''enabled'' ''true''
     @ key_line ''hostname'' (toml_string (postgres_host m))
     @ key_line ''port'' (show_int (postgres_port m))
     @ key_line ''username'' (toml_string (postgres_user m))
     @ key_line ''password'' (toml_string password)
     @ key_line ''database'' (toml_string (postgres_database m))
     @ key_line ''schema'' (toml_string (postgres_schema m))
     @ key_line ''sslmode'' (toml_string (postgres_sslmode m))
     @ key_line ''connection_max_idle'' ''25'' @ key_line ''connection_max_open'' ''50''
     @ key_line ''connection_max_lifetime_seconds'' ''0'' @ key_line ''enableUpsert'' ''true''
     @ create_table @ upsert_query"

definition render_filer_toml :: "render_env \<Rightarrow> config \<Rightarrow> ppath render" where
  "render_filer_toml env c =
     (let p = generated c ''filer.toml'' in
      if backend (metadata c) = ''embedded''
      then case metadata_path c of
        Inl _ \<Rightarrow> raiseS RenderKey
      | Inr mp \<Rightarrow> bindS (write_atomic env p (''[leveldb2]'' @ nl @ key_line ''enabled'' ''true''
            @ key_line ''dir'' (toml_string (string_of_path mp))) 384) (\<lambda>_. returnS p)
      else if backend (metadata c) = ''custom''
      then bindS (read_text env (custom_filer_toml (metadata c))) (\<lambda>t. bindS (write_atomic env p t 384) (\<lambda>_. returnS p))
      else bindS (read_secret env (postgres_password_file (metadata c))) (\<lambda>password.
        bindS (write_atomic env p (postgres_toml (metadata c) password) 384) (\<lambda>_. returnS p)))"

section \<open>\<open>s3.json\<close>\<close>

definition s3_identities :: "string \<Rightarrow> string \<Rightarrow> json" where
  "s3_identities access_key secret_key =
     JObj [(''identities'', JList [JObj
       [(''name'', JStr ''s3-storage-node-admin''),
        (''credentials'', JList [JObj [(''accessKey'', JStr access_key), (''secretKey'', JStr secret_key)]]),
        (''actions'', JList [JStr ''Admin'', JStr ''Read'', JStr ''List'', JStr ''Tagging'', JStr ''Write''])]])]"

definition render_s3_config :: "render_env \<Rightarrow> config \<Rightarrow> (ppath option \<times> string option \<times> string option) render" where
  "render_s3_config env c =
     (let p = generated c ''s3.json''; s = s3 c in
      if auth_mode s = ''none'' then returnS (None, None, None)
      else if auth_mode s = ''config''
      then bindS (read_text env (auth_config_file s)) (\<lambda>t.
        bindS (write_atomic env p t 384) (\<lambda>_.
        bindS (read_secret env (canary_access_key_file s)) (\<lambda>ak.
        bindS (read_secret env (canary_secret_key_file s)) (\<lambda>sk. returnS (Some p, Some ak, Some sk)))))
      else bindS (read_secret env (access_key_file s)) (\<lambda>ak.
        bindS (read_secret env (secret_key_file s)) (\<lambda>sk.
        bindS (write_atomic env p (dumps_indent 0 (s3_identities ak sk) @ nl) 384) (\<lambda>_. returnS (Some p, Some ak, Some sk)))))"

section \<open>\<open>haproxy.cfg\<close>\<close>

definition loopback_for :: "string \<Rightarrow> string" where
  "loopback_for host = (if host \<in> {''0.0.0.0'', ''::'', ''[::]''} then ''127.0.0.1'' else host)"

definition adaptive_admission :: "config \<Rightarrow> bool" where
  "adaptive_admission c \<longleftrightarrow> adaptive_enabled (admission (s3 c)) \<and> adm_enabled (admission (s3 c))"

definition write_limit :: "config \<Rightarrow> int" where
  "write_limit c = (if adaptive_admission c then 1 else max_active_write_requests (admission (s3 c)))"

definition slow_down :: "string \<Rightarrow> string" where
  "slow_down cond = ''  http-request return status 503 content-type application/xml string ''
     @ quoted ''<Error><Code>SlowDown</Code><Message>S3 admission busy; retry later</Message></Error>''
     @ '' hdr Retry-After 3 if '' @ cond @ nl"

definition admission_frontend :: "config \<Rightarrow> string" where
  "admission_frontend c =
     ''  # Reads and writes use independent budgets so bulk uploads cannot starve recovery reads.'' @ nl
     @ ''  acl s3_read method GET HEAD OPTIONS'' @ nl
     @ ''  acl s3_bulk_path path_sub /harbor/'' @ nl
     @ ''  acl s3_bulk_query url_param(uploadId) -m found'' @ nl
     @ ''  acl s3_bulk_size req.hdr_val(Content-Length) ge 1048576'' @ nl
     @ ''  http-request set-priority-class int(10) if !s3_read s3_bulk_path'' @ nl
     @ ''  http-request set-priority-class int(10) if !s3_read s3_bulk_query'' @ nl
     @ ''  http-request set-priority-class int(10) if !s3_read s3_bulk_size'' @ nl
     @ ''  capture request header Content-Length len 20'' @ nl
     @ ''  acl s3_read_queue_full queue(seaweed_s3_read) ge '' @ show_int (max_queued_read_requests (admission (s3 c))) @ nl
     @ ''  acl s3_write_queue_full queue(seaweed_s3_write) ge '' @ show_int (max_queued_write_requests (admission (s3 c))) @ nl
     @ slow_down ''s3_read s3_read_queue_full'' @ slow_down ''!s3_read s3_write_queue_full''
     @ ''  use_backend seaweed_s3_read if s3_read'' @ nl"

definition server_line :: "config \<Rightarrow> string \<Rightarrow> string \<Rightarrow> string \<Rightarrow> string" where
  "server_line c name host rest = ''  server '' @ name @ '' '' @ host @ '':'' @ show_int (s3_internal_port (seaweed c)) @ '' check addr ''
     @ loopback_for (health_host (appliance c)) @ '' port '' @ show_int (health_port (appliance c)) @ '' inter 250ms fall 1 rise 1''
     @ rest @ nl"

definition limits :: "int \<Rightarrow> int \<Rightarrow> string" where
  "limits conns queued = '' maxconn '' @ show_int conns @ '' maxqueue '' @ show_int queued"

definition health_check :: string where
  "health_check = ''  option httpchk GET /ready'' @ nl @ ''  http-check expect status 200'' @ nl"

definition haproxy_backend :: "config \<Rightarrow> string \<Rightarrow> string" where
  "haproxy_backend c host =
     (let a = admission (s3 c);
          common = ''  option abortonclose'' @ nl @ ''  timeout queue '' @ show_int (queue_timeout_seconds a) @ ''s'' @ nl @ health_check
      in if adm_enabled a
         then ''backend seaweed_s3_read'' @ nl @ common
           @ server_line c ''worker_s3_read'' host (limits (max_active_read_requests a) (max_queued_read_requests a)) @ nl
           @ ''backend seaweed_s3_write'' @ nl @ common
           @ server_line c ''worker_s3_write'' host (limits (write_limit c) (max_queued_write_requests a))
         else ''backend seaweed_s3_write'' @ nl @ health_check @ server_line c ''worker_s3_write'' host [])"

definition haproxy_cfg :: "config \<Rightarrow> string \<Rightarrow> string" where
  "haproxy_cfg c host =
     ''global'' @ nl @ ''  log stdout format raw local0'' @ nl
     @ (if adaptive_admission c
        then ''  stats socket '' @ string_of_path (runtime_dir (appliance c)) @ ''/admission/control.sock mode 600 level admin'' @ nl else [])
     @ ''  maxconn 4096'' @ nl @ ''defaults'' @ nl @ ''  log global'' @ nl @ ''  mode http'' @ nl @ ''  option httplog'' @ nl
     @ ''  timeout connect 5s'' @ nl @ ''  timeout client 5m'' @ nl @ ''  timeout server 5m'' @ nl @ ''  timeout http-request 30s'' @ nl @ nl
     @ ''frontend s3_public'' @ nl
     @ ''  bind '' @ s3_host (s3 c) @ '':'' @ show_int (s3_port (s3 c))
     @ (if tls_mode (s3 c) = ''terminate'' then '' ssl crt '' @ tls_pem_file (s3 c) else []) @ nl
     @ (if adm_enabled (admission (s3 c)) then admission_frontend c else []) @ ''  default_backend seaweed_s3_write'' @ nl @ nl
     @ haproxy_backend c host @ nl"

definition endpoint_host :: "render_env \<Rightarrow> config \<Rightarrow> string render" where
  "endpoint_host env c =
     (if worker_fencing_mode (appliance c) \<noteq> ''namespace'' then returnS ''127.0.0.1''
      else case rd_interface_ip env (worker_address (appliance c)) of Inl e \<Rightarrow> raiseS (RenderValue e) | Inr ip \<Rightarrow> returnS ip)"

text \<open>Making the directory of the control socket may fail like a write.\<close>

definition render_haproxy :: "render_env \<Rightarrow> config \<Rightarrow> ppath render" where
  "render_haproxy env c =
     (let p = generated c ''haproxy.cfg'' in
      bindS (endpoint_host env c) (\<lambda>host.
      bindS (if adaptive_admission c
        then (case rd_write_fails env (path_div (runtime_dir (appliance c)) ''admission'') of Some e \<Rightarrow> raiseS (RenderOS e) | None \<Rightarrow> returnS ())
        else returnS ()) (\<lambda>_.
      bindS (write_atomic env p (haproxy_cfg c host) 420) (\<lambda>_. returnS p))))"

section \<open>Quoting\<close>

definition hex_value :: "char \<Rightarrow> nat option" where
  "hex_value c = (let n = (of_char c :: nat) in
     if 48 \<le> n \<and> n \<le> 57 then Some (n - 48) else if 97 \<le> n \<and> n \<le> 102 then Some (n - 87)
     else if 65 \<le> n \<and> n \<le> 70 then Some (n - 55) else None)"

text \<open>A basic string of TOML, from after the opening quote: its text and what follows the closing quote. Code points above
  those of \<open>char\<close> are not read.\<close>

fun toml_unquote :: "string \<Rightarrow> (string \<times> string) option" where
  "toml_unquote [] = None"
| "toml_unquote (c # s) =
     (if c = CHR 0x22 then Some ([], s)
      else if of_char c < (32 :: nat) \<or> of_char c = (127 :: nat) then None
      else if c = CHR 0x5C then
        (case s of
           CHR ''u'' # a # b # x # y # r \<Rightarrow>
             (case (hex_value a, hex_value b, hex_value x, hex_value y) of
                (Some 0, Some 0, Some h, Some l) \<Rightarrow> map_option (apfst ((#) (char_of (16 * h + l)))) (toml_unquote r)
              | _ \<Rightarrow> None)
         | CHR ''b'' # r \<Rightarrow> map_option (apfst ((#) (CHR 0x08))) (toml_unquote r)
         | CHR ''t'' # r \<Rightarrow> map_option (apfst ((#) (CHR 0x09))) (toml_unquote r)
         | CHR ''n'' # r \<Rightarrow> map_option (apfst ((#) (CHR 0x0A))) (toml_unquote r)
         | CHR ''f'' # r \<Rightarrow> map_option (apfst ((#) (CHR 0x0C))) (toml_unquote r)
         | CHR ''r'' # r \<Rightarrow> map_option (apfst ((#) (CHR 0x0D))) (toml_unquote r)
         | d # r \<Rightarrow> (if d = CHR 0x22 \<or> d = CHR 0x5C then map_option (apfst ((#) d)) (toml_unquote r) else None)
         | [] \<Rightarrow> None)
      else map_option (apfst ((#) c)) (toml_unquote s))"

text \<open>The next line of a table, \<open>key = value\<close>: a basic string, or the text up to the line break.\<close>

datatype toml_value = Text string | Bare string

definition toml_value :: "string \<Rightarrow> (toml_value \<times> string) option" where
  "toml_value s = (case s of
     c # r \<Rightarrow> (if c = CHR 0x22 then (case toml_unquote r of
         Some (v, e # r') \<Rightarrow> if [e] = nl then Some (Text v, r') else None
       | _ \<Rightarrow> None)
       else Some (Bare (takeWhile (\<lambda>d. [d] \<noteq> nl) s), drop 1 (dropWhile (\<lambda>d. [d] \<noteq> nl) s)))
   | [] \<Rightarrow> None)"

definition toml_line :: "string \<Rightarrow> ((string \<times> toml_value) \<times> string) option" where
  "toml_line s =
     (let k = takeWhile (\<lambda>c. c \<noteq> CHR '' '') s; r = dropWhile (\<lambda>c. c \<noteq> CHR '' '') s in
      if take 3 r = '' = '' then map_option (apfst (Pair k)) (toml_value (drop 3 r)) else None)"

fun toml_lines :: "nat \<Rightarrow> string \<Rightarrow> ((string \<times> toml_value) list \<times> string) option" where
  "toml_lines 0 s = Some ([], s)"
| "toml_lines (Suc n) s = (case toml_line s of
     None \<Rightarrow> None
   | Some (kv, r) \<Rightarrow> map_option (apfst ((#) kv)) (toml_lines n r))"

definition postgres_settings :: "metadata_config \<Rightarrow> string \<Rightarrow> (string \<times> toml_value) list" where
  "postgres_settings m password =
     [(''enabled'', Bare ''true''), (''hostname'', Text (postgres_host m)), (''port'', Bare (show_int (postgres_port m))),
      (''username'', Text (postgres_user m)), (''password'', Text password), (''database'', Text (postgres_database m)),
      (''schema'', Text (postgres_schema m)), (''sslmode'', Text (postgres_sslmode m)),
      (''connection_max_idle'', Bare ''25''), (''connection_max_open'', Bare ''50''),
      (''connection_max_lifetime_seconds'', Bare ''0''), (''enableUpsert'', Bare ''true'')]"

lemma of_char_eqD: "of_char c = (n :: nat) \<Longrightarrow> c = char_of n"
  by auto

lemma hex_digit_values [simp]:
  "n < 16 \<Longrightarrow> hex_value (hex_digit n) = Some n"
  by (auto simp: hex_value_def hex_digit_def of_char_of)

lemma hex_char:
  "char_of (16 * (of_char c div 16) + of_char c mod 16) = c"
  "hex_value (hex_digit (of_char c div 16)) = Some (of_char c div 16)"
  "hex_value (hex_digit (of_char c mod 16)) = Some (of_char c mod 16)"
  "hex_value CHR ''0'' = Some 0"
proof -
  have "(of_char c :: nat) < 256" using mod_less_divisor[of 256 "of_char c :: nat"] by simp
  then show "hex_value (hex_digit (of_char c div 16)) = Some (of_char c div 16)" by (intro hex_digit_values less_mult_imp_div_less) simp
qed (simp_all add: mult.commute hex_value_def[of "CHR ''0''"])

lemma unquote_escape: "toml_unquote (json_escape c @ r) = map_option (apfst ((#) c)) (toml_unquote r)"
proof -
  let ?n = "of_char c :: nat"
  consider "c = CHR 0x5C \<or> c = CHR 0x22" | "?n \<in> {8, 9, 10, 12, 13}"
    | "c \<noteq> CHR 0x5C" "c \<noteq> CHR 0x22" "32 \<le> ?n" "?n \<le> 126"
    | "c \<noteq> CHR 0x5C" "c \<noteq> CHR 0x22" "\<not> (32 \<le> ?n \<and> ?n \<le> 126)" "?n \<notin> {8, 9, 10, 12, 13}"
    by auto
  then show ?thesis
  proof cases
    case 2
    then have "c \<in> {CHR 0x08, CHR 0x09, CHR 0x0A, CHR 0x0C, CHR 0x0D}" by (auto dest!: of_char_eqD simp: char_of_def bit_0)
    then show ?thesis by (auto simp: json_escape_def Let_def)
  next
    case 4
    then show ?thesis by (auto simp: json_escape_def hex_char Let_def split: char.split)
  qed (auto simp: json_escape_def Let_def)
qed

lemma unquote_string: "toml_unquote (concat (map json_escape s) @ CHR 0x22 # r) = Some (s, r)"
  by (induction s) (simp_all add: unquote_escape del: toml_unquote.simps(2), simp)

lemma value_text: "toml_value (toml_string v @ nl @ r) = Some (Text v, r)"
  using unquote_string[of v "nl @ r"] by (simp add: toml_value_def toml_string_def)

lemma value_bare:
  assumes "v \<noteq> []" "CHR 0x22 \<noteq> hd v" "CHR 0x0A \<notin> set v"
  shows "toml_value (v @ nl @ r) = Some (Bare v, r)"
proof -
  have "takeWhile (\<lambda>d. [d] \<noteq> nl) (v @ nl @ r) = v" "dropWhile (\<lambda>d. [d] \<noteq> nl) (v @ nl @ r) = nl @ r"
    using assms(3) by (auto simp: takeWhile_append dropWhile_append)
  then show ?thesis using assms(1,2) by (cases v) (auto simp: toml_value_def)
qed

lemma read_key_line:
  assumes "CHR '' '' \<notin> set k" "toml_value (w @ nl @ r) = Some (v, r)"
  shows "toml_line (key_line k w @ r) = Some ((k, v), r)"
proof -
  have "takeWhile (\<lambda>c. c \<noteq> CHR '' '') (k @ '' = '' @ x) = k" "dropWhile (\<lambda>c. c \<noteq> CHR '' '') (k @ '' = '' @ x) = '' = '' @ x" for x
    using assms(1) by (auto simp: takeWhile_append dropWhile_append)
  then show ?thesis using assms(2) by (simp add: toml_line_def key_line_def)
qed

lemmas read_lines = read_key_line[OF _ value_text] read_key_line[OF _ value_bare]

lemma show_int_bare: "CHR 0x22 \<noteq> hd (show_int n)" "CHR 0x0A \<notin> set (show_int n)"
proof -
  have "CHR 0x22 \<notin> set (show_nat k)" for k using show_nat_plain[of "CHR 0x22" k] by (auto simp: digit_value_def)
  then have "CHR 0x22 \<notin> set (show_int n)" by (simp add: show_int_def)
  then show "CHR 0x22 \<noteq> hd (show_int n)" by (metis hd_in_set show_int_nonempty)
  show "CHR 0x0A \<notin> set (show_int n)" using show_int_plain[of "CHR 0x0A" n] by (auto simp: py_isspace_def)
qed

lemma postgres_lines:
  "toml_lines 12 (drop 12 (postgres_toml m password)) = Some (postgres_settings m password, create_table @ upsert_query)"
  by (simp add: numeral_eq_Suc postgres_toml_def postgres_settings_def read_lines show_int_bare)

section \<open>What the renderers write\<close>

lemmas render_simps = bindS_def returnS_def raiseS_def modS_def read_text_def read_secret_def write_atomic_def Let_def


text \<open>
  C39. A configuration that loads may name no canary identity when \<open>auth_mode\<close> is \<open>config\<close> and the canary is off, but
  then rendering the S3 configuration fails: after \<open>s3.json\<close> is in place, the empty file names are read as the
  current directory, and the error of that read is raised.
\<close>

theorem canary_files_required:
  assumes "load_config lenv p got = Inr c" "auth_mode (s3 c) = ''config''" "canary_access_key_file (s3 c) = []"
    "rd_read env ''.'' = Inl e" "rd_read env (string_of_path (path_of_string (auth_config_file (s3 c)))) = Inr t"
    "rd_write_fails env (generated c ''s3.json'') = None"
  shows "\<not> s3_canary_enabled (appliance c)
    \<and> render_s3_config env c ws = (Inl (RenderOS e), ws @ [\<lparr>wf_path = generated c ''s3.json'', wf_content = t, wf_mode = 384\<rparr>])"
proof -
  have "config_wf lenv c" using assms(1) load_tables_wf by (auto simp: load_config_Inr)
  moreover have "string_of_path (path_of_string []) = ''.''" by code_simp
  ultimately show ?thesis using assms(2-) by (auto simp: render_s3_config_def render_simps config_wf_def s3_wf_def)
qed

text \<open>A node that brings its own identities and runs no canary, and a file system where a directory cannot be read.\<close>

definition no_canary_document :: table where
  "no_canary_document =
     [(''appliance'', JObj [(''s3_canary_enabled'', JBool False)]),
      (''storage'', JObj
        [(''data'', JObj example_table),
         (''metadata'', JObj [(''sentinel_id'', JStr ''meta-1''), (''mountpoint'', JStr ''/srv/meta'')]),
         (''index'', JObj [(''sentinel_id'', JStr ''idx-1''), (''mountpoint'', JStr ''/srv/index'')])]),
      (''s3'', JObj [(''auth_mode'', JStr ''config''), (''auth_config_file'', JStr ''/run/s3.json'')])]"

definition no_canary_loaded :: "load_error + config" where
  "no_canary_loaded = load_config example_load_env (path_of_string ''/etc/node.toml'') (TomlDoc no_canary_document)"

definition example_render_env :: render_env where
  "example_render_env = \<lparr>rd_read = (\<lambda>f. if f = ''.'' then Inl ''Is a directory'' else Inr (''s3cret'' @ nl)),
     rd_write_fails = (\<lambda>_. None), rd_interface_ip = (\<lambda>a. Inr a)\<rparr>"

lemma no_canary_loads: "case no_canary_loaded of
    Inr c \<Rightarrow> auth_mode (s3 c) = ''config'' \<and> canary_access_key_file (s3 c) = [] \<and> auth_config_file (s3 c) = ''/run/s3.json''
  | Inl _ \<Rightarrow> False"
  by code_simp

lemma rendered_paths: "string_of_path (path_of_string ''/run/s3.json'') = ''/run/s3.json''"
    "string_of_path (path_of_string ''/run/password'') = ''/run/password''"
  by code_simp+

theorem canary_files_required_witness:
  "\<exists>c. no_canary_loaded = Inr c \<and> fst (render_s3_config example_render_env c []) = Inl (RenderOS ''Is a directory'')"
proof -
  obtain c where c: "no_canary_loaded = Inr c" "auth_mode (s3 c) = ''config''" "canary_access_key_file (s3 c) = []"
    "auth_config_file (s3 c) = ''/run/s3.json''"
    using no_canary_loads by (auto split: sum.splits)
  show ?thesis
    using canary_files_required[OF c(1)[unfolded no_canary_loaded_def] c(2,3), of example_render_env "''Is a directory''" "''s3cret'' @ nl" "[]"]
      c by (intro exI[of _ c]) (simp add: example_render_env_def rendered_paths)
qed


end
