(* ===== verification/Command_Line.thy ===== *)
theory Command_Line
  imports Guardian_Props Config_Load Health Render
begin

text \<open>
  \<open>main.py\<close>, and the \<open>run_guardian\<close> of \<open>transport_guardian.py\<close> it starts: every command of the program, its exit code, what
  it prints and what it changes. The state is what outlives a process, the lock files, the selector file, the storage
  and the repair journal, kept in the state of the guardian, and the output so far. A command sees one text of the
  configuration file. Which exceptions a command catches is written out by their classes.
\<close>

section \<open>Commands, output, exceptions\<close>

datatype command =
    NoCommand
  | RunCommand
  | ValidateCommand
  | HealthCommand
  | RepairStatusCommand
  | RepairRetryCommand int
  | TransportStatusCommand
  | TransportSelectCommand string
  | TransportClearCommand string
  | TransportQuarantineCommand string string
  | PrepareLayoutCommand
  | MountCommand string string
  | UnmountCommand string string
  | PrepareCommand string string
  | ProbeCommand string string bool

datatype printed =
    Complaint string
  | ConfigurationValid
  | JournalStatus bool string "transaction list"
  | RetryRequested int string
  | TransportState selector_status
  | LayoutPrepared "string list"
  | TargetMounted string string
  | TargetUnmounted string string
  | TargetPrepared string string
  | TargetProbed probe_result

datatype cli_error =
    CliConfig string
  | CliValue
  | CliUnreadable
  | CliKey
  | CliFailover string
  | CliTransport transport_error
  | CliNoFailover
  | CliRepair repair_error
  | CliStorage storage_error
  | CliHttp
  | CliAttribute
  | CliGuard guard_error

text \<open>The answer to a request: a status, an \<open>OSError\<close> or \<open>URLError\<close>, or a broken HTTP response.\<close>

datatype http_answer = HttpAnswer int | HttpUnreachable | HttpBroken

record cli_state =
  cl_lease :: lease_sys
  cl_guard :: guard_state
  cl_out :: "printed list"

record cli_env =
  cl_load :: load_env
  cl_path :: ppath
  cl_toml :: toml_read
  cl_guard_env :: guard_env
  cl_guardians :: guardians
  cl_self :: nat
  cl_rounds :: nat
  cl_environ :: "string option"
  cl_now :: rat
  cl_repair_env :: repair_env
  cl_answer :: "string \<Rightarrow> http_answer"
  cl_text :: "cli_error \<Rightarrow> string"

type_synonym 'a cli = "(cli_state, cli_error, 'a) eff"

definition emit :: "printed \<Rightarrow> unit cli" where
  "emit x = modS (\<lambda>s. s\<lparr>cl_out := cl_out s @ [x]\<rparr>)"

text \<open>\<open>ConfigError\<close> and \<open>UnicodeDecodeError\<close> are subclasses of \<open>ValueError\<close>; the exception of a command that timed out is none of
  the classes below.\<close>

definition is_value_error :: "cli_error \<Rightarrow> bool" where
  "is_value_error e = (case e of CliConfig _ \<Rightarrow> True | CliFailover _ \<Rightarrow> True | CliValue \<Rightarrow> True
     | CliStorage SentinelUnicodeError \<Rightarrow> True | _ \<Rightarrow> False)"

definition is_os_error :: "cli_error \<Rightarrow> bool" where
  "is_os_error e = (case e of CliUnreadable \<Rightarrow> True | CliStorage (StorageOSError _) \<Rightarrow> True | _ \<Rightarrow> False)"

definition is_config_error :: "cli_error \<Rightarrow> bool" where
  "is_config_error e = (case e of CliConfig _ \<Rightarrow> True | CliFailover _ \<Rightarrow> True | _ \<Rightarrow> False)"

definition is_transport_error :: "cli_error \<Rightarrow> bool" where
  "is_transport_error e = (case e of CliTransport _ \<Rightarrow> True | CliNoFailover \<Rightarrow> True | _ \<Rightarrow> False)"

definition is_storage_error :: "cli_error \<Rightarrow> bool" where
  "is_storage_error e = (case e of CliStorage (StorageError _) \<Rightarrow> True | CliStorage (CifsFailure _) \<Rightarrow> True
     | CliStorage (SentinelFailure _) \<Rightarrow> True | CliStorage (CredentialsFailure _) \<Rightarrow> True | _ \<Rightarrow> False)"

definition is_repair_error :: "cli_error \<Rightarrow> bool" where
  "is_repair_error e = (case e of CliRepair _ \<Rightarrow> True | _ \<Rightarrow> False)"

text \<open>\<open>except (...) as exc: print(str(exc), file=sys.stderr); return code\<close>.\<close>

definition reporting :: "cli_env \<Rightarrow> (cli_error \<Rightarrow> bool) \<Rightarrow> int \<Rightarrow> int cli \<Rightarrow> int cli" where
  "reporting env catches code m = catchS m (\<lambda>e.
     if catches e then bindS (emit (Complaint (cl_text env e))) (\<lambda>_. returnS code) else raiseS e)"

section \<open>Loading\<close>

definition document_of :: "toml_read \<Rightarrow> (string \<times> json) list option" where
  "document_of got = (case got of TomlDoc raw \<Rightarrow> Some raw | _ \<Rightarrow> None)"

definition load_error_of :: "load_error \<Rightarrow> cli_error" where
  "load_error_of e = (case e of
     LoadError (ConfigError m) \<Rightarrow> CliConfig m | LoadError ShlexError \<Rightarrow> CliValue | LoadUnreadable \<Rightarrow> CliUnreadable | LoadKeyError \<Rightarrow> CliKey)"

definition load_cli :: "cli_env \<Rightarrow> cli_error + config" where
  "load_cli env = (case load_config (cl_load env) (cl_path env) (cl_toml env) of
     Inl e \<Rightarrow> Inl (load_error_of e) | Inr c \<Rightarrow> Inr c)"

definition failover_cli :: "cli_env \<Rightarrow> config \<Rightarrow> cli_error + failover_config option" where
  "failover_cli env c = (case data_target c of
     Inl _ \<Rightarrow> Inl CliKey
   | Inr d \<Rightarrow> (case load_exclusive_failover (document_of (cl_toml env)) (appliance c) d of
       Inl m \<Rightarrow> Inl (CliFailover m) | Inr fo \<Rightarrow> Inr fo))"

definition load_both :: "cli_env \<Rightarrow> cli_error + config \<times> failover_config option" where
  "load_both env = bindE (load_cli env) (\<lambda>c. bindE (failover_cli env c) (\<lambda>fo. Inr (c, fo)))"

definition key_or :: "py_error + 'a \<Rightarrow> cli_error + 'a" where
  "key_or r = (case r of Inl _ \<Rightarrow> Inl CliKey | Inr x \<Rightarrow> Inr x)"

section \<open>Running the guardian\<close>

text \<open>The attributes of a new guardian; files and the trace are those of before.\<close>

definition new_guardian :: "string option \<Rightarrow> guard_state \<Rightarrow> guard_state" where
  "new_guardian environ s =
     s\<lparr>g_stopping := False, g_health := ''BOOTSTRAPPING'', g_ready := False, g_failures := 0, g_recoveries := 0, g_probes := 0,
       g_processes := [], g_haproxy := None, g_lingering := [], g_helpers := [], g_worker := None,
       g_factory := (g_factory s)\<lparr>last_allocated := 0\<rparr>, g_history := open_history (gh_file (g_history s)), g_fatal := False,
       g_repair := False, g_transport := [], g_environ := environ, g_switch := False, g_detached := False,
       g_transport_failure := False, g_failure_name := [], g_watch := False, g_pending := False, g_verifying := [],
       g_fingerprint := []\<rparr>"

definition guardian_env :: "cli_env \<Rightarrow> config \<Rightarrow> failover_config option \<Rightarrow> guard_env" where
  "guardian_env env c fo = (cl_guard_env env)\<lparr>cfg := c, config_file := string_of_path (cl_path env), failover := fo\<rparr>"

text \<open>\<open>Guardian(config, config_path).run()\<close>.\<close>

definition start_guardian :: "cli_env \<Rightarrow> config \<Rightarrow> failover_config option \<Rightarrow> int cli" where
  "start_guardian env c fo = (\<lambda>s.
     case run_appliance (cl_guardians env) (cl_self env) (cl_rounds env) (guardian_env env c fo)
            (cl_lease s, new_guardian (cl_environ env) (cl_guard s)) of
       (r, ls, g) \<Rightarrow> (case r of Inl e \<Rightarrow> Inl (CliGuard e) | Inr k \<Rightarrow> Inr k, s\<lparr>cl_lease := ls, cl_guard := g\<rparr>))"

definition run_configured :: "cli_env \<Rightarrow> int cli" where
  "run_configured env = (case load_both env of
     Inl e \<Rightarrow> (if is_config_error e then returnS 2 else raiseS e)
   | Inr (c, fo) \<Rightarrow> start_guardian env c fo)"

section \<open>The commands\<close>

definition validate_command :: "cli_env \<Rightarrow> int cli" where
  "validate_command env = reporting env is_config_error 2
     (bindS (liftS (load_both env)) (\<lambda>_. bindS (emit ConfigurationValid) (\<lambda>_. returnS 0)))"

definition ready_url :: "config \<Rightarrow> string" where
  "ready_url c = ''http://'' @ loopback_for (health_host (appliance c)) @ '':'' @ show_int (health_port (appliance c)) @ ''/ready''"

text \<open>\<open>urlopen\<close> raises \<open>HTTPError\<close>, a \<open>URLError\<close>, for a status outside 200 to 299.\<close>

definition health_command :: "cli_env \<Rightarrow> int cli" where
  "health_command env = (case load_cli env of
     Inl e \<Rightarrow> (if is_os_error e \<or> is_config_error e then returnS 1 else raiseS e)
   | Inr c \<Rightarrow> (case cl_answer env (ready_url c) of
       HttpAnswer st \<Rightarrow> returnS (if st = 200 then 0 else 1)
     | HttpUnreachable \<Rightarrow> returnS 1
     | HttpBroken \<Rightarrow> raiseS CliHttp))"

definition journalS :: "'a act \<Rightarrow> 'a cli" where
  "journalS m = (\<lambda>s. case m (g_journal (cl_guard s)) of (r, ws) \<Rightarrow>
     (case r of Inl e \<Rightarrow> Inl (CliRepair e) | Inr x \<Rightarrow> Inr x,
      s\<lparr>cl_guard := (cl_guard s)\<lparr>g_journal := final (g_journal (cl_guard s)) ws\<rparr>\<rparr>))"

definition repair_catches :: "cli_error \<Rightarrow> bool" where
  "repair_catches e \<longleftrightarrow> is_repair_error e \<or> is_os_error e \<or> is_value_error e"

definition journal_status :: "config \<Rightarrow> printed cli" where
  "journal_status c =
     bindS (liftS (key_or (index_repair_path c))) (\<lambda>root.
     bindS (journalS load_all) (\<lambda>ts.
     returnS (JournalStatus (auto_index_repair_enabled (seaweed c)) (string_of_path root) ts)))"

definition repair_status_command :: "cli_env \<Rightarrow> int cli" where
  "repair_status_command env = reporting env repair_catches 1
     (bindS (liftS (load_cli env)) (\<lambda>c. bindS (journal_status c) (\<lambda>st. bindS (emit st) (\<lambda>_. returnS 0))))"

definition repair_retry_command :: "cli_env \<Rightarrow> int \<Rightarrow> int cli" where
  "repair_retry_command env volume_id = reporting env repair_catches 1
     (bindS (liftS (load_cli env)) (\<lambda>c.
      if volume_id \<le> 0 then raiseS (CliRepair (RepairError ''--volume-id must be positive''))
      else bindS (liftS (key_or (index_repair_path c))) (\<lambda>_.
        bindS (journalS (bindA load_all (\<lambda>ts. request_retry (cl_repair_env env) ts volume_id))) (\<lambda>t.
        bindS (emit (RetryRequested volume_id (tx_id t))) (\<lambda>_. returnS 0)))))"

definition selector_of :: "cli_env \<Rightarrow> cli_error + failover_config" where
  "selector_of env = bindE (load_both env) (\<lambda>(_, fo). case fo of
     None \<Rightarrow> Inl CliNoFailover | Some f \<Rightarrow> Inr f)"

definition change_selector :: "(transport_file \<Rightarrow> transport_error + transport_file) \<Rightarrow> unit cli" where
  "change_selector f = bindS (getS (\<lambda>s. f (g_selector (cl_guard s)))) (\<lambda>r. case r of
     Inl e \<Rightarrow> raiseS (CliTransport e) | Inr file \<Rightarrow> modS (\<lambda>s. s\<lparr>cl_guard := (cl_guard s)\<lparr>g_selector := file\<rparr>\<rparr>))"

definition transport_catches :: "cli_error \<Rightarrow> bool" where
  "transport_catches e \<longleftrightarrow> is_transport_error e \<or> is_os_error e \<or> is_value_error e"

definition transport_command :: "cli_env \<Rightarrow> (failover_config \<Rightarrow> unit cli) \<Rightarrow> int cli" where
  "transport_command env change = reporting env transport_catches 1
     (bindS (liftS (selector_of env)) (\<lambda>fo.
      bindS (change fo) (\<lambda>_.
      bindS (getS (\<lambda>s. status fo (g_selector (cl_guard s)))) (\<lambda>r.
      case r of Inl e \<Rightarrow> raiseS (CliTransport e) | Inr st \<Rightarrow> bindS (emit (TransportState st)) (\<lambda>_. returnS 0)))))"

definition storageS :: "'a storage \<Rightarrow> 'a cli" where
  "storageS m = zoomS (\<lambda>s. g_store (cl_guard s)) (\<lambda>p s. s\<lparr>cl_guard := (cl_guard s)\<lparr>g_store := p\<rparr>\<rparr>) CliStorage m"

definition helper_catches :: "cli_error \<Rightarrow> bool" where
  "helper_catches e \<longleftrightarrow> is_transport_error e \<or> is_storage_error e \<or> e = CliKey \<or> is_os_error e \<or> is_value_error e"

definition layout_paths :: "config \<Rightarrow> py_error + ppath list" where
  "layout_paths c = bindE (volume_path c) (\<lambda>v. bindE (index_path c) (\<lambda>i.
     if backend (metadata c) = ''embedded'' then bindE (metadata_path c) (\<lambda>m. Inr [v, i, m]) else Inr [v, i]))"

definition layout_command :: "cli_env \<Rightarrow> int cli" where
  "layout_command env = reporting env helper_catches 1
     (bindS (liftS (load_cli env)) (\<lambda>c.
      bindS (liftS (key_or (layout_paths c))) (\<lambda>ps.
      bindS (storageS (prepare_role_paths ps)) (\<lambda>_.
      bindS (emit (LayoutPrepared (map string_of_path ps))) (\<lambda>_. returnS 0)))))"

definition selected_transport_for_target :: "string option \<Rightarrow> string \<Rightarrow> string \<Rightarrow> string" where
  "selected_transport_for_target environ target_name explicit =
     (if explicit \<noteq> [] then explicit
      else if target_name = ''data'' then (case environ of None \<Rightarrow> [] | Some t \<Rightarrow> t) else [])"

definition helper_target :: "cli_env \<Rightarrow> string \<Rightarrow> string \<Rightarrow> cli_error + target_config" where
  "helper_target env name transport = bindE (load_cli env) (\<lambda>c.
     bindE (key_or (target_named c name)) (\<lambda>base.
     bindE (failover_cli env c) (\<lambda>fo.
     case resolve_target fo base name (selected_transport_for_target (cl_environ env) name transport) of
       Inl e \<Rightarrow> Inl (CliTransport e) | Inr t \<Rightarrow> Inr t)))"

definition storage_command :: "cli_env \<Rightarrow> string \<Rightarrow> string \<Rightarrow> (target_config \<Rightarrow> 'a storage) \<Rightarrow> (target_config \<Rightarrow> 'a \<Rightarrow> printed) \<Rightarrow> int cli" where
  "storage_command env name transport op out = reporting env helper_catches 1
     (bindS (liftS (helper_target env name transport)) (\<lambda>t.
      bindS (storageS (op t)) (\<lambda>x.
      bindS (emit (out t x)) (\<lambda>_. returnS 0))))"

text \<open>Without a command \<open>args\<close> has no \<open>config\<close>, which the branch of \<open>run\<close> reads.\<close>

fun cli_main :: "cli_env \<Rightarrow> command \<Rightarrow> int cli" where
  "cli_main env NoCommand = raiseS CliAttribute"
| "cli_main env RunCommand = run_configured env"
| "cli_main env ValidateCommand = validate_command env"
| "cli_main env HealthCommand = health_command env"
| "cli_main env RepairStatusCommand = repair_status_command env"
| "cli_main env (RepairRetryCommand v) = repair_retry_command env v"
| "cli_main env TransportStatusCommand = transport_command env (\<lambda>_. returnS ())"
| "cli_main env (TransportSelectCommand n) = transport_command env (\<lambda>fo. change_selector (request fo n (cl_now env)))"
| "cli_main env (TransportClearCommand n) = transport_command env (\<lambda>fo. change_selector (clear_quarantine fo n (cl_now env)))"
| "cli_main env (TransportQuarantineCommand n r) = transport_command env (\<lambda>fo. change_selector (quarantine fo n r (cl_now env)))"
| "cli_main env PrepareLayoutCommand = layout_command env"
| "cli_main env (MountCommand n t) = storage_command env n t (mount_target (store_env (cl_guard_env env)))
     (\<lambda>tgt _. TargetMounted (tgt_name tgt) (transport_name tgt))"
| "cli_main env (UnmountCommand n t) = storage_command env n t (unmount_target (store_env (cl_guard_env env)))
     (\<lambda>tgt _. TargetUnmounted (tgt_name tgt) (transport_name tgt))"
| "cli_main env (PrepareCommand n t) = storage_command env n t (verify_or_initialize_sentinel (store_env (cl_guard_env env)))
     (\<lambda>tgt _. TargetPrepared (tgt_name tgt) (transport_name tgt))"
| "cli_main env (ProbeCommand n t full) = storage_command env n t (\<lambda>tgt. probe_target (store_env (cl_guard_env env)) tgt full)
     (\<lambda>_ r. TargetProbed r)"

text \<open>\<open>process_exec.py\<close>, the other entry point: what it runs, and in which directory, given its arguments.\<close>

definition process_exec :: "(string \<Rightarrow> bool) \<Rightarrow> string \<Rightarrow> string list \<Rightarrow> process_error + string \<times> string list" where
  "process_exec chdir_ok cwd args =
     (let command = (if args \<noteq> [] \<and> hd args = ''--'' then tl args else args)
      in if command = [] then Inl (ProcessError ''process command is required'')
         else if \<not> chdir_ok cwd then Inl (SpawnError cwd) else Inr (cwd, command))"

text \<open>Commands one after the other, each with its own surroundings; an exception ends its command only.\<close>

definition session :: "(cli_env \<times> command) list \<Rightarrow> cli_state \<Rightarrow> cli_state" where
  "session cs s = foldl (\<lambda>s (env, c). snd (cli_main env c s)) s cs"

section \<open>Quarantine across commands\<close>

definition holds_quarantine :: "string \<Rightarrow> cli_state \<Rightarrow> bool" where
  "holds_quarantine n s \<longleftrightarrow> is_quarantined n (g_selector (cl_guard s))"

lemma keeps_quarantine_emit [keeps_intros]: "keeps (holds_quarantine n) (emit x)"
  unfolding emit_def by (rule keeps_mod) (simp add: holds_quarantine_def)

lemma keeps_quarantine_journal [keeps_intros]: "keeps (holds_quarantine n) (journalS m)"
  by (rule keepsI) (simp add: journalS_def holds_quarantine_def split: prod.split)

lemma keeps_quarantine_storage [keeps_intros]: "keeps (holds_quarantine n) (storageS m)"
  by (rule keepsI) (simp add: storageS_def zoomS_def holds_quarantine_def split: prod.split sum.split)

lemma keeps_quarantine_selector:
  assumes "\<And>f. change f = selector_step fo op f" "\<forall>w. op \<noteq> OpClear n w"
  shows "keeps (holds_quarantine n) (change_selector change)"
  unfolding change_selector_def
  by (rule keepsI) (use assms in \<open>auto simp: bindS_def getS_def modS_def raiseS_def holds_quarantine_def is_quarantined_step split: sum.split\<close>)

lemma keeps_quarantine_ops [keeps_intros]:
  "keeps (holds_quarantine n) (change_selector (request fo m w))"
  "keeps (holds_quarantine n) (change_selector (quarantine fo m r w))"
  by (rule keeps_quarantine_selector[where op = "OpRequest m w"] keeps_quarantine_selector[where op = "OpQuarantine m r w"], simp_all)+

lemma keeps_quarantine_clear: "m \<noteq> n \<Longrightarrow> keeps (holds_quarantine n) (change_selector (clear_quarantine fo m w))"
  by (rule keeps_quarantine_selector[where op = "OpClear m w"]) simp_all

lemma keeps_quarantine_guardian [keeps_intros]: "keeps (holds_quarantine n) (start_guardian env c fo)"
proof (rule keepsI)
  fix s assume "holds_quarantine n s"
  then have q: "is_quarantined n (sp_selector (abs_guard (new_guardian (cl_environ env) (cl_guard s))))"
    by (simp add: holds_quarantine_def new_guardian_def)
  have "is_quarantined n (g_selector s')" if "run_guardian k e (new_guardian (cl_environ env) (cl_guard s)) = (r, s')" for k e r s'
    using run_keeps[where P = "\<lambda>a. is_quarantined n (sp_selector a)", OF spec_quarantined q that] by simp
  with q show "holds_quarantine n (snd (start_guardian env c fo s))"
    by (auto simp: start_guardian_def run_appliance_def holds_quarantine_def split: prod.split sum.split)
qed

lemmas command_defs = journal_status_def run_configured_def validate_command_def health_command_def repair_status_command_def repair_retry_command_def
  transport_command_def layout_command_def storage_command_def reporting_def

lemma keeps_quarantine_main:
  assumes "c \<noteq> TransportClearCommand n"
  shows "keeps (holds_quarantine n) (cli_main env c)"
proof (cases c)
  case (TransportClearCommand m)
  then show ?thesis using assms by (auto simp: command_defs intro!: keeps_intros keeps_quarantine_clear split: http_answer.split)
qed (auto simp: command_defs intro!: keeps_intros split: http_answer.split)

lemma keeps_quarantine_session:
  "\<forall>(e, c)\<in>set cs. c \<noteq> TransportClearCommand n \<Longrightarrow> holds_quarantine n s \<Longrightarrow> holds_quarantine n (session cs s)"
proof (induction cs arbitrary: s)
  case (Cons x cs)
  obtain e c where x: "x = (e, c)" by force
  have "holds_quarantine n (snd (cli_main e c s))" using Cons.prems keeps_run[OF keeps_quarantine_main] by (auto simp: x)
  with Cons show ?case by (simp add: session_def x)
qed (simp add: session_def)

lemma quarantine_command_done:
  assumes "cli_main env (TransportQuarantineCommand n r) s = (Inr 0, s')"
  shows "holds_quarantine n s'"
proof -
  have "is_quarantined n f'" if "quarantine fo n r w f = Inr f'" for fo w f f'
    using that by (auto simp: quarantine_def is_quarantined_def res_simps split: if_splits)
  then show ?thesis
    using assms by (auto simp: transport_command_def reporting_def change_selector_def emit_def catchS_def bindS_def getS_def modS_def
        raiseS_def returnS_def liftS_def holds_quarantine_def split: sum.splits if_splits prod.splits)
qed

text \<open>
  C7. A quarantine set from the command line outlives everything but its own clearance: once \<open>transport-quarantine\<close> exits with 0,
  no sequence of commands without \<open>transport-clear-quarantine\<close> of that transport lifts it, whatever configurations the commands
  load, including any number of runs of the guardian, and no selection afterwards returns the transport.
\<close>

theorem operator_quarantine_holds:
  assumes "cli_main env (TransportQuarantineCommand n r) s = (Inr 0, s0)" "\<forall>(e, c)\<in>set cs. c \<noteq> TransportClearCommand n"
  shows "is_quarantined n (g_selector (cl_guard (session cs s0)))
    \<and> (\<forall>fo now w f'. select fo now w (g_selector (cl_guard (session cs s0))) \<noteq> Inr (n, f'))"
  using keeps_quarantine_session[OF assms(2) quarantine_command_done[OF assms(1)]] is_quarantined_select
  by (auto simp: holds_quarantine_def)

section \<open>Exit codes\<close>

lemma run_guardian_codes: "run_guardian n env s = (Inr k, s') \<Longrightarrow> k \<in> {0, 4}"
proof (rule wp_Inr[where Q = "\<lambda>k _. k \<in> {0, 4}" and E = "\<lambda>_ _. True"])
  have "wp (shutdown env) (\<lambda>k _. k \<in> {0, 4}) (\<lambda>_ _. True) t" for t
    unfolding shutdown_def by (intro wp_seq[OF wp_True]) (simp add: wp_simps)
  then show "wp (run_guardian n env) (\<lambda>k _. k \<in> {0, 4}) (\<lambda>_ _. True) s"
    unfolding run_guardian_def by (intro wp_seq[OF wp_True]) simp
qed

lemma start_guardian_codes: "start_guardian env c fo s = (Inr k, s') \<Longrightarrow> k \<in> {0, 3, 4}"
  using run_guardian_codes by (fastforce simp: start_guardian_def run_appliance_def split: prod.splits sum.splits)

text \<open>
  C34. \<open>validate\<close> predicts \<open>run\<close>: it exits with 2 exactly if \<open>run\<close> on the same file would, and then \<open>run\<close> changes nothing; it
  exits with 0 exactly if \<open>run\<close> starts the guardian, on a well-formed configuration, and every exit code of that run is
  0, 3 (another guardian holds the lease) or 4 (a fence failed).
\<close>

theorem validate_predicts_run:
  "(fst (cli_main env ValidateCommand s) = Inr 2 \<longleftrightarrow> fst (cli_main env RunCommand s) = Inr 2)
   \<and> (fst (cli_main env ValidateCommand s) = Inr 2 \<longrightarrow> snd (cli_main env RunCommand s) = s)
   \<and> (fst (cli_main env ValidateCommand s) = Inr 0 \<longleftrightarrow>
        (\<exists>c fo. load_both env = Inr (c, fo) \<and> config_wf (cl_load env) c \<and> cli_main env RunCommand s = start_guardian env c fo s))
   \<and> (\<forall>k. fst (cli_main env RunCommand s) = Inr k \<longrightarrow> k \<in> {0, 2, 3, 4})"
proof (cases "load_both env")
  case (Inl e)
  then show ?thesis
    by (auto simp: validate_command_def run_configured_def reporting_def catchS_def bindS_def liftS_def emit_def modS_def returnS_def raiseS_def)
next
  case (Inr p)
  obtain c fo where p: "p = (c, fo)" by force
  have "load_cli env = Inr c" using Inr by (auto simp: load_both_def p res_simps)
  then have wf: "config_wf (cl_load env) c"
    using load_tables_wf by (auto simp: load_cli_def load_config_Inr split: sum.splits)
  have codes: "fst (start_guardian env c fo s) = Inr k \<Longrightarrow> k \<in> {0, 3, 4}" for k
    using start_guardian_codes[of env c fo s k] by (cases "start_guardian env c fo s") auto
  have v: "fst (cli_main env ValidateCommand s) = Inr 0" and r: "cli_main env RunCommand s = start_guardian env c fo s"
    using Inr by (simp_all add: p validate_command_def run_configured_def reporting_def catchS_def bindS_def liftS_def emit_def modS_def returnS_def)
  show ?thesis unfolding v r using codes[of 2] codes wf Inr p by auto
qed

section \<open>Health check and helpers\<close>

text \<open>
  The health check of the container follows the guardian: with a configuration that loads, and the endpoint answering as
  the handler does after any sequence of updates, \<open>health\<close> exits with 0 exactly if the last state set was ready, and with 1
  otherwise, and changes nothing.
\<close>

theorem health_command_follows:
  assumes "load_cli env = Inr c"
    "cl_answer env (ready_url c) = (case do_GET ''/ready'' (health_run ops (initial_health t)) of Inr (st, _) \<Rightarrow> HttpAnswer st | Inl _ \<Rightarrow> HttpBroken)"
  shows "cli_main env HealthCommand s = (Inr (if last_set ops False then 0 else 1), s)"
  using assms by (simp add: health_command_def do_GET_def ready_run initial_health_def returnS_def)

lemma failover_cli_target: "failover_cli env c = Inr (Some fo) \<Longrightarrow> fo_target fo = ''data''"
  by (auto simp: failover_cli_def failover_wf_def dest!: load_failover_Some parse_failover_wf split: sum.splits)

text \<open>
  C35. A storage helper acts on the target the operator named: every target it resolves has the name, subdirectory and
  sentinel identity of the configured one; the metadata and index targets without an explicit transport are the configured ones
  exactly, whatever transport the environment selects for the data, and an explicit transport for them is refused.
\<close>

theorem helper_target_confined:
  assumes "load_both env = Inr (c, fo)" "target_named c name = Inr base"
  shows "(\<forall>tr t. helper_target env name tr = Inr t \<longrightarrow> same_dataset t base)
    \<and> (name \<noteq> ''data'' \<longrightarrow> helper_target env name [] = Inr base)
    \<and> (name \<noteq> ''data'' \<longrightarrow> tr \<noteq> [] \<longrightarrow> helper_target env name tr = Inl (CliTransport (NoFailoverForTarget name)))"
proof -
  have l: "load_cli env = Inr c" "failover_cli env c = Inr fo" using assms(1) by (auto simp: load_both_def res_simps)
  have h: "helper_target env name tr = (case resolve_target fo base name (selected_transport_for_target (cl_environ env) name tr) of
      Inl e \<Rightarrow> Inl (CliTransport e) | Inr t \<Rightarrow> Inr t)" for tr
    using l assms(2) by (simp add: helper_target_def key_or_def)
  have "same_dataset t base" if "resolve_target fo base name x = Inr t" for x t
    using that resolve_same_dataset by (auto simp: resolve_target_def same_dataset_def split: option.splits if_splits)
  moreover have "resolve_target fo base name x = (if x \<noteq> [] then Inl (NoFailoverForTarget name) else Inr base)" if "name \<noteq> ''data''" for x
    using that l(2) failover_cli_target by (cases fo) (auto simp: resolve_target_def)
  ultimately show ?thesis unfolding h by (auto simp: selected_transport_for_target_def split: sum.splits)
qed

text \<open>A SeaweedFS process started inside the namespace runs its own command in its own directory.\<close>

lemma namespace_command_exec:
  assumes "command \<noteq> []" "d \<noteq> []" "chdir_ok d"
  obtains rest where "namespace_cwd_command exe command (Some d) = [exe, ''-m'', ''s3_storage_node.process_exec'', ''--cwd'', d] @ rest"
    "process_exec chdir_ok d rest = Inr (d, command)"
  using assms that[of "''--'' # command"] by (simp add: namespace_cwd_command_def process_exec_def)

section \<open>Example\<close>

definition node_document :: table where
  "node_document =
     [(''appliance'', JObj [(''worker_fencing_mode'', JStr ''namespace'')]),
      (''storage'', JObj
        [(''data'', JObj (example_table @ [(''failover'', JObj
           [(''enabled'', JBool True),
            (''transports'', JList [JObj [(''name'', JStr ''ssh-a''), (''source'', JStr ''u@h:/d''),
                (''identity_file'', JStr ''/k''), (''known_hosts_file'', JStr ''/n'')]])])])),
         (''metadata'', JObj [(''sentinel_id'', JStr ''meta-1''), (''mountpoint'', JStr ''/srv/meta'')]),
         (''index'', JObj [(''sentinel_id'', JStr ''idx-1''), (''mountpoint'', JStr ''/srv/index'')])])]"

definition node_env :: "http_answer \<Rightarrow> cli_env" where
  "node_env a = \<lparr>cl_load = example_load_env, cl_path = path_of_string ''/etc/node.toml'', cl_toml = TomlDoc node_document,
     cl_guard_env = example_guard_env None True, cl_guardians = (\<lambda>_. (''node'', 1)), cl_self = 0, cl_rounds = 3,
     cl_environ = Some ''ssh-a'', cl_now = 5, cl_repair_env = example_env, cl_answer = (\<lambda>_. a), cl_text = (\<lambda>_. [])\<rparr>"

lemma node_loads:
  "case load_both (node_env a) of Inr (c, Some fo) \<Rightarrow> ordered_names fo = [''cifs-primary'', ''ssh-a'']
       \<and> (case target_named c ''index'' of Inr t \<Rightarrow> sentinel_id t = ''idx-1'' | Inl _ \<Rightarrow> False) | _ \<Rightarrow> False"
  by code_simp

definition node_state :: cli_state where
  "node_state = \<lparr>cl_lease = \<lparr>lease_phase = \<lambda>_. LeaseIdle, flock_owner = None, lock_text = None\<rparr>, cl_guard = example_guard, cl_out = []\<rparr>"

lemma node_loaded:
  obtains c fo t where "load_both (node_env a) = Inr (c, Some fo)" "contains fo ''ssh-a''" "target_named c ''index'' = Inr t"
  using node_loads[of a] by (auto simp: contains_def split: sum.splits prod.splits option.splits)

lemma node_quarantines:
  obtains s0 where "cli_main (node_env a) (TransportQuarantineCommand ''ssh-a'' ''lost'') node_state = (Inr 0, s0)"
proof -
  obtain c fo where l: "load_both (node_env a) = Inr (c, Some fo)" "contains fo ''ssh-a''" by (rule node_loaded)
  obtain st where "load_state NoFile = Inr st" using selector_inv_empty[of fo] by (auto simp: selector_inv_def)
  with l have "\<exists>s0. cli_main (node_env a) (TransportQuarantineCommand ''ssh-a'' ''lost'') node_state = (Inr 0, s0)"
    by (simp add: transport_command_def reporting_def selector_of_def change_selector_def quarantine_def status_def emit_def
        catchS_def bindS_def getS_def modS_def returnS_def liftS_def node_state_def)
  then show ?thesis using that by blast
qed

theorem operator_quarantine_holds_witness:
  "\<exists>s0. cli_main (node_env HttpBroken) (TransportQuarantineCommand ''ssh-a'' ''lost'') node_state = (Inr 0, s0)
     \<and> is_quarantined ''ssh-a'' (g_selector (cl_guard (session
          [(node_env HttpBroken, RunCommand), (node_env HttpBroken, TransportSelectCommand ''ssh-a''), (node_env HttpBroken, RunCommand)] s0)))"
proof -
  obtain s0 where s0: "cli_main (node_env HttpBroken) (TransportQuarantineCommand ''ssh-a'' ''lost'') node_state = (Inr 0, s0)"
    by (rule node_quarantines)
  show ?thesis
    using operator_quarantine_holds[OF s0, of "[(node_env HttpBroken, RunCommand), (node_env HttpBroken, TransportSelectCommand ''ssh-a''),
      (node_env HttpBroken, RunCommand)]"] s0 by auto
qed

theorem validate_predicts_run_witness:
  "\<exists>c fo. load_both (node_env HttpBroken) = Inr (c, fo) \<and> fst (cli_main (node_env HttpBroken) ValidateCommand node_state) = Inr 0
     \<and> cli_main (node_env HttpBroken) RunCommand node_state = start_guardian (node_env HttpBroken) c fo node_state"
proof -
  obtain c fo where l: "load_both (node_env HttpBroken) = Inr (c, Some fo)" by (rule node_loaded)
  then have "fst (cli_main (node_env HttpBroken) ValidateCommand node_state) = Inr 0"
    by (simp add: validate_command_def reporting_def catchS_def bindS_def liftS_def emit_def modS_def returnS_def)
  with validate_predicts_run[of "node_env HttpBroken" node_state] show ?thesis by blast
qed

theorem health_command_follows_witness:
  "cli_main (node_env (HttpAnswer 200)) HealthCommand node_state = (Inr 0, node_state)"
proof -
  obtain c fo where "load_both (node_env (HttpAnswer 200)) = Inr (c, Some fo)" by (rule node_loaded)
  then have "load_cli (node_env (HttpAnswer 200)) = Inr c" by (auto simp: load_both_def res_simps)
  from health_command_follows[OF this, of "[SetHealth JNull ''ONLINE'' True []]" JNull node_state] show ?thesis
    by (simp add: node_env_def do_GET_def health_run_def)
qed

theorem helper_target_confined_witness:
  "\<exists>c base. load_cli (node_env HttpBroken) = Inr c \<and> target_named c ''index'' = Inr base
     \<and> helper_target (node_env HttpBroken) ''index'' [] = Inr base"
proof -
  obtain c fo base where l: "load_both (node_env HttpBroken) = Inr (c, Some fo)" "target_named c ''index'' = Inr base"
    by (rule node_loaded)
  then have "load_cli (node_env HttpBroken) = Inr c" by (auto simp: load_both_def res_simps)
  with helper_target_confined[OF l, of "[]"] l(2) show ?thesis by auto
qed

end
