(* ===== verification/Startup_Fingerprint.thy ===== *)
theory Startup_Fingerprint
  imports Failover_Config
begin

text \<open>
  The fingerprint of \<open>transport_failover.py\<close> under which a verification of all transports is remembered. The content of
  a file (\<open>None\<close> when it cannot be read), the hash of a file and the hash of the encoded document are parameters.
\<close>

definition file_digest :: "('b \<Rightarrow> string) \<Rightarrow> (string \<Rightarrow> 'b option) \<Rightarrow> string \<Rightarrow> string" where
  "file_digest sha content p =
     (if p = [] then [] else case content (string_of_path (path_of_string p)) of None \<Rightarrow> ''missing'' | Some b \<Rightarrow> sha b)"

definition primary_payload :: "(string \<Rightarrow> string) \<Rightarrow> failover_config \<Rightarrow> target_config \<Rightarrow> json" where
  "primary_payload digest fo p =
     JObj [(''name'', JStr (primary_name fo)), (''source'', JStr (source p)), (''credentials'', JStr (digest (credentials_file p))),
       (''mount_options'', JList (map JStr (mount_options p))),
       (''io_failure_policy'', JStr (effective_io_failure_policy p)), (''minimum_smb_dialect'', JStr (minimum_smb_dialect p)),
       (''handle_reconnect_policy'', JStr (handle_reconnect_policy p)), (''multichannel_policy'', JStr (multichannel_policy p)),
       (''max_channels'', JInt (max_channels p))]"

definition transport_payload :: "(string \<Rightarrow> string) \<Rightarrow> sshfs_transport \<Rightarrow> json" where
  "transport_payload digest t =
     JObj [(''name'', JStr (tr_name t)), (''source'', JStr (tr_source t)), (''auth_mode'', JStr (tr_auth_mode t)),
       (''identity'', JStr (digest (identity_file t))), (''credentials'', JStr (digest (tr_credentials_file t))),
       (''known_hosts'', JStr (digest (known_hosts_file t))), (''port'', JInt (port t)),
       (''mount_options'', JList (map JStr (tr_mount_options t)))]"

definition startup_payload :: "(string \<Rightarrow> string) \<Rightarrow> failover_config \<Rightarrow> target_config \<Rightarrow> json" where
  "startup_payload digest fo p =
     JObj [(''target'', JStr (fo_target fo)), (''primary'', primary_payload digest fo p),
       (''transports'', JList (map (transport_payload digest) (transports fo)))]"

definition startup_verification_fingerprint ::
  "(json \<Rightarrow> string) \<Rightarrow> (string \<Rightarrow> string) \<Rightarrow> failover_config \<Rightarrow> target_config \<Rightarrow> string" where
  "startup_verification_fingerprint hash digest fo p = hash (startup_payload digest fo p)"

text \<open>What the fingerprint sees of a transport.\<close>

definition same_transport :: "(string \<Rightarrow> string) \<Rightarrow> (string \<Rightarrow> string) \<Rightarrow> sshfs_transport \<Rightarrow> sshfs_transport \<Rightarrow> bool" where
  "same_transport d d' t t' \<longleftrightarrow>
     (tr_name t, tr_source t, tr_auth_mode t, port t, tr_mount_options t) = (tr_name t', tr_source t', tr_auth_mode t', port t', tr_mount_options t')
     \<and> d (identity_file t) = d' (identity_file t') \<and> d (tr_credentials_file t) = d' (tr_credentials_file t')
     \<and> d (known_hosts_file t) = d' (known_hosts_file t')"

lemma map_JStr_eq [simp]: "map JStr xs = map JStr ys \<longleftrightarrow> xs = ys"
  by (simp add: inj_map_eq_map inj_def)

lemma transport_payload_eq: "transport_payload d t = transport_payload d' t' \<longleftrightarrow> same_transport d d' t t'"
  by (auto simp: transport_payload_def same_transport_def)

lemma transports_payload_eq:
  "map (transport_payload d) ts = map (transport_payload d') ts' \<longleftrightarrow> list_all2 (same_transport d d') ts ts'"
  by (simp add: list.rel_eq[symmetric] list.rel_map transport_payload_eq)

text \<open>
  A remembered verification is good for exactly the transports it was made with: under a hash without collisions the
  fingerprints of two configurations agree exactly if the target, the name and connection settings of the primary, the
  transports in their order with theirs, and the digests of all key, credential and host files agree.
\<close>

theorem fingerprint_exact:
  assumes "inj hash"
  shows "startup_verification_fingerprint hash d fo p = startup_verification_fingerprint hash d' fo' p' \<longleftrightarrow>
     fo_target fo = fo_target fo' \<and> primary_name fo = primary_name fo' \<and> source p = source p'
     \<and> d (credentials_file p) = d' (credentials_file p') \<and> mount_options p = mount_options p'
     \<and> effective_io_failure_policy p = effective_io_failure_policy p' \<and> minimum_smb_dialect p = minimum_smb_dialect p'
     \<and> handle_reconnect_policy p = handle_reconnect_policy p' \<and> multichannel_policy p = multichannel_policy p'
     \<and> max_channels p = max_channels p' \<and> list_all2 (same_transport d d') (transports fo) (transports fo')"
  by (auto simp: startup_verification_fingerprint_def inj_eq[OF assms] startup_payload_def primary_payload_def transports_payload_eq)

end
