(* ===== verification/Repair_Helper.thy ===== *)
theory Repair_Helper
  imports Repair_Decision Processes Config_Types Health
begin

text \<open>
  The controller's side of the helper process (\<open>_run_helper\<close> and \<open>_run_tail_recovery_helper\<close> of \<open>index_repair.py\<close>): the command
  line, and what becomes of the exit code and the output; and the status document it publishes (\<open>_publish\<close>). How the process
  ends and the reading of a JSON text are parameters.
\<close>

section \<open>Command lines\<close>

record helper_args =
  ha_source :: ppath
  ha_staging :: ppath
  ha_base_name :: string
  ha_collection :: string
  ha_volume_id :: int

definition helper_prefix :: "string \<Rightarrow> config \<Rightarrow> helper_args \<Rightarrow> string list" where
  "helper_prefix exe c a =
     [''unshare'', ''--mount'', ''--propagation'', ''private'', ''--'', exe, ''-m'', ''s3_storage_node.index_repair_helper'',
      ''--source-dat'', string_of_path (ha_source a), ''--staging-dir'', string_of_path (ha_staging a), ''--base-name'', ha_base_name a,
      ''--volume-id'', show_int (ha_volume_id a), ''--weed-binary'', binary (seaweed c),
      ''--uid'', show_int (uid (appliance c)), ''--gid'', show_int (gid (appliance c))]"

definition collection_args :: "helper_args \<Rightarrow> string list" where
  "collection_args a = (if ha_collection a \<noteq> [] then [''--collection'', ha_collection a] else [])"

definition build_command :: "string \<Rightarrow> config \<Rightarrow> helper_args \<Rightarrow> bool \<Rightarrow> string list" where
  "build_command exe c a fingerprint_only =
     helper_prefix exe c a @ collection_args a @ (if fingerprint_only then [''--fingerprint-only''] else [])"

definition tail_command :: "string \<Rightarrow> config \<Rightarrow> helper_args \<Rightarrow> ppath \<Rightarrow> ppath \<Rightarrow> string \<Rightarrow> string list" where
  "tail_command exe c a live_idx tail_path fp =
     helper_prefix exe c a
     @ [''--recover-incomplete-tail'', ''--live-index'', string_of_path live_idx, ''--tail-backup'', string_of_path tail_path,
        ''--expected-fingerprint'', fp, ''--maximum-tail-bytes'', show_int (auto_tail_recovery_max_bytes (seaweed c))]
     @ collection_args a"

section \<open>The result of the process\<close>

datatype helper_failure = HelperFailure string | UnsafeCandidate string "(string \<times> json) list"

definition last_payload :: "(string \<Rightarrow> json option) \<Rightarrow> string \<Rightarrow> json option" where
  "last_payload loads out = (let ls = filter (\<lambda>l. py_strip l \<noteq> []) (py_splitlines out)
     in if ls = [] then Some (JObj []) else loads (last ls))"

definition succeeded :: "(string \<times> json) list \<Rightarrow> bool" where
  "succeeded p = (case json_get p ''success'' of None \<Rightarrow> False | Some v \<Rightarrow> py_truthy v)"

definition or_stderr :: "string \<Rightarrow> string \<Rightarrow> string" where
  "or_stderr err dflt = (if py_strip err \<noteq> [] then py_strip err else dflt)"

definition stderr_tail :: "string \<Rightarrow> string" where
  "stderr_tail err = drop (length err - 1024) err"

definition run_repair_helper :: "(string \<Rightarrow> json option) \<Rightarrow> config \<Rightarrow> run_result \<Rightarrow> helper_failure + (string \<times> json) list" where
  "run_repair_helper loads c r = (case r of
     RunTimeout \<Rightarrow> Inl (HelperFailure (''index repair helper timed out after ''
       @ show_int (index_repair_timeout_seconds (seaweed c)) @ '' seconds''))
   | Completed code err out \<Rightarrow> (case last_payload loads out of
       None \<Rightarrow> Inl (HelperFailure (''index repair helper returned invalid output: '' @ stderr_tail err))
     | Some (JObj p) \<Rightarrow>
         (if code \<noteq> 0 \<or> \<not> succeeded p
          then let e = (case json_get p ''error'' of
                   Some v \<Rightarrow> if py_truthy v then py_str v else or_stderr err ''index repair helper failed''
                 | None \<Rightarrow> or_stderr err ''index repair helper failed'')
            in case json_get p ''manual_intervention_required'' of
                 Some v \<Rightarrow> if py_truthy v then Inl (UnsafeCandidate e p) else Inl (HelperFailure e)
               | None \<Rightarrow> Inl (HelperFailure e)
          else Inr p)
     | Some _ \<Rightarrow> Inl (HelperFailure ''index repair helper returned an invalid result'')))"

text \<open>Here the error is \<open>str(payload.get("error"))\<close>, also when there is none.\<close>

definition run_tail_helper :: "(string \<Rightarrow> json option) \<Rightarrow> config \<Rightarrow> run_result \<Rightarrow> helper_failure + (string \<times> json) list" where
  "run_tail_helper loads c r = (case r of
     RunTimeout \<Rightarrow> Inl (HelperFailure (''tail recovery helper timed out after ''
       @ show_int (index_repair_timeout_seconds (seaweed c)) @ '' seconds''))
   | Completed code err out \<Rightarrow> (case last_payload loads out of
       None \<Rightarrow> Inl (HelperFailure (''tail recovery helper returned invalid output: '' @ stderr_tail err))
     | Some (JObj p) \<Rightarrow>
         (if code \<noteq> 0 \<or> \<not> succeeded p
          then let e = py_str (case json_get p ''error'' of None \<Rightarrow> JNull | Some v \<Rightarrow> v)
            in Inl (HelperFailure (if e \<noteq> [] then e else or_stderr err ''tail recovery helper failed''))
          else Inr p)
     | Some _ \<Rightarrow> Inl (HelperFailure (or_stderr err ''tail recovery helper failed''))))"

section \<open>The published status\<close>

definition volumes_where :: "(transaction \<Rightarrow> bool) \<Rightarrow> transaction list \<Rightarrow> json" where
  "volumes_where P ts = JList (map JInt (sorted_list_of_set (tx_volume_id ` set (filter P ts))))"

definition count_where :: "(transaction \<Rightarrow> bool) \<Rightarrow> transaction list \<Rightarrow> json" where
  "count_where P ts = JInt (int (length (filter P ts)))"

definition or_default :: "'a \<Rightarrow> (transaction \<Rightarrow> 'a) \<Rightarrow> transaction list \<Rightarrow> 'a" where
  "or_default d f ts = (if ts = [] then d else f (latest ts))"

text \<open>\<open>journal\<close> is what reading the journal gave, with \<open>Inl\<close> the text of the error; \<open>number\<close> the JSON number of a time and
  \<open>created\<close> the creation time of a transaction.\<close>

definition publish_document ::
  "(rat \<Rightarrow> json) \<Rightarrow> (transaction \<Rightarrow> rat) \<Rightarrow> bool \<Rightarrow> int \<Rightarrow> string + transaction list \<Rightarrow> string \<Rightarrow> string \<Rightarrow> (string \<times> json) list" where
  "publish_document number created enabled current read_journal state error =
     (let (ts, st, err) = (case read_journal of Inl e \<Rightarrow> ([], ''journal_corrupt'', e) | Inr ts \<Rightarrow> (ts, state, error));
          failures = filter (\<lambda>t. failure_reason t \<noteq> [] \<and> phase t \<noteq> ''resolved_without_install'') ts
      in [(''enabled'', JBool enabled), (''state'', JStr st), (''transaction_id'', JStr (or_default [] tx_id ts)),
          (''pending_volume_ids'', volumes_where (\<lambda>t. phase t \<notin> set TERMINAL_PHASES) ts),
          (''current_volume_id'', JInt current),
          (''verified_volume_ids'', volumes_where (\<lambda>t. phase t = ''verified'') ts),
          (''resolved_without_install_volume_ids'', volumes_where (\<lambda>t. phase t = ''resolved_without_install'') ts),
          (''failed_volume_ids'', volumes_where (\<lambda>t. phase t = ''manual_intervention_required'') ts),
          (''last_error'', JStr (if err \<noteq> [] then err else or_default [] failure_reason failures)),
          (''started_at'', number (or_default 0 created ts)), (''updated_at'', number (or_default 0 tx_updated_at ts)),
          (''counters'', JObj
            [(''detected_total'', JInt (int (length ts))), (''attempted_total'', count_where (\<lambda>t. 0 < attempt_count t) ts),
             (''succeeded_total'', count_where (\<lambda>t. phase t = ''verified'') ts),
             (''resolved_without_install_total'', count_where (\<lambda>t. phase t = ''resolved_without_install'') ts),
             (''failed_total'', count_where (\<lambda>t. phase t = ''manual_intervention_required'') ts),
             (''rolled_back_total'', count_where rolled_back ts)])])"

section \<open>Properties\<close>

lemma succeeded_not_empty [simp]: "\<not> succeeded []"
  by (simp add: succeeded_def json_get_def)

text \<open>
  A result of the helper is used only if the process ended with exit code 0 and its last line of output is a JSON object that
  reports success; everything else, a timeout, output that is no JSON or no object, a success claimed with another exit
  code, is an error, and an error asks for an operator only if the helper said so.
\<close>

theorem helper_result_exact:
  "(run_repair_helper loads c r = Inr p \<longleftrightarrow> (\<exists>err out. r = Completed 0 err out \<and> last_payload loads out = Some (JObj p) \<and> succeeded p))
   \<and> (run_tail_helper loads c r = Inr p \<longleftrightarrow> run_repair_helper loads c r = Inr p)
   \<and> ((\<exists>e. run_repair_helper loads c r = Inl (UnsafeCandidate e p)) \<longleftrightarrow>
        (\<exists>code err out v. r = Completed code err out \<and> last_payload loads out = Some (JObj p) \<and> (code \<noteq> 0 \<or> \<not> succeeded p)
           \<and> json_get p ''manual_intervention_required'' = Some v \<and> py_truthy v))"
  by (cases r) (auto simp: run_repair_helper_def run_tail_helper_def Let_def split: option.split json.split if_splits)

theorem helper_result_exact_witness:
  "\<forall>c. run_repair_helper (\<lambda>_. Some (JObj [(''success'', JBool True)])) c (Completed 0 [] ''{}'') = Inr [(''success'', JBool True)]"
proof
  fix c
  have "last_payload (\<lambda>_. Some (JObj [(''success'', JBool True)])) ''{}'' = Some (JObj [(''success'', JBool True)])"
    "succeeded [(''success'', JBool True)]" by code_simp+
  then show "run_repair_helper (\<lambda>_. Some (JObj [(''success'', JBool True)])) c (Completed 0 [] ''{}'') = Inr [(''success'', JBool True)]"
    using helper_result_exact[of "\<lambda>_. Some (JObj [(''success'', JBool True)])" c "Completed 0 [] ''{}''" "[(''success'', JBool True)]"]
    by blast
qed

text \<open>
  C40. When the tail recovery helper dies without output its error text is lost: the controller records the failure as \<open>None\<close>
  where, for the same end of the process, the reconstruction records what the helper wrote to its standard error.
\<close>

theorem tail_crash_reported_as_none:
  assumes "code \<noteq> 0" "\<forall>l\<in>set (py_splitlines out). py_strip l = []" "py_strip err \<noteq> []"
  shows "run_tail_helper loads c (Completed code err out) = Inl (HelperFailure ''None'')
    \<and> run_repair_helper loads c (Completed code err out) = Inl (HelperFailure (py_strip err))"
proof -
  have "filter (\<lambda>l. py_strip l \<noteq> []) (py_splitlines out) = []" using assms(2) by (simp add: filter_empty_conv)
  then show ?thesis
    using assms(1,3) by (simp add: run_tail_helper_def run_repair_helper_def last_payload_def json_get_def or_stderr_def py_str_def)
qed

theorem tail_crash_reported_as_none_witness:
  "\<forall>loads c. run_tail_helper loads c (Completed 1 ''Killed'' []) = Inl (HelperFailure ''None'')
     \<and> run_repair_helper loads c (Completed 1 ''Killed'' []) = Inl (HelperFailure ''Killed'')"
proof -
  have "py_strip ''Killed'' = ''Killed''" "py_splitlines [] = []" by code_simp+
  then show ?thesis using tail_crash_reported_as_none[of 1 "[]" "''Killed''"] by simp
qed

text \<open>The gauge of pending repairs counts the volumes with an unfinished transaction, each once.\<close>

lemma pending_gauge_exact:
  "pending_count (publish_document number created en cur (Inr ts) st err)
     = Inr (show_int (int (card (tx_volume_id ` {t \<in> set ts. phase t \<notin> set TERMINAL_PHASES}))))"
  by (simp add: pending_count_def publish_document_def json_get_def volumes_where_def)

end
