(* ===== verification/Spec2Isabelle.thy ===== *)
theory Spec2Isabelle
  imports Admission Cifs_Transport Guardian_Props Config_Load Dns_Proxy S3_Canary Candidate_Build Health Render Command_Line Startup_Fingerprint Repair_Helper
begin

text \<open>
  Verification of s3-storage-node, an appliance that runs a SeaweedFS S3 node on remote or local storage and keeps it from
  serving when the storage cannot be trusted. The sources are the Python files under \<open>src/src/s3_storage_node\<close>; file and
  function names below are of that directory.

  \<^bold>\<open>The program.\<close> \<open>main.py\<close> loads a TOML file (\<open>config.py\<close>, \<open>config_target.py\<close>, \<open>transport_failover.py\<close>) and starts the guardian, one
  object of three classes (\<open>guardian.py\<close>, \<open>generation_guardian.py\<close>, \<open>transport_guardian.py\<close>). Holding a lease
  (\<open>LocalWriterLease\<close> of \<open>generation.py\<close>), it chooses a transport for the data (\<open>TransportSelector\<close>), creates a numbered worker
  generation (a network namespace with its own resolver, \<open>generation.py\<close>, \<open>dns_proxy.py\<close>), mounts and probes the targets in
  helper processes (\<open>storage.py\<close>, \<open>cifs_transport.py\<close>, \<open>durability.py\<close>, \<open>sentinel.py\<close>), renders the configuration of
  SeaweedFS and HAProxy (\<open>render.py\<close>), starts the processes (\<open>processes.py\<close>), waits for a stable volume status
  (\<open>seaweed_health.py\<close>), repairs diverged indexes (\<open>index_repair.py\<close>, \<open>index_repair_helper.py\<close>), runs an S3 canary
  (\<open>s3check.py\<close>) and only then reports ready (\<open>health.py\<close>), which HAProxy follows and \<open>admission.py\<close> paces. A failure fences the
  generation, is recorded (\<open>generation_history.py\<close>), may change the transport, and is retried with a growing delay.

  \<^bold>\<open>Theories.\<close>
  \<^item> \<open>Prelude\<close>, \<open>Py_Path\<close>: Python strings, numbers, JSON values and \<open>PurePosixPath\<close>, with the laws of printing and reading back;
    \<open>Prelude\<close> also has the locales \<open>guarded_machine\<close> (sequences of operations that may refuse, and what they keep) and
    \<open>persistent_state\<close> (load and save), interpreted by the write budget, the selector and the history.
  \<^item> \<open>Effects\<close>: state-passing operations that may raise, \<open>try/except\<close>, \<open>try/finally\<close>, with \<open>wp\<close> and \<open>keeps\<close> to state properties;
    \<open>Processes\<close>: the trace of interactions with the operating system, \<open>ManagedProcess\<close> and the wait for a port.
  \<^item> \<open>Config_Types\<close>, \<open>Config_Target\<close>, \<open>Failover_Config\<close>, \<open>Config_Load\<close>: the configuration classes, the parser of a target, the
    failover section, \<open>load_config\<close>. A configuration that loads is well formed (\<open>config_wf\<close>, \<open>failover_wf\<close>).
  \<^item> \<open>Sentinel\<close>, \<open>Mounts\<close>, \<open>Cifs_Transport\<close>, \<open>Storage\<close>: the dataset identity on disk (locale \<open>dataset_identity\<close>), the mount
    table, the CIFS policies, and mounting, enrolling, probing and detaching. Enrolment writes at most once, a probe
    establishes what it claims, and every transport of a failover leads to the same dataset.
  \<^item> \<open>Transport_Selector\<close>, \<open>Startup_Fingerprint\<close>, \<open>Generation_History\<close>, \<open>Writer_Lease\<close>, \<open>Worker_Generation\<close>: the persistent state
    machines of the guardian, each with its invariant; the lease interleaves the steps of several guardians.
  \<^item> \<open>Index_Bounds\<close>, \<open>Candidate_Build\<close>: \<open>index_repair_helper.py\<close>, the inspection of an index, the recovery of an incomplete tail
    and the reconstruction of an index from a source shown read-only. \<open>Repair_Journal\<close>, \<open>Repair_Install\<close>, \<open>Repair_Decision\<close>,
    \<open>Repair_Helper\<close>: \<open>index_repair.py\<close>, where an operation is the list of the durable states it goes through, so that a
    crash is a prefix; an interrupted installation is completed or refused, and a rollback restores.
  \<^item> \<open>Guardian_Core\<close>, \<open>Guardian_Seaweed\<close>, \<open>Guardian_Run\<close>: the guardian with its loop. \<open>Guardian_Spec\<close> is the abstract
    specification, a step relation on fences, history, selector and readiness, and \<open>Guardian_Props\<close> the refinement of it by
    every run, with the invariants that follow; \<open>Guardian_Waits\<close> is about the bounded waits, \<open>Guardian_Example\<close> has the example
    the witnesses run.
  \<^item> \<open>Dns_Proxy\<close>, \<open>S3_Canary\<close>, \<open>Seaweed_Health\<close>, \<open>Admission\<close>, \<open>Health\<close>, \<open>Render\<close>: the services around it: relaying of DNS
    messages, the signed round trip, the volume status, the write budget, the status and metrics page, the rendered files.
  \<^item> \<open>Command_Line\<close>: all commands of \<open>main.py\<close> over the state of the other components, so that properties hold across commands
    and runs of the guardian. This theory: the guardian under a configuration that was loaded.

  \<^bold>\<open>Conventions.\<close> A dataclass is a record, a raised exception a value of a sum type, with a constructor per class the callers tell
  apart; a handler that catches a class catches exactly those constructors. Files that matter are state. Strings
  are lists of characters up to code point 255; Python integers are \<open>int\<close>, times are \<open>rat\<close>, bytes of an index or a probe are words.
  Not computed here and hence parameters: hashes, HMAC, clocks, random tokens, the reading of TOML and JSON text, the parsing of IP
  addresses, path resolution, answers of commands, of the mount table, of sockets and of HTTP servers (functions of the trace of
  interactions so far, or lists of arrivals), and the texts of exceptions of the library. Hypotheses about them are stated in
  each theorem, e.g. that a sleep takes at least its length (\<open>sleeps\<close>) or that a hash has no collisions.

  \<^bold>\<open>Bounds.\<close> Loops with a deadline take a number of rounds. \<open>wait_for_tcp\<close> has \<open>4 * timeout + 1\<close> of them, enough since each naps
  a quarter of a second, as is proved under \<open>sleeps\<close>; the canary has \<open>k + 1\<close> where the retry time is at most \<open>k\<close> intervals;
  the waits for a namespace, for a mount to go and for SSHFS have the constants \<open>STARTUP_ROUNDS\<close>, \<open>GONE_ROUNDS\<close> and \<open>SSHFS_ROUNDS\<close>,
  one more than the naps that fit into the timeout of the code. The loop of the guardian may run for ever and has a
  number of turns; a run cut off ends with \<open>Unfinished\<close>, which no handler catches, and the safety properties hold of it
  as well. That waits end is proved as such (\<open>Guardian_Waits\<close>, \<open>S3_Canary\<close>, and below for
  a loaded configuration).

  \<^bold>\<open>What the code does not do as it means to.\<close> Proved: an SSHFS option with a comma passes the allowlist (\<open>Failover_Config\<close>);
  a refused repair source is reported as a directory that could not be removed (\<open>Candidate_Build\<close>); canary key files are
  required although the canary is off (\<open>Render\<close>); the error of a tail recovery helper that dies silently is lost
  (\<open>Repair_Helper\<close>); a nap may get a negative length (\<open>Guardian_Props\<close>); a mount point may leave the managed root
  (\<open>Config_Target\<close>); a short statistics row ends the admission thread (\<open>Admission\<close>).

  \<^bold>\<open>Not modelled.\<close> Argument parsing, log events and \<open>logging.py\<close>, the diagnostics of \<open>recovery_diagnostics.py\<close>, starting of the HTTP server
  and of threads, preparation of directories and ownership, directory synchronisation: output, or effects no decision
  depends on. The regular expressions over the kernel's CIFS text and damaged journal files are represented by what reading
  them gives. Repairs of several volumes run one after the other, the order of the default concurrency. The loop and the
  helper runner of the base guardian, which its subclasses override, are left out.
\<close>

section \<open>The guardian under a loaded configuration\<close>

text \<open>The recovery delays the main loop works with: the initial one, and what a turn hands to the next.\<close>

inductive loop_delay :: "guard_env \<Rightarrow> int \<Rightarrow> bool" for env where
  first: "loop_delay env (recovery_initial_seconds (appl env))"
| again: "loop_delay env d \<Longrightarrow> turn n env d s = (Inr (Again d'), s') \<Longrightarrow> loop_delay env d'"

lemma loop_delay_between:
  assumes "loop_delay env d" "0 < recovery_initial_seconds (appl env)"
    "recovery_initial_seconds (appl env) \<le> recovery_max_seconds (appl env)"
  shows "recovery_initial_seconds (appl env) \<le> d \<and> d \<le> recovery_max_seconds (appl env)"
  using assms
proof induction
  case (again d n s d' s')
  then show ?case using wp_Inr[OF turn_run again.hyps(2)] by (auto simp: turn_ok_def)
qed simp

lemma loaded_appliance: "load_config lenv p got = Inr (cfg env) \<Longrightarrow> appliance_wf (appl env)"
  using load_tables_wf by (auto simp: load_config_Inr config_wf_def appl_def)

text \<open>
  C27. Under a configuration that loads, every recovery delay the main loop ever uses is positive and between the
  configured initial and maximal one, and the wait for a stable volume status ends with a verdict after a number of rounds
  that depends on the configuration only, if the clock does not go back and a sleep takes at least its length.
\<close>

theorem loaded_guardian_bounded:
  assumes "load_config lenv p got = Inr (cfg env)" "loop_delay env d" "sleeps env"
  shows "0 < recovery_initial_seconds (appl env) \<and> recovery_initial_seconds (appl env) \<le> d
    \<and> d \<le> recovery_max_seconds (appl env) \<and> (\<exists>n. \<forall>s. fst (wait_for_stable_volumes n env s) \<noteq> Inl Unfinished)"
proof -
  have w: "appliance_wf (appl env)" using assms(1) by (rule loaded_appliance)
  have step: "0 < recovery_probe_interval_seconds (appl env)" using w by (simp add: appliance_wf_def)
  let ?n = "nat (4 * recovery_probe_interval_seconds (appl env) + 1 + \<bar>stable_timeout env\<bar>)"
  have "finishes (wait_for_stable_volumes ?n env)"
    by (rule wait_for_stable_end[OF assms(3) step]) (use step in linarith)+
  then have "fst (wait_for_stable_volumes ?n env s) \<noteq> Inl Unfinished" for s
    using finishesD[of "wait_for_stable_volumes ?n env" s] by (auto simp: wp_def split: prod.splits sum.splits)
  then show ?thesis using w loop_delay_between[OF assms(2)] by (auto simp: appliance_wf_def)
qed

theorem loaded_guardian_bounded_witness:
  "\<exists>c. example_loaded = Inr c \<and> 0 < recovery_initial_seconds (appliance c)
     \<and> (\<exists>n. \<forall>s. fst (wait_for_stable_volumes n ((example_guard_env None False)\<lparr>cfg := c\<rparr>) s) \<noteq> Inl Unfinished)"
proof -
  obtain c where c: "example_loaded = Inr c" using example_loads by (auto split: sum.splits)
  let ?env = "(example_guard_env None False)\<lparr>cfg := c\<rparr>"
  have "sleeps ?env" by (simp add: sleeps_def example_guard_env_def split: os_event.split)
  from loaded_guardian_bounded[OF _ loop_delay.first this] c show ?thesis
    by (auto simp: example_loaded_def appl_def)
qed

end
